(* ===== verification/Prelude.thy ===== *)
theory Prelude
  imports Main "HOL-Library.List_Lexorder" "HOL-Library.Char_ord" "HOL-Library.Sublist"
    "HOL-Library.Monad_Syntax"
begin

text \<open>
  Shared material of the development: Go errors and panics as values, the few functions of Go's
  standard library that the modules call (decimal printing, case folding, trimming, prefixes),
  the key-value store behind \<^verbatim>\<open>ctx.KVStore\<close>, and the two generic interfaces the
  components are clients of: a repository of entities kept in such a store, and a machine whose
  messages keep an invariant.
\<close>

named_theorems kv_simps \<open>reading a key-value store after a write\<close>
named_theorems result_simps \<open>inversion of successful results\<close>

section \<open>Errors and panics\<close>

text \<open>
  An error is a registered error of a module (\<^verbatim>\<open>sdkerrors.Register(module, code, ...)\<close>), an
  error variable of the SDK (\<open>ErrSdk\<close> with its name) or
  another error value, kept by its message. \<^verbatim>\<open>Wrap\<close> keeps the root error, so the text it adds
  is dropped. A panic is not an error value of Go: no \<^verbatim>\<open>if err != nil\<close> sees it, it aborts the
  message. It is a constructor of its own, and \<open>wrap_err\<close> lets it through.
\<close>

datatype err = ErrReg string nat | ErrSdk string | ErrNew string | Panic string

type_synonym 'a result = "err + 'a"

fun is_panic :: "err \<Rightarrow> bool" where
  "is_panic (Panic _) = True"
| "is_panic _ = False"

text \<open>\<^verbatim>\<open>if err != nil { return nil, err }\<close> followed by the rest of the function.\<close>

fun bind_r :: "'a result \<Rightarrow> ('a \<Rightarrow> 'b result) \<Rightarrow> 'b result" where
  "bind_r (Inl e) k = Inl e"
| "bind_r (Inr x) k = k x"

text \<open>\<^verbatim>\<open>if err != nil { return nil, sdkerrors.Wrap(e', err.Error()) }\<close>: the error becomes \<open>e'\<close>.\<close>

fun wrap_err :: "err \<Rightarrow> 'a result \<Rightarrow> 'a result" where
  "wrap_err e' (Inl (Panic m)) = Inl (Panic m)"
| "wrap_err e' (Inl e) = Inl e'"
| "wrap_err e' (Inr x) = Inr x"

text \<open>A call that can only panic, and the dereference of a pointer that may be nil.\<close>

fun panics :: "'a option \<Rightarrow> 'a result" where
  "panics None = Inl (Panic ''panic'')"
| "panics (Some x) = Inr x"

fun deref :: "'a option \<Rightarrow> 'a result" where
  "deref None = Inl (Panic ''nil pointer dereference'')"
| "deref (Some x) = Inr x"

text \<open>\<^verbatim>\<open>if err != nil { panic(err) }\<close>, and a call whose error is dropped: its result is then the zero value.\<close>

fun must_r :: "'a result \<Rightarrow> 'a result" where
  "must_r (Inl e) = Inl (Panic ''error'')"
| "must_r (Inr x) = Inr x"

fun ignore_err :: "'a \<Rightarrow> 'a result \<Rightarrow> 'a result" where
  "ignore_err d (Inl (Panic m)) = Inl (Panic m)"
| "ignore_err d (Inl e) = Inr d"
| "ignore_err d (Inr x) = Inr x"

lemma must_r_Inr [simp]: "must_r r = Inr x \<longleftrightarrow> r = Inr x"
  by (cases r) auto

lemma bind_r_Inr [simp, result_simps]:
  "bind_r r k = Inr y \<longleftrightarrow> (\<exists>x. r = Inr x \<and> k x = Inr y)"
  by (cases r) auto

lemma if_err_Inr [simp, result_simps]: "(if c then Inl e else r) = Inr y \<longleftrightarrow> \<not> c \<and> r = Inr y"
  by simp

lemma bind_r_Inl [result_simps]:
  "bind_r r k = Inl e \<longleftrightarrow> r = Inl e \<or> (\<exists>x. r = Inr x \<and> k x = Inl e)"
  by (cases r) auto

lemma wrap_err_Inr [simp, result_simps]: "wrap_err e r = Inr x \<longleftrightarrow> r = Inr x"
  by (cases "(e, r)" rule: wrap_err.cases) auto

lemma wrap_err_Inl: "wrap_err e' r = Inl e \<Longrightarrow> e = e' \<or> is_panic e"
  by (cases "(e', r)" rule: wrap_err.cases) auto

lemma panics_Inr [simp, result_simps]: "panics o' = Inr x \<longleftrightarrow> o' = Some x"
  by (cases o') auto

lemma deref_Inr [simp, result_simps]: "deref o' = Inr x \<longleftrightarrow> o' = Some x"
  by (cases o') auto

lemma bind_r_cong [fundef_cong]:
  "r = r' \<Longrightarrow> (\<And>x. r' = Inr x \<Longrightarrow> k x = k' x) \<Longrightarrow> bind_r r k = bind_r r' k'"
  by (cases r') auto

text \<open>
  For running the definitions on concrete inputs: evaluate what is scrutinised before what depends on it.
\<close>

lemma bind_lazy: "x = y \<Longrightarrow> Option.bind x f = Option.bind y f"
  by simp

lemma bind_r_lazy: "x = y \<Longrightarrow> bind_r x f = bind_r y f"
  by simp

lemmas lazy =
  bind_lazy bind_r_lazy if_weak_cong let_weak_cong prod.case_cong_weak option.case_cong_weak sum.case_cong_weak

section \<open>Functions of Go's standard library\<close>

subsection \<open>Decimal printing and reading\<close>

text \<open>
  \<^verbatim>\<open>strconv.FormatInt(n, 10)\<close>, \<^verbatim>\<open>%d\<close> and \<^verbatim>\<open>big.Int.String()\<close>; and the reading of such a
  numeral.
\<close>

definition digit_char :: "nat \<Rightarrow> char" where
  "digit_char d = char_of (48 + d)"

fun nat_digits :: "nat \<Rightarrow> string" where
  "nat_digits n =
     (if n < 10 then [digit_char n] else nat_digits (n div 10) @ [digit_char (n mod 10)])"

declare nat_digits.simps [simp del]

definition itoa :: "int \<Rightarrow> string" where
  "itoa n = (if n < 0 then CHR ''-'' # nat_digits (nat (- n)) else nat_digits (nat n))"

definition digit_val :: "char \<Rightarrow> nat" where
  "digit_val c = of_char c - 48"

definition is_digit :: "char \<Rightarrow> bool" where
  "is_digit c \<longleftrightarrow> 48 \<le> (of_char c :: nat) \<and> (of_char c :: nat) \<le> 57"

definition digits_val :: "string \<Rightarrow> nat" where
  "digits_val s = foldl (\<lambda>a c. a * 10 + digit_val c) 0 s"

definition atoi :: "string \<Rightarrow> int option" where
  "atoi s = (case s of
       [] \<Rightarrow> None
     | c # cs \<Rightarrow>
         if c = CHR ''-'' then
           (if cs \<noteq> [] \<and> list_all is_digit cs then Some (- int (digits_val cs)) else None)
         else if list_all is_digit s then Some (int (digits_val s)) else None)"

lemma of_char_digit_char: "d < 10 \<Longrightarrow> (of_char (digit_char d) :: nat) = 48 + d"
  by (simp add: digit_char_def)

lemma digit_val_digit_char [simp]: "d < 10 \<Longrightarrow> digit_val (digit_char d) = d"
  by (simp add: digit_val_def of_char_digit_char)

lemma is_digit_digit_char [simp]: "d < 10 \<Longrightarrow> is_digit (digit_char d)"
  by (simp add: is_digit_def of_char_digit_char)

lemma is_digit_minus [simp]: "\<not> is_digit CHR ''-''"
  by (simp add: is_digit_def)

lemma nat_digits_ne [simp]: "nat_digits n \<noteq> []"
  by (subst nat_digits.simps) simp

lemma nat_digits_is_digit: "list_all is_digit (nat_digits n)"
proof (induction n rule: nat_digits.induct)
  case (1 n)
  then show ?case by (subst nat_digits.simps) simp
qed

lemma digits_val_nat_digits [simp]: "digits_val (nat_digits n) = n"
proof (induction n rule: nat_digits.induct)
  case (1 n)
  show ?case
  proof (cases "n < 10")
    case True
    then show ?thesis by (subst nat_digits.simps) (simp add: digits_val_def)
  next
    case False
    then have "digits_val (nat_digits (n div 10)) = n div 10" using "1.IH" by blast
    with False show ?thesis by (subst nat_digits.simps) (simp add: digits_val_def)
  qed
qed

lemma nat_digits_hd: "\<exists>c cs. nat_digits n = c # cs \<and> is_digit c"
  using nat_digits_is_digit [of n] by (cases "nat_digits n") auto

lemma atoi_itoa [simp]: "atoi (itoa n) = Some n"
proof (cases "n < 0")
  case True
  then show ?thesis using nat_digits_is_digit by (simp add: itoa_def atoi_def)
next
  case False
  obtain c cs where c: "nat_digits (nat n) = c # cs" "is_digit c" using nat_digits_hd by blast
  then have "c \<noteq> CHR ''-''" by auto
  moreover have "list_all is_digit (c # cs)" "digits_val (c # cs) = nat n"
    using nat_digits_is_digit [of "nat n"] digits_val_nat_digits [of "nat n"] c by auto
  ultimately show ?thesis using False c by (auto simp: itoa_def atoi_def)
qed

lemma itoa_inj [simp]: "itoa a = itoa b \<longleftrightarrow> a = b"
  by (metis atoi_itoa option.inject)

lemma itoa_ne [simp]: "itoa n \<noteq> []"
  by (simp add: itoa_def)

text \<open>The numerals hold digits and a sign only, so they contain no separator of a store key.\<close>

lemma itoa_chars: "c \<in> set (itoa n) \<Longrightarrow> is_digit c \<or> c = CHR ''-''"
proof -
  have "\<And>m. c \<in> set (nat_digits m) \<Longrightarrow> is_digit c"
    using nat_digits_is_digit by (simp add: list_all_iff)
  then show "c \<in> set (itoa n) \<Longrightarrow> is_digit c \<or> c = CHR ''-''"
    by (auto simp: itoa_def split: if_splits)
qed

text \<open>The same digits by a recursion on the integer, for evaluation.\<close>

function int_digits :: "int \<Rightarrow> string" where
  "int_digits n =
     (if n < 10 then [digit_char (nat n)] else int_digits (n div 10) @ [digit_char (nat (n mod 10))])"
  by pat_completeness auto
termination by (relation "measure nat") auto

declare int_digits.simps [simp del]

lemma int_digits_nat_digits: "0 \<le> n \<Longrightarrow> int_digits n = nat_digits (nat n)"
proof (induction n rule: int_digits.induct)
  case (1 n)
  show ?case
  proof (cases "n < 10")
    case True
    then show ?thesis using 1(2) by (simp add: int_digits.simps [of n] nat_digits.simps [of "nat n"])
  next
    case False
    then have "int_digits (n div 10) = nat_digits (nat n div 10)"
      using 1 by (simp add: nat_div_distrib)
    then show ?thesis using False 1(2)
      by (simp add: int_digits.simps [of n] nat_digits.simps [of "nat n"] nat_mod_distrib)
  qed
qed

lemma itoa_code [code]: "itoa n = (if n < 0 then CHR ''-'' # int_digits (- n) else int_digits n)"
  by (simp add: itoa_def int_digits_nat_digits)

lemma length_int_digits_num:
  "length (int_digits (numeral n)) = (if (numeral n :: int) < 10 then 1 else Suc (length (int_digits (numeral n div 10))))"
  "length (int_digits 1) = 1" "length (int_digits 0) = 1"
  by (simp_all add: int_digits.simps)

lemma length_itoa_num:
  "length (itoa 0) = 1" "length (itoa 1) = 1" "length (itoa (numeral n)) = length (int_digits (numeral n))"
  by (simp_all add: itoa_code length_int_digits_num)

lemma digits_val_code: "int (digits_val s) = foldl (\<lambda>a c. a * 10 + int (digit_val c)) 0 s"
proof -
  have "int (foldl (\<lambda>a c. a * 10 + digit_val c) n s) = foldl (\<lambda>a c. a * 10 + int (digit_val c)) (int n) s" for n
    by (induction s arbitrary: n) (simp_all add: algebra_simps)
  from this [of 0] show ?thesis by (simp add: digits_val_def)
qed

lemmas atoi_code [code] = atoi_def [unfolded digits_val_code]

lemma underscore_notin_itoa [simp]: "CHR ''_'' \<notin> set (itoa n)"
  using itoa_chars [of "CHR ''_''" n] by (auto simp: is_digit_def)

subsection \<open>Strings\<close>

text \<open>
  \<^verbatim>\<open>strings.ToLower\<close>, \<^verbatim>\<open>EqualFold\<close>, \<^verbatim>\<open>TrimSpace\<close>, \<^verbatim>\<open>Contains\<close> and \<^verbatim>\<open>HasPrefix\<close> on the ASCII
  strings that denominations, message type URLs and addresses are.
\<close>

definition lower_char :: "char \<Rightarrow> char" where
  "lower_char c =
     (let n = (of_char c :: nat) in if 65 \<le> n \<and> n \<le> 90 then char_of (n + 32) else c)"

definition ToLower :: "string \<Rightarrow> string" where
  "ToLower s = map lower_char s"

definition EqualFold :: "string \<Rightarrow> string \<Rightarrow> bool" where
  "EqualFold s t \<longleftrightarrow> ToLower s = ToLower t"

definition is_space :: "char \<Rightarrow> bool" where
  "is_space c \<longleftrightarrow> (let n = (of_char c :: nat) in n = 32 \<or> 9 \<le> n \<and> n \<le> 13)"

definition TrimSpace :: "string \<Rightarrow> string" where
  "TrimSpace s = rev (dropWhile is_space (rev (dropWhile is_space s)))"

definition HasPrefix :: "string \<Rightarrow> string \<Rightarrow> bool" where
  "HasPrefix s p \<longleftrightarrow> take (length p) s = p"

fun Contains :: "string \<Rightarrow> string \<Rightarrow> bool" where
  "Contains [] p \<longleftrightarrow> p = []"
| "Contains (c # cs) p \<longleftrightarrow> HasPrefix (c # cs) p \<or> Contains cs p"

text \<open>\<^verbatim>\<open>hex.Encode\<close>, on the bytes of a string.\<close>

definition hex_char :: "nat \<Rightarrow> char" where
  "hex_char n = (if n < 10 then char_of (48 + n) else char_of (87 + n))"

definition hex_encode :: "string \<Rightarrow> string" where
  "hex_encode s = concat (map (\<lambda>c. [hex_char (of_char c div 16), hex_char (of_char c mod 16)]) s)"

lemma EqualFold_refl [simp]: "EqualFold s s"
  by (simp add: EqualFold_def)

lemma EqualFold_sym: "EqualFold s t \<Longrightarrow> EqualFold t s"
  by (simp add: EqualFold_def)

lemma EqualFold_trans: "EqualFold s t \<Longrightarrow> EqualFold t u \<Longrightarrow> EqualFold s u"
  by (simp add: EqualFold_def)

text \<open>\<^verbatim>\<open>utf8.ValidString\<close>, on the bytes of a string: no overlong form, no surrogate, nothing above U+10FFFF.\<close>

fun utf8_valid :: "nat list \<Rightarrow> bool" where
  "utf8_valid [] = True"
| "utf8_valid (a # s) =
     (let cont = (\<lambda>b. 0x80 \<le> b \<and> b \<le> 0xBF) in
      if a < 0x80 then utf8_valid s
      else case s of
        [] \<Rightarrow> False
      | b # s1 \<Rightarrow>
          if 0xC2 \<le> a \<and> a \<le> 0xDF then cont b \<and> utf8_valid s1
          else case s1 of
            [] \<Rightarrow> False
          | c # s2 \<Rightarrow>
              if 0xE0 \<le> a \<and> a \<le> 0xEF
              then (if a = 0xE0 then 0xA0 \<le> b else 0x80 \<le> b) \<and> (if a = 0xED then b \<le> 0x9F else b \<le> 0xBF) \<and>
                   cont c \<and> utf8_valid s2
              else case s2 of
                [] \<Rightarrow> False
              | d # s3 \<Rightarrow>
                  0xF0 \<le> a \<and> a \<le> 0xF4 \<and> (if a = 0xF0 then 0x90 \<le> b else 0x80 \<le> b) \<and>
                  (if a = 0xF4 then b \<le> 0x8F else b \<le> 0xBF) \<and> cont c \<and> cont d \<and> utf8_valid s3)"

definition ValidString :: "string \<Rightarrow> bool" where
  "ValidString s = utf8_valid (map of_char s)"

lemma ValidString_ascii: "list_all (\<lambda>c. of_char c < (128 :: nat)) s \<Longrightarrow> ValidString s"
  unfolding ValidString_def by (induction s) auto

section \<open>The key-value store\<close>

text \<open>
  A store is the finite map from byte-string keys to values that \<^verbatim>\<open>ctx.KVStore(k.storeKey)\<close>
  is, kept in ascending key order, the order in which its iterators run. A value is kept under
  the type it was marshalled at.
\<close>

type_synonym 'v kv = "(string \<times> 'v) list"

definition kv_get :: "'v kv \<Rightarrow> string \<Rightarrow> 'v option" where
  "kv_get s k = map_of s k"

definition kv_has :: "'v kv \<Rightarrow> string \<Rightarrow> bool" where
  "kv_has s k \<longleftrightarrow> kv_get s k \<noteq> None"

fun kv_set :: "'v kv \<Rightarrow> string \<Rightarrow> 'v \<Rightarrow> 'v kv" where
  "kv_set [] k v = [(k, v)]"
| "kv_set ((k', v') # s) k v =
     (if k = k' then (k, v) # s
      else if k < k' then (k, v) # (k', v') # s
      else (k', v') # kv_set s k v)"

definition kv_delete :: "'v kv \<Rightarrow> string \<Rightarrow> 'v kv" where
  "kv_delete s k = filter (\<lambda>e. fst e \<noteq> k) s"

definition kv_prefix :: "'v kv \<Rightarrow> string \<Rightarrow> 'v kv" where
  "kv_prefix s p = filter (\<lambda>e. prefix p (fst e)) s"

definition kv_from :: "'v kv \<Rightarrow> string \<Rightarrow> 'v kv" where
  "kv_from s lo = filter (\<lambda>e. lo \<le> fst e) s"

definition kv_ok :: "'v kv \<Rightarrow> bool" where
  "kv_ok s \<longleftrightarrow> sorted_wrt (<) (map fst s)"

lemma kv_get_set [simp, kv_simps]: "kv_get (kv_set s k v) k' = (if k' = k then Some v else kv_get s k')"
  by (induction s k v rule: kv_set.induct) (auto simp: kv_get_def)

lemma kv_get_delete [simp, kv_simps]: "kv_get (kv_delete s k) k' = (if k' = k then None else kv_get s k')"
  by (induction s) (auto simp: kv_get_def kv_delete_def)

lemma kv_get_Nil [simp, kv_simps]: "kv_get [] k = None"
  by (simp add: kv_get_def)

lemma kv_has_set [simp, kv_simps]: "kv_has (kv_set s k v) k' \<longleftrightarrow> k' = k \<or> kv_has s k'"
  by (simp add: kv_has_def)

lemma kv_has_delete [simp, kv_simps]: "kv_has (kv_delete s k) k' \<longleftrightarrow> k' \<noteq> k \<and> kv_has s k'"
  by (simp add: kv_has_def)

lemma keys_kv_set: "fst ` set (kv_set s k v) = insert k (fst ` set s)"
  by (induction s k v rule: kv_set.induct) auto

lemma set_kv_set: "set (kv_set s k v) \<subseteq> insert (k, v) (set s)"
  by (induction s k v rule: kv_set.induct) auto

lemma kv_ok_Nil [simp]: "kv_ok []"
  by (simp add: kv_ok_def)

lemma kv_ok_set [simp, intro]: "kv_ok s \<Longrightarrow> kv_ok (kv_set s k v)"
proof (induction s k v rule: kv_set.induct)
  case (2 k' v' s k v)
  have "\<forall>x \<in> fst ` set (kv_set s k v). k' < x" if "k' < k"
    using 2(2) that unfolding keys_kv_set by (auto simp: kv_ok_def)
  then show ?case using 2 by (auto simp: kv_ok_def order.strict_trans)
qed (simp add: kv_ok_def)

lemma kv_ok_filter: "kv_ok s \<Longrightarrow> kv_ok (filter P s)"
  by (induction s) (auto simp: kv_ok_def)

lemma kv_ok_delete [simp, intro]: "kv_ok s \<Longrightarrow> kv_ok (kv_delete s k)"
  by (simp add: kv_delete_def kv_ok_filter)

lemma kv_ok_distinct: "kv_ok s \<Longrightarrow> distinct (map fst s)"
  by (simp add: kv_ok_def strict_sorted_iff)

lemma kv_get_iff: "kv_ok s \<Longrightarrow> kv_get s k = Some v \<longleftrightarrow> (k, v) \<in> set s"
  by (simp add: kv_get_def kv_ok_distinct)

text \<open>
  A store is determined by its entries: two ordered stores with the same set of entries are
  equal, so iteration order carries no information of its own.
\<close>

lemma kv_ok_Cons: "kv_ok (e # s) \<longleftrightarrow> (\<forall>k \<in> fst ` set s. fst e < k) \<and> kv_ok s"
  by (auto simp: kv_ok_def)

lemma kv_ext: "kv_ok s \<Longrightarrow> kv_ok t \<Longrightarrow> set s = set t \<Longrightarrow> s = t"
proof (induction s arbitrary: t)
  case (Cons e s)
  then obtain f t' where t: "t = f # t'" by (cases t) auto
  have "fst e = fst f"
    using Cons.prems unfolding t kv_ok_Cons by (metis image_eqI list.set_intros(1) not_less_iff_gr_or_eq set_ConsD)
  have "e = f"
    using Cons.prems \<open>fst e = fst f\<close> unfolding t kv_ok_Cons
    by (metis image_eqI insert_iff list.simps(15) order_less_irrefl)
  then have "set s = set t'"
    using Cons.prems unfolding t kv_ok_Cons by fastforce
  then show ?case using Cons \<open>e = f\<close> unfolding t kv_ok_Cons by blast
qed simp

lemma kv_ext_get: "kv_ok s \<Longrightarrow> kv_ok t \<Longrightarrow> (\<And>k. kv_get s k = kv_get t k) \<Longrightarrow> s = t"
  by (rule kv_ext) (auto simp: kv_get_iff [symmetric])

lemma map_of_rev_distinct: "distinct (map fst xs) \<Longrightarrow> map_of (rev xs) = map_of xs"
  by (rule map_of_eqI) (auto simp: rev_map [symmetric] map_of_eq_Some_iff)

text \<open>Reading a part of a store selected by its keys, and a store rebuilt from its entries in any order.\<close>

lemma kv_get_filter: "kv_get (filter (\<lambda>e. P (fst e)) s) k = (if P k then kv_get s k else None)"
  by (induction s) (auto simp: kv_get_def)

lemma kv_get_prefix: "kv_get (kv_prefix s p) k = (if prefix p k then kv_get s k else None)"
  unfolding kv_prefix_def by (rule kv_get_filter)

lemma kv_ok_prefix [simp, intro]: "kv_ok s \<Longrightarrow> kv_ok (kv_prefix s p)"
  by (simp add: kv_prefix_def kv_ok_filter)

lemma kv_ok_foldl: "kv_ok s \<Longrightarrow> kv_ok (foldl (\<lambda>t e. kv_set t (fst e) (snd e)) s es)"
  by (induction es arbitrary: s) auto

lemma kv_get_foldl: "kv_get (foldl (\<lambda>t e. kv_set t (fst e) (snd e)) s es) k = (kv_get s ++ map_of (rev es)) k"
  by (induction es arbitrary: s) (auto simp: map_add_def split: option.splits)

lemma kv_reload:
  assumes "kv_ok s" and "set es = set s"
  shows "foldl (\<lambda>t e. kv_set t (fst e) (snd e)) [] es = s"
proof (rule kv_ext_get)
  fix k
  have "map_of (rev es) k = Some v \<longleftrightarrow> (k, v) \<in> set s" for v
  proof
    assume "(k, v) \<in> set s"
    then have "(k, v) \<in> set (rev es)" using assms(2) by simp
    then have "map_of (rev es) k \<noteq> None" unfolding map_of_eq_None_iff by (metis fst_conv image_eqI)
    then obtain w where w: "map_of (rev es) k = Some w" by blast
    then have "(k, w) \<in> set s" using assms(2) map_of_SomeD [OF w] by simp
    with \<open>(k, v) \<in> set s\<close> have "w = v" using kv_ok_distinct [OF assms(1)] by (metis map_of_is_SomeI option.inject)
    then show "map_of (rev es) k = Some v" using w by simp
  qed (use assms(2) map_of_SomeD [of "rev es" k v] in simp)
  then have "map_of (rev es) k = kv_get s k" using kv_get_iff [OF assms(1), of k] by (metis not_Some_eq)
  then show "kv_get (foldl (\<lambda>t e. kv_set t (fst e) (snd e)) [] es) k = kv_get s k"
    unfolding kv_get_foldl by (simp add: map_add_def split: option.splits)
qed (use assms(1) in \<open>simp_all add: kv_ok_foldl\<close>)

text \<open>
  A store with values of several kinds, each kind under its own prefix and each value under the key
  computed from it: listing one kind and reading the list as a map is reading the store.
\<close>

lemma kv_kind_map:
  assumes ok: "kv_ok s" and kind: "\<And>k v. (k, v) \<in> set s \<Longrightarrow> prefix p k \<longleftrightarrow> u v \<noteq> None"
    and key: "\<And>k v e. (k, v) \<in> set s \<Longrightarrow> u v = Some e \<Longrightarrow> key e = k"
  shows "map_of (rev (map (\<lambda>e. (key e, e)) (map (\<lambda>e. the (u (snd e))) (kv_prefix s p)))) k = Option.bind (kv_get s k) u"
proof -
  let ?es = "map (\<lambda>e. (fst e, the (u (snd e)))) (kv_prefix s p)"
  have eq: "map (\<lambda>e. (key e, e)) (map (\<lambda>e. the (u (snd e))) (kv_prefix s p)) = ?es"
    using kind key by (fastforce simp: kv_prefix_def)
  have dist: "distinct (map fst ?es)"
    using kv_ok_distinct [OF kv_ok_filter [OF ok]] by (simp add: comp_def kv_prefix_def)
  have "(k, e) \<in> set ?es \<longleftrightarrow> Option.bind (kv_get s k) u = Some e" for e
    using kind by (force simp: kv_prefix_def bind_eq_Some_conv kv_get_iff [OF ok])
  then show ?thesis unfolding eq map_of_rev_distinct [OF dist]
    by (metis (no_types, lifting) map_of_eq_Some_iff [OF dist] not_Some_eq)
qed

text \<open>The sum of a measure over the values of a store, and how a write changes it.\<close>

definition kv_total :: "('v \<Rightarrow> 'a :: ab_group_add) \<Rightarrow> 'v kv \<Rightarrow> 'a" where
  "kv_total f s = sum_list (map (\<lambda>e. f (snd e)) s)"

definition kv_at :: "('v \<Rightarrow> 'a :: ab_group_add) \<Rightarrow> 'v kv \<Rightarrow> string \<Rightarrow> 'a" where
  "kv_at f s k = (case kv_get s k of None \<Rightarrow> 0 | Some v \<Rightarrow> f v)"

lemma kv_total_simps [simp]: "kv_total f [] = 0" "kv_total f (e # s) = f (snd e) + kv_total f s"
  by (simp_all add: kv_total_def)

lemma kv_get_Cons: "kv_get ((k, v) # s) k' = (if k' = k then Some v else kv_get s k')"
  by (simp add: kv_get_def)

lemma kv_get_less: "kv_ok ((k, v) # s) \<Longrightarrow> k' < k \<Longrightarrow> kv_get s k' = None"
  by (auto simp: kv_ok_Cons kv_get_def map_of_eq_None_iff)

lemma kv_total_set:
  "kv_ok s \<Longrightarrow> kv_total f (kv_set s k v) = kv_total f s - kv_at f s k + f v"
proof (induction s)
  case (Cons e s)
  obtain k' v' where e: "e = (k', v')" by (cases e)
  have ok: "kv_ok s" using Cons.prems by (simp add: kv_ok_Cons)
  consider "k < k'" | "k = k'" | "k' < k" by fastforce
  then show ?case
  proof cases
    case 1
    then show ?thesis using kv_get_less [OF Cons.prems [unfolded e] 1]
      by (auto simp: e kv_at_def kv_get_Cons)
  qed (use Cons.IH [OF ok] in \<open>auto simp: e kv_at_def kv_get_Cons\<close>)
qed (simp add: kv_at_def)

lemma kv_total_delete: "kv_ok s \<Longrightarrow> kv_total f (kv_delete s k) = kv_total f s - kv_at f s k"
proof (induction s)
  case (Cons e s)
  obtain k' v' where e: "e = (k', v')" by (cases e)
  have ok: "kv_ok s" and gt: "\<forall>x \<in> fst ` set s. k' < x" using Cons.prems by (auto simp: kv_ok_Cons e)
  show ?case
  proof (cases "k = k'")
    case True
    have "kv_delete s k' = s" using gt by (auto simp: kv_delete_def filter_id_conv)
    then show ?thesis using True by (simp add: e kv_at_def kv_get_Cons kv_delete_def)
  next
    case False
    then show ?thesis using Cons.IH [OF ok] by (simp add: e kv_at_def kv_get_Cons kv_delete_def)
  qed
qed (simp add: kv_at_def kv_delete_def)

section \<open>Loops that stop at the first error\<close>

text \<open>\<^verbatim>\<open>for _, x := range xs { if err := f(x); err != nil { return err } }\<close>, threading a state.\<close>

fun fold_r :: "('s \<Rightarrow> 'e \<Rightarrow> 's result) \<Rightarrow> 's \<Rightarrow> 'e list \<Rightarrow> 's result" where
  "fold_r f s [] = Inr s"
| "fold_r f s (x # xs) = bind_r (f s x) (\<lambda>s'. fold_r f s' xs)"

text \<open>A loop that converts each element and collects the results, stopping at the first error.\<close>

fun map_r :: "('a \<Rightarrow> 'b result) \<Rightarrow> 'a list \<Rightarrow> 'b list result" where
  "map_r f [] = Inr []"
| "map_r f (x # xs) = bind_r (f x) (\<lambda>y. bind_r (map_r f xs) (\<lambda>ys. Inr (y # ys)))"

lemma map_r_Inr: "map_r f xs = Inr ys \<longleftrightarrow> map f xs = map Inr ys"
proof (induction xs arbitrary: ys)
  case (Cons x xs)
  then show ?case by (cases "f x"; cases ys) auto
qed auto

lemma map_r_total: "(\<And>x. x \<in> set xs \<Longrightarrow> f x = Inr (g x)) \<Longrightarrow> map_r f xs = Inr (map g xs)"
  by (induction xs) auto

lemma fold_r_append: "fold_r f s (xs @ ys) = bind_r (fold_r f s xs) (\<lambda>s'. fold_r f s' ys)"
proof (induction xs arbitrary: s)
  case (Cons x xs)
  then show ?case by (cases "f s x") auto
qed simp

lemma fold_r_inv:
  assumes "P s" and "fold_r f s xs = Inr s'"
    and "\<And>s s' x. P s \<Longrightarrow> x \<in> set xs \<Longrightarrow> f s x = Inr s' \<Longrightarrow> P s'"
  shows "P s'"
  using assms
proof (induction xs arbitrary: s)
  case (Cons x xs)
  from Cons.prems(2) obtain s1 where s1: "f s x = Inr s1" "fold_r f s1 xs = Inr s'" by auto
  have "P s1" using Cons.prems(1,3) s1(1) by (meson list.set_intros(1))
  then show ?case using Cons.IH s1(2) Cons.prems(3) by (meson list.set_intros(2))
qed simp

section \<open>Interfaces\<close>

text \<open>
  A repository: the \<^verbatim>\<open>Set\<close>, \<^verbatim>\<open>Get\<close> and \<^verbatim>\<open>Delete\<close> methods a keeper offers for one kind of entity.
  \<open>store\<close> may refuse an entity that is not valid. The laws are those of a map indexed by
  the entity's key; what clients need of them is proved here once.
\<close>

locale repo =
  fixes find :: "'s \<Rightarrow> 'k \<Rightarrow> 'e option"
    and store :: "'s \<Rightarrow> 'e \<Rightarrow> 's result"
    and remove :: "'s \<Rightarrow> 'k \<Rightarrow> 's"
    and key :: "'e \<Rightarrow> 'k"
    and valid :: "'e \<Rightarrow> bool"
  assumes store_total: "valid e \<Longrightarrow> \<exists>s'. store s e = Inr s'"
    and find_store: "valid e \<Longrightarrow> store s e = Inr s' \<Longrightarrow> find s' k = (if k = key e then Some e else find s k)"
    and find_remove: "find (remove s k) k' = (if k' = k then None else find s k')"
begin

text \<open>Loading a list of valid entities always succeeds, and the last entity of a key wins.\<close>

lemma load_total: "list_all valid es \<Longrightarrow> \<exists>s'. fold_r store s es = Inr s'"
proof (induction es arbitrary: s)
  case (Cons e es)
  then obtain s1 where "store s e = Inr s1" using store_total [of e s] by auto
  with Cons show ?case by auto
qed simp

lemma load_find:
  "list_all valid es \<Longrightarrow> fold_r store s es = Inr s' \<Longrightarrow>
   find s' k = (find s ++ map_of (rev (map (\<lambda>e. (key e, e)) es))) k"
proof (induction es arbitrary: s)
  case (Cons e es)
  then obtain s1 where s1: "store s e = Inr s1" "fold_r store s1 es = Inr s'" by auto
  have "find s1 = (find s)(key e \<mapsto> e)" using find_store [OF _ s1(1)] Cons.prems by auto
  with Cons s1 show ?case by (simp add: map_add_def split: option.splits)
qed simp

lemma load_distinct:
  assumes "list_all valid es" and "distinct (map key es)" and "fold_r store s es = Inr s'" and "e \<in> set es"
  shows "find s' (key e) = Some e"
proof -
  have "map_of (rev (map (\<lambda>e. (key e, e)) es)) (key e) = Some e"
    using assms(2,4) by (intro map_of_is_SomeI) (auto simp: comp_def rev_map [symmetric])
  then show ?thesis using load_find [OF assms(1,3)] by (simp add: map_add_def)
qed

lemma find_store_other: "valid e \<Longrightarrow> store s e = Inr s' \<Longrightarrow> k \<noteq> key e \<Longrightarrow> find s' k = find s k"
  by (simp add: find_store)

lemma store_remove: "valid e \<Longrightarrow> store s e = Inr s' \<Longrightarrow> find (remove s' (key e)) k = find (remove s (key e)) k"
  by (simp add: find_store find_remove)

end

text \<open>
  A machine delivers messages to a handler. A message whose handler returns an error or panics
  leaves the state as it was, since the cached writes of a failed transaction are dropped.
  An invariant that every successful handler keeps then holds after any sequence of messages.
\<close>

fun deliver :: "('s \<Rightarrow> 'm \<Rightarrow> 's result) \<Rightarrow> 's \<Rightarrow> 'm \<Rightarrow> 's" where
  "deliver step s m = (case step s m of Inl _ \<Rightarrow> s | Inr s' \<Rightarrow> s')"

definition run :: "('s \<Rightarrow> 'm \<Rightarrow> 's result) \<Rightarrow> 's \<Rightarrow> 'm list \<Rightarrow> 's" where
  "run step s ms = foldl (deliver step) s ms"

locale machine =
  fixes step :: "'s \<Rightarrow> 'm \<Rightarrow> 's result"
    and invar :: "'s \<Rightarrow> bool"
    and admissible :: "'m \<Rightarrow> bool"
  assumes step_invar: "invar s \<Longrightarrow> admissible m \<Longrightarrow> step s m = Inr s' \<Longrightarrow> invar s'"
begin

lemma deliver_invar: "invar s \<Longrightarrow> admissible m \<Longrightarrow> invar (deliver step s m)"
  by (auto split: sum.split intro: step_invar)

lemma run_invar: "invar s \<Longrightarrow> list_all admissible ms \<Longrightarrow> invar (run step s ms)"
  unfolding run_def
  by (induction ms arbitrary: s) (simp_all add: deliver_invar del: deliver.simps)

end

end
