(* ===== verification/SDK.thy ===== *)
theory SDK
  imports Prelude
begin

text \<open>
  The Cosmos SDK as the modules see it. The SDK is not part of the repository, so every function
  of it that the modules call is a field of the record \<open>sdk\<close>, and the definitions of the
  development take such a record as their first argument. What the modules rely on is stated as
  predicates on that record (\<open>uint_laws\<close>, \<open>dec_laws\<close>, \<open>coin_laws\<close>, \<open>bank_laws\<close>, ...), which are
  named hypotheses of the theorems that need them; theory \<open>SDK_Reference\<close> has an instance that
  satisfies all of them at once.

  Values of \<^verbatim>\<open>sdk.Uint\<close> and \<^verbatim>\<open>sdk.Int\<close> are integers; a \<^verbatim>\<open>sdk.Dec\<close> is the integer it is stored
  as, the decimal times $10^{18}$. Comparing them is comparing integers. An operation that may
  panic (range overflow, division by zero) returns an option, \<open>None\<close> being the panic.
  The type \<open>'b\<close> is the state of the SDK's own modules (accounts, bank, staking).
\<close>

section \<open>Data\<close>

type_synonym address = string

text \<open>\<^verbatim>\<open>sdk.Coin\<close> and \<^verbatim>\<open>sdk.Coins\<close>; an \<^verbatim>\<open>sdk.Event\<close> is its type and its attributes.\<close>

record coin =
  coin_Denom :: string
  coin_Amount :: int

type_synonym coins = "coin list"
type_synonym event = "string \<times> (string \<times> string) list"

text \<open>\<^verbatim>\<open>query.PageRequest\<close> and \<^verbatim>\<open>query.PageResponse\<close>.\<close>

record page_request =
  page_Key :: string
  page_Offset :: nat
  page_Limit :: nat
  page_CountTotal :: bool

record page_response =
  page_NextKey :: string
  page_Total :: nat

text \<open>
  A protobuf message as reflection sees it: its fields by name. The SDK prints messages through
  this view (\<^verbatim>\<open>proto.CompactTextString\<close>, \<^verbatim>\<open>ModuleCdc.MarshalJSON\<close>).
\<close>

datatype proto =
    PNil
  | PString string
  | PInt int
  | PList "proto list"
  | PMsg "(string \<times> proto) list"

text \<open>
  A validator as the staking module answers it: its operator address printed and decoded, whether it is
  bonded, and its consensus power, an \<^verbatim>\<open>int64\<close>.
\<close>

record validator =
  OperatorAddress :: string
  GetOperator :: "address result"
  IsBonded :: bool
  GetConsensusPower :: int

section \<open>The functions the modules call\<close>

record 'b sdk =
  \<comment> \<open>addresses\<close>
  AccAddressFromBech32 :: "string \<Rightarrow> address result"
  AccAddress_String :: "address \<Rightarrow> string"
  ValAddressFromBech32 :: "string \<Rightarrow> address result"
  ValAddress_String :: "address \<Rightarrow> string"
  NewModuleAddress :: "string \<Rightarrow> address"
  \<comment> \<open>integers\<close>
  Uint_Add :: "int \<Rightarrow> int \<Rightarrow> int option"
  Uint_Sub :: "int \<Rightarrow> int \<Rightarrow> int option"
  Uint_Mul :: "int \<Rightarrow> int \<Rightarrow> int option"
  Uint_Quo :: "int \<Rightarrow> int \<Rightarrow> int option"
  NewUintFromBigInt :: "int \<Rightarrow> int option"
  NewUintFromString :: "string \<Rightarrow> int option"
  Int_Add :: "int \<Rightarrow> int \<Rightarrow> int option"
  Int_Sub :: "int \<Rightarrow> int \<Rightarrow> int option"
  Int_Mul :: "int \<Rightarrow> int \<Rightarrow> int option"
  NewIntFromString :: "string \<Rightarrow> int option"
  NewIntFromBigInt :: "int \<Rightarrow> int option"
  \<comment> \<open>decimals\<close>
  NewDec :: "int \<Rightarrow> int"
  NewDecFromStr :: "string \<Rightarrow> int result"
  NewDecFromBigInt :: "int \<Rightarrow> int"
  NewDecFromInt :: "int \<Rightarrow> int"
  Dec_Add :: "int \<Rightarrow> int \<Rightarrow> int option"
  Dec_Sub :: "int \<Rightarrow> int \<Rightarrow> int option"
  Dec_Mul :: "int \<Rightarrow> int \<Rightarrow> int option"
  Dec_Quo :: "int \<Rightarrow> int \<Rightarrow> int option"
  Dec_MulTruncate :: "int \<Rightarrow> int \<Rightarrow> int option"
  Dec_QuoTruncate :: "int \<Rightarrow> int \<Rightarrow> int option"
  Dec_Power :: "int \<Rightarrow> nat \<Rightarrow> int option"
  Dec_RoundInt :: "int \<Rightarrow> int option"
  Dec_TruncateInt :: "int \<Rightarrow> int option"
  \<comment> \<open>coins\<close>
  ValidateDenom :: "string \<Rightarrow> bool"
  NewCoin :: "string \<Rightarrow> int \<Rightarrow> coin option"
  Coin_Add :: "coin \<Rightarrow> coin \<Rightarrow> coin option"
  Coin_Sub :: "coin \<Rightarrow> coin \<Rightarrow> coin option"
  Coin_IsValid :: "coin \<Rightarrow> bool"
  NewCoins :: "coins \<Rightarrow> coins option"
  Coins_Add :: "coins \<Rightarrow> coins \<Rightarrow> coins option"
  Coins_IsValid :: "coins \<Rightarrow> bool"
  Coins_IsAllPositive :: "coins \<Rightarrow> bool"
  Coins_Sort :: "coins \<Rightarrow> coins"
  Coins_String :: "coins \<Rightarrow> string"
  \<comment> \<open>printing\<close>
  CompactTextString :: "proto \<Rightarrow> string"
  MarshalJSON :: "proto \<Rightarrow> string result"
  \<comment> \<open>a time as a protobuf timestamp (nanoseconds since 1970), and the timestamp printed\<close>
  TimestampProto :: "int \<Rightarrow> int result"
  Timestamp_String :: "int \<Rightarrow> string"
  \<comment> \<open>JSON of the two maps of a prophecy\<close>
  MarshalAddrsMap :: "address list kv \<Rightarrow> string result"
  UnmarshalAddrsMap :: "string \<Rightarrow> address list kv result"
  MarshalStringMap :: "string kv \<Rightarrow> string result"
  UnmarshalStringMap :: "string \<Rightarrow> string kv result"
  \<comment> \<open>paging: each entry's key and what the callback answers on it; which entries are on the page\<close>
  Paginate :: "page_request option \<Rightarrow> (string \<times> unit result) list \<Rightarrow> (bool list \<times> page_response) result"
  FilteredPaginate :: "page_request option \<Rightarrow> (string \<times> bool result) list \<Rightarrow> (bool list \<times> page_response) result"
  \<comment> \<open>bank\<close>
  GetBalance :: "'b \<Rightarrow> address \<Rightarrow> string \<Rightarrow> coin"
  HasBalance :: "'b \<Rightarrow> address \<Rightarrow> coin \<Rightarrow> bool"
  SendCoins :: "'b \<Rightarrow> address \<Rightarrow> address \<Rightarrow> coins \<Rightarrow> 'b result"
  SendCoinsFromAccountToModule :: "'b \<Rightarrow> address \<Rightarrow> string \<Rightarrow> coins \<Rightarrow> 'b result"
  SendCoinsFromModuleToAccount :: "'b \<Rightarrow> string \<Rightarrow> address \<Rightarrow> coins \<Rightarrow> 'b result"
  \<comment> \<open>the state a failed \<^verbatim>\<open>SendCoinsFromModuleToAccount\<close> leaves to a caller that goes on\<close>
  FailedSend :: "'b \<Rightarrow> string \<Rightarrow> address \<Rightarrow> coins \<Rightarrow> 'b"
  MintCoins :: "'b \<Rightarrow> string \<Rightarrow> coins \<Rightarrow> 'b result"
  BurnCoins :: "'b \<Rightarrow> string \<Rightarrow> coins \<Rightarrow> 'b result"
  \<comment> \<open>accounts (the sequence number of an account that exists) and staking\<close>
  GetAccount :: "'b \<Rightarrow> address \<Rightarrow> nat option"
  GetValidator :: "'b \<Rightarrow> address \<Rightarrow> validator option"
  GetBondedValidatorsByPower :: "'b \<Rightarrow> validator list"
  \<comment> \<open>parameter subspaces: subspace, key\<close>
  ParamGet :: "'b \<Rightarrow> string \<Rightarrow> string \<Rightarrow> int"
  ParamSet :: "'b \<Rightarrow> string \<Rightarrow> string \<Rightarrow> int \<Rightarrow> 'b"

section \<open>What the modules rely on\<close>

subsection \<open>Integers\<close>

text \<open>
  \<^verbatim>\<open>sdk.Uint\<close> holds integers of 256 bits: an operation computes on big integers and panics when
  the result is out of range. Division truncates and panics on a zero divisor. An \<^verbatim>\<open>sdk.Int\<close> read
  from a numeral is the number the numeral denotes.
\<close>

definition is_uint :: "int \<Rightarrow> bool" where
  "is_uint n \<longleftrightarrow> 0 \<le> n \<and> n < 2 ^ 256"

lemma is_uint_code [code]: "is_uint n \<longleftrightarrow> 0 \<le> n \<and> n < 115792089237316195423570985008687907853269984665640564039457584007913129639936"
  by (simp add: is_uint_def)

definition check_uint :: "int \<Rightarrow> int option" where
  "check_uint n = (if is_uint n then Some n else None)"

lemma check_uint_Some [simp]: "check_uint n = Some m \<longleftrightarrow> m = n \<and> is_uint n"
  by (auto simp: check_uint_def)

definition uint_laws :: "'b sdk \<Rightarrow> bool" where
  "uint_laws S \<longleftrightarrow>
     (\<forall>a b. Uint_Add S a b = check_uint (a + b)) \<and>
     (\<forall>a b. Uint_Sub S a b = check_uint (a - b)) \<and>
     (\<forall>a b. Uint_Mul S a b = check_uint (a * b)) \<and>
     (\<forall>a b. Uint_Quo S a b = (if b = 0 then None else check_uint (a div b))) \<and>
     (\<forall>a. NewUintFromBigInt S a = check_uint a) \<and>
     (\<forall>n. NewUintFromString S (itoa n) = check_uint n)"

lemma uint_lawsD:
  assumes "uint_laws S"
  shows "Uint_Add S a b = check_uint (a + b)" "Uint_Sub S a b = check_uint (a - b)"
    "Uint_Mul S a b = check_uint (a * b)" "Uint_Quo S a b = (if b = 0 then None else check_uint (a div b))"
    "NewUintFromBigInt S a = check_uint a" "NewUintFromString S (itoa a) = check_uint a"
  using assms by (simp_all add: uint_laws_def)

text \<open>
  \<open>yields r n\<close>: the call \<open>r\<close> returns \<open>n\<close> or panics because \<open>n\<close> is too big for the type, and it
  does not panic on any \<open>n\<close> of 255 bits.
\<close>

definition yields :: "int option \<Rightarrow> int \<Rightarrow> bool" where
  "yields r n \<longleftrightarrow> (r = Some n \<or> r = None) \<and> (\<bar>n\<bar> < 2 ^ 255 \<longrightarrow> r = Some n)"

lemma yields_Some: "yields r n \<Longrightarrow> r = Some m \<Longrightarrow> m = n"
  by (auto simp: yields_def)

lemma yields_small: "yields r n \<Longrightarrow> \<bar>n\<bar> < 2 ^ 255 \<Longrightarrow> r = Some n"
  by (auto simp: yields_def)

definition int_laws :: "'b sdk \<Rightarrow> bool" where
  "int_laws S \<longleftrightarrow>
     (\<forall>n. yields (NewIntFromString S (itoa n)) n) \<and>
     (\<forall>n. yields (NewIntFromBigInt S n) n) \<and>
     (\<forall>a b. yields (Int_Add S a b) (a + b)) \<and>
     (\<forall>a b. yields (Int_Sub S a b) (a - b)) \<and>
     (\<forall>a b. yields (Int_Mul S a b) (a * b))"

subsection \<open>Decimals\<close>

text \<open>
  Decimals have 18 fractional digits. Addition and subtraction are exact; a product is rounded to
  the nearest decimal; a quotient by a positive decimal is the exact value rounded up or down in
  the last digit, so exact when it can be; a power of an integer is exact; \<^verbatim>\<open>RoundInt\<close> rounds to a nearest integer,
  \<^verbatim>\<open>TruncateInt\<close> towards zero; the numeral of an integer is read as that integer.
\<close>

definition one_dec :: int where
  "one_dec = 10 ^ 18"

definition dec_laws :: "'b sdk \<Rightarrow> bool" where
  "dec_laws S \<longleftrightarrow>
     (\<forall>n. NewDec S n = n * one_dec) \<and>
     (\<forall>n. NewDecFromBigInt S n = n * one_dec) \<and>
     (\<forall>n d. NewDecFromStr S (itoa n) = Inr d \<longrightarrow> d = n * one_dec) \<and>
     (\<forall>n. \<bar>n * one_dec\<bar> < 2 ^ 255 \<longrightarrow> NewDecFromStr S (itoa n) = Inr (n * one_dec)) \<and>
     (\<forall>a b. yields (Dec_Add S a b) (a + b)) \<and>
     (\<forall>a b. yields (Dec_Sub S a b) (a - b)) \<and>
     (\<forall>a b. \<exists>c. yields (Dec_Mul S a b) c \<and> 2 * \<bar>c * one_dec - a * b\<bar> \<le> one_dec) \<and>
     (\<forall>a. Dec_Quo S a 0 = None) \<and>
     (\<forall>a b. 0 < b \<longrightarrow>
        (\<exists>c. yields (Dec_Quo S a b) c \<and>
             (\<forall>k. (k * b \<le> a * one_dec \<longrightarrow> k \<le> c) \<and> (a * one_dec \<le> k * b \<longrightarrow> c \<le> k)))) \<and>
     (\<forall>a b. 0 \<le> a \<longrightarrow> 0 < b \<longrightarrow> yields (Dec_QuoTruncate S a b) (a * one_dec div b)) \<and>
     (\<forall>n k. yields (Dec_Power S (n * one_dec) k) (n ^ k * one_dec)) \<and>
     (\<forall>a. \<exists>n. yields (Dec_RoundInt S a) n \<and> 2 * \<bar>n * one_dec - a\<bar> \<le> one_dec) \<and>
     (\<forall>a. 0 \<le> a \<longrightarrow> yields (Dec_TruncateInt S a) (a div one_dec))"

lemmas dec_laws_NewDec = dec_laws_def [THEN iffD1, THEN conjunct1, rule_format]
lemmas dec_laws_FromBigInt = dec_laws_def [THEN iffD1, THEN conjunct2, THEN conjunct1, rule_format]
lemmas dec_laws_str = dec_laws_def [THEN iffD1, THEN conjunct2, THEN conjunct2, THEN conjunct1, rule_format]
lemmas dec_laws_str_small = dec_laws_def [THEN iffD1, THEN conjunct2, THEN conjunct2, THEN conjunct2, THEN conjunct1, rule_format]
lemmas dec_laws_add = dec_laws_def [THEN iffD1, THEN conjunct2, THEN conjunct2, THEN conjunct2, THEN conjunct2, THEN conjunct1, rule_format]
lemmas dec_laws_sub = dec_laws_def [THEN iffD1, THEN conjunct2, THEN conjunct2, THEN conjunct2, THEN conjunct2, THEN conjunct2, THEN conjunct1, rule_format]
lemmas dec_laws_mul = dec_laws_def [THEN iffD1, THEN conjunct2, THEN conjunct2, THEN conjunct2, THEN conjunct2, THEN conjunct2, THEN conjunct2, THEN conjunct1, rule_format]
lemmas dec_laws_quo0 = dec_laws_def [THEN iffD1, THEN conjunct2, THEN conjunct2, THEN conjunct2, THEN conjunct2, THEN conjunct2, THEN conjunct2, THEN conjunct2, THEN conjunct1, rule_format]
lemmas dec_laws_quo = dec_laws_def [THEN iffD1, THEN conjunct2, THEN conjunct2, THEN conjunct2, THEN conjunct2, THEN conjunct2, THEN conjunct2, THEN conjunct2, THEN conjunct2, THEN conjunct1, rule_format]
lemmas dec_laws_quotr = dec_laws_def [THEN iffD1, THEN conjunct2, THEN conjunct2, THEN conjunct2, THEN conjunct2, THEN conjunct2, THEN conjunct2, THEN conjunct2, THEN conjunct2, THEN conjunct2, THEN conjunct1, rule_format]
lemmas dec_laws_pow = dec_laws_def [THEN iffD1, THEN conjunct2, THEN conjunct2, THEN conjunct2, THEN conjunct2, THEN conjunct2, THEN conjunct2, THEN conjunct2, THEN conjunct2, THEN conjunct2, THEN conjunct2, THEN conjunct1, rule_format]
lemmas dec_laws_round = dec_laws_def [THEN iffD1, THEN conjunct2, THEN conjunct2, THEN conjunct2, THEN conjunct2, THEN conjunct2, THEN conjunct2, THEN conjunct2, THEN conjunct2, THEN conjunct2, THEN conjunct2, THEN conjunct2, THEN conjunct1, rule_format]
lemmas dec_laws_trunc = dec_laws_def [THEN iffD1, THEN conjunct2, THEN conjunct2, THEN conjunct2, THEN conjunct2, THEN conjunct2, THEN conjunct2, THEN conjunct2, THEN conjunct2, THEN conjunct2, THEN conjunct2, THEN conjunct2, THEN conjunct2, rule_format]

lemmas dec_laws_lit = dec_laws_NewDec dec_laws_FromBigInt dec_laws_str_small

subsection \<open>Coins and balances\<close>

text \<open>The amount of one denomination in a list of coins, and an account's balance.\<close>

definition amt :: "coins \<Rightarrow> string \<Rightarrow> int" where
  "amt cs d = sum_list (map coin_Amount (filter (\<lambda>c. coin_Denom c = d) cs))"

definition bal :: "'b sdk \<Rightarrow> 'b \<Rightarrow> address \<Rightarrow> string \<Rightarrow> int" where
  "bal S b a d = coin_Amount (GetBalance S b a d)"

lemma amt_Nil [simp]: "amt [] d = 0"
  by (simp add: amt_def)

lemma amt_Cons [simp]: "amt (c # cs) d = (if coin_Denom c = d then coin_Amount c else 0) + amt cs d"
  by (simp add: amt_def)

text \<open>
  A coin has a valid denomination and an amount that is not negative. Building a set of coins
  drops zero coins and panics on what is not valid, so each denomination keeps its total.
\<close>

definition coin_laws :: "'b sdk \<Rightarrow> bool" where
  "coin_laws S \<longleftrightarrow>
     (\<forall>d n. NewCoin S d n =
        (if ValidateDenom S d \<and> 0 \<le> n then Some \<lparr>coin_Denom = d, coin_Amount = n\<rparr> else None)) \<and>
     (\<forall>c. Coin_IsValid S c \<longleftrightarrow> ValidateDenom S (coin_Denom c) \<and> 0 \<le> coin_Amount c) \<and>
     (\<forall>a b c. Coin_Add S a b = Some c \<longrightarrow>
        coin_Denom b = coin_Denom a \<and> c = a\<lparr>coin_Amount := coin_Amount a + coin_Amount b\<rparr>) \<and>
     (\<forall>a b c. Coin_Sub S a b = Some c \<longrightarrow>
        coin_Denom b = coin_Denom a \<and> coin_Amount b \<le> coin_Amount a \<and>
        c = a\<lparr>coin_Amount := coin_Amount a - coin_Amount b\<rparr>) \<and>
     (\<forall>cs cs'. NewCoins S cs = Some cs' \<longrightarrow> (\<forall>d. amt cs' d = amt cs d)) \<and>
     (\<forall>as bs cs. Coins_Add S as bs = Some cs \<longrightarrow> (\<forall>d. amt cs d = amt as d + amt bs d))"

text \<open>
  The bank: a transfer that succeeds takes exactly the coins from the sender, who had them, and
  gives them to the receiver; a module is an account at an address of its own.
\<close>

definition moves :: "'b sdk \<Rightarrow> 'b \<Rightarrow> 'b \<Rightarrow> address \<Rightarrow> address \<Rightarrow> coins \<Rightarrow> bool" where
  "moves S b b' f t cs \<longleftrightarrow>
     (\<forall>a d. bal S b' a d = bal S b a d - (if a = f then amt cs d else 0) + (if a = t then amt cs d else 0)) \<and>
     (\<forall>d. 0 \<le> amt cs d \<and> amt cs d \<le> bal S b f d)"

definition bank_laws :: "'b sdk \<Rightarrow> bool" where
  "bank_laws S \<longleftrightarrow>
     (\<forall>b a c. HasBalance S b a c \<longleftrightarrow> coin_Amount c \<le> bal S b a (coin_Denom c)) \<and>
     (\<forall>b f t cs b'. SendCoins S b f t cs = Inr b' \<longrightarrow> moves S b b' f t cs) \<and>
     (\<forall>b f m cs b'. SendCoinsFromAccountToModule S b f m cs = Inr b' \<longrightarrow>
        moves S b b' f (NewModuleAddress S m) cs) \<and>
     (\<forall>b m t cs b'. SendCoinsFromModuleToAccount S b m t cs = Inr b' \<longrightarrow>
        moves S b b' (NewModuleAddress S m) t cs) \<and>
     (\<forall>b m cs b'. MintCoins S b m cs = Inr b' \<longrightarrow>
        (\<forall>a d. bal S b' a d = bal S b a d + (if a = NewModuleAddress S m then amt cs d else 0)) \<and>
        (\<forall>d. 0 \<le> amt cs d)) \<and>
     (\<forall>b m cs b'. BurnCoins S b m cs = Inr b' \<longrightarrow>
        (\<forall>a d. bal S b' a d = bal S b a d - (if a = NewModuleAddress S m then amt cs d else 0)) \<and>
        (\<forall>d. 0 \<le> amt cs d \<and> amt cs d \<le> bal S b (NewModuleAddress S m) d))"

lemmas coin_laws_NewCoin = coin_laws_def [THEN iffD1, THEN conjunct1, rule_format]
lemmas coin_laws_valid = coin_laws_def [THEN iffD1, THEN conjunct2, THEN conjunct1, rule_format]
lemmas coin_laws_add = coin_laws_def [THEN iffD1, THEN conjunct2, THEN conjunct2, THEN conjunct1, rule_format]
lemmas coin_laws_sub = coin_laws_def [THEN iffD1, THEN conjunct2, THEN conjunct2, THEN conjunct2, THEN conjunct1, rule_format]
lemmas coin_laws_NewCoins = coin_laws_def [THEN iffD1, THEN conjunct2, THEN conjunct2, THEN conjunct2, THEN conjunct2, THEN conjunct1, rule_format]
lemmas coin_laws_Coins_Add = coin_laws_def [THEN iffD1, THEN conjunct2, THEN conjunct2, THEN conjunct2, THEN conjunct2, THEN conjunct2, rule_format]

lemmas bank_laws_has = bank_laws_def [THEN iffD1, THEN conjunct1, rule_format]
lemmas bank_laws_send = bank_laws_def [THEN iffD1, THEN conjunct2, THEN conjunct1, rule_format]
lemmas bank_laws_to_module = bank_laws_def [THEN iffD1, THEN conjunct2, THEN conjunct2, THEN conjunct1, rule_format]
lemmas bank_laws_from_module = bank_laws_def [THEN iffD1, THEN conjunct2, THEN conjunct2, THEN conjunct2, THEN conjunct1, rule_format]
lemmas bank_laws_mint = bank_laws_def [THEN iffD1, THEN conjunct2, THEN conjunct2, THEN conjunct2, THEN conjunct2, THEN conjunct1, rule_format]
lemmas bank_laws_burn = bank_laws_def [THEN iffD1, THEN conjunct2, THEN conjunct2, THEN conjunct2, THEN conjunct2, THEN conjunct2, rule_format]

text \<open>
  A valid list of coins has no negative amount, sorting keeps every amount, and a transfer from a module
  that has the coins but fails (the receiver is blocked, say) fails before it moves anything.
\<close>

definition valid_coins_laws :: "'b sdk \<Rightarrow> bool" where
  "valid_coins_laws S \<longleftrightarrow>
     (\<forall>cs d. Coins_IsValid S cs \<longrightarrow> 0 \<le> amt cs d) \<and>
     (\<forall>cs d. amt (Coins_Sort S cs) d = amt cs d)"

definition failed_send_laws :: "'b sdk \<Rightarrow> bool" where
  "failed_send_laws S \<longleftrightarrow>
     (\<forall>b m t cs e. SendCoinsFromModuleToAccount S b m t cs = Inl e \<longrightarrow>
        (\<forall>d. amt cs d \<le> bal S b (NewModuleAddress S m) d) \<longrightarrow>
        (\<forall>a d. bal S (FailedSend S b m t cs) a d = bal S b a d))"

lemma valid_coins_nonneg: "valid_coins_laws S \<Longrightarrow> Coins_IsValid S cs \<Longrightarrow> 0 \<le> amt cs d"
  by (simp add: valid_coins_laws_def)

text \<open>Truncating multiplication of decimals that are not negative, and the decimal of an integer.\<close>

definition mul_truncate_laws :: "'b sdk \<Rightarrow> bool" where
  "mul_truncate_laws S \<longleftrightarrow>
     (\<forall>n. NewDecFromInt S n = n * one_dec) \<and>
     (\<forall>a b. 0 \<le> a \<longrightarrow> 0 \<le> b \<longrightarrow> yields (Dec_MulTruncate S a b) (a * b div one_dec))"

text \<open>An address that can be printed and read: not empty and of at most 255 bytes.\<close>

definition valid_address :: "address \<Rightarrow> bool" where
  "valid_address a \<longleftrightarrow> a \<noteq> [] \<and> length a \<le> 255"

text \<open>What is printed as JSON reads back if its strings are valid UTF-8; a map is printed in key order.\<close>

definition json_map_laws :: "'b sdk \<Rightarrow> bool" where
  "json_map_laws S \<longleftrightarrow>
     (\<forall>m. kv_ok m \<longrightarrow> (\<forall>(k, as) \<in> set m. ValidString k \<and> (\<forall>a \<in> set as. valid_address a)) \<longrightarrow>
        (\<exists>s. MarshalAddrsMap S m = Inr s \<and> UnmarshalAddrsMap S s = Inr m)) \<and>
     (\<forall>m. kv_ok m \<longrightarrow> (\<forall>(k, v) \<in> set m. ValidString k \<and> ValidString v) \<longrightarrow>
        (\<exists>s. MarshalStringMap S m = Inr s \<and> UnmarshalStringMap S s = Inr m))"

text \<open>
  The bonded validators of a state: each has its own operator address, which is the printed form of the
  decoded one, and a power that is not negative; all powers together fit an \<^verbatim>\<open>int64\<close>. A validator found
  by address is bonded exactly if it is among them.
\<close>

definition staking_ok :: "'b sdk \<Rightarrow> 'b \<Rightarrow> bool" where
  "staking_ok S b \<longleftrightarrow>
     distinct (map OperatorAddress (GetBondedValidatorsByPower S b)) \<and>
     (\<forall>v \<in> set (GetBondedValidatorsByPower S b).
        (\<exists>a. valid_address a \<and> GetOperator v = Inr a \<and> OperatorAddress v = ValAddress_String S a) \<and> 0 \<le> GetConsensusPower v) \<and>
     sum_list (map GetConsensusPower (GetBondedValidatorsByPower S b)) < 2 ^ 63 \<and>
     (\<forall>a v. GetValidator S b a = Some v \<longrightarrow> GetOperator v = Inr a \<and>
        (IsBonded v \<longrightarrow> v \<in> set (GetBondedValidatorsByPower S b)))"

text \<open>
  Printing an address gives a string of ASCII characters that reads back as it. What reads is an
  address that can be printed; the empty address prints as the empty string, which does not read.
\<close>

definition addr_laws :: "'b sdk \<Rightarrow> bool" where
  "addr_laws S \<longleftrightarrow>
     (\<forall>a. valid_address a \<longrightarrow> AccAddressFromBech32 S (AccAddress_String S a) = Inr a) \<and>
     (\<forall>a. valid_address a \<longrightarrow> ValAddressFromBech32 S (ValAddress_String S a) = Inr a \<and>
        list_all (\<lambda>c. of_char c < (128 :: nat)) (ValAddress_String S a)) \<and>
     (\<forall>s a. AccAddressFromBech32 S s = Inr a \<longrightarrow> valid_address a) \<and>
     (\<forall>s a. ValAddressFromBech32 S s = Inr a \<longrightarrow> valid_address a) \<and>
     (\<forall>a. AccAddressFromBech32 S [] \<noteq> Inr a) \<and>
     AccAddress_String S [] = []"

text \<open>
  Paging with the entry list not longer than the limit, no offset and no key puts every
  entry whose callback reports a hit on the page.
\<close>

definition page_laws :: "'b sdk \<Rightarrow> bool" where
  "page_laws S \<longleftrightarrow>
     (\<forall>r es. page_Key r = [] \<longrightarrow> page_Offset r = 0 \<longrightarrow> length es \<le> page_Limit r \<longrightarrow>
        (\<exists>resp. Paginate S (Some r) (map (\<lambda>k. (k, Inr ())) es) = Inr (map (\<lambda>_. True) es, resp))) \<and>
     (\<forall>r es. page_Key r = [] \<longrightarrow> page_Offset r = 0 \<longrightarrow> length es \<le> page_Limit r \<longrightarrow>
        (\<exists>resp. FilteredPaginate S (Some r) (map (\<lambda>(k, hit). (k, Inr hit)) es) = Inr (map snd es, resp)))"

end
