(* ===== verification/TokenRegistry_Types.thy ===== *)
theory TokenRegistry_Types
  imports SDK
begin

text \<open>
  Data, keys, errors and messages of the token registry (\<^verbatim>\<open>x/tokenregistry/types\<close>). A pointer
  field is an option, \<open>None\<close> being nil. Integers of 64 bits are only compared and subtracted from
  18 within their range, so they are integers here.
\<close>

text \<open>A protobuf enumeration is open: a number without a name is kept as it came.\<close>

datatype permission =
    Permission_UNSPECIFIED
  | Permission_CLP
  | Permission_IBCEXPORT
  | Permission_IBCIMPORT
  | Permission_number int

record registry_entry =
  Decimals :: int
  Denom :: string
  BaseDenom :: string
  Path :: string
  IbcChannelId :: string
  IbcCounterpartyChannelId :: string
  DisplayName :: string
  DisplaySymbol :: string
  Network :: string
  Address :: string
  ExternalSymbol :: string
  TransferLimit :: string
  Permissions :: "permission list"
  UnitDenom :: string
  IbcCounterpartyDenom :: string
  IbcCounterpartyChainId :: string

text \<open>\<^verbatim>\<open>types.Registry\<close> has one field, the list of pointers to entries.\<close>

type_synonym registry = "registry_entry option list"

record tr_genesis =
  trg_AdminAccount :: string
  trg_Registry :: "registry option"

record msg_register =
  reg_From :: string
  reg_Entry :: "registry_entry option"

record msg_set_registry =
  setreg_From :: string
  setreg_Registry :: "registry option"

record msg_deregister =
  dereg_From :: string
  dereg_Denom :: string

text \<open>What the module's store holds under its two keys.\<close>

datatype tr_value = RegistryV registry | AdminV address

definition tr_WhitelistStorePrefix :: string where
  "tr_WhitelistStorePrefix = [CHR 0x01]"

definition tr_AdminAccountStorePrefix :: string where
  "tr_AdminAccountStorePrefix = [CHR 0x02]"

lemma tr_keys_distinct [simp]:
  "tr_WhitelistStorePrefix \<noteq> tr_AdminAccountStorePrefix"
  "tr_AdminAccountStorePrefix \<noteq> tr_WhitelistStorePrefix"
  by (simp_all add: tr_WhitelistStorePrefix_def tr_AdminAccountStorePrefix_def)

abbreviation "tr_ErrNotFound \<equiv> ErrReg ''tokenregistry'' 1"
abbreviation "tr_ErrPermissionDenied \<equiv> ErrReg ''tokenregistry'' 2"

definition GetPermissionFromString :: "string \<Rightarrow> permission" where
  "GetPermissionFromString s =
     (if s = ''permission_clp'' then Permission_CLP
      else if s = ''permission_ibc_export'' then Permission_IBCEXPORT
      else if s = ''permission_ibc_import'' then Permission_IBCIMPORT
      else Permission_UNSPECIFIED)"

text \<open>
  The checks \<^verbatim>\<open>ValidateBasic\<close> makes on one entry; \<^verbatim>\<open>MsgRegister\<close> makes them around the check of
  the signer, \<^verbatim>\<open>MsgSetRegistry\<close> for each entry before it.
\<close>

definition denom_ok :: "'b sdk \<Rightarrow> string \<Rightarrow> unit result" where
  "denom_ok S d =
     (if d = [] then Inl (ErrNew ''no denom specified'')
      else if \<not> Coin_IsValid S \<lparr>coin_Denom = d, coin_Amount = 1\<rparr> then Inl (ErrNew ''Denom is not valid'')
      else Inr ())"

definition MsgRegister_ValidateBasic :: "'b sdk \<Rightarrow> msg_register \<Rightarrow> unit result" where
  "MsgRegister_ValidateBasic S m =
     (case reg_Entry m of
        None \<Rightarrow> Inl (ErrNew ''no token entry specified'')
      | Some e \<Rightarrow>
          bind_r (denom_ok S (Denom e)) (\<lambda>_.
          bind_r (AccAddressFromBech32 S (reg_From m)) (\<lambda>_.
          if Decimals e \<le> 0 then Inl (ErrNew ''Decimals cannot be zero'') else Inr ())))"

fun entries_ok :: "'b sdk \<Rightarrow> registry \<Rightarrow> unit result" where
  "entries_ok S [] = Inr ()"
| "entries_ok S (p # es) =
     bind_r (deref p) (\<lambda>e.
     bind_r (denom_ok S (Denom e)) (\<lambda>_.
     if Decimals e \<le> 0 then Inl (ErrNew ''Decimals cannot be zero'') else entries_ok S es))"

definition MsgSetRegistry_ValidateBasic :: "'b sdk \<Rightarrow> msg_set_registry \<Rightarrow> unit result" where
  "MsgSetRegistry_ValidateBasic S m =
     (case setreg_Registry m of
        None \<Rightarrow> Inl (ErrNew ''no token entry specified'')
      | Some es \<Rightarrow>
          bind_r (entries_ok S es) (\<lambda>_.
          bind_r (AccAddressFromBech32 S (setreg_From m)) (\<lambda>_. Inr ())))"

definition MsgDeregister_ValidateBasic :: "'b sdk \<Rightarrow> msg_deregister \<Rightarrow> unit result" where
  "MsgDeregister_ValidateBasic S m =
     bind_r (denom_ok S (dereg_Denom m)) (\<lambda>_.
     bind_r (AccAddressFromBech32 S (dereg_From m)) (\<lambda>_. Inr ()))"

text \<open>
  The registry a chain starts with: fifty-eight peggy and native tokens that may be used in pools.
\<close>

definition clp_entry :: "string \<times> int \<Rightarrow> registry_entry" where
  "clp_entry t =
     \<lparr>Decimals = snd t, Denom = fst t, BaseDenom = [], Path = [], IbcChannelId = [],
      IbcCounterpartyChannelId = [], DisplayName = [], DisplaySymbol = [], Network = [], Address = [],
      ExternalSymbol = [], TransferLimit = [], Permissions = [Permission_CLP], UnitDenom = [],
      IbcCounterpartyDenom = [], IbcCounterpartyChainId = []\<rparr>"

definition initial_tokens :: "(string \<times> int) list" where
  "initial_tokens =
     [(''aku'', 18), (''causc'', 6), (''cusdt'', 6), (''cusdc'', 6), (''cwscrt'', 6),
      (''cwbtc'', 8), (''ceth'', 18), (''cdai'', 18), (''cyfi'', 18), (''czrx'', 18),
      (''cwfil'', 18), (''cuni'', 18), (''cuma'', 18), (''ctusd'', 18), (''csxp'', 18),
      (''csushi'', 18), (''csusd'', 18), (''csrm'', 18), (''csnx'', 18), (''csand'', 18),
      (''crune'', 18), (''creef'', 18), (''cogn'', 18), (''cocean'', 18), (''cmana'', 18),
      (''clrc'', 18), (''clon'', 18), (''clink'', 18), (''ciotx'', 18), (''cgrt'', 18),
      (''cftm'', 18), (''cesd'', 18), (''cenj'', 18), (''ccream'', 18), (''ccomp'', 18),
      (''ccocos'', 18), (''cbond'', 18), (''cbnt'', 18), (''cbat'', 18), (''cband'', 18),
      (''cbal'', 18), (''cant'', 18), (''caave'', 18), (''c1inch'', 18), (''cleash'', 18),
      (''cshib'', 18), (''ctidal'', 18), (''cpaid'', 18), (''crndr'', 18), (''cconv'', 18),
      (''crally'', 18), (''crfuel'', 18), (''cakro'', 18), (''cb20'', 18), (''ctshp'', 18),
      (''clina'', 18), (''cdaofi'', 18), (''ckeep'', 18)]"

definition InitialRegistry :: registry where
  "InitialRegistry =
     map (\<lambda>e. Some (if \<not> HasPrefix (Denom e) ''ibc/'' then e\<lparr>BaseDenom := Denom e\<rparr> else e))
       (map clp_entry initial_tokens)"

end
