(* ===== verification/CLP_Types.thy ===== *)
theory CLP_Types
  imports SDK
begin

text \<open>
  Data, keys, errors, messages and their stateless checks of the liquidity-pool module
  (\<^verbatim>\<open>x/clp/types\<close>).
\<close>

section \<open>Data\<close>

record asset =
  Symbol :: string

record pool =
  ExternalAsset :: "asset option"
  NativeAssetBalance :: int
  ExternalAssetBalance :: int
  PoolUnits :: int

record liquidity_provider =
  lp_Asset :: "asset option"
  LiquidityProviderUnits :: int
  LiquidityProviderAddress :: string

text \<open>The zero value \<^verbatim>\<open>types.Pool{}\<close>.\<close>

definition empty_pool :: pool where
  "empty_pool = \<lparr>ExternalAsset = None, NativeAssetBalance = 0, ExternalAssetBalance = 0, PoolUnits = 0\<rparr>"

text \<open>What the module's store holds under its three prefixes.\<close>

datatype clp_value = PoolV pool | LpV liquidity_provider | WhitelistV "string list"

section \<open>Messages\<close>

record msg_remove_liquidity =
  rl_Signer :: string
  rl_ExternalAsset :: "asset option"
  rl_WBasisPoints :: int
  rl_Asymmetry :: int

record msg_create_pool =
  cp_Signer :: string
  cp_ExternalAsset :: "asset option"
  cp_NativeAssetAmount :: int
  cp_ExternalAssetAmount :: int

record msg_add_liquidity =
  al_Signer :: string
  al_ExternalAsset :: "asset option"
  al_NativeAssetAmount :: int
  al_ExternalAssetAmount :: int

record msg_swap =
  sw_Signer :: string
  sw_SentAsset :: "asset option"
  sw_ReceivedAsset :: "asset option"
  sw_SentAmount :: int
  sw_MinReceivingAmount :: int

record msg_decommission_pool =
  dp_Signer :: string
  dp_Symbol :: string

datatype clp_msg =
    MsgRemoveLiquidity msg_remove_liquidity
  | MsgCreatePool msg_create_pool
  | MsgAddLiquidity msg_add_liquidity
  | MsgSwap msg_swap
  | MsgDecommissionPool msg_decommission_pool

section \<open>Constants, keys and errors\<close>

definition clp_ModuleName :: string where "clp_ModuleName = ''clp''"
definition NativeSymbol :: string where "NativeSymbol = ''aku''"
definition PoolThrehold :: string where "PoolThrehold = ''1000000000000000000''"
definition MaxSymbolLength :: nat where "MaxSymbolLength = 71"
definition MaxWbasis :: int where "MaxWbasis = 10000"

definition PoolPrefix :: string where "PoolPrefix = [CHR 0x00]"
definition LiquidityProviderPrefix :: string where "LiquidityProviderPrefix = [CHR 0x01]"
definition WhiteListValidatorPrefix :: string where "WhiteListValidatorPrefix = [CHR 0x02]"

definition GetPoolKey :: "string \<Rightarrow> string \<Rightarrow> string" where
  "GetPoolKey externalTicker nativeTicker = PoolPrefix @ externalTicker @ ''_'' @ nativeTicker"

definition GetLiquidityProviderKey :: "string \<Rightarrow> string \<Rightarrow> string" where
  "GetLiquidityProviderKey externalTicker lp = LiquidityProviderPrefix @ externalTicker @ ''_'' @ lp"

abbreviation "clp_ErrInvalid \<equiv> ErrReg ''clp'' 1"
abbreviation "clp_ErrPoolDoesNotExist \<equiv> ErrReg ''clp'' 2"
abbreviation "clp_ErrLiquidityProviderDoesNotExist \<equiv> ErrReg ''clp'' 3"
abbreviation "clp_ErrInValidAsset \<equiv> ErrReg ''clp'' 4"
abbreviation "clp_ErrInValidAmount \<equiv> ErrReg ''clp'' 5"
abbreviation "clp_ErrTotalAmountTooLow \<equiv> ErrReg ''clp'' 7"
abbreviation "clp_ErrNotEnoughAssetTokens \<equiv> ErrReg ''clp'' 8"
abbreviation "clp_ErrInvalidAsymmetry \<equiv> ErrReg ''clp'' 9"
abbreviation "clp_ErrInvalidWBasis \<equiv> ErrReg ''clp'' 10"
abbreviation "clp_ErrBalanceTooHigh \<equiv> ErrReg ''clp'' 11"
abbreviation "clp_ErrUnableToSetPool \<equiv> ErrReg ''clp'' 12"
abbreviation "clp_ErrUnableToDestroyPool \<equiv> ErrReg ''clp'' 13"
abbreviation "clp_ErrUnableToCreatePool \<equiv> ErrReg ''clp'' 14"
abbreviation "clp_ErrBalanceNotAvailable \<equiv> ErrReg ''clp'' 18"
abbreviation "clp_ErrTokenNotSupported \<equiv> ErrReg ''clp'' 19"
abbreviation "clp_ErrUnableToAddBalance \<equiv> ErrReg ''clp'' 20"
abbreviation "clp_ErrNotEnoughLiquidity \<equiv> ErrReg ''clp'' 21"
abbreviation "clp_ErrPoolTooShallow \<equiv> ErrReg ''clp'' 23"
abbreviation "clp_ErrUnableToAddLiquidity \<equiv> ErrReg ''clp'' 25"
abbreviation "clp_ErrUnableToRemoveLiquidity \<equiv> ErrReg ''clp'' 26"
abbreviation "clp_ErrUnableToSwap \<equiv> ErrReg ''clp'' 27"
abbreviation "clp_ErrUnableToRemoveLiquidityProvider \<equiv> ErrReg ''clp'' 28"
abbreviation "clp_ErrUnableToDecommissionPool \<equiv> ErrReg ''clp'' 29"
abbreviation "clp_ErrUnableToParseInt \<equiv> ErrReg ''clp'' 30"
abbreviation "clp_ErrReceivedAmountBelowExpected \<equiv> ErrReg ''clp'' 31"
abbreviation "clp_ErrAmountTooLow \<equiv> ErrReg ''clp'' 32"

section \<open>Assets, pools and providers\<close>

definition NewAsset :: "string \<Rightarrow> asset" where
  "NewAsset symbol = \<lparr>Symbol = symbol\<rparr>"

definition VerifyRange :: "nat \<Rightarrow> nat \<Rightarrow> nat \<Rightarrow> bool" where
  "VerifyRange num low high = (if high \<le> num then False else if num \<le> low then False else True)"

text \<open>\<open>None\<close> is the panic of \<^verbatim>\<open>sdk.NewCoin\<close> on a denomination that is not valid.\<close>

definition Asset_Validate :: "'b sdk \<Rightarrow> asset \<Rightarrow> bool option" where
  "Asset_Validate S a =
     (if \<not> VerifyRange (length (TrimSpace (Symbol a))) 0 MaxSymbolLength then Some False
      else do { coin \<leftarrow> NewCoin S (Symbol a) 1; Some (Coin_IsValid S coin) })"

definition Asset_Equals :: "asset \<Rightarrow> asset \<Rightarrow> bool" where
  "Asset_Equals a a2 \<longleftrightarrow> Symbol a = Symbol a2"

definition Asset_IsEmpty :: "asset \<Rightarrow> bool" where
  "Asset_IsEmpty a \<longleftrightarrow> Symbol a = []"

definition GetSettlementAsset :: asset where
  "GetSettlementAsset = \<lparr>Symbol = NativeSymbol\<rparr>"

definition GetCLPModuleAddress :: "'b sdk \<Rightarrow> address" where
  "GetCLPModuleAddress S = NewModuleAddress S clp_ModuleName"

definition GetDefaultCLPAdmin :: "'b sdk \<Rightarrow> address" where
  "GetDefaultCLPAdmin S = NewModuleAddress S ''ClpAdmin''"

definition Pool_Validate :: "'b sdk \<Rightarrow> pool \<Rightarrow> bool option" where
  "Pool_Validate S p = do { a \<leftarrow> ExternalAsset p; Asset_Validate S a }"

definition NewPool :: "asset option \<Rightarrow> int \<Rightarrow> int \<Rightarrow> int \<Rightarrow> pool" where
  "NewPool externalAsset nativeAssetBalance externalAssetBalance poolUnits =
     \<lparr>ExternalAsset = externalAsset, NativeAssetBalance = nativeAssetBalance,
      ExternalAssetBalance = externalAssetBalance, PoolUnits = poolUnits\<rparr>"

definition LiquidityProvider_Validate :: "'b sdk \<Rightarrow> liquidity_provider \<Rightarrow> bool option" where
  "LiquidityProvider_Validate S l = do { a \<leftarrow> lp_Asset l; Asset_Validate S a }"

definition NewLiquidityProvider :: "'b sdk \<Rightarrow> asset option \<Rightarrow> int \<Rightarrow> address \<Rightarrow> liquidity_provider" where
  "NewLiquidityProvider S asset units addr =
     \<lparr>lp_Asset = asset, LiquidityProviderUnits = units, LiquidityProviderAddress = AccAddress_String S addr\<rparr>"

text \<open>The generated \<^verbatim>\<open>String\<close> methods, used in events.\<close>

definition asset_proto :: "asset option \<Rightarrow> proto" where
  "asset_proto p = (case p of None \<Rightarrow> PNil | Some a \<Rightarrow> PMsg [(''symbol'', PString (Symbol a))])"

definition Pool_String :: "'b sdk \<Rightarrow> pool \<Rightarrow> string" where
  "Pool_String S p = CompactTextString S (PMsg
     [(''external_asset'', asset_proto (ExternalAsset p)),
      (''native_asset_balance'', PInt (NativeAssetBalance p)),
      (''external_asset_balance'', PInt (ExternalAssetBalance p)),
      (''pool_units'', PInt (PoolUnits p))])"

definition LiquidityProvider_String :: "'b sdk \<Rightarrow> liquidity_provider \<Rightarrow> string" where
  "LiquidityProvider_String S l = CompactTextString S (PMsg
     [(''asset'', asset_proto (lp_Asset l)),
      (''liquidity_provider_units'', PInt (LiquidityProviderUnits l)),
      (''liquidity_provider_address'', PString (LiquidityProviderAddress l))])"

section \<open>Stateless checks of the messages\<close>

text \<open>
  \<open>valid_asset\<close> is the check \<^verbatim>\<open>if !m.Asset.Validate() { return Wrap(ErrInValidAsset, ...) }\<close>; the
  method has a value receiver, so it panics on a nil pointer.
\<close>

definition valid_asset :: "'b sdk \<Rightarrow> asset option \<Rightarrow> asset result" where
  "valid_asset S p =
     bind_r (deref p) (\<lambda>a.
     bind_r (panics (Asset_Validate S a)) (\<lambda>ok.
     if \<not> ok then Inl clp_ErrInValidAsset else Inr a))"

definition MsgDecommissionPool_ValidateBasic :: "msg_decommission_pool \<Rightarrow> unit result" where
  "MsgDecommissionPool_ValidateBasic m =
     (if dp_Signer m = [] then Inl (ErrSdk ''ErrInvalidAddress'')
      else if \<not> VerifyRange (length (TrimSpace (dp_Symbol m))) 0 MaxSymbolLength
           then Inl (ErrSdk ''ErrInvalidRequest'')
      else Inr ())"

definition MsgSwap_ValidateBasic :: "'b sdk \<Rightarrow> msg_swap \<Rightarrow> unit result" where
  "MsgSwap_ValidateBasic S m =
     (if sw_Signer m = [] then Inl (ErrSdk ''ErrInvalidAddress'')
      else bind_r (valid_asset S (sw_SentAsset m)) (\<lambda>sent.
           bind_r (valid_asset S (sw_ReceivedAsset m)) (\<lambda>received.
           if Asset_Equals sent received then Inl clp_ErrInValidAsset
           else if sw_SentAmount m = 0 then Inl clp_ErrInValidAmount
           else Inr ())))"

definition MsgRemoveLiquidity_ValidateBasic :: "'b sdk \<Rightarrow> msg_remove_liquidity \<Rightarrow> unit result" where
  "MsgRemoveLiquidity_ValidateBasic S m =
     (if rl_Signer m = [] then Inl (ErrSdk ''ErrInvalidAddress'')
      else bind_r (valid_asset S (rl_ExternalAsset m)) (\<lambda>_.
           if \<not> (0 < rl_WBasisPoints m) \<or> MaxWbasis < rl_WBasisPoints m then Inl clp_ErrInvalidWBasis
           else if 10000 < rl_Asymmetry m \<or> rl_Asymmetry m < - 10000 then Inl clp_ErrInvalidAsymmetry
           else Inr ()))"

definition MsgAddLiquidity_ValidateBasic :: "'b sdk \<Rightarrow> msg_add_liquidity \<Rightarrow> unit result" where
  "MsgAddLiquidity_ValidateBasic S m =
     (if al_Signer m = [] then Inl (ErrSdk ''ErrInvalidAddress'')
      else bind_r (valid_asset S (al_ExternalAsset m)) (\<lambda>ext.
           if Asset_Equals ext GetSettlementAsset then Inl clp_ErrInValidAsset
           else if \<not> 0 < al_NativeAssetAmount m \<and> \<not> 0 < al_ExternalAssetAmount m
                then Inl clp_ErrInValidAmount
           else Inr ()))"

definition MsgCreatePool_ValidateBasic :: "'b sdk \<Rightarrow> msg_create_pool \<Rightarrow> unit result" where
  "MsgCreatePool_ValidateBasic S m =
     (if cp_Signer m = [] then Inl (ErrSdk ''ErrInvalidAddress'')
      else bind_r (valid_asset S (cp_ExternalAsset m)) (\<lambda>ext.
           if Asset_Equals ext GetSettlementAsset then Inl clp_ErrInValidAsset
           else if \<not> 0 < cp_NativeAssetAmount m then Inl clp_ErrInValidAmount
           else if \<not> 0 < cp_ExternalAssetAmount m then Inl clp_ErrInValidAmount
           else Inr ()))"

fun clp_ValidateBasic :: "'b sdk \<Rightarrow> clp_msg \<Rightarrow> unit result" where
  "clp_ValidateBasic S (MsgRemoveLiquidity m) = MsgRemoveLiquidity_ValidateBasic S m"
| "clp_ValidateBasic S (MsgCreatePool m) = MsgCreatePool_ValidateBasic S m"
| "clp_ValidateBasic S (MsgAddLiquidity m) = MsgAddLiquidity_ValidateBasic S m"
| "clp_ValidateBasic S (MsgSwap m) = MsgSwap_ValidateBasic S m"
| "clp_ValidateBasic S (MsgDecommissionPool m) = MsgDecommissionPool_ValidateBasic m"

fun clp_Signer :: "clp_msg \<Rightarrow> string" where
  "clp_Signer (MsgRemoveLiquidity m) = rl_Signer m"
| "clp_Signer (MsgCreatePool m) = cp_Signer m"
| "clp_Signer (MsgAddLiquidity m) = al_Signer m"
| "clp_Signer (MsgSwap m) = sw_Signer m"
| "clp_Signer (MsgDecommissionPool m) = dp_Signer m"

text \<open>\<^verbatim>\<open>GetSigners\<close>, the same for each message: the one signer, a panic if it does not parse.\<close>

definition clp_GetSigners :: "'b sdk \<Rightarrow> clp_msg \<Rightarrow> address list result" where
  "clp_GetSigners S m =
     (case AccAddressFromBech32 S (clp_Signer m) of
        Inl _ \<Rightarrow> Inl (Panic ''invalid signer'')
      | Inr addr \<Rightarrow> Inr [addr])"

section \<open>The keys\<close>

text \<open>
  A pool key determines the symbol. A provider key determines the pair as long as the address
  has no underscore, which holds for every bech32 string. Keys of different kinds differ.
\<close>

lemma GetPoolKey_inj [simp]: "GetPoolKey s n = GetPoolKey s' n \<longleftrightarrow> s = s'"
  by (simp add: GetPoolKey_def)

lemma last_underscore:
  assumes "s @ ''_'' @ a = s' @ ''_'' @ a'" and "CHR ''_'' \<notin> set a" and "CHR ''_'' \<notin> set a'"
  shows "s = s' \<and> a = a'"
proof -
  have tw: "takeWhile (\<lambda>c. c \<noteq> CHR ''_'') (rev y @ CHR ''_'' # x) = rev y"
    if "CHR ''_'' \<notin> set y" for x y :: string
    using that by (induction y rule: rev_induct) auto
  have "rev a @ CHR ''_'' # rev s = rev a' @ CHR ''_'' # rev s'"
    using arg_cong [OF assms(1), of rev] by simp
  then have "rev a = rev a'" using tw [OF assms(2)] tw [OF assms(3)] by metis
  with assms(1) show ?thesis by simp
qed

lemma GetLiquidityProviderKey_inj:
  assumes "GetLiquidityProviderKey s a = GetLiquidityProviderKey s' a'"
    and "CHR ''_'' \<notin> set a" and "CHR ''_'' \<notin> set a'"
  shows "s = s' \<and> a = a'"
  using last_underscore [OF _ assms(2,3)] assms(1) by (simp add: GetLiquidityProviderKey_def)

lemma clp_keys_disjoint [simp]:
  "GetPoolKey s n \<noteq> GetLiquidityProviderKey s' a" "GetLiquidityProviderKey s' a \<noteq> GetPoolKey s n"
  "GetPoolKey s n \<noteq> WhiteListValidatorPrefix" "WhiteListValidatorPrefix \<noteq> GetPoolKey s n"
  "GetLiquidityProviderKey s' a \<noteq> WhiteListValidatorPrefix"
  "WhiteListValidatorPrefix \<noteq> GetLiquidityProviderKey s' a"
  by (simp_all add: GetPoolKey_def GetLiquidityProviderKey_def PoolPrefix_def
      LiquidityProviderPrefix_def WhiteListValidatorPrefix_def)

end
