(* ===== verification/Dispensation_Types.thy ===== *)
theory Dispensation_Types
  imports SDK
begin

text \<open>
  Data, keys, errors, messages and their stateless checks of the dispensation module
  (\<^verbatim>\<open>x/dispensation/types\<close>, \<^verbatim>\<open>x/dispensation/utils\<close>). The enumerations are open in protobuf: a value is
  the number it is sent as, and may be none of the named ones.
\<close>

section \<open>Data\<close>

abbreviation (input) "DISTRIBUTION_TYPE_UNSPECIFIED \<equiv> 0 :: int"
abbreviation (input) "DISTRIBUTION_TYPE_AIRDROP \<equiv> 1 :: int"
abbreviation (input) "DISTRIBUTION_TYPE_VALIDATOR_SUBSIDY \<equiv> 2 :: int"
abbreviation (input) "DISTRIBUTION_TYPE_LIQUIDITY_MINING \<equiv> 3 :: int"

abbreviation (input) "DISTRIBUTION_STATUS_UNSPECIFIED \<equiv> 0 :: int"
abbreviation (input) "DISTRIBUTION_STATUS_PENDING \<equiv> 1 :: int"
abbreviation (input) "DISTRIBUTION_STATUS_COMPLETED \<equiv> 2 :: int"
abbreviation (input) "DISTRIBUTION_STATUS_FAILED \<equiv> 3 :: int"

definition DistributionType_String :: "int \<Rightarrow> string" where
  "DistributionType_String x =
     (if x = 0 then ''DISTRIBUTION_TYPE_UNSPECIFIED''
      else if x = 1 then ''DISTRIBUTION_TYPE_AIRDROP''
      else if x = 2 then ''DISTRIBUTION_TYPE_VALIDATOR_SUBSIDY''
      else if x = 3 then ''DISTRIBUTION_TYPE_LIQUIDITY_MINING''
      else itoa x)"

record distribution_record =
  dr_DistributionStatus :: int
  dr_DistributionType :: int
  dr_DistributionName :: string
  dr_RecipientAddress :: string
  dr_Coins :: coins
  dr_DistributionStartHeight :: int
  dr_DistributionCompletedHeight :: int
  dr_AuthorizedRunner :: string

record distribution =
  d_DistributionType :: int
  d_DistributionName :: string
  d_Runner :: string

record user_claim =
  uc_UserAddress :: string
  uc_UserClaimType :: int
  uc_UserClaimTime :: "int option"

text \<open>What the module's store holds under its five prefixes.\<close>

datatype disp_value = RecordV distribution_record | DistributionV distribution | ClaimV user_claim

text \<open>\<^verbatim>\<open>banktypes.Output\<close> and the messages.\<close>

record bank_output =
  out_Address :: string
  out_Coins :: coins

record msg_create_distribution =
  cd_Distributor :: string
  cd_AuthorizedRunner :: string
  cd_DistributionType :: int
  cd_Output :: "bank_output list"

record msg_create_user_claim =
  cu_UserClaimAddress :: string
  cu_UserClaimType :: int

record msg_run_distribution =
  rd_AuthorizedRunner :: string
  rd_DistributionName :: string
  rd_DistributionType :: int

datatype disp_msg =
    MsgCreateDistribution msg_create_distribution
  | MsgCreateUserClaim msg_create_user_claim
  | MsgRunDistribution msg_run_distribution

section \<open>Constants, keys and errors\<close>

definition disp_ModuleName :: string where "disp_ModuleName = ''dispensation''"
definition MaxRecordsPerBlock :: nat where "MaxRecordsPerBlock = 10"

definition DistributionRecordPrefixPending :: string where "DistributionRecordPrefixPending = [CHR 0x00]"
definition DistributionRecordPrefixCompleted :: string where "DistributionRecordPrefixCompleted = [CHR 0x11]"
definition DistributionRecordPrefixFailed :: string where "DistributionRecordPrefixFailed = [CHR 0x12]"
definition DistributionsPrefix :: string where "DistributionsPrefix = [CHR 0x01]"
definition UserClaimPrefix :: string where "UserClaimPrefix = [CHR 0x02]"

definition GetDistributionRecordKey :: "int \<Rightarrow> string \<Rightarrow> string \<Rightarrow> int \<Rightarrow> string" where
  "GetDistributionRecordKey status name recipient distributionType =
     (let key = name @ ''_'' @ itoa distributionType @ ''_'' @ recipient
      in if status = DISTRIBUTION_STATUS_PENDING then DistributionRecordPrefixPending @ key
         else if status = DISTRIBUTION_STATUS_COMPLETED then DistributionRecordPrefixCompleted @ key
         else if status = DISTRIBUTION_STATUS_FAILED then DistributionRecordPrefixFailed @ key
         else DistributionRecordPrefixCompleted @ key)"

definition GetDistributionsKey :: "string \<Rightarrow> int \<Rightarrow> string \<Rightarrow> string" where
  "GetDistributionsKey name distributionType authorizedRunner =
     DistributionsPrefix @ name @ ''_'' @ itoa distributionType @ ''_'' @ authorizedRunner"

definition GetUserClaimKey :: "string \<Rightarrow> int \<Rightarrow> string" where
  "GetUserClaimKey userAddress userClaimType = UserClaimPrefix @ userAddress @ ''_'' @ itoa userClaimType"

definition GetDistributionModuleAddress :: "'b sdk \<Rightarrow> address" where
  "GetDistributionModuleAddress S = NewModuleAddress S disp_ModuleName"

abbreviation "disp_ErrInvalid \<equiv> ErrReg ''dispensation'' 1"
abbreviation "disp_ErrFailedInputs \<equiv> ErrReg ''dispensation'' 4"
abbreviation "disp_ErrFailedOutputs \<equiv> ErrReg ''dispensation'' 5"
abbreviation "disp_ErrDistribution \<equiv> ErrReg ''dispensation'' 6"

section \<open>Records\<close>

definition NewDistributionRecord ::
    "int \<Rightarrow> int \<Rightarrow> string \<Rightarrow> string \<Rightarrow> coins \<Rightarrow> int \<Rightarrow> int \<Rightarrow> string \<Rightarrow> distribution_record" where
  "NewDistributionRecord status distributionType distributionName recipientAddress coins start end' runner =
     \<lparr>dr_DistributionStatus = status, dr_DistributionType = distributionType, dr_DistributionName = distributionName,
      dr_RecipientAddress = recipientAddress, dr_Coins = coins, dr_DistributionStartHeight = start,
      dr_DistributionCompletedHeight = end', dr_AuthorizedRunner = runner\<rparr>"

definition DistributionRecord_Validate :: "'b sdk \<Rightarrow> distribution_record \<Rightarrow> bool" where
  "DistributionRecord_Validate S dr \<longleftrightarrow>
     (if dr_RecipientAddress dr = [] then False
      else if \<not> Coins_IsValid S (dr_Coins dr) then False
      else if \<not> Coins_IsAllPositive S (dr_Coins dr) then False
      else True)"

definition DistributionRecord_Add ::
    "'b sdk \<Rightarrow> distribution_record \<Rightarrow> distribution_record \<Rightarrow> distribution_record result" where
  "DistributionRecord_Add S dr dr2 =
     bind_r (panics (Coins_Add S (dr_Coins dr) (dr_Coins dr2))) (\<lambda>cs. Inr (dr\<lparr>dr_Coins := cs\<rparr>))"

definition DoesTypeSupportClaim :: "distribution_record \<Rightarrow> bool" where
  "DoesTypeSupportClaim dr \<longleftrightarrow>
     (if dr_DistributionType dr = DISTRIBUTION_TYPE_LIQUIDITY_MINING \<or>
         dr_DistributionType dr = DISTRIBUTION_TYPE_VALIDATOR_SUBSIDY then True else False)"

definition NewUserClaim :: "'b sdk \<Rightarrow> string \<Rightarrow> int \<Rightarrow> int \<Rightarrow> user_claim result" where
  "NewUserClaim S userAddress userClaimType t =
     bind_r (TimestampProto S t) (\<lambda>tProto.
     Inr \<lparr>uc_UserAddress = userAddress, uc_UserClaimType = userClaimType, uc_UserClaimTime = Some tProto\<rparr>)"

definition UserClaim_Validate :: "user_claim \<Rightarrow> bool" where
  "UserClaim_Validate uc \<longleftrightarrow> (if uc_UserAddress uc = [] then False else True)"

definition NewDistribution :: "int \<Rightarrow> string \<Rightarrow> string \<Rightarrow> distribution" where
  "NewDistribution t name authorizedRunner =
     \<lparr>d_DistributionType = t, d_DistributionName = name, d_Runner = authorizedRunner\<rparr>"

definition Distribution_Validate :: "distribution \<Rightarrow> bool" where
  "Distribution_Validate ar \<longleftrightarrow> (if d_DistributionName ar = [] then False else True)"

definition GetDistributionStatus :: "string \<Rightarrow> int \<times> bool" where
  "GetDistributionStatus status =
     (if status = ''Completed'' then (DISTRIBUTION_STATUS_COMPLETED, True)
      else if status = ''Pending'' then (DISTRIBUTION_STATUS_PENDING, True)
      else if status = ''Failed'' then (DISTRIBUTION_STATUS_FAILED, True)
      else (DISTRIBUTION_STATUS_UNSPECIFIED, False))"

definition GetClaimType :: "string \<Rightarrow> int \<times> bool" where
  "GetClaimType claimType =
     (if claimType = ''LiquidityMining'' then (DISTRIBUTION_TYPE_LIQUIDITY_MINING, True)
      else if claimType = ''ValidatorSubsidy'' then (DISTRIBUTION_TYPE_VALIDATOR_SUBSIDY, True)
      else (DISTRIBUTION_TYPE_UNSPECIFIED, False))"

definition GetDistributionTypeFromShortString :: "string \<Rightarrow> int \<times> bool" where
  "GetDistributionTypeFromShortString distributionType =
     (if distributionType = ''Airdrop'' then (DISTRIBUTION_TYPE_AIRDROP, True)
      else if distributionType = ''LiquidityMining'' then (DISTRIBUTION_TYPE_LIQUIDITY_MINING, True)
      else if distributionType = ''ValidatorSubsidy'' then (DISTRIBUTION_TYPE_VALIDATOR_SUBSIDY, True)
      else (DISTRIBUTION_TYPE_UNSPECIFIED, False))"

definition IsValidDistributionType :: "string \<Rightarrow> int \<times> bool" where
  "IsValidDistributionType distributionType =
     (if distributionType = ''DISTRIBUTION_TYPE_AIRDROP'' then (DISTRIBUTION_TYPE_AIRDROP, True)
      else if distributionType = ''DISTRIBUTION_TYPE_LIQUIDITY_MINING'' then (DISTRIBUTION_TYPE_LIQUIDITY_MINING, True)
      else if distributionType = ''DISTRIBUTION_TYPE_VALIDATOR_SUBSIDY'' then (DISTRIBUTION_TYPE_VALIDATOR_SUBSIDY, True)
      else (DISTRIBUTION_TYPE_UNSPECIFIED, False))"

definition IsValidClaimType :: "string \<Rightarrow> int \<times> bool" where
  "IsValidClaimType claimType =
     (if claimType = ''DISTRIBUTION_TYPE_LIQUIDITY_MINING'' then (DISTRIBUTION_TYPE_LIQUIDITY_MINING, True)
      else if claimType = ''DISTRIBUTION_TYPE_VALIDATOR_SUBSIDY'' then (DISTRIBUTION_TYPE_VALIDATOR_SUBSIDY, True)
      else (0, False))"

section \<open>Messages\<close>

definition NewMsgCreateDistribution ::
    "'b sdk \<Rightarrow> address \<Rightarrow> int \<Rightarrow> bank_output list \<Rightarrow> string \<Rightarrow> msg_create_distribution" where
  "NewMsgCreateDistribution S distributor distributionType output authorizedRunner =
     \<lparr>cd_Distributor = AccAddress_String S distributor, cd_AuthorizedRunner = authorizedRunner,
      cd_DistributionType = distributionType, cd_Output = output\<rparr>"

text \<open>
  The check of a distribution sorts the coins of each output in place, so it returns the message as the
  handler sees it afterwards.
\<close>

definition ValidateOutput :: "'b sdk \<Rightarrow> bank_output \<Rightarrow> bank_output result" where
  "ValidateOutput S out =
     bind_r (wrap_err disp_ErrInvalid (AccAddressFromBech32 S (out_Address out))) (\<lambda>_.
     let out = out\<lparr>out_Coins := Coins_Sort S (out_Coins out)\<rparr> in
     if \<not> Coins_IsValid S (out_Coins out) then Inl disp_ErrInvalid else Inr out)"

definition MsgCreateDistribution_ValidateBasic ::
    "'b sdk \<Rightarrow> msg_create_distribution \<Rightarrow> msg_create_distribution result" where
  "MsgCreateDistribution_ValidateBasic S m =
     (if \<not> snd (IsValidDistributionType (DistributionType_String (cd_DistributionType m))) then Inl disp_ErrInvalid
      else if cd_Output m = [] then Inl disp_ErrInvalid
      else
     bind_r (wrap_err disp_ErrInvalid (AccAddressFromBech32 S (cd_Distributor m))) (\<lambda>_.
     bind_r (wrap_err disp_ErrInvalid (AccAddressFromBech32 S (cd_AuthorizedRunner m))) (\<lambda>_.
     bind_r (map_r (ValidateOutput S) (cd_Output m)) (\<lambda>outs. Inr (m\<lparr>cd_Output := outs\<rparr>)))))"

definition MsgCreateDistribution_GetSigners :: "'b sdk \<Rightarrow> msg_create_distribution \<Rightarrow> address list result" where
  "MsgCreateDistribution_GetSigners S m =
     bind_r (must_r (AccAddressFromBech32 S (cd_Distributor m))) (\<lambda>addr. Inr [addr])"

definition NewMsgCreateUserClaim :: "'b sdk \<Rightarrow> address \<Rightarrow> int \<Rightarrow> msg_create_user_claim" where
  "NewMsgCreateUserClaim S userClaimAddress claimType =
     \<lparr>cu_UserClaimAddress = AccAddress_String S userClaimAddress, cu_UserClaimType = claimType\<rparr>"

definition MsgCreateUserClaim_ValidateBasic :: "'b sdk \<Rightarrow> msg_create_user_claim \<Rightarrow> unit result" where
  "MsgCreateUserClaim_ValidateBasic S m =
     bind_r (wrap_err (ErrSdk ''ErrInvalidAddress'') (AccAddressFromBech32 S (cu_UserClaimAddress m))) (\<lambda>_.
     if \<not> snd (IsValidClaimType (DistributionType_String (cu_UserClaimType m))) then Inl disp_ErrInvalid else Inr ())"

definition MsgCreateUserClaim_GetSigners :: "'b sdk \<Rightarrow> msg_create_user_claim \<Rightarrow> address list result" where
  "MsgCreateUserClaim_GetSigners S m =
     bind_r (must_r (AccAddressFromBech32 S (cu_UserClaimAddress m))) (\<lambda>addr. Inr [addr])"

definition NewMsgRunDistribution :: "string \<Rightarrow> string \<Rightarrow> int \<Rightarrow> msg_run_distribution" where
  "NewMsgRunDistribution runner distributionName distributionType =
     \<lparr>rd_AuthorizedRunner = runner, rd_DistributionName = distributionName, rd_DistributionType = distributionType\<rparr>"

definition MsgRunDistribution_ValidateBasic :: "'b sdk \<Rightarrow> msg_run_distribution \<Rightarrow> unit result" where
  "MsgRunDistribution_ValidateBasic S m =
     (if \<not> snd (IsValidDistributionType (DistributionType_String (rd_DistributionType m))) then Inl disp_ErrInvalid
      else if rd_DistributionName m = [] then Inl disp_ErrInvalid
      else bind_r (wrap_err disp_ErrInvalid (AccAddressFromBech32 S (rd_AuthorizedRunner m))) (\<lambda>_. Inr ()))"

definition MsgRunDistribution_GetSigners :: "'b sdk \<Rightarrow> msg_run_distribution \<Rightarrow> address list result" where
  "MsgRunDistribution_GetSigners S m =
     bind_r (must_r (AccAddressFromBech32 S (rd_AuthorizedRunner m))) (\<lambda>addr. Inr [addr])"

text \<open>\<^verbatim>\<open>utils.TotalOutput\<close>: what the distributor has to pay in.\<close>

fun add_outputs :: "'b sdk \<Rightarrow> coins \<Rightarrow> bank_output list \<Rightarrow> coins result" where
  "add_outputs S t [] = Inr t"
| "add_outputs S t (o' # os) = bind_r (panics (Coins_Add S t (out_Coins o'))) (\<lambda>t. add_outputs S t os)"

definition TotalOutput :: "'b sdk \<Rightarrow> bank_output list \<Rightarrow> coins result" where
  "TotalOutput S output =
     (case output of
        [] \<Rightarrow> Inl (ErrReg ''bank'' 3)
      | o' # os \<Rightarrow> add_outputs S (out_Coins o') os)"

section \<open>Facts about the checks\<close>

text \<open>The checks on the printed type accept exactly the named types.\<close>

lemma itoa_not_name [simp]: "itoa n \<noteq> CHR ''D'' # s"
proof
  assume "itoa n = CHR ''D'' # s"
  then have "is_digit (CHR ''D'')" using itoa_chars [of "CHR ''D''" n] by auto
  then show False by (simp add: is_digit_def)
qed

lemma IsValidDistributionType_iff:
  "snd (IsValidDistributionType (DistributionType_String t)) \<longleftrightarrow> t \<in> {1, 2, 3}"
  by (auto simp: IsValidDistributionType_def DistributionType_String_def split: if_splits)

lemma IsValidClaimType_iff: "snd (IsValidClaimType (DistributionType_String t)) \<longleftrightarrow> t \<in> {2, 3}"
  by (auto simp: IsValidClaimType_def DistributionType_String_def split: if_splits)

end
