(* ===== verification/Oracle_Types.thy ===== *)
theory Oracle_Types
  imports SDK
begin

text \<open>
  Data, keys, errors and serialisation of the oracle module (\<^verbatim>\<open>x/oracle/types\<close>). The two Go maps of a
  prophecy are finite maps in key order; code that ranges over such a map takes the order as an argument.
\<close>

section \<open>Data\<close>

abbreviation (input) "STATUS_TEXT_UNSPECIFIED \<equiv> 0 :: int"
abbreviation (input) "STATUS_TEXT_PENDING \<equiv> 1 :: int"
abbreviation (input) "STATUS_TEXT_SUCCESS \<equiv> 2 :: int"
abbreviation (input) "STATUS_TEXT_FAILED \<equiv> 3 :: int"

definition StatusText_String :: "int \<Rightarrow> string" where
  "StatusText_String x =
     (if x = 0 then ''STATUS_TEXT_UNSPECIFIED''
      else if x = 1 then ''STATUS_TEXT_PENDING''
      else if x = 2 then ''STATUS_TEXT_SUCCESS''
      else if x = 3 then ''STATUS_TEXT_FAILED''
      else itoa x)"

record status =
  st_Text :: int
  st_FinalClaim :: string

record oracle_claim =
  oc_Id :: string
  oc_ValidatorAddress :: string
  oc_Content :: string

record prophecy =
  p_ID :: string
  p_Status :: status
  p_ClaimValidators :: "address list kv"
  p_ValidatorClaims :: "string kv"

record db_prophecy =
  db_Id :: string
  db_Status :: status
  db_ClaimValidators :: string
  db_ValidatorClaims :: string

text \<open>What the module's store holds: the whitelist, the admin account and the prophecies.\<close>

datatype oracle_value = OWhiteListV "string list" | OAdminV address | ProphecyV db_prophecy

section \<open>Keys and errors\<close>

definition oracle_WhiteListValidatorPrefix :: string where "oracle_WhiteListValidatorPrefix = [CHR 0x00]"
definition oracle_AdminAccountPrefix :: string where "oracle_AdminAccountPrefix = [CHR 0x01]"
definition ProphecyPrefix :: string where "ProphecyPrefix = [CHR 0x02]"

definition prophecy_key :: "string \<Rightarrow> string" where
  "prophecy_key id' = ProphecyPrefix @ ''_'' @ id'"

abbreviation "ErrProphecyNotFound \<equiv> ErrReg ''oracle'' 1"
abbreviation "ErrInvalidIdentifier \<equiv> ErrReg ''oracle'' 4"
abbreviation "ErrProphecyFinalized \<equiv> ErrReg ''oracle'' 5"
abbreviation "ErrDuplicateMessage \<equiv> ErrReg ''oracle'' 6"
abbreviation "ErrInvalidClaim \<equiv> ErrReg ''oracle'' 7"
abbreviation "ErrInvalidValidator \<equiv> ErrReg ''oracle'' 8"
abbreviation "ErrValidatorNotInWhiteList \<equiv> ErrReg ''oracle'' 10"
abbreviation "ErrNotAdminAccount \<equiv> ErrReg ''oracle'' 11"
abbreviation "ErrInvalidOperationType \<equiv> ErrReg ''oracle'' 12"

lemma prophecy_key_inj [simp]: "prophecy_key a = prophecy_key b \<longleftrightarrow> a = b"
  by (simp add: prophecy_key_def)

lemma prophecy_key_other [simp]:
  "prophecy_key a \<noteq> oracle_WhiteListValidatorPrefix" "oracle_WhiteListValidatorPrefix \<noteq> prophecy_key a"
  "prophecy_key a \<noteq> oracle_AdminAccountPrefix" "oracle_AdminAccountPrefix \<noteq> prophecy_key a"
  "oracle_WhiteListValidatorPrefix \<noteq> oracle_AdminAccountPrefix" "oracle_AdminAccountPrefix \<noteq> oracle_WhiteListValidatorPrefix"
  by (simp_all add: prophecy_key_def ProphecyPrefix_def oracle_WhiteListValidatorPrefix_def oracle_AdminAccountPrefix_def)

section \<open>Prophecies\<close>

definition NewStatus :: "int \<Rightarrow> string \<Rightarrow> status" where
  "NewStatus txt finalClaim = \<lparr>st_Text = txt, st_FinalClaim = finalClaim\<rparr>"

definition NewProphecy :: "string \<Rightarrow> prophecy" where
  "NewProphecy id' =
     \<lparr>p_ID = id', p_Status = NewStatus STATUS_TEXT_PENDING [], p_ClaimValidators = [], p_ValidatorClaims = []\<rparr>"

definition NewClaim :: "string \<Rightarrow> string \<Rightarrow> string \<Rightarrow> oracle_claim" where
  "NewClaim id' validatorAddress content =
     \<lparr>oc_Id = id', oc_ValidatorAddress = validatorAddress, oc_Content = content\<rparr>"

definition SerializeForDB :: "'b sdk \<Rightarrow> prophecy \<Rightarrow> db_prophecy result" where
  "SerializeForDB S prophecy =
     bind_r (MarshalAddrsMap S (p_ClaimValidators prophecy)) (\<lambda>claimValidators.
     bind_r (MarshalStringMap S (p_ValidatorClaims prophecy)) (\<lambda>validatorClaims.
     Inr \<lparr>db_Id = p_ID prophecy, db_Status = p_Status prophecy, db_ClaimValidators = claimValidators,
          db_ValidatorClaims = validatorClaims\<rparr>))"

definition DeserializeFromDB :: "'b sdk \<Rightarrow> db_prophecy \<Rightarrow> prophecy result" where
  "DeserializeFromDB S dbProphecy =
     bind_r (UnmarshalAddrsMap S (db_ClaimValidators dbProphecy)) (\<lambda>claimValidators.
     bind_r (UnmarshalStringMap S (db_ValidatorClaims dbProphecy)) (\<lambda>validatorClaims.
     Inr \<lparr>p_ID = db_Id dbProphecy, p_Status = db_Status dbProphecy, p_ClaimValidators = claimValidators,
          p_ValidatorClaims = validatorClaims\<rparr>))"

text \<open>Reading a missing key of a Go map gives the zero value.\<close>

definition map_at :: "'v \<Rightarrow> 'v kv \<Rightarrow> string \<Rightarrow> 'v" where
  "map_at z m k = (case kv_get m k of None \<Rightarrow> z | Some v \<Rightarrow> v)"

definition AddClaim :: "'b sdk \<Rightarrow> prophecy \<Rightarrow> address \<Rightarrow> string \<Rightarrow> prophecy" where
  "AddClaim S prophecy validator claim =
     (let claimValidators = map_at [] (p_ClaimValidators prophecy) claim
      in prophecy\<lparr>p_ClaimValidators := kv_set (p_ClaimValidators prophecy) claim (claimValidators @ [validator]),
           p_ValidatorClaims := kv_set (p_ValidatorClaims prophecy) (ValAddress_String S validator) claim\<rparr>)"

text \<open>Storing a prophecy and reading it again gives the same prophecy.\<close>

definition prophecy_ok :: "prophecy \<Rightarrow> bool" where
  "prophecy_ok p \<longleftrightarrow>
     kv_ok (p_ClaimValidators p) \<and> (\<forall>(c, as) \<in> set (p_ClaimValidators p). ValidString c \<and> (\<forall>a \<in> set as. valid_address a)) \<and>
     kv_ok (p_ValidatorClaims p) \<and> (\<forall>(a, c) \<in> set (p_ValidatorClaims p). ValidString a \<and> ValidString c)"

lemma DeserializeFromDB_SerializeForDB:
  assumes "json_map_laws S" and "prophecy_ok p"
  shows "\<exists>db. SerializeForDB S p = Inr db \<and> DeserializeFromDB S db = Inr p \<and> db_Id db = p_ID p \<and> db_Status db = p_Status p"
proof -
  obtain s t where "MarshalAddrsMap S (p_ClaimValidators p) = Inr s" "UnmarshalAddrsMap S s = Inr (p_ClaimValidators p)"
    "MarshalStringMap S (p_ValidatorClaims p) = Inr t" "UnmarshalStringMap S t = Inr (p_ValidatorClaims p)"
    using assms unfolding json_map_laws_def prophecy_ok_def by blast
  then show ?thesis by (simp add: SerializeForDB_def DeserializeFromDB_def)
qed

lemma p_ID_NewProphecy [simp]: "p_ID (NewProphecy i) = i"
  by (simp add: NewProphecy_def)

lemma prophecy_ok_NewProphecy [simp]: "prophecy_ok (NewProphecy i)"
  by (simp add: prophecy_ok_def NewProphecy_def)

lemma map_at_valid:
  "kv_ok m \<Longrightarrow> (\<forall>(c, as) \<in> set m. P c \<and> (\<forall>a \<in> set as. Q a)) \<Longrightarrow> a \<in> set (map_at [] m k) \<Longrightarrow> Q a"
  by (fastforce simp: map_at_def kv_get_iff [symmetric] dest: kv_get_iff [THEN iffD1] split: option.splits)

lemma kv_set_mem: "kv_ok m \<Longrightarrow> e \<in> set (kv_set m k v) \<Longrightarrow> e = (k, v) \<or> e \<in> set m"
  by (metis kv_get_iff kv_get_set kv_ok_set option.inject prod.collapse)

lemma prophecy_ok_AddClaim:
  assumes "addr_laws S" and "prophecy_ok p" and "valid_address v" and "ValidString c"
  shows "prophecy_ok (AddClaim S p v c)"
proof -
  have "ValidString (ValAddress_String S v)"
    using assms(1,3) by (auto simp: addr_laws_def intro: ValidString_ascii)
  moreover have "valid_address a" if "a \<in> set (map_at [] (p_ClaimValidators p) c)" for a
    using map_at_valid [OF _ _ that] assms(2) unfolding prophecy_ok_def by blast
  ultimately show ?thesis
    using assms by (fastforce simp: prophecy_ok_def AddClaim_def dest: kv_set_mem)
qed

lemma prophecy_ok_status [simp]: "prophecy_ok (p\<lparr>p_Status := s\<rparr>) = prophecy_ok p"
  by (simp add: prophecy_ok_def)

end
