(* ===== verification/EthBridge_Types.thy ===== *)
theory EthBridge_Types
  imports Oracle_Types
begin

text \<open>
  Data, keys, errors, messages and their stateless checks of the Ethereum bridge (\<^verbatim>\<open>x/ethbridge/types\<close>).
  What the module calls of go-ethereum and the JSON of an oracle claim are the fields of \<open>geth\<close>.
\<close>

section \<open>Data\<close>

abbreviation (input) "CLAIM_TYPE_UNSPECIFIED \<equiv> 0 :: int"
abbreviation (input) "CLAIM_TYPE_BURN \<equiv> 1 :: int"
abbreviation (input) "CLAIM_TYPE_LOCK \<equiv> 2 :: int"

definition ClaimType_String :: "int \<Rightarrow> string" where
  "ClaimType_String x =
     (if x = 0 then ''CLAIM_TYPE_UNSPECIFIED''
      else if x = 1 then ''CLAIM_TYPE_BURN''
      else if x = 2 then ''CLAIM_TYPE_LOCK''
      else itoa x)"

text \<open>An Ethereum address is its 20 bytes.\<close>

type_synonym eth_address = string

record eth_bridge_claim =
  ec_EthereumChainId :: int
  ec_BridgeContractAddress :: string
  ec_Nonce :: int
  ec_Symbol :: string
  ec_TokenContractAddress :: string
  ec_EthereumSender :: string
  ec_CosmosReceiver :: string
  ec_ValidatorAddress :: string
  ec_Amount :: int
  ec_ClaimType :: int

record oracle_claim_content =
  occ_CosmosReceiver :: address
  occ_Amount :: int
  occ_Symbol :: string
  occ_TokenContractAddress :: eth_address
  occ_ClaimType :: int

record geth =
  IsHexAddress :: "string \<Rightarrow> bool"
  HexToAddress :: "string \<Rightarrow> eth_address"
  Address_String :: "eth_address \<Rightarrow> string"
  MarshalContent :: "oracle_claim_content \<Rightarrow> string result"
  UnmarshalContent :: "string \<Rightarrow> oracle_claim_content result"

text \<open>
  The content of a claim printed as JSON is not empty and valid UTF-8; it reads back if the token's
  symbol is valid UTF-8 and the receiver is an address that can be printed.
\<close>

definition content_laws :: "geth \<Rightarrow> bool" where
  "content_laws G \<longleftrightarrow>
     (\<forall>c s. MarshalContent G c = Inr s \<longrightarrow> s \<noteq> [] \<and> ValidString s \<and>
        (ValidString (occ_Symbol c) \<and> valid_address (occ_CosmosReceiver c) \<longrightarrow> UnmarshalContent G s = Inr c))"

text \<open>What the module's store holds; a blacklist entry is the single byte 1.\<close>

datatype eth_value = PeggyTokensV "string list" | CethReceiverV string | BlacklistedV

record msg_lock =
  lk_CosmosSender :: string
  lk_Amount :: int
  lk_Symbol :: string
  lk_EthereumChainId :: int
  lk_EthereumReceiver :: string
  lk_CethAmount :: int

record msg_burn =
  bn_CosmosSender :: string
  bn_Amount :: int
  bn_Symbol :: string
  bn_EthereumChainId :: int
  bn_EthereumReceiver :: string
  bn_CethAmount :: int

record msg_update_whitelist_validator =
  uw_CosmosSender :: string
  uw_Validator :: string
  uw_OperationType :: string

record msg_update_ceth_receiver =
  ur_CosmosSender :: string
  ur_CethReceiverAccount :: string

record msg_rescue_ceth =
  rc_CosmosSender :: string
  rc_CosmosReceiver :: string
  rc_CethAmount :: int

record msg_set_blacklist =
  sb_From :: string
  sb_Addresses :: "string list"

datatype eth_msg =
    MsgCreateEthBridgeClaim "eth_bridge_claim option"
  | MsgBurn msg_burn
  | MsgLock msg_lock
  | MsgUpdateWhiteListValidator msg_update_whitelist_validator
  | MsgUpdateCethReceiverAccount msg_update_ceth_receiver
  | MsgRescueCeth msg_rescue_ceth
  | MsgSetBlacklist msg_set_blacklist

section \<open>Constants, keys and errors\<close>

definition eth_ModuleName :: string where "eth_ModuleName = ''ethbridge''"
definition CethSymbol :: string where "CethSymbol = ''ceth''"
definition PeggedCoinPrefix :: string where "PeggedCoinPrefix = ''c''"

definition PeggyTokenKeyPrefix :: string where "PeggyTokenKeyPrefix = [CHR 0x00]"
definition CethReceiverAccountPrefix :: string where "CethReceiverAccountPrefix = [CHR 0x01]"
definition BlacklistPrefix :: string where "BlacklistPrefix = [CHR 0x02]"

definition burnGasCost :: int where "burnGasCost = 60000000000 * 393000"
definition lockGasCost :: int where "lockGasCost = 60000000000 * 393000"

abbreviation "ErrInvalidEthNonce \<equiv> ErrReg ''ethbridge'' 1"
abbreviation "ErrInvalidEthAddress \<equiv> ErrReg ''ethbridge'' 2"
abbreviation "ErrJSONMarshalling \<equiv> ErrReg ''ethbridge'' 3"
abbreviation "ErrInvalidEthSymbol \<equiv> ErrReg ''ethbridge'' 4"
abbreviation "ErrInvalidClaimType \<equiv> ErrReg ''ethbridge'' 5"
abbreviation "ErrInvalidEthereumChainID \<equiv> ErrReg ''ethbridge'' 6"
abbreviation "ErrInvalidAmount \<equiv> ErrReg ''ethbridge'' 7"
abbreviation "ErrInvalidSymbol \<equiv> ErrReg ''ethbridge'' 8"
abbreviation "ErrInvalidBurnSymbol \<equiv> ErrReg ''ethbridge'' 9"
abbreviation "ErrCethAmount \<equiv> ErrReg ''ethbridge'' 10"
abbreviation "ErrInvalidAddress \<equiv> ErrSdk ''ErrInvalidAddress''"

section \<open>Claims\<close>

definition NewEthereumAddress :: "geth \<Rightarrow> string \<Rightarrow> eth_address" where
  "NewEthereumAddress G address = HexToAddress G address"

definition EthereumAddress_String :: "geth \<Rightarrow> eth_address \<Rightarrow> string" where
  "EthereumAddress_String G ethAddr = Address_String G ethAddr"

definition EthereumAddress_MarshalJSON :: "geth \<Rightarrow> eth_address \<Rightarrow> string result" where
  "EthereumAddress_MarshalJSON G ethAddr = Inr ([CHR 0x22] @ EthereumAddress_String G ethAddr @ [CHR 0x22])"

definition NewEthBridgeClaim :: "'b sdk \<Rightarrow> geth \<Rightarrow> int \<Rightarrow> eth_address \<Rightarrow> int \<Rightarrow> string \<Rightarrow> eth_address \<Rightarrow> eth_address
    \<Rightarrow> address \<Rightarrow> address \<Rightarrow> int \<Rightarrow> int \<Rightarrow> eth_bridge_claim" where
  "NewEthBridgeClaim S G ethereumChainID bridgeContract nonce symbol tokenContact ethereumSender cosmosReceiver
      validator amount claimType =
     \<lparr>ec_EthereumChainId = ethereumChainID, ec_BridgeContractAddress = EthereumAddress_String G bridgeContract,
      ec_Nonce = nonce, ec_Symbol = symbol, ec_TokenContractAddress = EthereumAddress_String G tokenContact,
      ec_EthereumSender = EthereumAddress_String G ethereumSender, ec_CosmosReceiver = AccAddress_String S cosmosReceiver,
      ec_ValidatorAddress = ValAddress_String S validator, ec_Amount = amount, ec_ClaimType = claimType\<rparr>"

definition NewOracleClaimContent :: "address \<Rightarrow> int \<Rightarrow> string \<Rightarrow> eth_address \<Rightarrow> int \<Rightarrow> oracle_claim_content" where
  "NewOracleClaimContent cosmosReceiver amount symbol tokenContractAddress claimType =
     \<lparr>occ_CosmosReceiver = cosmosReceiver, occ_Amount = amount, occ_Symbol = symbol,
      occ_TokenContractAddress = tokenContractAddress, occ_ClaimType = claimType\<rparr>"

definition oracle_id :: "int \<Rightarrow> int \<Rightarrow> string \<Rightarrow> string" where
  "oracle_id chain nonce sender = itoa chain @ itoa nonce @ sender"

definition CreateOracleClaimFromEthClaim :: "'b sdk \<Rightarrow> geth \<Rightarrow> eth_bridge_claim \<Rightarrow> oracle_claim result" where
  "CreateOracleClaimFromEthClaim S G ethClaim =
     (let oracleID = oracle_id (ec_EthereumChainId ethClaim) (ec_Nonce ethClaim) (ec_EthereumSender ethClaim) in
     bind_r (AccAddressFromBech32 S (ec_CosmosReceiver ethClaim)) (\<lambda>cosmosReceiver.
     let claimContent = NewOracleClaimContent cosmosReceiver (ec_Amount ethClaim) (ec_Symbol ethClaim)
           (NewEthereumAddress G (ec_TokenContractAddress ethClaim)) (ec_ClaimType ethClaim) in
     bind_r (MarshalContent G claimContent) (\<lambda>claimString.
     Inr (NewClaim oracleID (ec_ValidatorAddress ethClaim) claimString))))"

definition CreateOracleClaimFromOracleString :: "geth \<Rightarrow> string \<Rightarrow> oracle_claim_content result" where
  "CreateOracleClaimFromOracleString G oracleClaimString =
     wrap_err ErrJSONMarshalling (UnmarshalContent G oracleClaimString)"

definition CreateEthClaimFromOracleString ::
    "'b sdk \<Rightarrow> geth \<Rightarrow> int \<Rightarrow> eth_address \<Rightarrow> int \<Rightarrow> eth_address \<Rightarrow> address \<Rightarrow> string \<Rightarrow> eth_bridge_claim result" where
  "CreateEthClaimFromOracleString S G ethereumChainID bridgeContract nonce ethereumAddress validator oracleClaimString =
     bind_r (CreateOracleClaimFromOracleString G oracleClaimString) (\<lambda>oracleClaim.
     Inr (NewEthBridgeClaim S G ethereumChainID bridgeContract nonce (occ_Symbol oracleClaim)
       (occ_TokenContractAddress oracleClaim) ethereumAddress (occ_CosmosReceiver oracleClaim) validator
       (occ_Amount oracleClaim) (occ_ClaimType oracleClaim)))"

text \<open>The validators' claims are ranged over in the order of the argument.\<close>

definition MapOracleClaimsToEthBridgeClaims ::
    "'b sdk \<Rightarrow> int \<Rightarrow> eth_address \<Rightarrow> int \<Rightarrow> string \<Rightarrow> eth_address \<Rightarrow> eth_address \<Rightarrow> (string \<times> string) list
     \<Rightarrow> (int \<Rightarrow> eth_address \<Rightarrow> int \<Rightarrow> eth_address \<Rightarrow> address \<Rightarrow> string \<Rightarrow> eth_bridge_claim result)
     \<Rightarrow> eth_bridge_claim list result" where
  "MapOracleClaimsToEthBridgeClaims S ethereumChainID bridgeContract nonce symbol tokenContract ethereumSender
      oracleValidatorClaims f =
     map_r (\<lambda>(validatorBech32, validatorClaim).
       bind_r (wrap_err ErrInvalidAddress (ValAddressFromBech32 S validatorBech32)) (\<lambda>validatorAddress.
       f ethereumChainID bridgeContract nonce ethereumSender validatorAddress validatorClaim)) oracleValidatorClaims"

section \<open>Messages\<close>

definition NewMsgLock :: "'b sdk \<Rightarrow> geth \<Rightarrow> int \<Rightarrow> address \<Rightarrow> eth_address \<Rightarrow> int \<Rightarrow> string \<Rightarrow> int \<Rightarrow> msg_lock" where
  "NewMsgLock S G ethereumChainID cosmosSender ethereumReceiver amount symbol cethAmount =
     \<lparr>lk_CosmosSender = AccAddress_String S cosmosSender, lk_Amount = amount, lk_Symbol = symbol,
      lk_EthereumChainId = ethereumChainID, lk_EthereumReceiver = EthereumAddress_String G ethereumReceiver,
      lk_CethAmount = cethAmount\<rparr>"

definition MsgLock_ValidateBasic :: "geth \<Rightarrow> msg_lock \<Rightarrow> unit result" where
  "MsgLock_ValidateBasic G msg =
     (if itoa (lk_EthereumChainId msg) = [] then Inl ErrInvalidEthereumChainID
      else if lk_CosmosSender msg = [] then Inl ErrInvalidAddress
      else if lk_EthereumReceiver msg = [] then Inl ErrInvalidEthAddress
      else if \<not> IsHexAddress G (lk_EthereumReceiver msg) then Inl ErrInvalidEthAddress
      else if lk_Amount msg \<le> 0 then Inl ErrInvalidAmount
      else if lk_CethAmount msg < lockGasCost then Inl ErrCethAmount
      else if length (lk_Symbol msg) = 0 then Inl ErrInvalidSymbol
      else Inr ())"

definition MsgLock_GetSigners :: "'b sdk \<Rightarrow> msg_lock \<Rightarrow> address list result" where
  "MsgLock_GetSigners S msg =
     bind_r (must_r (AccAddressFromBech32 S (lk_CosmosSender msg))) (\<lambda>cosmosSender. Inr [cosmosSender])"

definition NewMsgBurn :: "'b sdk \<Rightarrow> geth \<Rightarrow> int \<Rightarrow> address \<Rightarrow> eth_address \<Rightarrow> int \<Rightarrow> string \<Rightarrow> int \<Rightarrow> msg_burn" where
  "NewMsgBurn S G ethereumChainID cosmosSender ethereumReceiver amount symbol cethAmount =
     \<lparr>bn_CosmosSender = AccAddress_String S cosmosSender, bn_Amount = amount, bn_Symbol = symbol,
      bn_EthereumChainId = ethereumChainID, bn_EthereumReceiver = EthereumAddress_String G ethereumReceiver,
      bn_CethAmount = cethAmount\<rparr>"

definition MsgBurn_ValidateBasic :: "geth \<Rightarrow> msg_burn \<Rightarrow> unit result" where
  "MsgBurn_ValidateBasic G msg =
     (if bn_EthereumChainId msg = 0 then Inl ErrInvalidEthereumChainID
      else if bn_CosmosSender msg = [] then Inl ErrInvalidAddress
      else if bn_EthereumReceiver msg = [] then Inl ErrInvalidEthAddress
      else if \<not> IsHexAddress G (bn_EthereumReceiver msg) then Inl ErrInvalidEthAddress
      else if bn_Amount msg \<le> 0 then Inl ErrInvalidAmount
      else
      let prefixLength = length PeggedCoinPrefix in
      if length (bn_Symbol msg) \<le> prefixLength + 1 then Inl ErrInvalidBurnSymbol
      else if take prefixLength (bn_Symbol msg) \<noteq> PeggedCoinPrefix then Inl ErrInvalidBurnSymbol
      else if bn_CethAmount msg < burnGasCost then Inl ErrCethAmount
      else if length (drop prefixLength (bn_Symbol msg)) = 0 then Inl ErrInvalidBurnSymbol
      else Inr ())"

definition MsgBurn_GetSigners :: "'b sdk \<Rightarrow> msg_burn \<Rightarrow> address list result" where
  "MsgBurn_GetSigners S msg =
     bind_r (must_r (AccAddressFromBech32 S (bn_CosmosSender msg))) (\<lambda>cosmosSender. Inr [cosmosSender])"

text \<open>A claim message whose claim pointer is nil panics.\<close>

definition MsgCreateEthBridgeClaim_ValidateBasic :: "geth \<Rightarrow> eth_bridge_claim option \<Rightarrow> unit result" where
  "MsgCreateEthBridgeClaim_ValidateBasic G msg =
     bind_r (deref msg) (\<lambda>c.
     if ec_CosmosReceiver c = [] then Inl ErrInvalidAddress
     else if ec_ValidatorAddress c = [] then Inl ErrInvalidAddress
     else if ec_Nonce c < 0 then Inl ErrInvalidEthNonce
     else if \<not> IsHexAddress G (ec_EthereumSender c) then Inl ErrInvalidEthAddress
     else if \<not> IsHexAddress G (ec_BridgeContractAddress c) then Inl ErrInvalidEthAddress
     else if \<not> IsHexAddress G (ec_TokenContractAddress c) then Inl ErrInvalidEthAddress
     else if ToLower (ec_Symbol c) = ''eth'' \<and>
        NewEthereumAddress G (ec_TokenContractAddress c) \<noteq> NewEthereumAddress G ''0x0000000000000000000000000000000000000000''
     then Inl ErrInvalidEthSymbol
     else Inr ())"

definition MsgCreateEthBridgeClaim_GetSigners :: "'b sdk \<Rightarrow> eth_bridge_claim option \<Rightarrow> address list result" where
  "MsgCreateEthBridgeClaim_GetSigners S msg =
     bind_r (deref msg) (\<lambda>c.
     bind_r (must_r (ValAddressFromBech32 S (ec_ValidatorAddress c))) (\<lambda>validatorAddress. Inr [validatorAddress]))"

definition NewMsgUpdateCethReceiverAccount :: "'b sdk \<Rightarrow> address \<Rightarrow> address \<Rightarrow> msg_update_ceth_receiver" where
  "NewMsgUpdateCethReceiverAccount S cosmosSender cethReceiverAccount =
     \<lparr>ur_CosmosSender = AccAddress_String S cosmosSender,
      ur_CethReceiverAccount = AccAddress_String S cethReceiverAccount\<rparr>"

definition MsgUpdateCethReceiverAccount_ValidateBasic :: "msg_update_ceth_receiver \<Rightarrow> unit result" where
  "MsgUpdateCethReceiverAccount_ValidateBasic msg =
     (if ur_CosmosSender msg = [] then Inl ErrInvalidAddress
      else if ur_CethReceiverAccount msg = [] then Inl ErrInvalidAddress
      else Inr ())"

definition MsgUpdateCethReceiverAccount_GetSigners :: "'b sdk \<Rightarrow> msg_update_ceth_receiver \<Rightarrow> address list result" where
  "MsgUpdateCethReceiverAccount_GetSigners S msg =
     bind_r (must_r (AccAddressFromBech32 S (ur_CosmosSender msg))) (\<lambda>cosmosSender. Inr [cosmosSender])"

definition NewMsgRescueCeth :: "'b sdk \<Rightarrow> address \<Rightarrow> address \<Rightarrow> int \<Rightarrow> msg_rescue_ceth" where
  "NewMsgRescueCeth S cosmosSender cosmosReceiver cethAmount =
     \<lparr>rc_CosmosSender = AccAddress_String S cosmosSender, rc_CosmosReceiver = AccAddress_String S cosmosReceiver,
      rc_CethAmount = cethAmount\<rparr>"

definition MsgRescueCeth_ValidateBasic :: "msg_rescue_ceth \<Rightarrow> unit result" where
  "MsgRescueCeth_ValidateBasic msg =
     (if rc_CosmosSender msg = [] then Inl ErrInvalidAddress
      else if rc_CosmosReceiver msg = [] then Inl ErrInvalidAddress
      else Inr ())"

definition MsgRescueCeth_GetSigners :: "'b sdk \<Rightarrow> msg_rescue_ceth \<Rightarrow> address list result" where
  "MsgRescueCeth_GetSigners S msg =
     bind_r (must_r (AccAddressFromBech32 S (rc_CosmosSender msg))) (\<lambda>cosmosSender. Inr [cosmosSender])"

definition NewMsgUpdateWhiteListValidator ::
    "'b sdk \<Rightarrow> address \<Rightarrow> address \<Rightarrow> string \<Rightarrow> msg_update_whitelist_validator" where
  "NewMsgUpdateWhiteListValidator S cosmosSender validator operationType =
     \<lparr>uw_CosmosSender = AccAddress_String S cosmosSender, uw_Validator = ValAddress_String S validator,
      uw_OperationType = operationType\<rparr>"

definition MsgUpdateWhiteListValidator_ValidateBasic :: "msg_update_whitelist_validator \<Rightarrow> unit result" where
  "MsgUpdateWhiteListValidator_ValidateBasic msg =
     (if uw_CosmosSender msg = [] then Inl ErrInvalidAddress
      else if uw_Validator msg = [] then Inl ErrInvalidAddress
      else Inr ())"

definition MsgUpdateWhiteListValidator_GetSigners :: "'b sdk \<Rightarrow> msg_update_whitelist_validator \<Rightarrow> address list result" where
  "MsgUpdateWhiteListValidator_GetSigners S msg =
     bind_r (must_r (AccAddressFromBech32 S (uw_CosmosSender msg))) (\<lambda>cosmosSender. Inr [cosmosSender])"

definition MsgSetBlacklist_ValidateBasic :: "msg_set_blacklist \<Rightarrow> unit result" where
  "MsgSetBlacklist_ValidateBasic msg = Inr ()"

definition MsgSetBlacklist_GetSigners :: "'b sdk \<Rightarrow> msg_set_blacklist \<Rightarrow> address list result" where
  "MsgSetBlacklist_GetSigners S msg = bind_r (must_r (AccAddressFromBech32 S (sb_From msg))) (\<lambda>from'. Inr [from'])"

end
