(* ===== verification/SDK_Reference.thy ===== *)
theory SDK_Reference
  imports SDK
begin

text \<open>
  A concrete SDK: 256-bit integers, decimals rounded half to even, canonical coin lists, a bank
  with one balance per address and denomination, hexadecimal addresses and the paging loop. It
  satisfies all the laws of theory \<open>SDK\<close> at once, so they do not contradict each other, and it is the
  instance on which the concrete examples of the development run.
\<close>

section \<open>Addresses\<close>

text \<open>Lower-case hexadecimal after a prefix; like bech32, an all-upper-case prefix also reads.\<close>

definition hex_val :: "char \<Rightarrow> nat" where
  "hex_val c = (let n = of_char c in if n < 58 then n - 48 else n - 87)"

fun hex_decode :: "string \<Rightarrow> string" where
  "hex_decode (a # b # s) = char_of (16 * hex_val a + hex_val b) # hex_decode s"
| "hex_decode _ = []"

definition ref_String :: "address \<Rightarrow> string" where
  "ref_String a = (if a = [] then [] else ''akh1'' @ hex_encode a)"

definition ref_FromBech32 :: "string \<Rightarrow> address result" where
  "ref_FromBech32 s =
     (let a = hex_decode (drop 4 s)
      in if (HasPrefix s ''akh1'' \<or> HasPrefix s ''AKH1'') \<and> valid_address a then Inr a
         else Inl (ErrNew ''decoding bech32 failed''))"

lemma hex_val_hex_char [simp]: "n < 16 \<Longrightarrow> hex_val (hex_char n) = n"
  by (auto simp: hex_val_def hex_char_def Let_def)

lemma of_char_less: "(of_char c :: nat) < 256"
  by (cases c) (simp add: of_char_def horner_sum_simps)

lemma hex_decode_encode [simp]: "hex_decode (hex_encode s) = s"
proof (induction s)
  case (Cons c s)
  have "(of_char c :: nat) div 16 < 16" using of_char_less [of c] by (simp add: less_mult_imp_div_less)
  moreover have "16 * (of_char c div 16) + of_char c mod 16 = (of_char c :: nat)" by simp
  ultimately show ?case using Cons by (simp add: hex_encode_def)
qed (simp add: hex_encode_def)

lemma ref_FromBech32_String: "a \<noteq> [] \<Longrightarrow> length a \<le> 255 \<Longrightarrow> ref_FromBech32 (ref_String a) = Inr a"
  by (simp add: ref_FromBech32_def ref_String_def HasPrefix_def valid_address_def)

section \<open>Numbers\<close>

definition check_255 :: "int \<Rightarrow> int option" where
  "check_255 n = (if \<bar>n\<bar> < 2 ^ 255 then Some n else None)"

definition check_dec :: "int \<Rightarrow> int option" where
  "check_dec n = (if \<bar>n\<bar> < 2 ^ 315 then Some n else None)"

lemma check_255_code [code]: "check_255 n = (if \<bar>n\<bar> < 57896044618658097711785492504343953926634992332820282019728792003956564819968 then Some n else None)"
  by (simp add: check_255_def)

lemma check_dec_code [code]: "check_dec n = (if \<bar>n\<bar> < 66749594872528440074844428317798503581334516323645399060845050244444366430645017188217565216768 then Some n else None)"
  by (simp add: check_dec_def)

lemma one_dec_code [code]: "one_dec = 1000000000000000000"
  by (simp add: one_dec_def)

text \<open>Division by a positive divisor, to the nearest integer, ties to the even one.\<close>

definition round_div :: "int \<Rightarrow> int \<Rightarrow> int" where
  "round_div a b =
     (let q = a div b; r = a mod b
      in if 2 * r < b then q else if b < 2 * r then q + 1 else if even q then q else q + 1)"

lemma round_div_near:
  assumes "0 < b"
  shows "2 * \<bar>round_div a b * b - a\<bar> \<le> b"
proof -
  define q r where "q = a div b" and "r = a mod b"
  have a: "a = q * b + r" and r: "0 \<le> r" "r < b" using assms by (simp_all add: q_def r_def)
  have *: "round_div a b = q \<and> 2 * r \<le> b \<or> round_div a b = q + 1 \<and> b \<le> 2 * r"
    by (auto simp: round_div_def Let_def q_def [symmetric] r_def [symmetric])
  have "(q + 1) * b = q * b + b" by (simp add: algebra_simps)
  with * a r show ?thesis by auto
qed

lemma round_div_exact: "0 < b \<Longrightarrow> b dvd a \<Longrightarrow> round_div a b * b = a"
  by (auto simp: round_div_def Let_def)

lemma round_div_eqI:
  assumes "0 < b" and "2 * \<bar>q * b - a\<bar> < b"
  shows "round_div a b = q"
proof -
  define R Q where "R = round_div a b * b" and "Q = q * b"
  have "2 * \<bar>R - a\<bar> \<le> b" "2 * \<bar>Q - a\<bar> < b"
    unfolding R_def Q_def by (rule round_div_near [OF assms(1)], rule assms(2))
  then have near: "2 * (R - a) \<le> b" "2 * (a - R) \<le> b" "2 * (Q - a) < b" "2 * (a - Q) < b"
    by (simp_all add: abs_if split: if_splits)
  have "\<not> q < round_div a b"
  proof
    assume "q < round_div a b"
    then have "(q + 1) * b \<le> R" unfolding R_def using assms(1) by (intro mult_right_mono) auto
    then show False using near by (simp add: distrib_right Q_def [symmetric])
  qed
  moreover have "\<not> round_div a b < q"
  proof
    assume "round_div a b < q"
    then have "(round_div a b + 1) * b \<le> Q" unfolding Q_def using assms(1) by (intro mult_right_mono) auto
    then show False using near by (simp add: distrib_right R_def [symmetric])
  qed
  ultimately show ?thesis by simp
qed

lemma yields_255 [simp]: "yields (check_255 n) n"
  by (auto simp: yields_def check_255_def)

lemma yields_dec [simp]: "yields (check_dec n) n"
proof -
  have "(2 :: int) ^ 255 \<le> 2 ^ 315" by (rule power_increasing) simp_all
  then show ?thesis by (auto simp: yields_def check_dec_def)
qed

definition ref_atoi :: "string \<Rightarrow> int option" where
  "ref_atoi s = do { n \<leftarrow> atoi s; check_255 n }"

definition ref_DecFromStr :: "string \<Rightarrow> int result" where
  "ref_DecFromStr s =
     (case do { n \<leftarrow> atoi s; check_255 (n * one_dec) } of
        None \<Rightarrow> Inl (ErrNew ''failed to set decimal string'')
      | Some d \<Rightarrow> Inr d)"

definition ref_Power :: "int \<Rightarrow> nat \<Rightarrow> int option" where
  "ref_Power a k =
     check_dec (if one_dec dvd a then (a div one_dec) ^ k * one_dec else round_div (a ^ k * one_dec) (one_dec ^ k))"

definition ref_Quo :: "int \<Rightarrow> int \<Rightarrow> int option" where
  "ref_Quo a b = (if b = 0 then None else check_dec (round_div (a * one_dec * sgn b) \<bar>b\<bar>))"

lemma one_dec_pos [simp]: "0 < one_dec"
  by (simp add: one_dec_def)

lemma ref_Power_ok: "yields (ref_Power (n * one_dec) k) (n ^ k * one_dec)"
  by (simp add: ref_Power_def)

lemma round_div_between:
  assumes "0 < b"
  shows "k * b \<le> a \<Longrightarrow> k \<le> round_div a b" and "a \<le> k * b \<Longrightarrow> round_div a b \<le> k"
proof -
  have near: "2 * \<bar>round_div a b * b - a\<bar> \<le> b" by (rule round_div_near [OF assms])
  show "k \<le> round_div a b" if "k * b \<le> a"
  proof (rule ccontr)
    assume "\<not> k \<le> round_div a b"
    then have "(round_div a b + 1) * b \<le> k * b" using assms by (intro mult_right_mono) auto
    then show False using near that assms by (simp add: algebra_simps)
  qed
  show "round_div a b \<le> k" if "a \<le> k * b"
  proof (rule ccontr)
    assume "\<not> round_div a b \<le> k"
    then have "(k + 1) * b \<le> round_div a b * b" using assms by (intro mult_right_mono) auto
    then show False using near that assms by (simp add: algebra_simps)
  qed
qed

lemma ref_Quo_ok:
  assumes "0 < b"
  shows "\<exists>c. yields (ref_Quo a b) c \<and>
             (\<forall>k. (k * b \<le> a * one_dec \<longrightarrow> k \<le> c) \<and> (a * one_dec \<le> k * b \<longrightarrow> c \<le> k))"
  using assms round_div_between(1) [OF assms, of _ "a * one_dec"] round_div_between(2) [OF assms, of "a * one_dec"]
  by (intro exI [of _ "round_div (a * one_dec) b"]) (simp add: ref_Quo_def)

section \<open>Coins\<close>

definition is_alpha :: "char \<Rightarrow> bool" where
  "is_alpha c \<longleftrightarrow> (let n = of_char c :: nat in 65 \<le> n \<and> n \<le> 90 \<or> 97 \<le> n \<and> n \<le> 122)"

definition ref_ValidateDenom :: "string \<Rightarrow> bool" where
  "ref_ValidateDenom d \<longleftrightarrow>
     3 \<le> length d \<and> length d \<le> 128 \<and> is_alpha (hd d) \<and>
     list_all (\<lambda>c. is_alpha c \<or> is_digit c \<or> c = CHR ''/'') d"

definition ref_coin_ok :: "coin \<Rightarrow> bool" where
  "ref_coin_ok c \<longleftrightarrow> ref_ValidateDenom (coin_Denom c) \<and> 0 \<le> coin_Amount c"

definition ref_NewCoin :: "string \<Rightarrow> int \<Rightarrow> coin option" where
  "ref_NewCoin d n = (if ref_ValidateDenom d \<and> 0 \<le> n then Some \<lparr>coin_Denom = d, coin_Amount = n\<rparr> else None)"

definition ref_Coin_Add :: "coin \<Rightarrow> coin \<Rightarrow> coin option" where
  "ref_Coin_Add a b =
     (if coin_Denom a = coin_Denom b then Some (a\<lparr>coin_Amount := coin_Amount a + coin_Amount b\<rparr>) else None)"

definition ref_Coin_Sub :: "coin \<Rightarrow> coin \<Rightarrow> coin option" where
  "ref_Coin_Sub a b =
     (if coin_Denom a = coin_Denom b \<and> coin_Amount b \<le> coin_Amount a
      then Some (a\<lparr>coin_Amount := coin_Amount a - coin_Amount b\<rparr>) else None)"

text \<open>The canonical form of a coin list: one coin per denomination, in order, no zero coin.\<close>

fun ref_insert :: "coin \<Rightarrow> coins \<Rightarrow> coins" where
  "ref_insert c [] = (if coin_Amount c = 0 then [] else [c])"
| "ref_insert c (d # ds) =
     (if coin_Amount c = 0 then d # ds
      else if coin_Denom c = coin_Denom d
           then (if coin_Amount c + coin_Amount d = 0 then ds
                 else d\<lparr>coin_Amount := coin_Amount c + coin_Amount d\<rparr> # ds)
      else if coin_Denom c < coin_Denom d then c # d # ds
      else d # ref_insert c ds)"

definition ref_NewCoins :: "coins \<Rightarrow> coins option" where
  "ref_NewCoins cs =
     (if list_all ref_coin_ok cs \<and> distinct (map coin_Denom (filter (\<lambda>c. coin_Amount c \<noteq> 0) cs))
      then Some (foldr ref_insert cs []) else None)"

definition ref_Coins_Add :: "coins \<Rightarrow> coins \<Rightarrow> coins option" where
  "ref_Coins_Add as bs = Some (foldr ref_insert bs as)"

definition ref_IsValid :: "coins \<Rightarrow> bool" where
  "ref_IsValid cs \<longleftrightarrow>
     list_all (\<lambda>c. ref_ValidateDenom (coin_Denom c) \<and> 0 < coin_Amount c) cs \<and>
     sorted_wrt (<) (map coin_Denom cs)"

lemma amt_ref_insert [simp]: "amt (ref_insert c ds) d = (if coin_Denom c = d then coin_Amount c else 0) + amt ds d"
  by (induction ds) (auto split: if_splits)

lemma amt_foldr_insert: "amt (foldr ref_insert cs ds) d = amt cs d + amt ds d"
  by (induction cs) auto

lemma amt_valid: "ref_IsValid cs \<Longrightarrow> 0 \<le> amt cs d"
  by (induction cs) (auto simp: ref_IsValid_def)

section \<open>The bank\<close>

record ref_state =
  ref_balance :: "address \<Rightarrow> string \<Rightarrow> int"
  ref_param :: "string \<Rightarrow> string \<Rightarrow> int"
  ref_accounts :: "address \<Rightarrow> nat option"
  ref_validators :: "validator list"

text \<open>A balance is never negative.\<close>

definition ref_bal_of :: "ref_state \<Rightarrow> address \<Rightarrow> string \<Rightarrow> int" where
  "ref_bal_of b a d = max 0 (ref_balance b a d)"

definition ref_GetBalance :: "ref_state \<Rightarrow> address \<Rightarrow> string \<Rightarrow> coin" where
  "ref_GetBalance b a d = \<lparr>coin_Denom = d, coin_Amount = ref_bal_of b a d\<rparr>"

definition ref_HasBalance :: "ref_state \<Rightarrow> address \<Rightarrow> coin \<Rightarrow> bool" where
  "ref_HasBalance b a c \<longleftrightarrow> coin_Amount c \<le> ref_bal_of b a (coin_Denom c)"

definition ref_has :: "ref_state \<Rightarrow> address \<Rightarrow> coins \<Rightarrow> bool" where
  "ref_has b a cs \<longleftrightarrow> list_all (\<lambda>c. amt cs (coin_Denom c) \<le> ref_bal_of b a (coin_Denom c)) cs"

definition ref_sub :: "ref_state \<Rightarrow> address \<Rightarrow> coins \<Rightarrow> ref_state" where
  "ref_sub b a cs = b\<lparr>ref_balance := (ref_balance b)(a := (\<lambda>d. ref_bal_of b a d - amt cs d))\<rparr>"

definition ref_add :: "ref_state \<Rightarrow> address \<Rightarrow> coins \<Rightarrow> ref_state" where
  "ref_add b a cs = b\<lparr>ref_balance := (ref_balance b)(a := (\<lambda>d. ref_bal_of b a d + amt cs d))\<rparr>"

definition ref_Send :: "ref_state \<Rightarrow> address \<Rightarrow> address \<Rightarrow> coins \<Rightarrow> ref_state result" where
  "ref_Send b f t cs =
     (if \<not> ref_IsValid cs then Inl (ErrSdk ''ErrInvalidCoins'')
      else if \<not> ref_has b f cs then Inl (ErrSdk ''ErrInsufficientFunds'')
      else Inr (ref_add (ref_sub b f cs) t cs))"

definition ref_ModuleAddress :: "string \<Rightarrow> address" where
  "ref_ModuleAddress m = ''module/'' @ m"

definition ref_Mint :: "ref_state \<Rightarrow> string \<Rightarrow> coins \<Rightarrow> ref_state result" where
  "ref_Mint b m cs =
     (if \<not> ref_IsValid cs then Inl (ErrSdk ''ErrInvalidCoins'') else Inr (ref_add b (ref_ModuleAddress m) cs))"

definition ref_Burn :: "ref_state \<Rightarrow> string \<Rightarrow> coins \<Rightarrow> ref_state result" where
  "ref_Burn b m cs =
     (if \<not> ref_IsValid cs then Inl (ErrSdk ''ErrInvalidCoins'')
      else if \<not> ref_has b (ref_ModuleAddress m) cs then Inl (ErrSdk ''ErrInsufficientFunds'')
      else Inr (ref_sub b (ref_ModuleAddress m) cs))"

lemma amt_absent: "d \<notin> coin_Denom ` set cs \<Longrightarrow> amt cs d = 0"
  by (induction cs) auto

lemma ref_has_amt: "ref_has b a cs \<Longrightarrow> amt cs d \<le> ref_bal_of b a d"
  by (cases "d \<in> coin_Denom ` set cs") (auto simp: ref_has_def list_all_iff amt_absent, simp add: ref_bal_of_def)

lemma ref_Send_moves:
  assumes "ref_Send b f t cs = Inr b'"
  shows "ref_bal_of b' a d =
           ref_bal_of b a d - (if a = f then amt cs d else 0) + (if a = t then amt cs d else 0)"
    and "0 \<le> amt cs d" and "amt cs d \<le> ref_bal_of b f d"
proof -
  have v: "ref_IsValid cs" and h: "ref_has b f cs" and b': "b' = ref_add (ref_sub b f cs) t cs"
    using assms by (auto simp: ref_Send_def split: if_splits)
  show "0 \<le> amt cs d" using v by (rule amt_valid)
  show "amt cs d \<le> ref_bal_of b f d" using h by (rule ref_has_amt)
  with amt_valid [OF v, of d]
  show "ref_bal_of b' a d =
          ref_bal_of b a d - (if a = f then amt cs d else 0) + (if a = t then amt cs d else 0)"
    by (auto simp: b' ref_add_def ref_sub_def ref_bal_of_def)
qed

section \<open>Paging\<close>

text \<open>
  The loop of \<^verbatim>\<open>query.FilteredPaginate\<close> from an offset up to \<open>en\<close> hits; it stops one hit after the
  page unless the total is asked for.
\<close>

fun ref_page_loop :: "nat \<Rightarrow> nat \<Rightarrow> bool \<Rightarrow> nat \<Rightarrow> string \<Rightarrow> (string \<times> bool result) list
    \<Rightarrow> (bool list \<times> page_response) result" where
  "ref_page_loop off en tot hits nk [] = Inr ([], \<lparr>page_NextKey = nk, page_Total = (if tot then hits else 0)\<rparr>)"
| "ref_page_loop off en tot hits nk ((k, r) # es) =
     bind_r r (\<lambda>hit.
       let hits' = (if hit then hits + 1 else hits); full = (hit \<and> hits' = en + 1);
           nk' = (if full \<and> nk = [] then k else nk)
       in bind_r (if full \<and> \<not> tot then ref_page_loop off en tot hits' nk' [] else ref_page_loop off en tot hits' nk' es)
            (\<lambda>(fs, resp). Inr ((hit \<and> off \<le> hits \<and> hits < en) # fs, resp)))"

definition ref_FilteredPaginate :: "page_request option \<Rightarrow> (string \<times> bool result) list
    \<Rightarrow> (bool list \<times> page_response) result" where
  "ref_FilteredPaginate req es =
     (case req of
        None \<Rightarrow> ref_page_loop 0 100 True 0 [] es
      | Some r \<Rightarrow>
          if 0 < page_Offset r \<and> page_Key r \<noteq> [] then Inl (ErrNew ''either offset or key is expected, got both'')
          else let lim = (if page_Limit r = 0 then 100 else page_Limit r);
                   tot = (page_CountTotal r \<or> page_Limit r = 0)
               in if page_Key r \<noteq> []
                  then (case ref_page_loop 0 lim False 0 [] (dropWhile (\<lambda>e. fst e < page_Key r) es) of
                          Inl e \<Rightarrow> Inl e
                        | Inr (fs, resp) \<Rightarrow> Inr (map (\<lambda>_. False) (takeWhile (\<lambda>e. fst e < page_Key r) es) @ fs, resp))
                  else ref_page_loop (page_Offset r) (page_Offset r + lim) tot 0 [] es)"

definition ref_Paginate :: "page_request option \<Rightarrow> (string \<times> unit result) list
    \<Rightarrow> (bool list \<times> page_response) result" where
  "ref_Paginate req es = ref_FilteredPaginate req (map (\<lambda>(k, r). (k, bind_r r (\<lambda>_. Inr True))) es)"

lemma ref_page_loop_all:
  "hits + length es \<le> en \<Longrightarrow>
   \<exists>resp. ref_page_loop 0 en tot hits nk (map (\<lambda>(k, hit). (k, Inr hit)) es) = Inr (map snd es, resp)"
proof (induction es arbitrary: hits nk)
  case (Cons e es)
  obtain k h where e: "e = (k, h)" by (cases e)
  have "(if h then hits + 1 else hits) + length es \<le> en" using Cons.prems by simp
  from Cons.IH [OF this, of nk]
  obtain resp where "ref_page_loop 0 en tot (if h then hits + 1 else hits) nk (map (\<lambda>(k, hit). (k, Inr hit)) es) =
    Inr (map snd es, resp)" by blast
  with Cons.prems e show ?case by (cases h) (auto simp: Let_def)
qed simp

lemma ref_FilteredPaginate_all:
  assumes "page_Key r = []" and "page_Offset r = 0" and "length es \<le> page_Limit r"
  shows "\<exists>resp. ref_FilteredPaginate (Some r) (map (\<lambda>(k, hit). (k, Inr hit)) es) = Inr (map snd es, resp)"
  using assms by (auto simp: ref_FilteredPaginate_def Let_def intro!: ref_page_loop_all)

lemma ref_Paginate_all:
  assumes "page_Key r = []" and "page_Offset r = 0" and "length es \<le> page_Limit r"
  shows "\<exists>resp. ref_Paginate (Some r) (map (\<lambda>k. (k, Inr ())) es) = Inr (map (\<lambda>_. True) es, resp)"
  using ref_FilteredPaginate_all [of r "map (\<lambda>k. (k, True)) es"] assms
  by (simp add: ref_Paginate_def comp_def)


section \<open>Printing\<close>

text \<open>Field names and values, messages in braces.\<close>

fun ref_text :: "proto \<Rightarrow> string" where
  "ref_text PNil = ''nil''"
| "ref_text (PString s) = [CHR 0x22] @ s @ [CHR 0x22]"
| "ref_text (PInt n) = itoa n"
| "ref_text (PList ps) = ''['' @ concat (map (\<lambda>p. ref_text p @ '','') ps) @ '']''"
| "ref_text (PMsg fs) = ''{'' @ concat (map (\<lambda>f. fst f @ '':'' @ ref_text (snd f) @ '','') fs) @ ''}''"

section \<open>Maps as text\<close>

text \<open>Strings in hexadecimal, lists and entries ended by a separator that is no hexadecimal digit.\<close>

fun split_end :: "char \<Rightarrow> string \<Rightarrow> string \<Rightarrow> string list" where
  "split_end sep acc [] = []"
| "split_end sep acc (c # cs) = (if c = sep then acc # split_end sep [] cs else split_end sep (acc @ [c]) cs)"

definition ref_print_list :: "string list \<Rightarrow> string" where
  "ref_print_list xs = concat (map (\<lambda>x. hex_encode x @ '','') xs)"

definition ref_read_list :: "string \<Rightarrow> string list" where
  "ref_read_list s = map hex_decode (split_end (CHR '','') [] s)"

definition ref_print_map :: "('v \<Rightarrow> string) \<Rightarrow> 'v kv \<Rightarrow> string" where
  "ref_print_map p m = concat (map (\<lambda>(k, v). (hex_encode k @ '':'' @ p v) @ '';'') m)"

definition ref_read_entry :: "(string \<Rightarrow> 'v) \<Rightarrow> string \<Rightarrow> string \<times> 'v" where
  "ref_read_entry r s = (hex_decode (takeWhile (\<lambda>c. c \<noteq> CHR '':'') s), r (tl (dropWhile (\<lambda>c. c \<noteq> CHR '':'') s)))"

definition ref_read_map :: "(string \<Rightarrow> 'v) \<Rightarrow> string \<Rightarrow> 'v kv" where
  "ref_read_map r s = map (ref_read_entry r) (split_end (CHR '';'') [] s)"

lemma split_end_step: "sep \<notin> set x \<Longrightarrow> split_end sep acc (x @ sep # s) = (acc @ x) # split_end sep [] s"
  by (induction x arbitrary: acc) auto

lemma split_end_concat: "(\<And>x. x \<in> set xs \<Longrightarrow> sep \<notin> set x) \<Longrightarrow> split_end sep [] (concat (map (\<lambda>x. x @ [sep]) xs)) = xs"
  by (induction xs) (auto simp: split_end_step)

lemma hex_char_ord: "n < 16 \<Longrightarrow> of_char (hex_char n) \<notin> {44 :: nat, 58, 59} \<and> of_char (hex_char n) < (128 :: nat)"
  by (auto simp: hex_char_def)

lemma hex_encode_chars: "{CHR '','', CHR '':'', CHR '';''} \<inter> set (hex_encode s) = {}"
proof -
  have "c \<notin> {CHR '','', CHR '':'', CHR '';''}" if "c = hex_char n" "n < 16" for c n
    using hex_char_ord [OF that(2)] that(1) by auto
  moreover have "of_char d div 16 < (16 :: nat)" "of_char d mod 16 < (16 :: nat)" for d
    using of_char_less [of d] by (auto intro: less_mult_imp_div_less)
  ultimately show ?thesis by (fastforce simp: hex_encode_def)
qed

lemma ref_read_print_list [simp]: "ref_read_list (ref_print_list xs) = xs"
proof -
  have "split_end (CHR '','') [] (concat (map (\<lambda>x. x @ '','') (map hex_encode xs))) = map hex_encode xs"
    using hex_encode_chars by (intro split_end_concat) auto
  then show ?thesis by (simp add: ref_read_list_def ref_print_list_def comp_def)
qed

lemma ref_print_list_chars: "{CHR '':'', CHR '';''} \<inter> set (ref_print_list xs) = {}"
  using hex_encode_chars by (auto simp: ref_print_list_def)

lemma ref_read_print_entry:
  "r (p v) = v \<Longrightarrow> ref_read_entry r (hex_encode k @ '':'' @ p v) = (k, v)"
proof -
  have c: "c \<noteq> CHR '':''" if "c \<in> set (hex_encode k)" for c using hex_encode_chars [of k] that by blast
  show "r (p v) = v \<Longrightarrow> ref_read_entry r (hex_encode k @ '':'' @ p v) = (k, v)"
    by (simp add: ref_read_entry_def takeWhile_append2 [OF c] dropWhile_append2 [OF c])
qed

lemma ref_read_print_map:
  assumes "\<And>v. r (p v) = v" and "\<And>v. CHR '';'' \<notin> set (p v)"
  shows "ref_read_map r (ref_print_map p m) = m"
proof -
  have "split_end (CHR '';'') [] (concat (map (\<lambda>x. x @ '';'') (map (\<lambda>(k, v). hex_encode k @ '':'' @ p v) m))) =
      map (\<lambda>(k, v). hex_encode k @ '':'' @ p v) m"
    using hex_encode_chars assms(2) by (intro split_end_concat) fastforce
  moreover have "ref_print_map p m = concat (map (\<lambda>x. x @ '';'') (map (\<lambda>(k, v). hex_encode k @ '':'' @ p v) m))"
    by (simp add: ref_print_map_def comp_def case_prod_unfold)
  ultimately show ?thesis using ref_read_print_entry [of r p] assms(1)
    by (simp add: ref_read_map_def comp_def case_prod_unfold)
qed

section \<open>The instance\<close>

definition ref_sdk :: "ref_state sdk" where
  "ref_sdk = \<lparr>
     AccAddressFromBech32 = ref_FromBech32,
     AccAddress_String = ref_String,
     ValAddressFromBech32 = ref_FromBech32,
     ValAddress_String = ref_String,
     NewModuleAddress = ref_ModuleAddress,
     Uint_Add = (\<lambda>a b. check_uint (a + b)),
     Uint_Sub = (\<lambda>a b. check_uint (a - b)),
     Uint_Mul = (\<lambda>a b. check_uint (a * b)),
     Uint_Quo = (\<lambda>a b. if b = 0 then None else check_uint (a div b)),
     NewUintFromBigInt = check_uint,
     NewUintFromString = (\<lambda>s. do { n \<leftarrow> atoi s; check_uint n }),
     Int_Add = (\<lambda>a b. check_255 (a + b)),
     Int_Sub = (\<lambda>a b. check_255 (a - b)),
     Int_Mul = (\<lambda>a b. check_255 (a * b)),
     NewIntFromString = ref_atoi,
     NewIntFromBigInt = check_255,
     NewDec = (\<lambda>n. n * one_dec),
     NewDecFromStr = ref_DecFromStr,
     NewDecFromBigInt = (\<lambda>n. n * one_dec),
     NewDecFromInt = (\<lambda>n. n * one_dec),
     Dec_Add = (\<lambda>a b. check_dec (a + b)),
     Dec_Sub = (\<lambda>a b. check_dec (a - b)),
     Dec_Mul = (\<lambda>a b. check_dec (round_div (a * b) one_dec)),
     Dec_Quo = ref_Quo,
     Dec_MulTruncate = (\<lambda>a b. check_dec (sgn (a * b) * (\<bar>a * b\<bar> div one_dec))),
     Dec_QuoTruncate = (\<lambda>a b. if b = 0 then None else check_dec (sgn a * sgn b * (\<bar>a\<bar> * one_dec div \<bar>b\<bar>))),
     Dec_Power = ref_Power,
     Dec_RoundInt = (\<lambda>a. check_255 (round_div a one_dec)),
     Dec_TruncateInt = (\<lambda>a. check_255 (sgn a * (\<bar>a\<bar> div one_dec))),
     ValidateDenom = ref_ValidateDenom,
     NewCoin = ref_NewCoin,
     Coin_Add = ref_Coin_Add,
     Coin_Sub = ref_Coin_Sub,
     Coin_IsValid = ref_coin_ok,
     NewCoins = ref_NewCoins,
     Coins_Add = ref_Coins_Add,
     Coins_IsValid = ref_IsValid,
     Coins_IsAllPositive = (\<lambda>cs. cs \<noteq> [] \<and> list_all (\<lambda>c. 0 < coin_Amount c) cs),
     Coins_Sort = sort_key coin_Denom,
     Coins_String = (\<lambda>cs. concat (map (\<lambda>c. itoa (coin_Amount c) @ coin_Denom c @ '','') cs)),
     CompactTextString = ref_text,
     MarshalJSON = (\<lambda>p. Inr (ref_text p)),
     TimestampProto = (\<lambda>t. if -62135596800000000000 \<le> t \<and> t < 253402300800000000000 then Inr t else Inl (ErrNew ''timestamp'')),
     Timestamp_String = itoa,
     MarshalAddrsMap = (\<lambda>m. Inr (ref_print_map ref_print_list m)),
     UnmarshalAddrsMap = (\<lambda>s. Inr (ref_read_map ref_read_list s)),
     MarshalStringMap = (\<lambda>m. Inr (ref_print_map hex_encode m)),
     UnmarshalStringMap = (\<lambda>s. Inr (ref_read_map hex_decode s)),
     Paginate = ref_Paginate,
     FilteredPaginate = ref_FilteredPaginate,
     GetBalance = ref_GetBalance,
     HasBalance = ref_HasBalance,
     SendCoins = ref_Send,
     SendCoinsFromAccountToModule = (\<lambda>b f m cs. ref_Send b f (ref_ModuleAddress m) cs),
     SendCoinsFromModuleToAccount = (\<lambda>b m t cs. ref_Send b (ref_ModuleAddress m) t cs),
     FailedSend = (\<lambda>b m t cs. b),
     MintCoins = ref_Mint,
     BurnCoins = ref_Burn,
     GetAccount = ref_accounts,
     GetValidator = (\<lambda>b a. List.find (\<lambda>v. GetOperator v = Inr a) (ref_validators b)),
     GetBondedValidatorsByPower = (\<lambda>b. filter IsBonded (ref_validators b)),
     ParamGet = ref_param,
     ParamSet = (\<lambda>b s k n. b\<lparr>ref_param := (ref_param b)(s := (ref_param b s)(k := n))\<rparr>)\<rparr>"

lemma ref_sdk_sel [simp]:
  "AccAddressFromBech32 ref_sdk = ref_FromBech32"
  "AccAddress_String ref_sdk = ref_String"
  "ValAddressFromBech32 ref_sdk = ref_FromBech32"
  "ValAddress_String ref_sdk = ref_String"
  "NewModuleAddress ref_sdk = ref_ModuleAddress"
  "Uint_Add ref_sdk = (\<lambda>a b. check_uint (a + b))"
  "Uint_Sub ref_sdk = (\<lambda>a b. check_uint (a - b))"
  "Uint_Mul ref_sdk = (\<lambda>a b. check_uint (a * b))"
  "Uint_Quo ref_sdk = (\<lambda>a b. if b = 0 then None else check_uint (a div b))"
  "NewUintFromBigInt ref_sdk = check_uint"
  "NewUintFromString ref_sdk = (\<lambda>s. do { n \<leftarrow> atoi s; check_uint n })"
  "Int_Add ref_sdk = (\<lambda>a b. check_255 (a + b))"
  "Int_Sub ref_sdk = (\<lambda>a b. check_255 (a - b))"
  "Int_Mul ref_sdk = (\<lambda>a b. check_255 (a * b))"
  "NewIntFromString ref_sdk = ref_atoi"
  "NewIntFromBigInt ref_sdk = check_255"
  "NewDec ref_sdk = (\<lambda>n. n * one_dec)"
  "NewDecFromStr ref_sdk = ref_DecFromStr"
  "NewDecFromBigInt ref_sdk = (\<lambda>n. n * one_dec)"
  "NewDecFromInt ref_sdk = (\<lambda>n. n * one_dec)"
  "Dec_Add ref_sdk = (\<lambda>a b. check_dec (a + b))"
  "Dec_Sub ref_sdk = (\<lambda>a b. check_dec (a - b))"
  "Dec_Mul ref_sdk = (\<lambda>a b. check_dec (round_div (a * b) one_dec))"
  "Dec_Quo ref_sdk = ref_Quo"
  "Dec_MulTruncate ref_sdk = (\<lambda>a b. check_dec (sgn (a * b) * (\<bar>a * b\<bar> div one_dec)))"
  "Dec_QuoTruncate ref_sdk = (\<lambda>a b. if b = 0 then None else check_dec (sgn a * sgn b * (\<bar>a\<bar> * one_dec div \<bar>b\<bar>)))"
  "Dec_Power ref_sdk = ref_Power"
  "Dec_RoundInt ref_sdk = (\<lambda>a. check_255 (round_div a one_dec))"
  "Dec_TruncateInt ref_sdk = (\<lambda>a. check_255 (sgn a * (\<bar>a\<bar> div one_dec)))"
  "ValidateDenom ref_sdk = ref_ValidateDenom"
  "NewCoin ref_sdk = ref_NewCoin"
  "Coin_Add ref_sdk = ref_Coin_Add"
  "Coin_Sub ref_sdk = ref_Coin_Sub"
  "Coin_IsValid ref_sdk = ref_coin_ok"
  "NewCoins ref_sdk = ref_NewCoins"
  "Coins_Add ref_sdk = ref_Coins_Add"
  "Coins_IsValid ref_sdk = ref_IsValid"
  "Coins_IsAllPositive ref_sdk = (\<lambda>cs. cs \<noteq> [] \<and> list_all (\<lambda>c. 0 < coin_Amount c) cs)"
  "Coins_Sort ref_sdk = sort_key coin_Denom"
  "Coins_String ref_sdk = (\<lambda>cs. concat (map (\<lambda>c. itoa (coin_Amount c) @ coin_Denom c @ '','') cs))"
  "CompactTextString ref_sdk = ref_text"
  "MarshalJSON ref_sdk = (\<lambda>p. Inr (ref_text p))"
  "TimestampProto ref_sdk = (\<lambda>t. if -62135596800000000000 \<le> t \<and> t < 253402300800000000000 then Inr t else Inl (ErrNew ''timestamp''))"
  "Timestamp_String ref_sdk = itoa"
  "MarshalAddrsMap ref_sdk = (\<lambda>m. Inr (ref_print_map ref_print_list m))"
  "UnmarshalAddrsMap ref_sdk = (\<lambda>s. Inr (ref_read_map ref_read_list s))"
  "MarshalStringMap ref_sdk = (\<lambda>m. Inr (ref_print_map hex_encode m))"
  "UnmarshalStringMap ref_sdk = (\<lambda>s. Inr (ref_read_map hex_decode s))"
  "Paginate ref_sdk = ref_Paginate"
  "FilteredPaginate ref_sdk = ref_FilteredPaginate"
  "GetBalance ref_sdk = ref_GetBalance"
  "HasBalance ref_sdk = ref_HasBalance"
  "SendCoins ref_sdk = ref_Send"
  "SendCoinsFromAccountToModule ref_sdk = (\<lambda>b f m cs. ref_Send b f (ref_ModuleAddress m) cs)"
  "SendCoinsFromModuleToAccount ref_sdk = (\<lambda>b m t cs. ref_Send b (ref_ModuleAddress m) t cs)"
  "FailedSend ref_sdk = (\<lambda>b m t cs. b)"
  "MintCoins ref_sdk = ref_Mint"
  "BurnCoins ref_sdk = ref_Burn"
  "GetAccount ref_sdk = ref_accounts"
  "GetValidator ref_sdk = (\<lambda>b a. List.find (\<lambda>v. GetOperator v = Inr a) (ref_validators b))"
  "GetBondedValidatorsByPower ref_sdk = (\<lambda>b. filter IsBonded (ref_validators b))"
  "ParamGet ref_sdk = ref_param"
  "ParamSet ref_sdk = (\<lambda>b s k n. b\<lparr>ref_param := (ref_param b)(s := (ref_param b s)(k := n))\<rparr>)"
  by (simp_all add: ref_sdk_def)

lemma ref_uint_laws: "uint_laws ref_sdk"
  by (simp add: uint_laws_def)

lemma ref_int_laws: "int_laws ref_sdk"
  by (simp add: int_laws_def ref_atoi_def)

lemma ref_dec_laws: "dec_laws ref_sdk"
proof -
  have mul: "\<exists>c. yields (check_dec (round_div (a * b) one_dec)) c \<and> 2 * \<bar>c * one_dec - a * b\<bar> \<le> one_dec" for a b
    using round_div_near [of one_dec "a * b"] by (intro exI [of _ "round_div (a * b) one_dec"]) simp
  have rnd: "\<exists>n. yields (check_255 (round_div a one_dec)) n \<and> 2 * \<bar>n * one_dec - a\<bar> \<le> one_dec" for a
    using round_div_near [of one_dec a] by (intro exI [of _ "round_div a one_dec"]) simp
  have trunc: "yields (check_255 (sgn a * (\<bar>a\<bar> div one_dec))) (a div one_dec)" if "0 \<le> a" for a
    using that by (cases "a = 0") simp_all
  have quotr: "yields (check_dec (sgn a * sgn b * (\<bar>a\<bar> * one_dec div \<bar>b\<bar>))) (a * one_dec div b)"
    if "0 \<le> a" "0 < b" for a b
    using that by (cases "a = 0") simp_all
  have str: "ref_DecFromStr (itoa n) = Inr d \<Longrightarrow> d = n * one_dec"
    "\<bar>n * one_dec\<bar> < 2 ^ 255 \<Longrightarrow> ref_DecFromStr (itoa n) = Inr (n * one_dec)" for n d
    by (auto simp: ref_DecFromStr_def check_255_def split: if_splits)
  show ?thesis
    unfolding dec_laws_def ref_sdk_sel
    by (intro conjI allI impI; (rule mul | rule rnd | rule ref_Power_ok | (erule ref_Quo_ok) | (erule trunc)
        | (erule str(1)) | (erule str(2)) | (subst if_not_P, simp, erule quotr, assumption) | simp add: ref_Quo_def))
qed

lemma ref_coin_laws: "coin_laws ref_sdk"
  by (auto simp: coin_laws_def ref_NewCoin_def ref_coin_ok_def ref_Coin_Add_def ref_Coin_Sub_def
      ref_NewCoins_def ref_Coins_Add_def amt_foldr_insert split: if_splits)

lemma ref_bal: "bal ref_sdk b a d = ref_bal_of b a d"
  by (simp add: bal_def ref_GetBalance_def)

lemma ref_moves: "ref_Send b f t cs = Inr b' \<Longrightarrow> moves ref_sdk b b' f t cs"
  unfolding moves_def ref_bal by (blast intro: ref_Send_moves)

lemma ref_bank_laws: "bank_laws ref_sdk"
proof -
  have "HasBalance ref_sdk b a c \<longleftrightarrow> coin_Amount c \<le> bal ref_sdk b a (coin_Denom c)" for b a c
    by (simp add: ref_HasBalance_def ref_bal)
  moreover have "(\<forall>a d. bal ref_sdk b' a d = bal ref_sdk b a d + (if a = NewModuleAddress ref_sdk m then amt cs d else 0)) \<and>
      (\<forall>d. 0 \<le> amt cs d)" if "ref_Mint b m cs = Inr b'" for b m cs b'
    using that amt_valid [of cs] by (auto simp: ref_Mint_def ref_add_def ref_bal ref_bal_of_def split: if_splits)
  moreover have "(\<forall>a d. bal ref_sdk b' a d = bal ref_sdk b a d - (if a = NewModuleAddress ref_sdk m then amt cs d else 0)) \<and>
      (\<forall>d. 0 \<le> amt cs d \<and> amt cs d \<le> bal ref_sdk b (NewModuleAddress ref_sdk m) d)"
    if "ref_Burn b m cs = Inr b'" for b m cs b'
    using that amt_valid [of cs] ref_has_amt [of b "ref_ModuleAddress m" cs]
    by (auto simp: ref_Burn_def ref_sub_def ref_bal ref_bal_of_def split: if_splits)
  ultimately show ?thesis unfolding bank_laws_def by (simp add: ref_moves)
qed

lemma ref_addr_laws: "addr_laws ref_sdk"
proof -
  have "of_char d div 16 < (16 :: nat)" "of_char d mod 16 < (16 :: nat)" for d
    using of_char_less [of d] by (auto intro: less_mult_imp_div_less)
  then have "c \<in> set (hex_encode a) \<Longrightarrow> of_char c < (128 :: nat)" for a c
    using hex_char_ord by (auto simp: hex_encode_def)
  then have "list_all (\<lambda>c. of_char c < (128 :: nat)) (ref_String a)" for a
    by (auto simp: ref_String_def list_all_iff)
  moreover have "ref_FromBech32 s = Inr a \<Longrightarrow> valid_address a" and "ref_FromBech32 [] \<noteq> Inr a" for s a
    by (auto simp: ref_FromBech32_def Let_def HasPrefix_def split: if_splits)
  ultimately show ?thesis
    by (auto simp: addr_laws_def ref_FromBech32_String valid_address_def) (simp_all add: ref_String_def)
qed

lemma ref_valid_coins_laws: "valid_coins_laws ref_sdk"
proof -
  have "amt (insort_key coin_Denom c cs) d = (if coin_Denom c = d then coin_Amount c else 0) + amt cs d" for c cs d
    by (induction cs) auto
  then have "amt (sort_key coin_Denom cs) d = amt cs d" for cs d
    by (induction cs) auto
  then show ?thesis by (simp add: valid_coins_laws_def amt_valid)
qed

lemma ref_failed_send_laws: "failed_send_laws ref_sdk"
  by (simp add: failed_send_laws_def)

lemma ref_mul_truncate_laws: "mul_truncate_laws ref_sdk"
proof -
  have "yields (check_dec (sgn (a * b) * (\<bar>a * b\<bar> div one_dec))) (a * b div one_dec)" if "0 \<le> a" "0 \<le> b" for a b
    using that by (cases "a * b = 0") (auto simp: sgn_if zero_less_mult_iff)
  then show ?thesis by (simp add: mul_truncate_laws_def)
qed

lemma ref_json_map_laws: "json_map_laws ref_sdk"
proof -
  have "ref_read_map ref_read_list (ref_print_map ref_print_list m) = m" for m
    using ref_print_list_chars by (intro ref_read_print_map) auto
  moreover have "ref_read_map hex_decode (ref_print_map hex_encode m) = m" for m
    using hex_encode_chars by (intro ref_read_print_map) auto
  ultimately show ?thesis by (simp add: json_map_laws_def)
qed

lemma ref_page_laws: "page_laws ref_sdk"
  by (auto simp: page_laws_def intro: ref_FilteredPaginate_all ref_Paginate_all)

end
