(* ===== verification/Ctx.thy ===== *)
theory Ctx
  imports TokenRegistry_Types CLP_Types Dispensation_Types EthBridge_Types SDK_Reference
begin

text \<open>
  \<^verbatim>\<open>sdk.Context\<close>: one key-value store per module of the repository, the state of the SDK's own
  modules, the height and time of the block, and the events emitted so far by the modules of the repository.
\<close>

record 'b ctx =
  tr_kv :: "tr_value kv"
  clp_kv :: "clp_value kv"
  disp_kv :: "disp_value kv"
  oracle_kv :: "oracle_value kv"
  eth_kv :: "eth_value kv"
  sdk_state :: 'b
  BlockHeight :: int
  BlockTime :: int
  Events :: "event list"

definition EmitEvents :: "event list \<Rightarrow> 'b ctx \<Rightarrow> 'b ctx" where
  "EmitEvents es ctx = ctx\<lparr>Events := Events ctx @ es\<rparr>"

lemma EmitEvents_sel [simp]:
  "tr_kv (EmitEvents es ctx) = tr_kv ctx" "clp_kv (EmitEvents es ctx) = clp_kv ctx"
  "disp_kv (EmitEvents es ctx) = disp_kv ctx" "oracle_kv (EmitEvents es ctx) = oracle_kv ctx"
  "eth_kv (EmitEvents es ctx) = eth_kv ctx" "BlockTime (EmitEvents es ctx) = BlockTime ctx"
  "sdk_state (EmitEvents es ctx) = sdk_state ctx" "BlockHeight (EmitEvents es ctx) = BlockHeight ctx"
  "Events (EmitEvents es ctx) = Events ctx @ es"
  by (simp_all add: EmitEvents_def)

text \<open>Running a call of the bank on the context: its new state replaces the old one.\<close>

definition with_bank :: "'b ctx \<Rightarrow> 'b result \<Rightarrow> 'b ctx result" where
  "with_bank ctx r = bind_r r (\<lambda>b. Inr (ctx\<lparr>sdk_state := b\<rparr>))"

lemma with_bank_Inr [simp]:
  "with_bank ctx r = Inr ctx' \<longleftrightarrow> (\<exists>b. r = Inr b \<and> ctx' = ctx\<lparr>sdk_state := b\<rparr>)"
  by (auto simp: with_bank_def)

text \<open>The context of a chain before genesis, over the reference SDK with no coins.\<close>

definition ref_ctx :: "ref_state ctx" where
  "ref_ctx = \<lparr>tr_kv = [], clp_kv = [], disp_kv = [], oracle_kv = [], eth_kv = [],
     sdk_state = \<lparr>ref_balance = (\<lambda>_ _. 0), ref_param = (\<lambda>_ _. 0), ref_accounts = (\<lambda>_. Some 0),
       ref_validators = []\<rparr>, BlockHeight = 0, BlockTime = 0, Events = []\<rparr>"

text \<open>The event every handler ends with.\<close>

definition message_event :: "string \<Rightarrow> string \<Rightarrow> event" where
  "message_event module sender = (''message'', [(''module'', module), (''sender'', sender)])"

end
