(* ===== verification/CLP_Math.thy ===== *)
theory CLP_Math
  imports Ctx
begin

text \<open>
  The arithmetic of the liquidity pools (\<^verbatim>\<open>x/clp/keeper/calculations.go\<close>,
  \<^verbatim>\<open>pureCalculation.go\<close>): swap results, fees, pool units and withdrawals. Everything is computed
  with the SDK's integers and decimals; \<open>None\<close> is a panic of one of their operations.
\<close>

section \<open>Precision\<close>

definition ValidateZero :: "int list \<Rightarrow> bool" where
  "ValidateZero inputs = list_all (\<lambda>v. v \<noteq> 0) inputs"

definition ReducePrecision :: "'b sdk \<Rightarrow> int \<Rightarrow> int \<Rightarrow> int option" where
  "ReducePrecision S dec po = do { p \<leftarrow> Dec_Power S (NewDec S 10) (nat po); Dec_Quo S dec p }"

definition IncreasePrecision :: "'b sdk \<Rightarrow> int \<Rightarrow> int \<Rightarrow> int option" where
  "IncreasePrecision S dec po = do { p \<leftarrow> Dec_Power S (NewDec S 10) (nat po); Dec_Mul S dec p }"

text \<open>
  The number of decimal digits to drop before computing. The loop keeps the least and the greatest
  number of digits of the inputs, starting from \<^verbatim>\<open>math.MaxInt64\<close> and 1.
\<close>

definition len_step :: "int \<times> int \<Rightarrow> int \<Rightarrow> int \<times> int" where
  "len_step mm val =
     (let currentLen = int (length (itoa val))
      in (if currentLen < fst mm then currentLen else fst mm,
          if snd mm < currentLen then currentLen else snd mm))"

definition GetMinLen :: "int list \<Rightarrow> int" where
  "GetMinLen inputs =
     (let (minLen, maxInputLen) = foldl len_step (9223372036854775807, 1) inputs
      in if minLen \<le> 6 then 6
         else if 27 \<le> maxInputLen \<and> maxInputLen - 27 < minLen
              then (if maxInputLen - 27 \<le> 6 then 6 else maxInputLen - 27)
         else minLen - 1)"

definition GetNormalizationFactor :: "'b sdk \<Rightarrow> int \<Rightarrow> (int \<times> bool) option" where
  "GetNormalizationFactor S decimals =
     (if decimals \<noteq> 18
      then let adjustExternalToken = (decimals < 18);
               diffFactor = (if decimals < 18 then 18 - decimals else decimals - 18)
           in do { nf \<leftarrow> Dec_Power S (NewDec S 10) (nat diffFactor); Some (nf, adjustExternalToken) }
      else Some (NewDec S 1, False))"

section \<open>Swaps\<close>

definition SetInputs :: "int \<Rightarrow> asset \<Rightarrow> pool \<Rightarrow> int \<times> int \<times> int \<times> bool" where
  "SetInputs sentAmount to pool =
     (if to = GetSettlementAsset
      then (ExternalAssetBalance pool, sentAmount, NativeAssetBalance pool, True)
      else (NativeAssetBalance pool, sentAmount, ExternalAssetBalance pool, False))"

text \<open>The scaling to 18 decimals that fee and result share.\<close>

definition scale_inputs :: "'b sdk \<Rightarrow> bool \<Rightarrow> int \<Rightarrow> bool \<Rightarrow> int \<Rightarrow> int \<Rightarrow> int \<Rightarrow> (int \<times> int \<times> int) option" where
  "scale_inputs S toRowan normalizationFactor adjustExternalToken X x Y =
     do { r \<leftarrow> Dec_RoundInt S normalizationFactor;
          nf \<leftarrow> NewUintFromBigInt S r;
          (if adjustExternalToken
           then if toRowan then do { X \<leftarrow> Uint_Mul S X nf; x \<leftarrow> Uint_Mul S x nf; Some (X, x, Y) }
                else do { Y \<leftarrow> Uint_Mul S Y nf; Some (X, x, Y) }
           else if toRowan then do { Y \<leftarrow> Uint_Mul S Y nf; Some (X, x, Y) }
                else do { X \<leftarrow> Uint_Mul S X nf; x \<leftarrow> Uint_Mul S x nf; Some (X, x, Y) }) }"

text \<open>The last steps: back to full precision, back to the token's decimals, rounded.\<close>

definition unscale_result :: "'b sdk \<Rightarrow> bool \<Rightarrow> int \<Rightarrow> int \<Rightarrow> int \<Rightarrow> int option" where
  "unscale_result S toRowan normalizationFactor minLen y =
     do { y \<leftarrow> IncreasePrecision S y minLen;
          y \<leftarrow> (if \<not> toRowan then Dec_Quo S y normalizationFactor else Some y);
          r \<leftarrow> Dec_RoundInt S y;
          NewUintFromBigInt S r }"

definition CalcLiquidityFee :: "'b sdk \<Rightarrow> bool \<Rightarrow> int \<Rightarrow> bool \<Rightarrow> int \<Rightarrow> int \<Rightarrow> int \<Rightarrow> int option" where
  "CalcLiquidityFee S toRowan normalizationFactor adjustExternalToken X x Y =
     (if X = 0 \<and> x = 0 then Some 0
      else if \<not> ValidateZero [X, x, Y] then Some 0
      else do {
        (X, x, Y) \<leftarrow> scale_inputs S toRowan normalizationFactor adjustExternalToken X x Y;
        let minLen = GetMinLen [X, x, Y];
        Xd \<leftarrow> ReducePrecision S (NewDecFromBigInt S X) minLen;
        xd \<leftarrow> ReducePrecision S (NewDecFromBigInt S x) minLen;
        Yd \<leftarrow> ReducePrecision S (NewDecFromBigInt S Y) minLen;
        xx \<leftarrow> Dec_Mul S xd xd;
        n \<leftarrow> Dec_Mul S xx Yd;
        s \<leftarrow> Dec_Add S xd Xd;
        d \<leftarrow> Dec_Mul S s s;
        y \<leftarrow> Dec_Quo S n d;
        unscale_result S toRowan normalizationFactor minLen y })"

definition CalcSwapResult :: "'b sdk \<Rightarrow> bool \<Rightarrow> int \<Rightarrow> bool \<Rightarrow> int \<Rightarrow> int \<Rightarrow> int \<Rightarrow> int option" where
  "CalcSwapResult S toRowan normalizationFactor adjustExternalToken X x Y =
     (if \<not> ValidateZero [X, x, Y] then Some 0
      else do {
        (X, x, Y) \<leftarrow> scale_inputs S toRowan normalizationFactor adjustExternalToken X x Y;
        let minLen = GetMinLen [X, x, Y];
        Xd \<leftarrow> ReducePrecision S (NewDecFromBigInt S X) minLen;
        xd \<leftarrow> ReducePrecision S (NewDecFromBigInt S x) minLen;
        Yd \<leftarrow> ReducePrecision S (NewDecFromBigInt S Y) minLen;
        s \<leftarrow> Dec_Add S xd Xd;
        d \<leftarrow> Dec_Mul S s s;
        xX \<leftarrow> Dec_Mul S xd Xd;
        n \<leftarrow> Dec_Mul S xX Yd;
        y \<leftarrow> Dec_Quo S n d;
        unscale_result S toRowan normalizationFactor minLen y })"

definition calcPriceImpact :: "'b sdk \<Rightarrow> int \<Rightarrow> int \<Rightarrow> int option" where
  "calcPriceImpact S X x =
     (if x = 0 then Some 0 else do { d \<leftarrow> Uint_Add S x X; Uint_Quo S x d })"

definition SwapOne :: "'b sdk \<Rightarrow> asset \<Rightarrow> int \<Rightarrow> asset \<Rightarrow> pool \<Rightarrow> int \<Rightarrow> bool \<Rightarrow> (int \<times> int \<times> int \<times> pool) result" where
  "SwapOne S from sentAmount to pool normalizationFactor adjustExternalToken =
     (case SetInputs sentAmount to pool of (X, x, Y, toRowan) \<Rightarrow>
      bind_r (panics (CalcLiquidityFee S toRowan normalizationFactor adjustExternalToken X x Y)) (\<lambda>liquidityFee.
      bind_r (panics (calcPriceImpact S X x)) (\<lambda>priceImpact.
      bind_r (panics (CalcSwapResult S toRowan normalizationFactor adjustExternalToken X x Y)) (\<lambda>swapResult.
      if Y \<le> swapResult then Inl clp_ErrNotEnoughAssetTokens
      else bind_r (panics (Uint_Add S X x)) (\<lambda>inBalance.
           bind_r (panics (Uint_Sub S Y swapResult)) (\<lambda>outBalance.
           Inr (swapResult, liquidityFee, priceImpact,
                if from = GetSettlementAsset
                then pool\<lparr>NativeAssetBalance := inBalance, ExternalAssetBalance := outBalance\<rparr>
                else pool\<lparr>ExternalAssetBalance := inBalance, NativeAssetBalance := outBalance\<rparr>)))))))"

definition GetSwapFee :: "'b sdk \<Rightarrow> int \<Rightarrow> asset \<Rightarrow> pool \<Rightarrow> int \<Rightarrow> bool \<Rightarrow> int option" where
  "GetSwapFee S sentAmount to pool normalizationFactor adjustExternalToken =
     (case SetInputs sentAmount to pool of (X, x, Y, toRowan) \<Rightarrow>
      do { swapResult \<leftarrow> CalcSwapResult S toRowan normalizationFactor adjustExternalToken X x Y;
           if Y \<le> swapResult then Some 0 else Some swapResult })"

section \<open>Pool units\<close>

text \<open>\<^verbatim>\<open>sdk.NewDecFromStr\<close> followed by a panic on its error.\<close>

definition must_dec :: "'b sdk \<Rightarrow> string \<Rightarrow> int option" where
  "must_dec S s = (case NewDecFromStr S s of Inl _ \<Rightarrow> None | Inr d \<Rightarrow> Some d)"

text \<open>The part of \<^verbatim>\<open>CalculatePoolUnits\<close> for a pool that has both assets.\<close>

definition stake_units :: "'b sdk \<Rightarrow> int \<Rightarrow> int \<Rightarrow> int \<Rightarrow> int \<Rightarrow> int \<Rightarrow> int \<Rightarrow> (int \<times> int) option" where
  "stake_units S minLen oldPoolUnits nativeAssetBalance externalAssetBalance nativeAssetAmount externalAssetAmount =
     do { P \<leftarrow> must_dec S (itoa oldPoolUnits);
          R \<leftarrow> must_dec S (itoa nativeAssetBalance);
          A \<leftarrow> must_dec S (itoa externalAssetBalance);
          r \<leftarrow> must_dec S (itoa nativeAssetAmount);
          a \<leftarrow> must_dec S (itoa externalAssetAmount);
          P \<leftarrow> ReducePrecision S P minLen;
          R \<leftarrow> ReducePrecision S R minLen;
          A \<leftarrow> ReducePrecision S A minLen;
          a \<leftarrow> ReducePrecision S a minLen;
          r \<leftarrow> ReducePrecision S r minLen;
          rR \<leftarrow> Dec_Add S r R;
          aA \<leftarrow> Dec_Add S a A;
          slipAdjDenominator \<leftarrow> Dec_Mul S rR aA;
          Ra \<leftarrow> Dec_Mul S R a;
          rA \<leftarrow> Dec_Mul S r A;
          diff \<leftarrow> (if rA < Ra then Dec_Sub S Ra rA else Dec_Sub S rA Ra);
          slip \<leftarrow> Dec_Quo S diff slipAdjDenominator;
          slipAdjustment \<leftarrow> Dec_Sub S (NewDec S 1) slip;
          aR \<leftarrow> Dec_Mul S a R;
          Ar \<leftarrow> Dec_Mul S A r;
          sum \<leftarrow> Dec_Add S aR Ar;
          numerator \<leftarrow> Dec_Mul S P sum;
          A2 \<leftarrow> Dec_Mul S (NewDec S 2) A;
          denominator \<leftarrow> Dec_Mul S A2 R;
          q \<leftarrow> Dec_Quo S numerator denominator;
          stakeUnits \<leftarrow> Dec_Mul S q slipAdjustment;
          newPoolUnit \<leftarrow> Dec_Add S P stakeUnits;
          newPoolUnit \<leftarrow> IncreasePrecision S newPoolUnit minLen;
          stakeUnits \<leftarrow> IncreasePrecision S stakeUnits minLen;
          n \<leftarrow> Dec_RoundInt S newPoolUnit;
          n \<leftarrow> NewUintFromBigInt S n;
          s \<leftarrow> Dec_RoundInt S stakeUnits;
          s \<leftarrow> NewUintFromBigInt S s;
          Some (n, s) }"

definition CalculatePoolUnits :: "'b sdk \<Rightarrow> int \<Rightarrow> int \<Rightarrow> int \<Rightarrow> int \<Rightarrow> int \<Rightarrow> int \<Rightarrow> bool \<Rightarrow> (int \<times> int) result" where
  "CalculatePoolUnits S oldPoolUnits nativeAssetBalance externalAssetBalance nativeAssetAmount externalAssetAmount
     normalizationFactor adjustExternalToken =
     bind_r (panics (do { r \<leftarrow> Dec_RoundInt S normalizationFactor; NewUintFromBigInt S r })) (\<lambda>nf.
     bind_r (panics (
       if adjustExternalToken
       then do { ea \<leftarrow> Uint_Mul S externalAssetAmount nf; eb \<leftarrow> Uint_Mul S externalAssetBalance nf;
                 Some (nativeAssetAmount, nativeAssetBalance, ea, eb) }
       else do { na \<leftarrow> Uint_Mul S nativeAssetAmount nf; nb \<leftarrow> Uint_Mul S nativeAssetBalance nf;
                 Some (na, nb, externalAssetAmount, externalAssetBalance) })) (\<lambda>(na, nb, ea, eb).
     if na = 0 \<and> ea = 0 then Inl clp_ErrAmountTooLow
     else let minLen = GetMinLen [oldPoolUnits, nb, eb, na, ea] in
     bind_r (panics (Uint_Add S nb na)) (\<lambda>nsum.
     if nsum = 0 then Inl (ErrSdk ''ErrInsufficientFunds'')
     else bind_r (panics (Uint_Add S eb ea)) (\<lambda>esum.
     if esum = 0 then Inl (ErrSdk ''ErrInsufficientFunds'')
     else if nb = 0 \<or> eb = 0 then Inr (na, na)
     else panics (stake_units S minLen oldPoolUnits nb eb na ea)))))"

section \<open>Withdrawals\<close>

definition to_uint :: "'b sdk \<Rightarrow> int \<Rightarrow> int option" where
  "to_uint S d = do { r \<leftarrow> Dec_RoundInt S d; NewUintFromBigInt S r }"

definition CalculateWithdrawal :: "'b sdk \<Rightarrow> int \<Rightarrow> string \<Rightarrow> string \<Rightarrow> string \<Rightarrow> string \<Rightarrow> int
    \<Rightarrow> (int \<times> int \<times> int \<times> int) option" where
  "CalculateWithdrawal S poolUnits nativeAssetBalance externalAssetBalance lpUnits wBasisPoints asymmetry =
     (let poolUnitsF = NewDecFromBigInt S poolUnits in
      do { nativeAssetBalanceF \<leftarrow> must_dec S nativeAssetBalance;
           externalAssetBalanceF \<leftarrow> must_dec S externalAssetBalance;
           lpUnitsF \<leftarrow> must_dec S lpUnits;
           wBasisPointsF \<leftarrow> must_dec S wBasisPoints;
           asymmetryF \<leftarrow> must_dec S (itoa asymmetry);
           denominator \<leftarrow> Dec_Quo S (NewDec S 10000) wBasisPointsF;
           unitsToClaim \<leftarrow> Dec_Quo S lpUnitsF denominator;
           share \<leftarrow> Dec_Quo S poolUnitsF unitsToClaim;
           withdrawExternalAssetAmount \<leftarrow> Dec_Quo S externalAssetBalanceF share;
           withdrawNativeAssetAmount \<leftarrow> Dec_Quo S nativeAssetBalanceF share;
           swapAmount \<leftarrow>
             (if asymmetry = 0 then Some (NewDec S 0)
              else do { part \<leftarrow> Dec_Quo S (NewDec S 10000) \<bar>asymmetryF\<bar>;
                        unitsToSwap \<leftarrow> Dec_Quo S unitsToClaim part;
                        swapShare \<leftarrow> Dec_Quo S poolUnitsF unitsToSwap;
                        Dec_Quo S (if 0 < asymmetry then nativeAssetBalanceF else externalAssetBalanceF) swapShare });
           lpUnitsLeft \<leftarrow> Dec_Sub S lpUnitsF unitsToClaim;
           n \<leftarrow> to_uint S withdrawNativeAssetAmount;
           e \<leftarrow> to_uint S withdrawExternalAssetAmount;
           l \<leftarrow> to_uint S lpUnitsLeft;
           s \<leftarrow> to_uint S swapAmount;
           Some (n, e, l, s) })"

definition CalculateAllAssetsForLP :: "'b sdk \<Rightarrow> pool \<Rightarrow> liquidity_provider \<Rightarrow> (int \<times> int \<times> int \<times> int) option" where
  "CalculateAllAssetsForLP S pool lp =
     CalculateWithdrawal S (PoolUnits pool) (itoa (NativeAssetBalance pool)) (itoa (ExternalAssetBalance pool))
       (itoa (LiquidityProviderUnits lp)) (itoa MaxWbasis) 0"

section \<open>Rules for the decimals\<close>

text \<open>Bounds that carry over to the computed result, and that the computation does not panic.\<close>

lemma quo_between:
  assumes "dec_laws S" and "0 < b" and "l * b \<le> a * one_dec" and "a * one_dec \<le> u * b"
    and "- (2 ^ 255) < l" and "u < 2 ^ 255"
  shows "\<exists>c. Dec_Quo S a b = Some c \<and> l \<le> c \<and> c \<le> u"
proof -
  from assms(1,2) obtain c where c: "yields (Dec_Quo S a b) c"
    and k: "\<And>k. (k * b \<le> a * one_dec \<longrightarrow> k \<le> c) \<and> (a * one_dec \<le> k * b \<longrightarrow> c \<le> k)"
    using dec_laws_quo by blast
  then have "l \<le> c" "c \<le> u" using assms(3,4) by blast+
  moreover from this have "\<bar>c\<bar> < 2 ^ 255" using assms(5,6) by linarith
  ultimately show ?thesis using yields_small [OF c] by blast
qed

lemma quo_SomeD:
  assumes "dec_laws S" and "Dec_Quo S a b = Some c" and "0 < b"
  shows "k * b \<le> a * one_dec \<Longrightarrow> k \<le> c" and "a * one_dec \<le> k * b \<Longrightarrow> c \<le> k"
proof -
  from assms obtain c' where "yields (Dec_Quo S a b) c'"
    and k: "\<And>k. (k * b \<le> a * one_dec \<longrightarrow> k \<le> c') \<and> (a * one_dec \<le> k * b \<longrightarrow> c' \<le> k)"
    using dec_laws_quo by blast
  then have "c = c'" using assms(2) by (metis yields_Some)
  with k show "k * b \<le> a * one_dec \<Longrightarrow> k \<le> c" "a * one_dec \<le> k * b \<Longrightarrow> c \<le> k" by blast+
qed

lemma quo_shrinks:
  assumes "dec_laws S" and "0 \<le> a" and "a < 2 ^ 255" and "one_dec \<le> b"
  shows "\<exists>c. Dec_Quo S a b = Some c \<and> 0 \<le> c \<and> c \<le> a"
proof -
  have "0 < b" using assms(4) one_dec_pos by linarith
  moreover have "a * one_dec \<le> a * b" using assms by (intro mult_left_mono) auto
  ultimately show ?thesis using quo_between [OF assms(1), of b 0 a a] assms(2,3) by (simp add: one_dec_def)
qed

lemma round_bounds:
  assumes "2 * \<bar>n * one_dec - a\<bar> \<le> one_dec"
  shows "l * one_dec \<le> a \<Longrightarrow> l \<le> n" and "a \<le> u * one_dec \<Longrightarrow> n \<le> u"
  using assms by (auto simp: one_dec_def)

lemma to_uint_between:
  assumes "dec_laws S" and "uint_laws S" and "l * one_dec \<le> a" and "a \<le> u * one_dec" and "0 \<le> l" and "u < 2 ^ 255"
  shows "\<exists>n. to_uint S a = Some n \<and> l \<le> n \<and> n \<le> u"
proof -
  from assms(1) obtain n where n: "yields (Dec_RoundInt S a) n" and near: "2 * \<bar>n * one_dec - a\<bar> \<le> one_dec"
    using dec_laws_round by blast
  have b: "l \<le> n" "n \<le> u" using round_bounds [OF near] assms(3,4) by blast+
  then have "Dec_RoundInt S a = Some n" using yields_small [OF n] assms(5,6) by auto
  moreover have "is_uint n" using b assms(5,6) by (auto simp: is_uint_def)
  ultimately show ?thesis using b assms(2) by (auto simp: to_uint_def uint_lawsD)
qed

lemma must_dec_itoa:
  "dec_laws S \<Longrightarrow> \<bar>n * one_dec\<bar> < 2 ^ 255 \<Longrightarrow> must_dec S (itoa n) = Some (n * one_dec)"
  by (simp add: must_dec_def dec_laws_lit)

lemma must_dec_SomeD: "dec_laws S \<Longrightarrow> must_dec S (itoa n) = Some d \<Longrightarrow> d = n * one_dec"
  by (auto simp: must_dec_def dest: dec_laws_str split: sum.splits)

lemma to_uint_SomeD: "uint_laws S \<Longrightarrow> to_uint S a = Some n \<Longrightarrow> is_uint n"
  by (auto simp: to_uint_def uint_lawsD bind_eq_Some_conv)

section \<open>Withdrawals stay within the pool\<close>

text \<open>
  The share of the pool that a fraction \<open>u / 10^18\<close> of its units is worth: the quotient by
  \<open>P / u\<close> never exceeds the balance, and nothing panics as long as the numbers are below \<open>2^160\<close>.
\<close>

lemma share_of_pool:
  assumes "dec_laws S" and "0 \<le> a" and "a < 2 ^ 160" and "10 ^ 10 \<le> u" and "u \<le> P * one_dec" and "P < 2 ^ 160"
  shows "\<exists>sh c. Dec_Quo S (P * one_dec) u = Some sh \<and> Dec_Quo S (a * one_dec) sh = Some c \<and>
           0 \<le> c \<and> c \<le> a * one_dec"
proof -
  have u: "0 < u" using assms(4) by simp
  have P: "0 \<le> P" using u assms(5) by (simp add: one_dec_def)
  have "one_dec * u \<le> P * one_dec * one_dec"
    using mult_left_mono [OF assms(5), of one_dec] by (simp add: mult_ac one_dec_def)
  moreover have "P * one_dec * one_dec \<le> P * 10 ^ 26 * u"
    using mult_left_mono [OF assms(4), of "P * 10 ^ 26"] P by (simp add: one_dec_def)
  moreover have "P * 10 ^ 26 < 2 ^ 255" using assms(6) by simp
  ultimately obtain sh where sh: "Dec_Quo S (P * one_dec) u = Some sh" "one_dec \<le> sh"
    using quo_between [OF assms(1) u, of one_dec "P * one_dec" "P * 10 ^ 26"] by (auto simp: one_dec_def)
  have "0 \<le> a * one_dec" "a * one_dec < 2 ^ 255" using assms(2,3) by (simp_all add: one_dec_def)
  from quo_shrinks [OF assms(1) this sh(2)] sh(1) show ?thesis by blast
qed

text \<open>The units to claim: \<open>w\<close> basis points of \<open>n\<close> units, between a ten-thousandth and all of them.\<close>

lemma basis_points:
  assumes "dec_laws S" and "0 < w" and "w \<le> 10000" and "0 \<le> n" and "n < 2 ^ 250"
  shows "\<exists>den c. Dec_Quo S (NewDec S 10000) (w * one_dec) = Some den \<and> Dec_Quo S n den = Some c \<and>
           n div 10000 \<le> c \<and> c \<le> n"
proof -
  have w: "0 < w * one_dec" using assms(2) by simp
  have ND: "NewDec S 10000 = 10000 * one_dec" using assms(1) by (simp add: dec_laws_lit)
  have "one_dec * (w * one_dec) \<le> 10000 * one_dec * one_dec"
    using assms(3) by (simp add: one_dec_def)
  moreover have "10000 * one_dec * one_dec \<le> 10000 * one_dec * (w * one_dec)"
    using assms(2) by (simp add: one_dec_def)
  ultimately obtain den where den: "Dec_Quo S (NewDec S 10000) (w * one_dec) = Some den"
    "one_dec \<le> den" "den \<le> 10000 * one_dec"
    using quo_between [OF assms(1) w, of one_dec "10000 * one_dec" "10000 * one_dec"] ND
    by (auto simp: one_dec_def)
  have pos: "0 < den" using den(2) one_dec_pos by linarith
  have "n div 10000 * den \<le> n div 10000 * (10000 * one_dec)"
    using den(3) assms(4) by (intro mult_left_mono) (auto simp: pos_imp_zdiv_nonneg_iff)
  also have "\<dots> = (n div 10000 * 10000) * one_dec" by simp
  also have "\<dots> \<le> n * one_dec" by (intro mult_right_mono) (auto simp: one_dec_def minus_mod_eq_div_mult [symmetric])
  finally have lo: "n div 10000 * den \<le> n * one_dec" .
  have hi: "n * one_dec \<le> n * den" using den(2) assms(4) by (intro mult_left_mono)
  have "0 \<le> n div 10000" using assms(4) by (simp add: pos_imp_zdiv_nonneg_iff)
  then have "- (2 ^ 255) < n div 10000" by simp
  with quo_between [OF assms(1) pos lo hi] assms(5) den(1) show ?thesis by auto
qed

lemma withdrawal_swap_bounded:
  assumes "dec_laws S" and asy: "\<bar>asy\<bar> \<le> 10000" and P: "P < 2 ^ 160"
    and N: "0 \<le> N" "N < 2 ^ 160" and E: "0 \<le> E" "E < 2 ^ 160" and u14: "10 ^ 14 \<le> u" and uP: "u \<le> P * one_dec"
  defines "side \<equiv> (if 0 < asy then N else if asy < 0 then E else 0)"
  shows "\<exists>s. (if asy = 0 then Some (NewDec S 0)
        else do { part \<leftarrow> Dec_Quo S (NewDec S 10000) \<bar>asy * one_dec\<bar>; unitsToSwap \<leftarrow> Dec_Quo S u part;
                  swapShare \<leftarrow> Dec_Quo S (P * one_dec) unitsToSwap;
                  Dec_Quo S (if 0 < asy then N * one_dec else E * one_dec) swapShare }) = Some s \<and> 0 \<le> s \<and> s \<le> side * one_dec"
proof (cases "asy = 0")
  case False
  then have a: "0 < \<bar>asy\<bar>" "\<bar>asy * one_dec\<bar> = \<bar>asy\<bar> * one_dec" by (simp_all add: abs_mult one_dec_def)
  obtain part v where v: "Dec_Quo S (NewDec S 10000) (\<bar>asy\<bar> * one_dec) = Some part" "Dec_Quo S u part = Some v"
    "u div 10000 \<le> v" "v \<le> u"
    using basis_points [OF assms(1) a(1) asy, of u] u14 uP P by (auto simp: one_dec_def)
  have "10 ^ 10 \<le> v" "v \<le> P * one_dec" using v(3,4) u14 uP by auto
  moreover have "0 \<le> side" "side < 2 ^ 160" using N E by (auto simp: side_def)
  ultimately show ?thesis using share_of_pool [OF assms(1), of side v P] P v(1,2) False a(2)
    by (auto simp: side_def split: if_splits)
qed (simp add: dec_laws_lit [OF assms(1)] side_def)

lemma CalculateWithdrawal_bounded:
  assumes laws: "dec_laws S" "uint_laws S" and lp: "0 < lp" "lp \<le> P" and P: "P < 2 ^ 160"
    and N: "0 \<le> N" "N < 2 ^ 160" and E: "0 \<le> E" "E < 2 ^ 160"
    and w: "0 < w" "w \<le> 10000" and asy: "\<bar>asy\<bar> \<le> 10000"
  shows "\<exists>n e l s. CalculateWithdrawal S P (itoa N) (itoa E) (itoa lp) (itoa w) asy = Some (n, e, l, s) \<and>
           0 \<le> n \<and> n \<le> N \<and> 0 \<le> e \<and> e \<le> E \<and> 0 \<le> l \<and> l \<le> lp \<and>
           0 \<le> s \<and> s \<le> (if 0 < asy then N else if asy < 0 then E else 0)"
proof -
  have small: "\<bar>x * one_dec\<bar> < 2 ^ 255" if "\<bar>x\<bar> < 2 ^ 160" for x
    using that by (simp add: one_dec_def abs_mult)
  have dec: "must_dec S (itoa N) = Some (N * one_dec)" "must_dec S (itoa E) = Some (E * one_dec)"
    "must_dec S (itoa lp) = Some (lp * one_dec)" "must_dec S (itoa w) = Some (w * one_dec)"
    "must_dec S (itoa asy) = Some (asy * one_dec)"
    using lp P N E w asy by (auto intro!: must_dec_itoa [OF laws(1)] small)
  have ND: "NewDecFromBigInt S P = P * one_dec" "NewDec S 0 = 0" using laws(1) by (simp_all add: dec_laws_lit)
  obtain den u where u: "Dec_Quo S (NewDec S 10000) (w * one_dec) = Some den"
    "Dec_Quo S (lp * one_dec) den = Some u" "lp * one_dec div 10000 \<le> u" "u \<le> lp * one_dec"
    using basis_points [OF laws(1) w, of "lp * one_dec"] lp P by (auto simp: one_dec_def)
  have u14: "10 ^ 14 \<le> u" using u(3) lp(1) by (simp add: one_dec_def)
  have uP: "u \<le> P * one_dec" using u(4) lp(2) by (simp add: one_dec_def)
  obtain sh e where e: "Dec_Quo S (P * one_dec) u = Some sh" "Dec_Quo S (E * one_dec) sh = Some e" "0 \<le> e" "e \<le> E * one_dec"
    using share_of_pool [OF laws(1) E _ uP P] u14 by auto
  obtain n where n: "Dec_Quo S (N * one_dec) sh = Some n" "0 \<le> n" "n \<le> N * one_dec"
    using share_of_pool [OF laws(1) N _ uP P] u14 e(1) by auto
  define bal where "bal = (if 0 < asy then N else if asy < 0 then E else 0)"
  obtain s where s: "(if asy = 0 then Some (NewDec S 0)
        else do { part \<leftarrow> Dec_Quo S (NewDec S 10000) \<bar>asy * one_dec\<bar>; unitsToSwap \<leftarrow> Dec_Quo S u part;
                  swapShare \<leftarrow> Dec_Quo S (P * one_dec) unitsToSwap;
                  Dec_Quo S (if 0 < asy then N * one_dec else E * one_dec) swapShare }) = Some s"
    "0 \<le> s" "s \<le> bal * one_dec"
    using withdrawal_swap_bounded [OF laws(1) asy P N E u14 uP] by (auto simp: bal_def)
  have sub: "Dec_Sub S (lp * one_dec) u = Some (lp * one_dec - u)"
    using u14 u(4) lp P by (intro yields_small [OF dec_laws_sub [OF laws(1)]]) (auto simp: one_dec_def)
  have uint: "\<exists>m. to_uint S x = Some m \<and> 0 \<le> m \<and> m \<le> y" if "0 \<le> x" "x \<le> y * one_dec" "y < 2 ^ 160" for x y
    using to_uint_between [OF laws, of 0 x y] that by auto
  have "\<exists>m. to_uint S n = Some m \<and> 0 \<le> m \<and> m \<le> N" "\<exists>m. to_uint S e = Some m \<and> 0 \<le> m \<and> m \<le> E"
    "\<exists>m. to_uint S (lp * one_dec - u) = Some m \<and> 0 \<le> m \<and> m \<le> lp" "\<exists>m. to_uint S s = Some m \<and> 0 \<le> m \<and> m \<le> bal"
    using n e s(2,3) u(4) u14 lp P N E by (auto intro!: uint simp: bal_def)
  with dec ND u e n s(1) sub show ?thesis by (auto simp: CalculateWithdrawal_def bal_def)
qed

section \<open>Facts about swaps\<close>

lemma unscale_result_uint: "uint_laws S \<Longrightarrow> unscale_result S toRowan nf len y = Some r \<Longrightarrow> is_uint r"
  by (auto simp: unscale_result_def uint_lawsD bind_eq_Some_conv)

lemma is_uint_0 [simp]: "is_uint 0"
  by (simp add: is_uint_def)

lemma CalcSwapResult_uint: "uint_laws S \<Longrightarrow> CalcSwapResult S toRowan nf adj X x Y = Some r \<Longrightarrow> is_uint r"
  by (auto simp: CalcSwapResult_def Let_def bind_eq_Some_conv split: if_splits prod.splits
      dest: unscale_result_uint)

lemma CalcLiquidityFee_uint: "uint_laws S \<Longrightarrow> CalcLiquidityFee S toRowan nf adj X x Y = Some r \<Longrightarrow> is_uint r"
  by (auto simp: CalcLiquidityFee_def Let_def bind_eq_Some_conv split: if_splits prod.splits
      dest: unscale_result_uint)

text \<open>A successful swap moves the sent amount into one side of the pool and the result out of the other.\<close>

lemma SwapOne_to_native:
  assumes "uint_laws S" and "SwapOne S from x GetSettlementAsset pool nf adj = Inr (r, fee, imp, pool')"
    and "from \<noteq> GetSettlementAsset"
  shows "pool' = pool\<lparr>ExternalAssetBalance := ExternalAssetBalance pool + x, NativeAssetBalance := NativeAssetBalance pool - r\<rparr>"
    and "0 \<le> r" and "r < NativeAssetBalance pool" and "is_uint (ExternalAssetBalance pool + x)"
  using assms CalcSwapResult_uint [OF assms(1)]
  by (auto simp: SwapOne_def SetInputs_def uint_lawsD is_uint_def split: if_splits)

lemma SwapOne_to_external:
  assumes "uint_laws S" and "SwapOne S GetSettlementAsset x to pool nf adj = Inr (r, fee, imp, pool')"
    and "to \<noteq> GetSettlementAsset"
  shows "pool' = pool\<lparr>NativeAssetBalance := NativeAssetBalance pool + x, ExternalAssetBalance := ExternalAssetBalance pool - r\<rparr>"
    and "0 \<le> r" and "r < ExternalAssetBalance pool" and "is_uint (NativeAssetBalance pool + x)"
  using assms CalcSwapResult_uint [OF assms(1)]
  by (auto simp: SwapOne_def SetInputs_def uint_lawsD is_uint_def split: if_splits)

lemma CalcSwapResult_zero: "X = 0 \<or> x = 0 \<or> Y = 0 \<Longrightarrow> CalcSwapResult S toRowan nf adj X x Y = Some 0"
  by (auto simp: CalcSwapResult_def ValidateZero_def)

lemma GetMinLen_ge_6: "6 \<le> GetMinLen inputs"
  by (auto simp: GetMinLen_def Let_def split: prod.splits)

text \<open>The price impact is an integer quotient of \<open>x\<close> by \<open>x + X\<close>.\<close>

lemma calcPriceImpact_value:
  assumes "uint_laws S" and "0 \<le> X" and "0 < x" and "is_uint (x + X)"
  shows "calcPriceImpact S X x = Some (if X = 0 then 1 else 0)"
  using assms by (auto simp: calcPriceImpact_def uint_lawsD check_uint_def is_uint_def)

section \<open>Withdrawing everything\<close>

lemma quo_exact:
  assumes "dec_laws S" and "0 < b" and "a * one_dec = c * b" and "\<bar>c\<bar> < 2 ^ 255"
  shows "Dec_Quo S a b = Some c"
proof -
  have "- (2 ^ 255) < c" "c < 2 ^ 255" using assms(4) by linarith+
  with quo_between [OF assms(1,2), of c a c] assms(3) show ?thesis by auto
qed

lemma to_uint_exact:
  assumes "dec_laws S" and "uint_laws S" and "0 \<le> n" and "n < 2 ^ 255"
  shows "to_uint S (n * one_dec) = Some n"
  using to_uint_between [OF assms(1,2), of n "n * one_dec" n] assms(3,4) by auto

lemma CalculateWithdrawal_all:
  assumes laws: "dec_laws S" "uint_laws S" and P: "0 < P" "P < 2 ^ 160"
    and N: "0 \<le> N" "N < 2 ^ 160" and E: "0 \<le> E" "E < 2 ^ 160"
  shows "CalculateWithdrawal S P (itoa N) (itoa E) (itoa P) (itoa 10000) 0 = Some (N, E, 0, 0)"
proof -
  have dec: "must_dec S (itoa x) = Some (x * one_dec)" if "0 \<le> x" "x < 2 ^ 160" for x
    using that by (intro must_dec_itoa [OF laws(1)]) (simp add: one_dec_def)
  have q: "Dec_Quo S (x * one_dec) one_dec = Some (x * one_dec)" if "0 \<le> x" "x < 2 ^ 160" for x
    using that by (intro quo_exact [OF laws(1)]) (simp_all add: one_dec_def)
  have "Dec_Quo S (10000 * one_dec) (10000 * one_dec) = Some one_dec"
    "Dec_Quo S (P * one_dec) (P * one_dec) = Some one_dec"
    using P by (intro quo_exact [OF laws(1)]; simp add: one_dec_def)+
  moreover have "Dec_Sub S (P * one_dec) (P * one_dec) = Some 0"
    using yields_small [OF dec_laws_sub [OF laws(1)], of "P * one_dec" "P * one_dec"] by simp
  moreover have "to_uint S (y * one_dec) = Some y" if "0 \<le> y" "y < 2 ^ 160" for y
    using to_uint_exact [OF laws that(1)] that by simp
  moreover have "to_uint S 0 = Some 0" using to_uint_exact [OF laws, of 0] by simp
  ultimately show ?thesis using P N E
    by (simp add: CalculateWithdrawal_def dec q dec_laws_lit [OF laws(1)])
qed

end
