(* ===== verification/TokenRegistry.thy ===== *)
theory TokenRegistry
  imports Ctx
begin

text \<open>
  The token registry (\<^verbatim>\<open>x/tokenregistry/keeper\<close>, \<^verbatim>\<open>handler\<close>): the list of tokens the chain knows,
  with their decimals and permissions, and the admin account that may change it. Names are
  compared without regard to case. The keeper's interface towards the other modules is the
  locale \<open>registry_api\<close>, interpreted on the keeper at the end.
\<close>

section \<open>The keeper\<close>

definition SetAdminAccount :: "'b ctx \<Rightarrow> address \<Rightarrow> 'b ctx" where
  "SetAdminAccount ctx adminAccount =
     ctx\<lparr>tr_kv := kv_set (tr_kv ctx) tr_AdminAccountStorePrefix (AdminV adminAccount)\<rparr>"

text \<open>An absent value unmarshals to the empty message; a value of the wrong type is a panic.\<close>

definition GetAdminAccount :: "'b ctx \<Rightarrow> address result" where
  "GetAdminAccount ctx =
     (case kv_get (tr_kv ctx) tr_AdminAccountStorePrefix of
        None \<Rightarrow> Inr []
      | Some (AdminV a) \<Rightarrow> Inr a
      | Some (RegistryV _) \<Rightarrow> Inl (Panic ''unmarshal''))"

definition IsAdminAccount :: "'b ctx \<Rightarrow> address \<Rightarrow> bool result" where
  "IsAdminAccount ctx adminAccount =
     bind_r (GetAdminAccount ctx) (\<lambda>account.
     if account = [] then Inr False else Inr (account = adminAccount))"

fun CheckEntryPermissions :: "registry_entry \<Rightarrow> permission list \<Rightarrow> bool" where
  "CheckEntryPermissions entry [] = True"
| "CheckEntryPermissions entry (required # rest) =
     (if required \<notin> set (Permissions entry) then False else CheckEntryPermissions entry rest)"

fun GetEntry :: "registry \<Rightarrow> string \<Rightarrow> registry_entry result" where
  "GetEntry [] denom = Inl (ErrSdk ''ErrKeyNotFound'')"
| "GetEntry (p # wl) denom =
     (case p of
        None \<Rightarrow> GetEntry wl denom
      | Some e \<Rightarrow> if EqualFold (Denom e) denom then Inr e else GetEntry wl denom)"

text \<open>Marshalling a registry dereferences every entry.\<close>

definition tr_SetRegistry :: "'b ctx \<Rightarrow> registry \<Rightarrow> 'b ctx result" where
  "tr_SetRegistry ctx wl =
     (if None \<in> set wl then Inl (Panic ''nil pointer dereference'')
      else Inr (ctx\<lparr>tr_kv := kv_set (tr_kv ctx) tr_WhitelistStorePrefix (RegistryV wl)\<rparr>))"

definition GetRegistry :: "'b ctx \<Rightarrow> registry result" where
  "GetRegistry ctx =
     (case kv_get (tr_kv ctx) tr_WhitelistStorePrefix of
        None \<Rightarrow> Inr []
      | Some (RegistryV wl) \<Rightarrow> Inr wl
      | Some (AdminV _) \<Rightarrow> Inl (Panic ''unmarshal''))"

text \<open>The loop of \<^verbatim>\<open>SetToken\<close>: the first entry of that name is replaced, else the entry is appended.\<close>

fun replace_entry :: "registry \<Rightarrow> registry_entry \<Rightarrow> registry" where
  "replace_entry [] entry = [Some entry]"
| "replace_entry (p # wl) entry =
     (case p of
        None \<Rightarrow> p # replace_entry wl entry
      | Some e \<Rightarrow> if EqualFold (Denom e) (Denom entry) then Some entry # wl else p # replace_entry wl entry)"

definition SetToken :: "'b ctx \<Rightarrow> registry_entry option \<Rightarrow> 'b ctx result" where
  "SetToken ctx entry =
     bind_r (GetRegistry ctx) (\<lambda>wl.
     bind_r (deref entry) (\<lambda>e.
     tr_SetRegistry ctx (replace_entry wl e)))"

definition RemoveToken :: "'b ctx \<Rightarrow> string \<Rightarrow> 'b ctx result" where
  "RemoveToken ctx denom =
     bind_r (GetRegistry ctx) (\<lambda>registry.
     tr_SetRegistry ctx
       (filter (\<lambda>t. case t of None \<Rightarrow> False | Some e \<Rightarrow> \<not> EqualFold (Denom e) denom) registry))"

section \<open>Messages\<close>

definition tr_authorised :: "'b sdk \<Rightarrow> 'b ctx \<Rightarrow> string \<Rightarrow> unit result" where
  "tr_authorised S ctx from =
     bind_r (AccAddressFromBech32 S from) (\<lambda>addr.
     bind_r (IsAdminAccount ctx addr) (\<lambda>ok.
     if \<not> ok then Inl (ErrSdk ''ErrInvalidAddress'') else Inr ()))"

definition tr_Register :: "'b sdk \<Rightarrow> 'b ctx \<Rightarrow> msg_register \<Rightarrow> 'b ctx result" where
  "tr_Register S ctx req = bind_r (tr_authorised S ctx (reg_From req)) (\<lambda>_. SetToken ctx (reg_Entry req))"

definition tr_msg_SetRegistry :: "'b sdk \<Rightarrow> 'b ctx \<Rightarrow> msg_set_registry \<Rightarrow> 'b ctx result" where
  "tr_msg_SetRegistry S ctx req =
     bind_r (tr_authorised S ctx (setreg_From req)) (\<lambda>_.
     bind_r (deref (setreg_Registry req)) (\<lambda>wl. tr_SetRegistry ctx wl))"

definition tr_Deregister :: "'b sdk \<Rightarrow> 'b ctx \<Rightarrow> msg_deregister \<Rightarrow> 'b ctx result" where
  "tr_Deregister S ctx req =
     bind_r (tr_authorised S ctx (dereg_From req)) (\<lambda>_. RemoveToken ctx (dereg_Denom req))"

datatype tr_msg =
    MsgRegister msg_register
  | MsgSetRegistry msg_set_registry
  | MsgDeregister msg_deregister

text \<open>The handler starts each message with an event manager of its own.\<close>

fun tr_Handler :: "'b sdk \<Rightarrow> 'b ctx \<Rightarrow> tr_msg \<Rightarrow> 'b ctx result" where
  "tr_Handler S ctx (MsgRegister m) = tr_Register S (ctx\<lparr>Events := []\<rparr>) m"
| "tr_Handler S ctx (MsgSetRegistry m) = tr_msg_SetRegistry S (ctx\<lparr>Events := []\<rparr>) m"
| "tr_Handler S ctx (MsgDeregister m) = tr_Deregister S (ctx\<lparr>Events := []\<rparr>) m"

section \<open>Genesis, migration and query\<close>

definition tr_InitGenesis :: "'b sdk \<Rightarrow> 'b ctx \<Rightarrow> tr_genesis \<Rightarrow> 'b ctx result" where
  "tr_InitGenesis S ctx state =
     bind_r (if trg_AdminAccount state \<noteq> []
             then (case AccAddressFromBech32 S (trg_AdminAccount state) of
                     Inl _ \<Rightarrow> Inl (Panic ''invalid admin account'')
                   | Inr addr \<Rightarrow> Inr (SetAdminAccount ctx addr))
             else Inr ctx) (\<lambda>ctx.
     (case trg_Registry state of
        None \<Rightarrow> Inr ctx
      | Some wl \<Rightarrow> tr_SetRegistry ctx wl))"

definition tr_ExportGenesis :: "'b sdk \<Rightarrow> 'b ctx \<Rightarrow> tr_genesis result" where
  "tr_ExportGenesis S ctx =
     bind_r (GetRegistry ctx) (\<lambda>wl.
     bind_r (GetAdminAccount ctx) (\<lambda>admin.
     Inr \<lparr>trg_AdminAccount = AccAddress_String S admin, trg_Registry = Some wl\<rparr>))"

definition migrate_entry :: "registry_entry \<Rightarrow> registry_entry" where
  "migrate_entry entry =
     (if 9 < Decimals entry \<and> CheckEntryPermissions entry [Permission_CLP, Permission_IBCEXPORT]
      then entry\<lparr>Permissions := Permissions entry @ [Permission_IBCIMPORT], IbcCounterpartyDenom := []\<rparr>
      else entry)"

definition MigrateToVer2 :: "'b ctx \<Rightarrow> 'b ctx result" where
  "MigrateToVer2 ctx =
     bind_r (GetRegistry ctx) (\<lambda>registry.
     bind_r (map_r (\<lambda>p. bind_r (deref p) (\<lambda>entry. Inr (Some (migrate_entry entry)))) registry) (\<lambda>registry'.
     tr_SetRegistry ctx registry'))"

definition tr_Entries :: "'b ctx \<Rightarrow> registry result" where
  "tr_Entries ctx = GetRegistry ctx"

section \<open>The interface of the registry\<close>

text \<open>
  What a client of a registry relies on: lookup by a name up to an equivalence of names, update
  and removal. The laws make a registry a map on the classes of that equivalence.
\<close>

locale registry_api =
  fixes lookup :: "'r \<Rightarrow> 'n \<Rightarrow> 'e option"
    and update :: "'r \<Rightarrow> 'e \<Rightarrow> 'r"
    and remove :: "'r \<Rightarrow> 'n \<Rightarrow> 'r"
    and name_of :: "'e \<Rightarrow> 'n"
    and same :: "'n \<Rightarrow> 'n \<Rightarrow> bool"
  assumes same_equiv: "equivp same"
    and lookup_update: "lookup (update r e) n = (if same (name_of e) n then Some e else lookup r n)"
    and lookup_remove: "lookup (remove r m) n = (if same m n then None else lookup r n)"
    and lookup_same: "same m n \<Longrightarrow> lookup r m = lookup r n"
begin

lemma update_twice: "same (name_of e) (name_of e') \<Longrightarrow> lookup (update (update r e) e') n = lookup (update r e') n"
  by (metis lookup_update same_equiv equivp_transp equivp_symp)

lemma remove_after_update: "lookup (remove (update r e) (name_of e)) n = lookup (remove r (name_of e)) n"
  by (simp add: lookup_update lookup_remove)

lemma update_commute:
  "\<not> same (name_of e) (name_of e') \<Longrightarrow> lookup (update (update r e) e') n = lookup (update (update r e') e) n"
  by (simp add: lookup_update) (metis same_equiv equivp_transp equivp_symp)

lemma lookup_update_same: "same n (name_of e) \<Longrightarrow> lookup (update r e) n = Some e"
  by (metis lookup_update same_equiv equivp_symp)

end

text \<open>The keeper's loops meet the interface.\<close>

definition find_entry :: "registry \<Rightarrow> string \<Rightarrow> registry_entry option" where
  "find_entry wl d = (case GetEntry wl d of Inl _ \<Rightarrow> None | Inr e \<Rightarrow> Some e)"

definition drop_entries :: "registry \<Rightarrow> string \<Rightarrow> registry" where
  "drop_entries wl d = filter (\<lambda>t. case t of None \<Rightarrow> False | Some e \<Rightarrow> \<not> EqualFold (Denom e) d) wl"

lemma drop_entries_simps [simp]:
  "drop_entries [] d = []"
  "drop_entries (None # wl) d = drop_entries wl d"
  "drop_entries (Some e # wl) d = (if EqualFold (Denom e) d then drop_entries wl d else Some e # drop_entries wl d)"
  by (simp_all add: drop_entries_def)

lemma drop_entries_None: "None \<notin> set (drop_entries wl d)"
  by (auto simp: drop_entries_def)

lemma GetEntry_Inl: "GetEntry wl d = Inl e \<Longrightarrow> e = ErrSdk ''ErrKeyNotFound''"
  by (induction wl) (auto split: option.splits if_splits)

lemma GetEntry_find: "GetEntry wl d = (case find_entry wl d of None \<Rightarrow> Inl (ErrSdk ''ErrKeyNotFound'') | Some e \<Rightarrow> Inr e)"
  by (auto simp: find_entry_def dest: GetEntry_Inl split: sum.splits)

lemma find_entry_simps [simp]:
  "find_entry [] d = None"
  "find_entry (None # wl) d = find_entry wl d"
  "find_entry (Some e # wl) d = (if EqualFold (Denom e) d then Some e else find_entry wl d)"
  by (simp_all add: find_entry_def)

lemma find_entry_Some: "find_entry wl d = Some e \<Longrightarrow> Some e \<in> set wl \<and> EqualFold (Denom e) d"
proof (induction wl)
  case (Cons p wl)
  then show ?case by (cases p) (auto split: if_splits)
qed simp

interpretation treg: registry_api find_entry replace_entry drop_entries Denom EqualFold
proof unfold_locales
  show "equivp EqualFold"
    by (rule equivpI) (auto simp: reflp_def symp_def transp_def EqualFold_def)
  show "find_entry (replace_entry r e) n = (if EqualFold (Denom e) n then Some e else find_entry r n)" for r e n
  proof (induction r)
    case (Cons p r)
    then show ?case by (cases p) (auto simp: EqualFold_def)
  qed simp
  show "find_entry (drop_entries r m) n = (if EqualFold m n then None else find_entry r n)" for r m n
  proof (induction r)
    case (Cons p r)
    then show ?case by (cases p) (auto simp: EqualFold_def)
  qed simp
  show "find_entry r m = find_entry r n" if "EqualFold m n" for m n r
  proof (induction r)
    case (Cons p r)
    then show ?case using that by (cases p) (auto simp: EqualFold_def)
  qed simp
qed

section \<open>What the messages do\<close>

lemma tr_authorised_Inr [simp]:
  "tr_authorised S ctx from = Inr u \<longleftrightarrow>
     (\<exists>a. AccAddressFromBech32 S from = Inr a \<and> a \<noteq> [] \<and> GetAdminAccount ctx = Inr a)"
  by (auto simp: tr_authorised_def IsAdminAccount_def split: if_splits)

lemma GetRegistry_set [simp]: "tr_SetRegistry ctx wl = Inr ctx' \<Longrightarrow> GetRegistry ctx' = Inr wl"
  by (auto simp: tr_SetRegistry_def GetRegistry_def split: if_splits)

lemma GetAdminAccount_set [simp]: "tr_SetRegistry ctx wl = Inr ctx' \<Longrightarrow> GetAdminAccount ctx' = GetAdminAccount ctx"
  by (auto simp: tr_SetRegistry_def GetAdminAccount_def split: if_splits)

fun tr_From :: "tr_msg \<Rightarrow> string" where
  "tr_From (MsgRegister m) = reg_From m"
| "tr_From (MsgSetRegistry m) = setreg_From m"
| "tr_From (MsgDeregister m) = dereg_From m"

lemma GetAdminAccount_Events [simp]: "GetAdminAccount (ctx\<lparr>Events := es\<rparr>) = GetAdminAccount ctx"
  by (simp add: GetAdminAccount_def)

lemma GetRegistry_Events [simp]: "GetRegistry (ctx\<lparr>Events := es\<rparr>) = GetRegistry ctx"
  by (simp add: GetRegistry_def)

lemma replace_entry_None: "None \<notin> set wl \<Longrightarrow> None \<notin> set (replace_entry wl e)"
proof (induction wl)
  case (Cons p wl)
  then show ?case by (cases p) auto
qed simp

text \<open>
  A registry in which no name occurs twice, whatever its case, and no entry is nil. The
  registration and removal messages keep it; replacing the whole registry keeps it when the new one has it.
\<close>

definition unique_names :: "registry \<Rightarrow> bool" where
  "unique_names wl \<longleftrightarrow> None \<notin> set wl \<and> distinct (map (\<lambda>p. ToLower (Denom (the p))) wl)"

definition tr_inv :: "'b ctx \<Rightarrow> bool" where
  "tr_inv ctx \<longleftrightarrow> (\<exists>wl. GetRegistry ctx = Inr wl \<and> unique_names wl)"

fun tr_admissible :: "tr_msg \<Rightarrow> bool" where
  "tr_admissible (MsgSetRegistry m) \<longleftrightarrow> (\<forall>wl \<in> set_option (setreg_Registry m). unique_names wl)"
| "tr_admissible _ = True"

lemma names_replace:
  "None \<notin> set wl \<Longrightarrow>
   (\<lambda>p. ToLower (Denom (the p))) ` set (replace_entry wl e) = insert (ToLower (Denom e)) ((\<lambda>p. ToLower (Denom (the p))) ` set wl)"
proof (induction wl)
  case (Cons p wl)
  then show ?case by (cases p) (auto simp: EqualFold_def)
qed simp

lemma unique_replace: "unique_names wl \<Longrightarrow> unique_names (replace_entry wl e)"
proof (induction wl)
  case (Cons p wl)
  then obtain x where p: "p = Some x" by (cases p) (auto simp: unique_names_def)
  from Cons have wl: "unique_names wl" "None \<notin> set wl" by (auto simp: unique_names_def)
  with Cons p show ?case
    using names_replace [OF wl(2), of e]
    by (auto simp: unique_names_def EqualFold_def replace_entry_None image_iff)
qed (simp add: unique_names_def)

lemma GetEntry_unique: "unique_names wl \<Longrightarrow> Some e \<in> set wl \<Longrightarrow> GetEntry wl (Denom e) = Inr e"
proof (induction wl)
  case (Cons p wl)
  then show ?case by (cases p) (auto simp: unique_names_def EqualFold_def image_iff)
qed simp

lemma unique_drop: "unique_names wl \<Longrightarrow> unique_names (drop_entries wl d)"
  by (auto simp: unique_names_def drop_entries_def distinct_map intro: inj_on_subset)

lemma tr_Handler_inv:
  "tr_inv ctx \<Longrightarrow> tr_admissible m \<Longrightarrow> tr_Handler S ctx m = Inr ctx' \<Longrightarrow> tr_inv ctx'"
  by (cases m)
    (auto simp: tr_inv_def tr_Register_def tr_msg_SetRegistry_def tr_Deregister_def SetToken_def RemoveToken_def
      drop_entries_def [symmetric] unique_replace unique_drop)

lemma inadmissible_breaks:
  assumes "tr_Handler S ctx m = Inr ctx'" and "\<not> tr_admissible m"
  shows "\<not> tr_inv ctx'"
  using assms by (cases m) (auto simp: tr_msg_SetRegistry_def tr_inv_def tr_SetRegistry_def GetRegistry_def split: if_splits)

interpretation trm: machine "tr_Handler S" tr_inv tr_admissible
  by unfold_locales (rule tr_Handler_inv)

section \<open>Properties\<close>

text \<open>A state with an admin and the initial registry, and an entry to register, for the examples.\<close>

definition tr_example :: "ref_state ctx" where
  "tr_example = ref_ctx\<lparr>tr_kv := [(tr_WhitelistStorePrefix, RegistryV [Some (clp_entry (''ceth'', 18))]),
                                  (tr_AdminAccountStorePrefix, AdminV ''admin'')]\<rparr>"

definition tr_example_msg :: "registry_entry option \<Rightarrow> msg_register" where
  "tr_example_msg e = \<lparr>reg_From = ref_String ''admin'', reg_Entry = e\<rparr>"

lemma tr_example_reads [simp]:
  "GetRegistry tr_example = Inr [Some (clp_entry (''ceth'', 18))]"
  "GetAdminAccount tr_example = Inr ''admin''"
  by (simp_all add: tr_example_def GetRegistry_def GetAdminAccount_def kv_get_def)

lemma tr_SetRegistry_total: "None \<notin> set wl \<Longrightarrow> \<exists>ctx'. tr_SetRegistry ctx wl = Inr ctx'"
  by (simp add: tr_SetRegistry_def)

lemma tr_example_auth: "tr_authorised ref_sdk tr_example (ref_String ''admin'') = Inr ()"
  by (simp add: ref_FromBech32_String)

lemma tr_example_Register: "\<exists>ctx'. tr_Register ref_sdk tr_example (tr_example_msg (Some e)) = Inr ctx'"
  using tr_SetRegistry_total [OF replace_entry_None, of "[Some (clp_entry (''ceth'', 18))]" tr_example e]
  by (simp only: tr_Register_def tr_example_msg_def SetToken_def tr_example_auth tr_example_reads
      bind_r.simps deref.simps msg_register.select_convs list.set(2) list.set(1)) simp

lemma tr_Handler_Register: "tr_Handler S ctx (MsgRegister m) = tr_Register S (ctx\<lparr>Events := []\<rparr>) m"
  by simp

lemma tr_example_Events [simp]: "tr_example\<lparr>Events := []\<rparr> = tr_example"
  by (simp add: tr_example_def ref_ctx_def)

text \<open>
  C23: Only the admin account changes the registry. Whenever one of the three messages succeeds,
  its sender is the stored admin address, and the message leaves that address as it was.
\<close>

theorem tr_Handler_admin_only:
  assumes "tr_Handler S ctx m = Inr ctx'"
  shows "\<exists>a. AccAddressFromBech32 S (tr_From m) = Inr a \<and> a \<noteq> [] \<and>
             GetAdminAccount ctx = Inr a \<and> GetAdminAccount ctx' = Inr a"
proof (cases m)
  case (MsgSetRegistry r)
  then show ?thesis using assms GetAdminAccount_set [of "ctx\<lparr>Events := []\<rparr>" _ ctx']
    by (auto simp: tr_msg_SetRegistry_def)
qed (use assms in \<open>auto simp: tr_Register_def tr_Deregister_def SetToken_def RemoveToken_def\<close>)

theorem tr_Handler_admin_only_witness:
  "\<exists>ctx'. tr_Handler ref_sdk tr_example (MsgRegister (tr_example_msg (Some (clp_entry (''cdai'', 18))))) = Inr ctx' \<and>
     (\<exists>a. AccAddressFromBech32 ref_sdk (tr_From (MsgRegister (tr_example_msg (Some (clp_entry (''cdai'', 18)))))) = Inr a \<and> a \<noteq> [] \<and>
          GetAdminAccount tr_example = Inr a \<and> GetAdminAccount ctx' = Inr a)"
proof -
  obtain ctx' where h: "tr_Handler ref_sdk tr_example (MsgRegister (tr_example_msg (Some (clp_entry (''cdai'', 18))))) = Inr ctx'"
    using tr_example_Register by (auto simp only: tr_Handler_Register tr_example_Events)
  then show ?thesis using tr_Handler_admin_only [OF h] by blast
qed

text \<open>
  C24: Registering a token makes it the answer to every lookup of its name, in any case of
  letters, and changes the answer to no other lookup.
\<close>

theorem tr_Register_lookup:
  assumes "tr_Register S ctx req = Inr ctx'" and "reg_Entry req = Some e" and "GetRegistry ctx = Inr wl"
  shows "\<exists>wl'. GetRegistry ctx' = Inr wl' \<and>
           (\<forall>d. GetEntry wl' d = (if EqualFold (Denom e) d then Inr e else GetEntry wl d))"
  using assms by (auto simp: tr_Register_def SetToken_def GetEntry_find treg.lookup_update)

theorem tr_Register_lookup_witness:
  "\<exists>ctx' wl'. tr_Register ref_sdk tr_example (tr_example_msg (Some (clp_entry (''CETH'', 9)))) = Inr ctx' \<and>
     GetRegistry ctx' = Inr wl' \<and> GetEntry wl' ''ceth'' = Inr (clp_entry (''CETH'', 9))"
proof -
  obtain ctx' where h: "tr_Register ref_sdk tr_example (tr_example_msg (Some (clp_entry (''CETH'', 9)))) = Inr ctx'"
    using tr_example_Register by blast
  have "reg_Entry (tr_example_msg (Some (clp_entry (''CETH'', 9)))) = Some (clp_entry (''CETH'', 9))"
    by (simp add: tr_example_msg_def)
  moreover have "EqualFold (Denom (clp_entry (''CETH'', 9))) ''ceth''" by code_simp
  ultimately show ?thesis using tr_Register_lookup [OF h _ tr_example_reads(1)] h by fastforce
qed

text \<open>
  Removing a token removes every entry of that name, in any case of letters, so that its
  lookups fail with \<^verbatim>\<open>ErrKeyNotFound\<close>, and changes the answer to no other lookup.
\<close>

theorem tr_Deregister_lookup:
  assumes "tr_Deregister S ctx req = Inr ctx'" and "GetRegistry ctx = Inr wl"
  shows "\<exists>wl'. GetRegistry ctx' = Inr wl' \<and>
           (\<forall>d. GetEntry wl' d =
                (if EqualFold (dereg_Denom req) d then Inl (ErrSdk ''ErrKeyNotFound'') else GetEntry wl d))"
  using assms
  by (auto simp: tr_Deregister_def RemoveToken_def drop_entries_def [symmetric] GetEntry_find treg.lookup_remove)

theorem tr_Deregister_lookup_witness:
  "\<exists>ctx' wl'. tr_Deregister ref_sdk tr_example \<lparr>dereg_From = ref_String ''admin'', dereg_Denom = ''cEth''\<rparr> = Inr ctx' \<and>
     GetRegistry ctx' = Inr wl' \<and> GetEntry wl' ''ceth'' = Inl (ErrSdk ''ErrKeyNotFound'')"
proof -
  obtain ctx' where h: "tr_Deregister ref_sdk tr_example \<lparr>dereg_From = ref_String ''admin'', dereg_Denom = ''cEth''\<rparr> = Inr ctx'"
    using tr_SetRegistry_total [OF drop_entries_None, of tr_example "[Some (clp_entry (''ceth'', 18))]" "''cEth''"]
    by (auto simp only: tr_Deregister_def RemoveToken_def tr_example_auth tr_example_reads bind_r.simps
        msg_deregister.select_convs drop_entries_def [symmetric])
  have "EqualFold ''cEth'' ''ceth''" by code_simp
  then show ?thesis using tr_Deregister_lookup [OF h tr_example_reads(1)] h by fastforce
qed

text \<open>
  C22: Starting from a registry without duplicate names (up to case), registering and removing tokens in any order
  never produces one, nor does replacing the whole registry by a list that has none. The code does not check such a
  list: one that has a duplicate, when it is accepted, is the registry afterwards.
\<close>

theorem tr_run_unique:
  assumes "tr_inv ctx" and "list_all tr_admissible ms"
  shows "tr_inv (run (tr_Handler S) ctx ms) \<and> (\<forall>m ctx'. tr_Handler S ctx m = Inr ctx' \<and> \<not> tr_admissible m \<longrightarrow> \<not> tr_inv ctx')"
  using trm.run_invar [OF assms] inadmissible_breaks by blast

theorem tr_run_unique_witness:
  "tr_inv (run (tr_Handler ref_sdk) tr_example
     [MsgRegister (tr_example_msg (Some (clp_entry (''CETH'', 9)))), MsgDeregister \<lparr>dereg_From = ''x'', dereg_Denom = ''ceth''\<rparr>]) \<and>
   (\<exists>ctx'. tr_Handler ref_sdk tr_example (MsgSetRegistry \<lparr>setreg_From = ref_String ''admin'',
       setreg_Registry = Some [Some (clp_entry (''ceth'', 18)), Some (clp_entry (''ceth'', 9))]\<rparr>) = Inr ctx' \<and> \<not> tr_inv ctx')"
proof -
  let ?m = "MsgSetRegistry \<lparr>setreg_From = ref_String ''admin'',
    setreg_Registry = Some [Some (clp_entry (''ceth'', 18)), Some (clp_entry (''ceth'', 9))]\<rparr>"
  let ?ms = "[MsgRegister (tr_example_msg (Some (clp_entry (''CETH'', 9)))), MsgDeregister \<lparr>dereg_From = ''x'', dereg_Denom = ''ceth''\<rparr>]"
  have "tr_inv tr_example" "list_all tr_admissible ?ms" by (simp_all add: tr_inv_def unique_names_def)
  note u = tr_run_unique [OF this, of ref_sdk]
  obtain ctx' where c: "tr_Handler ref_sdk tr_example ?m = Inr ctx'"
    using tr_SetRegistry_total [of "[Some (clp_entry (''ceth'', 18)), Some (clp_entry (''ceth'', 9))]" tr_example]
    by (auto simp: tr_msg_SetRegistry_def tr_example_auth)
  moreover have "\<not> tr_admissible ?m" by (simp add: unique_names_def clp_entry_def)
  ultimately show ?thesis using u by blast
qed

text \<open>
  Exporting the registry's genesis and importing it into a chain with an empty registry store
  restores both the registry and the admin account, which is unset or an address that can be printed.
\<close>

theorem tr_genesis_roundtrip:
  assumes "addr_laws S" and "GetRegistry ctx = Inr wl" and "None \<notin> set wl"
    and "GetAdminAccount ctx = Inr a" and "a = [] \<or> valid_address a" and "tr_kv ctx0 = []"
  shows "\<exists>g ctx1. tr_ExportGenesis S ctx = Inr g \<and> tr_InitGenesis S ctx0 g = Inr ctx1 \<and>
           GetRegistry ctx1 = Inr wl \<and> GetAdminAccount ctx1 = Inr a"
proof -
  define ctx1 where "ctx1 = (if a = [] then ctx0 else SetAdminAccount ctx0 a)"
  have admin: "GetAdminAccount ctx1 = Inr a"
    using assms(6) by (simp add: ctx1_def SetAdminAccount_def GetAdminAccount_def kv_get_def)
  obtain ctx2 where ctx2: "tr_SetRegistry ctx1 wl = Inr ctx2" using tr_SetRegistry_total assms(3) by blast
  have "a \<noteq> [] \<Longrightarrow> AccAddressFromBech32 S (AccAddress_String S a) = Inr a" and "AccAddress_String S [] = []"
    and "AccAddress_String S a = [] \<Longrightarrow> a = []"
    using assms(1,5) unfolding addr_laws_def by (blast, blast, metis)
  then have "tr_InitGenesis S ctx0 \<lparr>trg_AdminAccount = AccAddress_String S a, trg_Registry = Some wl\<rparr> = Inr ctx2"
    using ctx2 by (cases "a = []") (auto simp: tr_InitGenesis_def ctx1_def)
  with ctx2 admin assms(2,4) show ?thesis by (auto simp: tr_ExportGenesis_def)
qed

theorem tr_genesis_roundtrip_witness:
  "\<exists>g ctx1. tr_ExportGenesis ref_sdk tr_example = Inr g \<and> tr_InitGenesis ref_sdk ref_ctx g = Inr ctx1 \<and>
     GetRegistry ctx1 = Inr [Some (clp_entry (''ceth'', 18))] \<and> GetAdminAccount ctx1 = Inr ''admin''"
  by (rule tr_genesis_roundtrip [OF ref_addr_laws]) (simp_all add: ref_ctx_def valid_address_def)

text \<open>
  In the registry a chain starts with no name occurs twice, and every one of its names is
  found with permission to be pooled, a positive number of decimals and itself as base denomination.
\<close>

theorem InitialRegistry_ok:
  "unique_names InitialRegistry \<and>
   list_all (\<lambda>t. case GetEntry InitialRegistry (fst t) of
       Inl _ \<Rightarrow> False
     | Inr e \<Rightarrow> CheckEntryPermissions e [Permission_CLP] \<and> 0 < Decimals e \<and> Decimals e = snd t \<and> BaseDenom e = fst t)
     initial_tokens"
proof -
  have names: "map (\<lambda>t. ToLower (fst t)) initial_tokens = map fst initial_tokens" by code_simp
  have prefix: "list_all (\<lambda>t. \<not> HasPrefix (fst t) ''ibc/'' \<and> 0 < snd t) initial_tokens" by code_simp
  have reg: "InitialRegistry = map (\<lambda>t. Some ((clp_entry t)\<lparr>BaseDenom := fst t\<rparr>)) initial_tokens"
    using prefix by (auto simp: InitialRegistry_def clp_entry_def list_all_iff)
  have "distinct (map (\<lambda>t. ToLower (fst t)) initial_tokens)" unfolding names by code_simp
  then have unique: "unique_names InitialRegistry"
    by (auto simp: unique_names_def reg clp_entry_def comp_def)
  have "case GetEntry InitialRegistry (fst t) of
       Inl _ \<Rightarrow> False
     | Inr e \<Rightarrow> CheckEntryPermissions e [Permission_CLP] \<and> 0 < Decimals e \<and> Decimals e = snd t \<and> BaseDenom e = fst t"
    if t: "t \<in> set initial_tokens" for t
  proof -
    have "Some ((clp_entry t)\<lparr>BaseDenom := fst t\<rparr>) \<in> set InitialRegistry" using t by (simp add: reg)
    from GetEntry_unique [OF unique this]
    have "GetEntry InitialRegistry (fst t) = Inr ((clp_entry t)\<lparr>BaseDenom := fst t\<rparr>)" by (simp add: clp_entry_def)
    moreover have "0 < snd t" using prefix t by (simp add: list_all_iff)
    ultimately show ?thesis by (simp add: clp_entry_def)
  qed
  with unique show ?thesis unfolding list_all_iff by blast
qed

text \<open>
  The migration to version 2 keeps the registry's names and order, and every lookup then finds
  the migrated entry: import permission added and the counterparty cleared exactly for the
  pooled, exportable tokens of more than nine decimals.
\<close>

theorem MigrateToVer2_lookup:
  assumes "GetRegistry ctx = Inr wl" and "None \<notin> set wl"
  shows "\<exists>ctx' wl'. MigrateToVer2 ctx = Inr ctx' \<and> GetRegistry ctx' = Inr wl' \<and>
           (\<forall>d. GetEntry wl' d = (case GetEntry wl d of Inl e \<Rightarrow> Inl e | Inr e \<Rightarrow> Inr (migrate_entry e)))"
proof -
  have wl: "map_r (\<lambda>p. bind_r (deref p) (\<lambda>entry. Inr (Some (migrate_entry entry)))) wl = Inr (map (map_option migrate_entry) wl)"
    using assms(2) by (intro map_r_total) (metis bind_r.simps(2) deref.simps(2) option.map(2) option.exhaust)
  have "None \<notin> set (map (map_option migrate_entry) wl)" using assms(2) by auto
  then obtain ctx' where c: "tr_SetRegistry ctx (map (map_option migrate_entry) wl) = Inr ctx'"
    by (simp add: tr_SetRegistry_def)
  have "find_entry (map (map_option migrate_entry) wl) d = map_option migrate_entry (find_entry wl d)" for d
  proof (induction wl)
    case (Cons p wl)
    then show ?case by (cases p) (auto simp: migrate_entry_def)
  qed simp
  then have "GetEntry (map (map_option migrate_entry) wl) d =
      (case GetEntry wl d of Inl e \<Rightarrow> Inl e | Inr e \<Rightarrow> Inr (migrate_entry e))" for d
    by (simp add: GetEntry_find split: option.splits)
  with c wl assms(1) show ?thesis by (auto simp: MigrateToVer2_def)
qed

theorem MigrateToVer2_lookup_witness:
  "\<exists>ctx' wl'. MigrateToVer2 tr_example = Inr ctx' \<and> GetRegistry ctx' = Inr wl' \<and>
     GetEntry wl' ''ceth'' = Inr (clp_entry (''ceth'', 18))"
proof -
  have "GetEntry [Some (clp_entry (''ceth'', 18))] ''ceth'' = Inr (clp_entry (''ceth'', 18))"
    by (simp add: clp_entry_def)
  moreover have "migrate_entry (clp_entry (''ceth'', 18)) = clp_entry (''ceth'', 18)"
    by (simp add: migrate_entry_def clp_entry_def)
  ultimately show ?thesis using MigrateToVer2_lookup [OF tr_example_reads(1)] by fastforce
qed

end
