(* ===== verification/CLP_Keeper.thy ===== *)
theory CLP_Keeper
  imports CLP_Math TokenRegistry
begin

text \<open>
  The keeper of the liquidity-pool module (\<^verbatim>\<open>x/clp/keeper\<close>: \<^verbatim>\<open>pool.go\<close>, \<^verbatim>\<open>liquidityprovider.go\<close>,
  \<^verbatim>\<open>validatorWhitelist.go\<close>, \<^verbatim>\<open>params.go\<close>, \<^verbatim>\<open>executors.go\<close>): pools, liquidity providers and the
  admin list in the module's store, and the operations on them that move coins. The pool and
  the provider part are shown to be repositories.
\<close>

section \<open>Pools\<close>

definition pool_key :: "string \<Rightarrow> string" where
  "pool_key symbol = GetPoolKey symbol (Symbol GetSettlementAsset)"

definition SetPool :: "'b sdk \<Rightarrow> 'b ctx \<Rightarrow> pool \<Rightarrow> 'b ctx result" where
  "SetPool S ctx pool =
     bind_r (panics (Pool_Validate S pool)) (\<lambda>ok.
     if \<not> ok then Inl clp_ErrUnableToSetPool
     else bind_r (deref (ExternalAsset pool)) (\<lambda>a.
          Inr (ctx\<lparr>clp_kv := kv_set (clp_kv ctx) (pool_key (Symbol a)) (PoolV pool)\<rparr>)))"

definition ValidatePool :: "'b sdk \<Rightarrow> pool \<Rightarrow> bool option" where
  "ValidatePool S pool = Pool_Validate S pool"

definition GetPool :: "'b ctx \<Rightarrow> string \<Rightarrow> pool result" where
  "GetPool ctx symbol =
     (if \<not> kv_has (clp_kv ctx) (pool_key symbol) then Inl clp_ErrPoolDoesNotExist
      else (case kv_get (clp_kv ctx) (pool_key symbol) of
              Some (PoolV p) \<Rightarrow> Inr p
            | _ \<Rightarrow> Inl (Panic ''unmarshal'')))"

definition ExistsPool :: "'b ctx \<Rightarrow> string \<Rightarrow> bool" where
  "ExistsPool ctx symbol = kv_has (clp_kv ctx) (pool_key symbol)"

definition unmarshal_pool :: "clp_value \<Rightarrow> pool option" where
  "unmarshal_pool v = (case v of PoolV p \<Rightarrow> Some p | _ \<Rightarrow> None)"

definition GetPools :: "'b ctx \<Rightarrow> pool list result" where
  "GetPools ctx = map_r (\<lambda>e. panics (unmarshal_pool (snd e))) (kv_prefix (clp_kv ctx) PoolPrefix)"

text \<open>The entries of a page: those the paging function flags.\<close>

definition on_page :: "bool list \<Rightarrow> 'v kv \<Rightarrow> 'v list" where
  "on_page flags es = map (\<lambda>fe. snd (snd fe)) (filter fst (zip flags es))"

text \<open>The error the paging queries return, \<^verbatim>\<open>status.Error(codes.Internal, ...)\<close>.\<close>

abbreviation "ErrInternal \<equiv> ErrNew ''Internal''"

definition GetPoolsPaginated :: "'b sdk \<Rightarrow> 'b ctx \<Rightarrow> page_request option \<Rightarrow> (pool list \<times> page_response) result" where
  "GetPoolsPaginated S ctx pagination =
     (let poolStore = kv_prefix (clp_kv ctx) PoolPrefix in
      bind_r (wrap_err ErrInternal (Paginate S pagination
        (map (\<lambda>e. (tl (fst e), if unmarshal_pool (snd e) = None then Inl (ErrNew ''unmarshal'') else Inr ())) poolStore)))
      (\<lambda>(flags, pageRes). Inr (List.map_filter unmarshal_pool (on_page flags poolStore), pageRes)))"

definition DestroyPool :: "'b ctx \<Rightarrow> string \<Rightarrow> 'b ctx result" where
  "DestroyPool ctx symbol =
     (if \<not> kv_has (clp_kv ctx) (pool_key symbol) then Inl clp_ErrPoolDoesNotExist
      else Inr (ctx\<lparr>clp_kv := kv_delete (clp_kv ctx) (pool_key symbol)\<rparr>))"

section \<open>Liquidity providers\<close>

text \<open>An invalid provider is dropped without an error.\<close>

definition SetLiquidityProvider :: "'b sdk \<Rightarrow> 'b ctx \<Rightarrow> liquidity_provider \<Rightarrow> 'b ctx result" where
  "SetLiquidityProvider S ctx lp =
     bind_r (panics (LiquidityProvider_Validate S lp)) (\<lambda>ok.
     if \<not> ok then Inr ctx
     else bind_r (deref (lp_Asset lp)) (\<lambda>a.
          Inr (ctx\<lparr>clp_kv := kv_set (clp_kv ctx)
                     (GetLiquidityProviderKey (Symbol a) (LiquidityProviderAddress lp)) (LpV lp)\<rparr>)))"

definition GetLiquidityProvider :: "'b ctx \<Rightarrow> string \<Rightarrow> string \<Rightarrow> liquidity_provider result" where
  "GetLiquidityProvider ctx symbol lpAddress =
     (if \<not> kv_has (clp_kv ctx) (GetLiquidityProviderKey symbol lpAddress)
      then Inl clp_ErrLiquidityProviderDoesNotExist
      else (case kv_get (clp_kv ctx) (GetLiquidityProviderKey symbol lpAddress) of
              Some (LpV lp) \<Rightarrow> Inr lp
            | _ \<Rightarrow> Inl (Panic ''unmarshal'')))"

definition DestroyLiquidityProvider :: "'b ctx \<Rightarrow> string \<Rightarrow> string \<Rightarrow> 'b ctx" where
  "DestroyLiquidityProvider ctx symbol lpAddress =
     (if \<not> kv_has (clp_kv ctx) (GetLiquidityProviderKey symbol lpAddress) then ctx
      else ctx\<lparr>clp_kv := kv_delete (clp_kv ctx) (GetLiquidityProviderKey symbol lpAddress)\<rparr>)"

definition unmarshal_lp :: "clp_value \<Rightarrow> liquidity_provider option" where
  "unmarshal_lp v = (case v of LpV l \<Rightarrow> Some l | _ \<Rightarrow> None)"

text \<open>The callback of the filtered queries: an entry that does not unmarshal is an error.\<close>

definition lp_hit :: "(liquidity_provider \<Rightarrow> bool) \<Rightarrow> clp_value \<Rightarrow> bool result" where
  "lp_hit f v =
     (case unmarshal_lp v of
        None \<Rightarrow> Inl (ErrNew ''unmarshal'')
      | Some l \<Rightarrow> Inr (lp_Asset l \<noteq> None \<and> f l))"

definition filter_lps :: "'b sdk \<Rightarrow> 'b ctx \<Rightarrow> (liquidity_provider \<Rightarrow> bool) \<Rightarrow> page_request option
    \<Rightarrow> (liquidity_provider list \<times> page_response) result" where
  "filter_lps S ctx f pagination =
     (let lpStore = kv_prefix (clp_kv ctx) LiquidityProviderPrefix in
      bind_r (wrap_err ErrInternal (FilteredPaginate S pagination (map (\<lambda>e. (tl (fst e), lp_hit f (snd e))) lpStore)))
      (\<lambda>(flags, pageRes). Inr (List.map_filter unmarshal_lp (on_page flags lpStore), pageRes)))"

definition GetAssetsForLiquidityProviderPaginated :: "'b sdk \<Rightarrow> 'b ctx \<Rightarrow> address \<Rightarrow> page_request option
    \<Rightarrow> (asset list \<times> page_response) result" where
  "GetAssetsForLiquidityProviderPaginated S ctx lpAddress pagination =
     bind_r (filter_lps S ctx (\<lambda>l. LiquidityProviderAddress l = AccAddress_String S lpAddress) pagination)
       (\<lambda>(lps, pageRes). Inr (List.map_filter lp_Asset lps, pageRes))"

definition GetLiquidityProvidersForAssetPaginated :: "'b sdk \<Rightarrow> 'b ctx \<Rightarrow> asset \<Rightarrow> page_request option
    \<Rightarrow> (liquidity_provider list \<times> page_response) result" where
  "GetLiquidityProvidersForAssetPaginated S ctx asset pagination =
     filter_lps S ctx (\<lambda>l. case lp_Asset l of None \<Rightarrow> False | Some a \<Rightarrow> Asset_Equals a asset) pagination"

definition GetAllLiquidityProvidersPaginated :: "'b sdk \<Rightarrow> 'b ctx \<Rightarrow> page_request option
    \<Rightarrow> (liquidity_provider list \<times> page_response) result" where
  "GetAllLiquidityProvidersPaginated S ctx pagination =
     (let lpStore = kv_prefix (clp_kv ctx) LiquidityProviderPrefix in
      bind_r (wrap_err ErrInternal (Paginate S pagination
        (map (\<lambda>e. (tl (fst e), if unmarshal_lp (snd e) = None then Inl (ErrNew ''unmarshal'') else Inr ())) lpStore)))
      (\<lambda>(flags, pageRes). Inr (List.map_filter unmarshal_lp (on_page flags lpStore), pageRes)))"

section \<open>The admin list and the parameters\<close>

definition SetClpWhiteList :: "'b sdk \<Rightarrow> 'b ctx \<Rightarrow> address list \<Rightarrow> 'b ctx" where
  "SetClpWhiteList S ctx validatorList =
     ctx\<lparr>clp_kv := kv_set (clp_kv ctx) WhiteListValidatorPrefix (WhitelistV (map (AccAddress_String S) validatorList))\<rparr>"

definition ExistsClpWhiteList :: "'b ctx \<Rightarrow> bool" where
  "ExistsClpWhiteList ctx = kv_has (clp_kv ctx) WhiteListValidatorPrefix"

definition parse_addr :: "'b sdk \<Rightarrow> string \<Rightarrow> address result" where
  "parse_addr S s = (case AccAddressFromBech32 S s of Inl _ \<Rightarrow> Inl (Panic ''invalid address'') | Inr a \<Rightarrow> Inr a)"

definition GetClpWhiteList :: "'b sdk \<Rightarrow> 'b ctx \<Rightarrow> address list result" where
  "GetClpWhiteList S ctx =
     (case kv_get (clp_kv ctx) WhiteListValidatorPrefix of
        None \<Rightarrow> Inr []
      | Some (WhitelistV vs) \<Rightarrow> map_r (parse_addr S) vs
      | _ \<Rightarrow> Inl (Panic ''unmarshal''))"

definition ValidateAddress :: "'b sdk \<Rightarrow> 'b ctx \<Rightarrow> address \<Rightarrow> bool result" where
  "ValidateAddress S ctx address =
     (if \<not> ExistsClpWhiteList ctx then Inr False
      else bind_r (GetClpWhiteList S ctx) (\<lambda>valList. Inr (address \<in> set valList)))"

definition GetMinCreatePoolThreshold :: "'b sdk \<Rightarrow> 'b ctx \<Rightarrow> int" where
  "GetMinCreatePoolThreshold S ctx = ParamGet S (sdk_state ctx) ''clp'' ''MinCreatePoolThreshold''"

definition clp_GetParams :: "'b sdk \<Rightarrow> 'b ctx \<Rightarrow> int" where
  "clp_GetParams S ctx = ParamGet S (sdk_state ctx) ''clp'' ''MinCreatePoolThreshold''"

text \<open>The only parameter is a \<^verbatim>\<open>uint64\<close>; writing a parameter set panics when its validation fails.\<close>

definition validateMinCreatePoolThreshold :: "int \<Rightarrow> unit result" where
  "validateMinCreatePoolThreshold v =
     (if v = 0 then Inl (ErrNew ''min create pool threshold must be positive'') else Inr ())"

definition clp_SetParams :: "'b sdk \<Rightarrow> 'b ctx \<Rightarrow> int \<Rightarrow> 'b ctx result" where
  "clp_SetParams S ctx threshold =
     (case validateMinCreatePoolThreshold threshold of
        Inl _ \<Rightarrow> Inl (Panic ''value from ParamSetPair is invalid'')
      | Inr _ \<Rightarrow> Inr (ctx\<lparr>sdk_state := ParamSet S (sdk_state ctx) ''clp'' ''MinCreatePoolThreshold'' threshold\<rparr>))"

section \<open>Executors\<close>

definition ParseToInt :: "'b sdk \<Rightarrow> string \<Rightarrow> int result" where
  "ParseToInt S nu = (case NewIntFromString S nu of None \<Rightarrow> Inl clp_ErrUnableToParseInt | Some n \<Rightarrow> Inr n)"

definition exec_CreatePool :: "'b sdk \<Rightarrow> 'b ctx \<Rightarrow> int \<Rightarrow> msg_create_pool \<Rightarrow> ('b ctx \<times> pool) result" where
  "exec_CreatePool S ctx poolUints msg =
     bind_r (ParseToInt S (itoa (cp_ExternalAssetAmount msg))) (\<lambda>extInt.
     bind_r (ParseToInt S (itoa (cp_NativeAssetAmount msg))) (\<lambda>nativeInt.
     bind_r (AccAddressFromBech32 S (cp_Signer msg)) (\<lambda>addr.
     bind_r (deref (cp_ExternalAsset msg)) (\<lambda>ext.
     bind_r (panics (NewCoin S (Symbol ext) extInt)) (\<lambda>externalAssetCoin.
     bind_r (panics (NewCoin S (Symbol GetSettlementAsset) nativeInt)) (\<lambda>nativeAssetCoin.
     if \<not> HasBalance S (sdk_state ctx) addr externalAssetCoin \<and> \<not> HasBalance S (sdk_state ctx) addr nativeAssetCoin
     then Inl clp_ErrBalanceNotAvailable
     else let pool = NewPool (cp_ExternalAsset msg) (cp_NativeAssetAmount msg) (cp_ExternalAssetAmount msg) poolUints in
     bind_r (panics (NewCoins S [externalAssetCoin, nativeAssetCoin])) (\<lambda>coins.
     bind_r (with_bank ctx (SendCoinsFromAccountToModule S (sdk_state ctx) addr clp_ModuleName coins)) (\<lambda>ctx.
     bind_r (wrap_err clp_ErrUnableToSetPool (SetPool S ctx pool)) (\<lambda>ctx.
     Inr (ctx, pool))))))))))"

definition exec_CreateLiquidityProvider :: "'b sdk \<Rightarrow> 'b ctx \<Rightarrow> asset option \<Rightarrow> int \<Rightarrow> address
    \<Rightarrow> ('b ctx \<times> liquidity_provider) result" where
  "exec_CreateLiquidityProvider S ctx asset lpunits lpaddress =
     (let lp = NewLiquidityProvider S asset lpunits lpaddress in
      bind_r (SetLiquidityProvider S ctx lp) (\<lambda>ctx. Inr (ctx, lp)))"

text \<open>
  \<^verbatim>\<open>extInt != sdk.ZeroInt()\<close> compares pointers and always holds, so both coins are added; adding a zero coin
  leaves the list as it is, which may then have fewer than two coins: \<open>has_one\<close> is the check
  \<^verbatim>\<open>!HasBalance(coins[0]) && !HasBalance(coins[1])\<close>, with its index panics.
\<close>

fun has_one :: "('c \<Rightarrow> bool) \<Rightarrow> 'c list \<Rightarrow> bool result" where
  "has_one has [] = Inl (Panic ''index out of range'')"
| "has_one has [c] = (if has c then Inr True else Inl (Panic ''index out of range''))"
| "has_one has (c # d # cs) = Inr (has c \<or> has d)"

definition lp_event :: "'b sdk \<Rightarrow> string \<Rightarrow> 'b ctx \<Rightarrow> liquidity_provider \<Rightarrow> event" where
  "lp_event S type ctx lp =
     (type, [(''liquidity_provider'', LiquidityProvider_String S lp), (''height'', itoa (BlockHeight ctx))])"

text \<open>The provider that gets the units: the one stored under the signer, or a new one, which then gets nothing more.\<close>

definition find_or_create_lp :: "'b sdk \<Rightarrow> 'b ctx \<Rightarrow> msg_add_liquidity \<Rightarrow> asset \<Rightarrow> address \<Rightarrow> int
    \<Rightarrow> ('b ctx \<times> liquidity_provider \<times> int) result" where
  "find_or_create_lp S ctx msg ext addr lpUnits =
     (case GetLiquidityProvider ctx (Symbol ext) (al_Signer msg) of
        Inr lp \<Rightarrow> Inr (ctx, lp, lpUnits)
      | Inl (Panic m) \<Rightarrow> Inl (Panic m)
      | Inl _ \<Rightarrow>
          bind_r (exec_CreateLiquidityProvider S ctx (al_ExternalAsset msg) lpUnits addr) (\<lambda>(ctx, lp).
          Inr (EmitEvents [lp_event S ''created_new_liquidity_provider'' ctx lp] ctx, lp, 0)))"

definition exec_AddLiquidity :: "'b sdk \<Rightarrow> 'b ctx \<Rightarrow> msg_add_liquidity \<Rightarrow> pool \<Rightarrow> int \<Rightarrow> int
    \<Rightarrow> ('b ctx \<times> liquidity_provider) result" where
  "exec_AddLiquidity S ctx msg pool newPoolUnits lpUnits =
     bind_r (ParseToInt S (itoa (al_ExternalAssetAmount msg))) (\<lambda>extInt.
     bind_r (ParseToInt S (itoa (al_NativeAssetAmount msg))) (\<lambda>nativeInt.
     bind_r (deref (al_ExternalAsset msg)) (\<lambda>ext.
     bind_r (panics (NewCoin S (Symbol ext) extInt)) (\<lambda>externalAssetCoin.
     bind_r (panics (Coins_Add S [] [externalAssetCoin])) (\<lambda>coins.
     bind_r (panics (NewCoin S (Symbol GetSettlementAsset) nativeInt)) (\<lambda>nativeAssetCoin.
     bind_r (panics (Coins_Add S coins [nativeAssetCoin])) (\<lambda>coins.
     bind_r (AccAddressFromBech32 S (al_Signer msg)) (\<lambda>addr.
     bind_r (has_one (HasBalance S (sdk_state ctx) addr) coins) (\<lambda>has.
     if \<not> has then Inl clp_ErrBalanceNotAvailable
     else
     bind_r (with_bank ctx (SendCoinsFromAccountToModule S (sdk_state ctx) addr clp_ModuleName coins)) (\<lambda>ctx.
     bind_r (panics (Uint_Add S (NativeAssetBalance pool) (al_NativeAssetAmount msg))) (\<lambda>nativeBalance.
     bind_r (panics (Uint_Add S (ExternalAssetBalance pool) (al_ExternalAssetAmount msg))) (\<lambda>externalBalance.
     let pool = pool\<lparr>PoolUnits := newPoolUnits, NativeAssetBalance := nativeBalance, ExternalAssetBalance := externalBalance\<rparr> in
     bind_r (find_or_create_lp S ctx msg ext addr lpUnits) (\<lambda>(ctx, lp, lpUnits).
     bind_r (panics (Uint_Add S (LiquidityProviderUnits lp) lpUnits)) (\<lambda>units.
     let lp = lp\<lparr>LiquidityProviderUnits := units\<rparr> in
     bind_r (wrap_err clp_ErrUnableToSetPool (SetPool S ctx pool)) (\<lambda>ctx.
     bind_r (SetLiquidityProvider S ctx lp) (\<lambda>ctx.
     Inr (ctx, lp)))))))))))))))))"

definition exec_RemoveLiquidityProvider :: "'b sdk \<Rightarrow> 'b ctx \<Rightarrow> coins \<Rightarrow> liquidity_provider \<Rightarrow> 'b ctx result" where
  "exec_RemoveLiquidityProvider S ctx coins lp =
     bind_r (AccAddressFromBech32 S (LiquidityProviderAddress lp)) (\<lambda>lpaddr.
     bind_r (wrap_err clp_ErrUnableToAddBalance
       (with_bank ctx (SendCoinsFromModuleToAccount S (sdk_state ctx) clp_ModuleName lpaddr coins))) (\<lambda>ctx.
     bind_r (deref (lp_Asset lp)) (\<lambda>a.
     Inr (DestroyLiquidityProvider ctx (Symbol a) (LiquidityProviderAddress lp)))))"

definition exec_DecommissionPool :: "'b ctx \<Rightarrow> pool \<Rightarrow> 'b ctx result" where
  "exec_DecommissionPool ctx pool =
     bind_r (deref (ExternalAsset pool)) (\<lambda>a. wrap_err clp_ErrUnableToDestroyPool (DestroyPool ctx (Symbol a)))"

text \<open>The coins of \<^verbatim>\<open>RemoveLiquidity\<close>: a coin that is zero or negative is left out.\<close>

definition add_positive :: "'b sdk \<Rightarrow> coins \<Rightarrow> coin \<Rightarrow> coins result" where
  "add_positive S cs c = (if coin_Amount c \<noteq> 0 \<and> \<not> coin_Amount c < 0 then panics (Coins_Add S cs [c]) else Inr cs)"

definition exec_RemoveLiquidity :: "'b sdk \<Rightarrow> 'b ctx \<Rightarrow> pool \<Rightarrow> coin \<Rightarrow> coin \<Rightarrow> liquidity_provider \<Rightarrow> int \<Rightarrow> int \<Rightarrow> int
    \<Rightarrow> 'b ctx result" where
  "exec_RemoveLiquidity S ctx pool externalAssetCoin nativeAssetCoin lp lpUnitsLeft poolOriginalEB poolOriginalNB =
     bind_r (AccAddressFromBech32 S (LiquidityProviderAddress lp)) (\<lambda>lpAddr.
     bind_r (panics (NewCoins S [])) (\<lambda>sendCoins.
     bind_r (add_positive S sendCoins externalAssetCoin) (\<lambda>sendCoins.
     bind_r (add_positive S sendCoins nativeAssetCoin) (\<lambda>sendCoins.
     if poolOriginalEB \<le> coin_Amount externalAssetCoin \<or> poolOriginalNB \<le> coin_Amount nativeAssetCoin
     then Inl clp_ErrPoolTooShallow
     else
     bind_r (wrap_err clp_ErrUnableToSetPool (SetPool S ctx pool)) (\<lambda>ctx.
     bind_r (if sendCoins \<noteq> []
             then if \<not> list_all (HasBalance S (sdk_state ctx) (GetCLPModuleAddress S)) sendCoins
                  then Inl clp_ErrNotEnoughLiquidity
                  else with_bank ctx (SendCoinsFromModuleToAccount S (sdk_state ctx) clp_ModuleName lpAddr sendCoins)
             else Inr ctx) (\<lambda>ctx.
     if lpUnitsLeft = 0
     then bind_r (deref (lp_Asset lp)) (\<lambda>a.
          Inr (DestroyLiquidityProvider ctx (Symbol a) (LiquidityProviderAddress lp)))
     else SetLiquidityProvider S ctx (lp\<lparr>LiquidityProviderUnits := lpUnitsLeft\<rparr>)))))))"

definition exec_InitiateSwap :: "'b sdk \<Rightarrow> 'b ctx \<Rightarrow> coin \<Rightarrow> address \<Rightarrow> 'b ctx result" where
  "exec_InitiateSwap S ctx sentCoin swapper =
     (if \<not> HasBalance S (sdk_state ctx) swapper sentCoin then Inl clp_ErrBalanceNotAvailable
      else bind_r (panics (NewCoins S [sentCoin])) (\<lambda>coins.
           with_bank ctx (SendCoinsFromAccountToModule S (sdk_state ctx) swapper clp_ModuleName coins)))"

definition exec_FinalizeSwap :: "'b sdk \<Rightarrow> 'b ctx \<Rightarrow> string \<Rightarrow> pool \<Rightarrow> msg_swap \<Rightarrow> 'b ctx result" where
  "exec_FinalizeSwap S ctx sentAmount finalPool msg =
     bind_r (wrap_err clp_ErrUnableToSetPool (SetPool S ctx finalPool)) (\<lambda>ctx.
     bind_r (ParseToInt S sentAmount) (\<lambda>sentAmountInt.
     bind_r (AccAddressFromBech32 S (sw_Signer msg)) (\<lambda>addr.
     bind_r (deref (sw_ReceivedAsset msg)) (\<lambda>received.
     bind_r (panics (NewCoin S (Symbol received) sentAmountInt)) (\<lambda>sentCoin.
     bind_r (panics (NewCoins S [sentCoin])) (\<lambda>coins.
     with_bank ctx (SendCoinsFromModuleToAccount S (sdk_state ctx) clp_ModuleName addr coins)))))))"

end
