(* ===== verification/CLP_Msgs.thy ===== *)
theory CLP_Msgs
  imports CLP_Keeper
begin

text \<open>
  The messages of the liquidity-pool module (\<^verbatim>\<open>x/clp/keeper/msg_server.go\<close>, \<^verbatim>\<open>handler.go\<close>).
  A handler takes the context and returns the new one; an error or a
  panic carries no context, since the writes of a failed transaction are dropped.
\<close>

section \<open>Shared steps\<close>

text \<open>The registry entry of a token that may be pooled.\<close>

definition clp_entry_of :: "registry \<Rightarrow> string \<Rightarrow> registry_entry result" where
  "clp_entry_of registry symbol = wrap_err clp_ErrTokenNotSupported (GetEntry registry symbol)"

definition clp_permitted :: "registry_entry \<Rightarrow> unit result" where
  "clp_permitted entry =
     (if \<not> CheckEntryPermissions entry [Permission_CLP] then Inl tr_ErrPermissionDenied else Inr ())"

definition height_attr :: "'b ctx \<Rightarrow> string \<times> string" where
  "height_attr ctx = (''height'', itoa (BlockHeight ctx))"

definition max_page :: page_request where
  "max_page = \<lparr>page_Key = [], page_Offset = 0, page_Limit = 18446744073709551615, page_CountTotal = False\<rparr>"

section \<open>Decommissioning a pool\<close>

text \<open>
  One round of the refund loop: the balances that are subtracted are local counters, whose
  subtraction panics when more than the pool holds would be paid out.
\<close>

definition refund_lp :: "'b sdk \<Rightarrow> msg_decommission_pool \<Rightarrow> pool \<Rightarrow> 'b ctx \<times> int \<times> int \<times> int \<Rightarrow> liquidity_provider
    \<Rightarrow> ('b ctx \<times> int \<times> int \<times> int) result" where
  "refund_lp S msg pool st lp =
     (case st of (ctx, poolUnits, nativeAssetBalance, externalAssetBalance) \<Rightarrow>
      bind_r (panics (CalculateAllAssetsForLP S pool lp)) (\<lambda>(withdrawNativeAsset, withdrawExternalAsset, _, _).
      bind_r (panics (Uint_Sub S poolUnits (LiquidityProviderUnits lp))) (\<lambda>poolUnits.
      bind_r (panics (Uint_Sub S nativeAssetBalance withdrawNativeAsset)) (\<lambda>nativeAssetBalance.
      bind_r (panics (Uint_Sub S externalAssetBalance withdrawExternalAsset)) (\<lambda>externalAssetBalance.
      bind_r (ParseToInt S (itoa withdrawNativeAsset)) (\<lambda>withdrawNativeAssetInt.
      bind_r (ParseToInt S (itoa withdrawExternalAsset)) (\<lambda>withdrawExternalAssetInt.
      bind_r (panics (NewCoin S (Symbol GetSettlementAsset) withdrawNativeAssetInt)) (\<lambda>withdrawNativeCoins.
      bind_r (panics (NewCoin S (dp_Symbol msg) withdrawExternalAssetInt)) (\<lambda>withdrawExternalCoins.
      bind_r (panics (NewCoins S [withdrawExternalCoins, withdrawNativeCoins])) (\<lambda>refundingCoins.
      bind_r (wrap_err clp_ErrUnableToRemoveLiquidityProvider
                (exec_RemoveLiquidityProvider S ctx refundingCoins lp)) (\<lambda>ctx.
      Inr (ctx, poolUnits, nativeAssetBalance, externalAssetBalance))))))))))))"

definition clp_DecommissionPool :: "'b sdk \<Rightarrow> 'b ctx \<Rightarrow> msg_decommission_pool \<Rightarrow> 'b ctx result" where
  "clp_DecommissionPool S ctx msg =
     bind_r (wrap_err clp_ErrPoolDoesNotExist (GetPool ctx (dp_Symbol msg))) (\<lambda>pool.
     bind_r (AccAddressFromBech32 S (dp_Signer msg)) (\<lambda>addAddr.
     bind_r (ValidateAddress S ctx addAddr) (\<lambda>ok.
     if \<not> ok then Inl clp_ErrInvalid
     else
     bind_r (panics (NewUintFromString S PoolThrehold)) (\<lambda>threshold.
     if threshold \<le> NativeAssetBalance pool then Inl clp_ErrBalanceTooHigh
     else
     bind_r (case ExternalAsset pool of None \<Rightarrow> Inl (ErrNew ''nill external asset'') | Some a \<Rightarrow> Inr a) (\<lambda>ext.
     bind_r (wrap_err clp_ErrLiquidityProviderDoesNotExist
               (GetLiquidityProvidersForAssetPaginated S ctx ext (Some max_page))) (\<lambda>(lpList, _).
     bind_r (fold_r (refund_lp S msg pool)
               (ctx, PoolUnits pool, NativeAssetBalance pool, ExternalAssetBalance pool) lpList) (\<lambda>(ctx, _, _, _).
     bind_r (wrap_err clp_ErrUnableToDecommissionPool (exec_DecommissionPool ctx pool)) (\<lambda>ctx.
     Inr (EmitEvents
       [(''decommission_pool'', [(''pool'', Pool_String S pool), height_attr ctx]),
        message_event ''clp'' (dp_Signer msg)] ctx)))))))))"

section \<open>Swapping\<close>

text \<open>
  The first leg of a swap between two external tokens: the sent token is swapped to the native
  one in its own pool. It returns the amount and the asset the second leg starts from, the price
  impact and the fee.
\<close>

definition swap_first_leg :: "'b sdk \<Rightarrow> 'b ctx \<Rightarrow> asset \<Rightarrow> asset \<Rightarrow> int \<Rightarrow> int \<Rightarrow> pool
    \<Rightarrow> ('b ctx \<times> int \<times> asset \<times> int \<times> int) result" where
  "swap_first_leg S ctx sent received sentAmount decimals inPool =
     (if \<not> Asset_Equals sent GetSettlementAsset \<and> \<not> Asset_Equals received GetSettlementAsset
      then
      bind_r (panics (GetNormalizationFactor S decimals)) (\<lambda>(normalizationFactor, adjustExternalToken).
      bind_r (SwapOne S sent sentAmount GetSettlementAsset inPool normalizationFactor adjustExternalToken)
             (\<lambda>(emitAmount, lp, ts, finalPool).
      bind_r (wrap_err clp_ErrUnableToSetPool (SetPool S ctx finalPool)) (\<lambda>ctx.
      bind_r (panics (Uint_Add S 0 ts)) (\<lambda>priceImpact.
      bind_r (panics (Uint_Add S 0 lp)) (\<lambda>liquidityFeeNative.
      Inr (ctx, emitAmount, GetSettlementAsset, priceImpact, liquidityFeeNative))))))
      else Inr (ctx, sentAmount, sent, 0, 0))"

text \<open>The total fee of the swap, in the received asset.\<close>

definition total_fee :: "'b sdk \<Rightarrow> int \<Rightarrow> int \<Rightarrow> int \<Rightarrow> asset \<Rightarrow> pool \<Rightarrow> int result" where
  "total_fee S liquidityFeeNative lp decimals received outPool =
     (if 0 < liquidityFeeNative
      then
      bind_r (panics (Uint_Add S 0 lp)) (\<lambda>liquidityFeeExternal.
      bind_r (panics (GetNormalizationFactor S decimals)) (\<lambda>(normalizationFactor, adjustExternalToken).
      bind_r (panics (GetSwapFee S liquidityFeeNative received outPool normalizationFactor adjustExternalToken))
             (\<lambda>firstSwapFeeInOutputAsset.
      panics (Uint_Add S liquidityFeeExternal firstSwapFeeInOutputAsset))))
      else panics (Uint_Add S liquidityFeeNative lp))"

definition clp_Swap :: "'b sdk \<Rightarrow> 'b ctx \<Rightarrow> msg_swap \<Rightarrow> 'b ctx result" where
  "clp_Swap S ctx msg =
     bind_r (GetRegistry ctx) (\<lambda>registry.
     bind_r (deref (sw_SentAsset msg)) (\<lambda>sent.
     bind_r (clp_entry_of registry (Symbol sent)) (\<lambda>sAsset.
     bind_r (deref (sw_ReceivedAsset msg)) (\<lambda>received.
     bind_r (clp_entry_of registry (Symbol received)) (\<lambda>rAsset.
     bind_r (clp_permitted sAsset) (\<lambda>_.
     bind_r (clp_permitted rAsset) (\<lambda>_.
     bind_r (if \<not> Asset_Equals sent GetSettlementAsset
             then wrap_err clp_ErrPoolDoesNotExist (GetPool ctx (Symbol sent))
             else Inr empty_pool) (\<lambda>inPool.
     bind_r (ParseToInt S (itoa (sw_SentAmount msg))) (\<lambda>sentAmountInt.
     bind_r (AccAddressFromBech32 S (sw_Signer msg)) (\<lambda>accAddr.
     bind_r (panics (NewCoin S (Symbol sent) sentAmountInt)) (\<lambda>sentCoin.
     bind_r (wrap_err clp_ErrUnableToSwap (exec_InitiateSwap S ctx sentCoin accAddr)) (\<lambda>ctx.
     bind_r (swap_first_leg S ctx sent received (sw_SentAmount msg) (Decimals sAsset) inPool)
            (\<lambda>(ctx, sentAmount, sentAsset, priceImpact, liquidityFeeNative).
     let (outSymbol, decimals) =
       (if Asset_Equals received GetSettlementAsset then (Symbol sent, Decimals sAsset)
        else (Symbol received, Decimals rAsset)) in
     bind_r (wrap_err clp_ErrPoolDoesNotExist (GetPool ctx outSymbol)) (\<lambda>outPool.
     bind_r (panics (GetNormalizationFactor S decimals)) (\<lambda>(normalizationFactor, adjustExternalToken).
     bind_r (SwapOne S sentAsset sentAmount received outPool normalizationFactor adjustExternalToken)
            (\<lambda>(emitAmount, lp, ts, finalPool).
     if emitAmount < sw_MinReceivingAmount msg then Inl clp_ErrReceivedAmountBelowExpected
     else
     bind_r (wrap_err clp_ErrUnableToSwap (exec_FinalizeSwap S ctx (itoa emitAmount) finalPool msg)) (\<lambda>ctx.
     bind_r (total_fee S liquidityFeeNative lp decimals received outPool) (\<lambda>totalLiquidityFee.
     bind_r (panics (Uint_Add S priceImpact ts)) (\<lambda>priceImpact.
     Inr (EmitEvents
       [(''swap_successful'',
         [(''swap_amount'', itoa emitAmount), (''liquidity_fee'', itoa totalLiquidityFee),
          (''price_impact'', itoa priceImpact), (''in_pool'', Pool_String S inPool),
          (''out_pool'', Pool_String S outPool), height_attr ctx]),
        message_event ''clp'' (sw_Signer msg)] ctx))))))))))))))))))))"

section \<open>Removing liquidity\<close>

text \<open>
  The adjustment for asymmetry: part of one asset of the withdrawal is swapped to the other within
  the pool. When the swap gives nothing, the coins stay as they are, but the pool is still
  replaced by the swapped one.
\<close>

definition adjust_coins :: "'b sdk \<Rightarrow> string \<Rightarrow> string \<Rightarrow> int \<Rightarrow> int \<Rightarrow> coin \<Rightarrow> coin \<Rightarrow> (coin \<times> coin) result" where
  "adjust_coins S outSymbol inSymbol swapResult swapAmount outCoin inCoin =
     (if swapResult \<noteq> 0
      then
      bind_r (ParseToInt S (itoa swapResult)) (\<lambda>swapResultInt.
      bind_r (ParseToInt S (itoa swapAmount)) (\<lambda>swapAmountInt.
      bind_r (panics (NewCoin S outSymbol swapResultInt)) (\<lambda>swapCoin.
      bind_r (panics (NewCoin S inSymbol swapAmountInt)) (\<lambda>swapAmountInCoin.
      bind_r (panics (Coin_Add S outCoin swapCoin)) (\<lambda>outCoin.
      bind_r (panics (Coin_Sub S inCoin swapAmountInCoin)) (\<lambda>inCoin.
      Inr (outCoin, inCoin)))))))
      else Inr (outCoin, inCoin))"

definition adjust_asymmetry :: "'b sdk \<Rightarrow> int \<Rightarrow> asset \<Rightarrow> int \<Rightarrow> int \<Rightarrow> pool \<Rightarrow> coin \<Rightarrow> coin
    \<Rightarrow> (pool \<times> coin \<times> coin) result" where
  "adjust_asymmetry S asymmetry ext decimals swapAmount pool externalAssetCoin nativeAssetCoin =
     (if 0 < asymmetry
      then
      bind_r (panics (GetNormalizationFactor S decimals)) (\<lambda>(normalizationFactor, adjustExternalToken).
      bind_r (wrap_err clp_ErrUnableToSwap
                (SwapOne S GetSettlementAsset swapAmount ext pool normalizationFactor adjustExternalToken))
             (\<lambda>(swapResult, _, _, swappedPool).
      bind_r (adjust_coins S (Symbol ext) (Symbol GetSettlementAsset) swapResult swapAmount externalAssetCoin nativeAssetCoin)
             (\<lambda>(externalAssetCoin, nativeAssetCoin).
      Inr (swappedPool, externalAssetCoin, nativeAssetCoin))))
      else if asymmetry < 0
      then
      bind_r (panics (GetNormalizationFactor S decimals)) (\<lambda>(normalizationFactor, adjustExternalToken).
      bind_r (wrap_err clp_ErrUnableToSwap
                (SwapOne S ext swapAmount GetSettlementAsset pool normalizationFactor adjustExternalToken))
             (\<lambda>(swapResult, _, _, swappedPool).
      bind_r (adjust_coins S (Symbol GetSettlementAsset) (Symbol ext) swapResult swapAmount nativeAssetCoin externalAssetCoin)
             (\<lambda>(nativeAssetCoin, externalAssetCoin).
      Inr (swappedPool, externalAssetCoin, nativeAssetCoin))))
      else Inr (pool, externalAssetCoin, nativeAssetCoin))"

definition clp_RemoveLiquidity :: "'b sdk \<Rightarrow> 'b ctx \<Rightarrow> msg_remove_liquidity \<Rightarrow> 'b ctx result" where
  "clp_RemoveLiquidity S ctx msg =
     bind_r (GetRegistry ctx) (\<lambda>registry.
     bind_r (deref (rl_ExternalAsset msg)) (\<lambda>ext.
     bind_r (clp_entry_of registry (Symbol ext)) (\<lambda>eAsset.
     bind_r (clp_permitted eAsset) (\<lambda>_.
     bind_r (wrap_err clp_ErrPoolDoesNotExist (GetPool ctx (Symbol ext))) (\<lambda>pool.
     bind_r (wrap_err clp_ErrLiquidityProviderDoesNotExist
               (GetLiquidityProvider ctx (Symbol ext) (rl_Signer msg))) (\<lambda>lp.
     bind_r (panics (CalculateWithdrawal S (PoolUnits pool) (itoa (NativeAssetBalance pool))
               (itoa (ExternalAssetBalance pool)) (itoa (LiquidityProviderUnits lp))
               (itoa (rl_WBasisPoints msg)) (rl_Asymmetry msg)))
            (\<lambda>(withdrawNativeAssetAmount, withdrawExternalAssetAmount, lpUnitsLeft, swapAmount).
     bind_r (ParseToInt S (itoa withdrawExternalAssetAmount)) (\<lambda>withdrawExternalAssetAmountInt.
     bind_r (ParseToInt S (itoa withdrawNativeAssetAmount)) (\<lambda>withdrawNativeAssetAmountInt.
     bind_r (panics (NewCoin S (Symbol ext) withdrawExternalAssetAmountInt)) (\<lambda>externalAssetCoin.
     bind_r (panics (NewCoin S (Symbol GetSettlementAsset) withdrawNativeAssetAmountInt)) (\<lambda>nativeAssetCoin.
     bind_r (panics (do { u \<leftarrow> Uint_Sub S (PoolUnits pool) (LiquidityProviderUnits lp); Uint_Add S u lpUnitsLeft })) (\<lambda>units.
     bind_r (panics (Uint_Sub S (NativeAssetBalance pool) withdrawNativeAssetAmount)) (\<lambda>nativeBalance.
     bind_r (panics (Uint_Sub S (ExternalAssetBalance pool) withdrawExternalAssetAmount)) (\<lambda>externalBalance.
     let pool' = pool\<lparr>PoolUnits := units, NativeAssetBalance := nativeBalance, ExternalAssetBalance := externalBalance\<rparr> in
     if rl_Asymmetry msg \<noteq> 0 \<and> (externalBalance = 0 \<or> nativeBalance = 0) then Inl clp_ErrPoolTooShallow
     else
     bind_r (adjust_asymmetry S (rl_Asymmetry msg) ext (Decimals eAsset) swapAmount pool' externalAssetCoin nativeAssetCoin)
            (\<lambda>(pool', externalAssetCoin, nativeAssetCoin).
     bind_r (wrap_err clp_ErrUnableToRemoveLiquidity
               (exec_RemoveLiquidity S ctx pool' externalAssetCoin nativeAssetCoin lp lpUnitsLeft
                  (ExternalAssetBalance pool) (NativeAssetBalance pool))) (\<lambda>ctx.
     Inr (EmitEvents
       [lp_event S ''removed_liquidity'' ctx lp, message_event ''clp'' (rl_Signer msg)] ctx)))))))))))))))))"

section \<open>Creating a pool and adding liquidity\<close>

definition clp_CreatePool :: "'b sdk \<Rightarrow> 'b ctx \<Rightarrow> msg_create_pool \<Rightarrow> 'b ctx result" where
  "clp_CreatePool S ctx msg =
     bind_r (panics (NewUintFromString S PoolThrehold)) (\<lambda>MinThreshold.
     if cp_NativeAssetAmount msg < MinThreshold then Inl clp_ErrTotalAmountTooLow
     else
     bind_r (GetRegistry ctx) (\<lambda>registry.
     bind_r (deref (cp_ExternalAsset msg)) (\<lambda>ext.
     bind_r (clp_entry_of registry (Symbol ext)) (\<lambda>eAsset.
     bind_r (clp_permitted eAsset) (\<lambda>_.
     if ExistsPool ctx (Symbol ext) then Inl clp_ErrUnableToCreatePool
     else
     bind_r (panics (GetNormalizationFactor S (Decimals eAsset))) (\<lambda>(normalizationFactor, adjustExternalToken).
     bind_r (wrap_err clp_ErrUnableToCreatePool
               (CalculatePoolUnits S 0 0 0 (cp_NativeAssetAmount msg) (cp_ExternalAssetAmount msg)
                  normalizationFactor adjustExternalToken)) (\<lambda>(poolUnits, lpunits).
     bind_r (wrap_err clp_ErrUnableToSetPool (exec_CreatePool S ctx poolUnits msg)) (\<lambda>(ctx, pool).
     bind_r (AccAddressFromBech32 S (cp_Signer msg)) (\<lambda>accAddr.
     bind_r (exec_CreateLiquidityProvider S ctx (cp_ExternalAsset msg) lpunits accAddr) (\<lambda>(ctx, lp).
     Inr (EmitEvents
       [(''created_new_pool'', [(''pool'', Pool_String S pool), height_attr ctx]),
        lp_event S ''created_new_liquidity_provider'' ctx lp,
        message_event ''clp'' (cp_Signer msg)] ctx)))))))))))"

definition clp_AddLiquidity :: "'b sdk \<Rightarrow> 'b ctx \<Rightarrow> msg_add_liquidity \<Rightarrow> 'b ctx result" where
  "clp_AddLiquidity S ctx msg =
     bind_r (GetRegistry ctx) (\<lambda>registry.
     bind_r (deref (al_ExternalAsset msg)) (\<lambda>ext.
     bind_r (clp_entry_of registry (Symbol ext)) (\<lambda>eAsset.
     bind_r (clp_permitted eAsset) (\<lambda>_.
     bind_r (wrap_err clp_ErrPoolDoesNotExist (GetPool ctx (Symbol ext))) (\<lambda>pool.
     bind_r (panics (GetNormalizationFactor S (Decimals eAsset))) (\<lambda>(normalizationFactor, adjustExternalToken).
     bind_r (CalculatePoolUnits S (PoolUnits pool) (NativeAssetBalance pool) (ExternalAssetBalance pool)
               (al_NativeAssetAmount msg) (al_ExternalAssetAmount msg) normalizationFactor adjustExternalToken)
            (\<lambda>(newPoolUnits, lpUnits).
     bind_r (wrap_err clp_ErrUnableToAddLiquidity (exec_AddLiquidity S ctx msg pool newPoolUnits lpUnits)) (\<lambda>(ctx, lp).
     Inr (EmitEvents
       [lp_event S ''added_liquidity'' ctx lp, message_event ''clp'' (al_Signer msg)] ctx)))))))))"

section \<open>The handler\<close>

fun clp_Handler :: "'b sdk \<Rightarrow> 'b ctx \<Rightarrow> clp_msg \<Rightarrow> 'b ctx result" where
  "clp_Handler S ctx (MsgCreatePool m) = clp_CreatePool S (ctx\<lparr>Events := []\<rparr>) m"
| "clp_Handler S ctx (MsgDecommissionPool m) = clp_DecommissionPool S (ctx\<lparr>Events := []\<rparr>) m"
| "clp_Handler S ctx (MsgAddLiquidity m) = clp_AddLiquidity S (ctx\<lparr>Events := []\<rparr>) m"
| "clp_Handler S ctx (MsgRemoveLiquidity m) = clp_RemoveLiquidity S (ctx\<lparr>Events := []\<rparr>) m"
| "clp_Handler S ctx (MsgSwap m) = clp_Swap S (ctx\<lparr>Events := []\<rparr>) m"

end
