(* ===== verification/CLP_Solvency.thy ===== *)
theory CLP_Solvency
  imports CLP_Msgs
begin

text \<open>
  The liquidity-pool module is solvent: for each denomination its account holds at least what its pools
  record. Every message keeps this, except that withdrawing asymmetrically can break it
  when the inner swap yields nothing; both are shown here. The module is an instance of
  \<open>machine\<close>, so the invariant holds after any sequence of messages.
\<close>

section \<open>What the pools owe and what the module holds\<close>

fun pool_owes :: "pool \<Rightarrow> string \<Rightarrow> int" where
  "pool_owes p d =
     (if d = NativeSymbol then NativeAssetBalance p else 0) +
     (if map_option Symbol (ExternalAsset p) = Some d then ExternalAssetBalance p else 0)"

declare pool_owes.simps [simp del]

fun value_owes :: "string \<Rightarrow> clp_value \<Rightarrow> int" where
  "value_owes d (PoolV p) = pool_owes p d"
| "value_owes d _ = 0"

definition owed :: "clp_value kv \<Rightarrow> string \<Rightarrow> int" where
  "owed s d = kv_total (value_owes d) s"

definition held :: "'b sdk \<Rightarrow> 'b ctx \<Rightarrow> string \<Rightarrow> int" where
  "held S ctx d = bal S (sdk_state ctx) (GetCLPModuleAddress S) d"

definition solvent :: "'b sdk \<Rightarrow> 'b ctx \<Rightarrow> bool" where
  "solvent S ctx \<longleftrightarrow> (\<forall>d. owed (clp_kv ctx) d \<le> held S ctx d)"

section \<open>Well-formed stores\<close>

text \<open>
  Every value is stored under its own key, no pool has the native token as its external asset, and no
  balance is negative.
\<close>

definition pool_nonneg :: "pool \<Rightarrow> bool" where
  "pool_nonneg p \<longleftrightarrow> 0 \<le> NativeAssetBalance p \<and> 0 \<le> ExternalAssetBalance p"

fun entry_ok :: "string \<times> clp_value \<Rightarrow> bool" where
  "entry_ok (k, PoolV p) \<longleftrightarrow>
     pool_nonneg p \<and>
     (case ExternalAsset p of None \<Rightarrow> False | Some a \<Rightarrow> k = pool_key (Symbol a) \<and> Symbol a \<noteq> NativeSymbol)"
| "entry_ok (k, LpV l) \<longleftrightarrow>
     (case lp_Asset l of None \<Rightarrow> False
      | Some a \<Rightarrow> k = GetLiquidityProviderKey (Symbol a) (LiquidityProviderAddress l))"
| "entry_ok (k, WhitelistV vs) \<longleftrightarrow> k = WhiteListValidatorPrefix"

definition clp_wf :: "clp_value kv \<Rightarrow> bool" where
  "clp_wf s \<longleftrightarrow> kv_ok s \<and> list_all entry_ok s"

lemma clp_wf_set: "clp_wf s \<Longrightarrow> entry_ok (k, v) \<Longrightarrow> clp_wf (kv_set s k v)"
  using set_kv_set [of s k v] by (auto simp: clp_wf_def list_all_iff)

lemma clp_wf_delete: "clp_wf s \<Longrightarrow> clp_wf (kv_delete s k)"
  by (auto simp: clp_wf_def list_all_iff kv_delete_def kv_ok_filter)

lemma clp_wf_get: "clp_wf s \<Longrightarrow> kv_get s k = Some v \<Longrightarrow> entry_ok (k, v)"
  by (auto simp: clp_wf_def list_all_iff kv_get_iff)

lemma pool_key_inj [simp]: "pool_key s = pool_key s' \<longleftrightarrow> s = s'"
  by (simp add: pool_key_def)

lemma pool_key_other [simp]:
  "pool_key s \<noteq> GetLiquidityProviderKey t a" "GetLiquidityProviderKey t a \<noteq> pool_key s"
  "pool_key s \<noteq> WhiteListValidatorPrefix" "WhiteListValidatorPrefix \<noteq> pool_key s"
  by (simp_all add: pool_key_def)

lemma GetPool_get: "GetPool ctx s = Inr p \<longleftrightarrow> kv_get (clp_kv ctx) (pool_key s) = Some (PoolV p)"
  by (auto simp: GetPool_def kv_has_def split: option.splits clp_value.splits)

lemma GetPool_wf:
  "clp_wf (clp_kv ctx) \<Longrightarrow> GetPool ctx s = Inr p \<Longrightarrow> \<exists>a. ExternalAsset p = Some a \<and> Symbol a = s \<and> s \<noteq> NativeSymbol"
  by (auto simp: GetPool_get dest!: clp_wf_get split: option.splits)

lemma GetPool_nonneg: "clp_wf (clp_kv ctx) \<Longrightarrow> GetPool ctx s = Inr p \<Longrightarrow> pool_nonneg p"
  by (auto simp: GetPool_get dest!: clp_wf_get)

lemma GetLiquidityProvider_get:
  "GetLiquidityProvider ctx s a = Inr l \<longleftrightarrow> kv_get (clp_kv ctx) (GetLiquidityProviderKey s a) = Some (LpV l)"
  by (auto simp: GetLiquidityProvider_def kv_has_def split: option.splits clp_value.splits)

text \<open>Writing or deleting a provider changes no obligation.\<close>

lemma value_owes_lp_key: "clp_wf s \<Longrightarrow> kv_at (value_owes d) s (GetLiquidityProviderKey t a) = 0"
proof -
  assume wf: "clp_wf s"
  have "value_owes d v = 0" if "kv_get s (GetLiquidityProviderKey t a) = Some v" for v
    using clp_wf_get [OF wf that] by (cases v) (auto split: option.splits)
  then show ?thesis by (auto simp: kv_at_def split: option.splits)
qed

lemma SetLiquidityProvider_effect:
  assumes "clp_wf (clp_kv ctx)" and "SetLiquidityProvider S ctx l = Inr ctx'"
  shows "clp_wf (clp_kv ctx')" and "owed (clp_kv ctx') d = owed (clp_kv ctx) d" and "sdk_state ctx' = sdk_state ctx"
proof -
  have ok: "kv_ok (clp_kv ctx)" using assms(1) by (simp add: clp_wf_def)
  show "clp_wf (clp_kv ctx')" "sdk_state ctx' = sdk_state ctx"
    using assms by (auto simp: SetLiquidityProvider_def intro!: clp_wf_set split: if_splits)
  show "owed (clp_kv ctx') d = owed (clp_kv ctx) d"
    using assms(2) by (auto simp: SetLiquidityProvider_def owed_def kv_total_set [OF ok] value_owes_lp_key [OF assms(1)]
        split: if_splits)
qed

lemma DestroyLiquidityProvider_effect:
  assumes "clp_wf (clp_kv ctx)"
  shows "clp_wf (clp_kv (DestroyLiquidityProvider ctx t a))"
    and "owed (clp_kv (DestroyLiquidityProvider ctx t a)) d = owed (clp_kv ctx) d"
    and "sdk_state (DestroyLiquidityProvider ctx t a) = sdk_state ctx"
proof -
  have ok: "kv_ok (clp_kv ctx)" using assms by (simp add: clp_wf_def)
  show "clp_wf (clp_kv (DestroyLiquidityProvider ctx t a))"
    "sdk_state (DestroyLiquidityProvider ctx t a) = sdk_state ctx"
    using assms by (auto simp: DestroyLiquidityProvider_def intro: clp_wf_delete)
  show "owed (clp_kv (DestroyLiquidityProvider ctx t a)) d = owed (clp_kv ctx) d"
    by (simp add: DestroyLiquidityProvider_def owed_def kv_total_delete [OF ok] value_owes_lp_key [OF assms])
qed

text \<open>Writing a pool replaces what the old pool of that symbol owed, if there was one.\<close>

definition owed_by :: "'b ctx \<Rightarrow> string \<Rightarrow> string \<Rightarrow> int" where
  "owed_by ctx symb d = kv_at (value_owes d) (clp_kv ctx) (pool_key symb)"

lemma owed_by_GetPool: "GetPool ctx symb = Inr p \<Longrightarrow> owed_by ctx symb d = pool_owes p d"
  by (simp add: owed_by_def kv_at_def GetPool_get)

lemma owed_by_absent: "\<not> ExistsPool ctx symb \<Longrightarrow> owed_by ctx symb d = 0"
  by (simp add: owed_by_def kv_at_def ExistsPool_def kv_has_def)

lemma SetPool_effect:
  assumes "clp_wf (clp_kv ctx)" and "SetPool S ctx p = Inr ctx'" and "ExternalAsset p = Some a" and "Symbol a \<noteq> NativeSymbol"
    and "pool_nonneg p"
  shows "clp_wf (clp_kv ctx')" and "owed (clp_kv ctx') d = owed (clp_kv ctx) d - owed_by ctx (Symbol a) d + pool_owes p d"
    and "sdk_state ctx' = sdk_state ctx"
proof -
  have ok: "kv_ok (clp_kv ctx)" using assms(1) by (simp add: clp_wf_def)
  show "clp_wf (clp_kv ctx')" "sdk_state ctx' = sdk_state ctx"
    using assms by (auto simp: SetPool_def intro!: clp_wf_set split: if_splits)
  show "owed (clp_kv ctx') d = owed (clp_kv ctx) d - owed_by ctx (Symbol a) d + pool_owes p d"
    using assms(2,3) by (auto simp: SetPool_def owed_def owed_by_def kv_total_set [OF ok] split: if_splits)
qed

lemma DestroyPool_effect:
  assumes "clp_wf (clp_kv ctx)" and "DestroyPool ctx symb = Inr ctx'"
  shows "clp_wf (clp_kv ctx')" and "owed (clp_kv ctx') d = owed (clp_kv ctx) d - owed_by ctx symb d"
    and "sdk_state ctx' = sdk_state ctx"
proof -
  have ok: "kv_ok (clp_kv ctx)" using assms(1) by (simp add: clp_wf_def)
  show "clp_wf (clp_kv ctx')" "sdk_state ctx' = sdk_state ctx"
    using assms by (auto simp: DestroyPool_def intro!: clp_wf_delete split: if_splits)
  show "owed (clp_kv ctx') d = owed (clp_kv ctx) d - owed_by ctx symb d"
    using assms(2) by (auto simp: DestroyPool_def owed_def owed_by_def kv_total_delete [OF ok] split: if_splits)
qed

section \<open>What a transfer does to the module's account\<close>

definition clp_laws :: "'b sdk \<Rightarrow> bool" where
  "clp_laws S \<longleftrightarrow> uint_laws S \<and> int_laws S \<and> coin_laws S \<and> bank_laws S"

lemma ParseToInt_itoa: "int_laws S \<Longrightarrow> ParseToInt S (itoa n) = Inr m \<Longrightarrow> m = n"
  by (auto simp: ParseToInt_def int_laws_def split: option.splits dest!: spec [of _ n] yields_Some)

lemma NewCoin_Some:
  "coin_laws S \<Longrightarrow> NewCoin S d n = Some c \<Longrightarrow> c = \<lparr>coin_Denom = d, coin_Amount = n\<rparr> \<and> 0 \<le> n"
  by (auto simp: coin_laws_NewCoin split: if_splits)

lemma to_module:
  assumes "bank_laws S" and "SendCoinsFromAccountToModule S b a clp_ModuleName cs = Inr b'" and "a \<noteq> GetCLPModuleAddress S"
  shows "bal S b' (GetCLPModuleAddress S) d = bal S b (GetCLPModuleAddress S) d + amt cs d"
  using bank_laws_to_module [OF assms(1,2)] assms(3) by (auto simp: moves_def GetCLPModuleAddress_def)

lemma from_module:
  assumes "bank_laws S" and "SendCoinsFromModuleToAccount S b clp_ModuleName a cs = Inr b'"
  shows "bal S b (GetCLPModuleAddress S) d - amt cs d \<le> bal S b' (GetCLPModuleAddress S) d"
  using bank_laws_from_module [OF assms] by (auto simp: moves_def GetCLPModuleAddress_def)

section \<open>Swaps\<close>

lemma Asset_Equals_eq [simp]: "Asset_Equals a b \<longleftrightarrow> a = b"
  by (cases a; cases b) (auto simp: Asset_Equals_def)

lemma asset_eq_Settlement: "a = GetSettlementAsset \<longleftrightarrow> Symbol a = NativeSymbol"
  by (cases a) (auto simp: GetSettlementAsset_def)

lemma Symbol_Settlement [simp]: "Symbol GetSettlementAsset = NativeSymbol"
  by (simp add: GetSettlementAsset_def)

text \<open>\<open>in_denom a x d\<close> is the amount \<open>x\<close> of the token \<open>a\<close> seen at the denomination \<open>d\<close>.\<close>

definition in_denom :: "string \<Rightarrow> int \<Rightarrow> string \<Rightarrow> int" where
  "in_denom s x d = (if s = d then x else 0)"

lemma pool_owes_in_denom:
  "ExternalAsset p = Some a \<Longrightarrow>
   pool_owes p d = in_denom NativeSymbol (NativeAssetBalance p) d + in_denom (Symbol a) (ExternalAssetBalance p) d"
  by (auto simp: pool_owes.simps in_denom_def)

definition swaps_through :: "asset \<Rightarrow> asset \<Rightarrow> string \<Rightarrow> bool" where
  "swaps_through from to s \<longleftrightarrow>
     from = GetSettlementAsset \<and> Symbol to = s \<or> to = GetSettlementAsset \<and> Symbol from = s"

lemma SwapOne_owes:
  assumes "uint_laws S" and "SwapOne S from x to p nf adj = Inr (r, fee, imp, p')"
    and "ExternalAsset p = Some a" and "Symbol a \<noteq> NativeSymbol" and "swaps_through from to (Symbol a)"
    and "pool_nonneg p"
  shows "pool_owes p' d = pool_owes p d + in_denom (Symbol from) x d - in_denom (Symbol to) r d"
    and "ExternalAsset p' = Some a" and "pool_nonneg p'"
proof -
  consider "from = GetSettlementAsset" "to \<noteq> GetSettlementAsset" "Symbol to = Symbol a"
    | "to = GetSettlementAsset" "from \<noteq> GetSettlementAsset" "Symbol from = Symbol a"
    using assms(4,5) by (auto simp: swaps_through_def asset_eq_Settlement)
  then have "pool_owes p' d = pool_owes p d + in_denom (Symbol from) x d - in_denom (Symbol to) r d \<and>
    ExternalAsset p' = Some a \<and> pool_nonneg p'"
  proof cases
    case 1
    then show ?thesis using SwapOne_to_external [OF assms(1) assms(2) [unfolded 1] 1(2)] assms(3,4,6)
      by (auto simp: pool_owes_in_denom in_denom_def pool_nonneg_def is_uint_def)
  next
    case 2
    then show ?thesis using SwapOne_to_native [OF assms(1) assms(2) [unfolded 2] 2(2)] assms(3,4,6)
      by (auto simp: pool_owes_in_denom in_denom_def pool_nonneg_def is_uint_def)
  qed
  then show "pool_owes p' d = pool_owes p d + in_denom (Symbol from) x d - in_denom (Symbol to) r d"
    "ExternalAsset p' = Some a" "pool_nonneg p'" by blast+
qed

lemma amt_coin: "amt (\<lparr>coin_Denom = s, coin_Amount = x\<rparr> # cs) d = in_denom s x d + amt cs d"
  by (simp add: in_denom_def)

lemma InitiateSwap_effect:
  assumes "clp_laws S" and "exec_InitiateSwap S ctx \<lparr>coin_Denom = s, coin_Amount = x\<rparr> a = Inr ctx'"
    and "a \<noteq> GetCLPModuleAddress S"
  shows "clp_kv ctx' = clp_kv ctx" and "held S ctx' d = held S ctx d + in_denom s x d"
proof -
  have laws: "coin_laws S" "bank_laws S" using assms(1) by (simp_all add: clp_laws_def)
  from assms(2) obtain cs b where cs: "NewCoins S [\<lparr>coin_Denom = s, coin_Amount = x\<rparr>] = Some cs"
    and b: "SendCoinsFromAccountToModule S (sdk_state ctx) a clp_ModuleName cs = Inr b" and ctx': "ctx' = ctx\<lparr>sdk_state := b\<rparr>"
    by (auto simp: exec_InitiateSwap_def split: if_splits)
  show "clp_kv ctx' = clp_kv ctx" by (simp add: ctx')
  show "held S ctx' d = held S ctx d + in_denom s x d"
    using to_module [OF laws(2) b assms(3), of d] coin_laws_NewCoins [OF laws(1) cs, of d] by (simp add: held_def ctx' amt_coin del: amt_Cons)
qed

lemma FinalizeSwap_effect:
  assumes "clp_laws S" and "clp_wf (clp_kv ctx)" and "exec_FinalizeSwap S ctx (itoa r) p msg = Inr ctx'"
    and "sw_ReceivedAsset msg = Some received" and "ExternalAsset p = Some a" and "Symbol a \<noteq> NativeSymbol"
    and "pool_nonneg p"
  shows "clp_wf (clp_kv ctx')"
    and "owed (clp_kv ctx') d = owed (clp_kv ctx) d - owed_by ctx (Symbol a) d + pool_owes p d"
    and "held S ctx d - in_denom (Symbol received) r d \<le> held S ctx' d"
proof -
  have laws: "int_laws S" "coin_laws S" "bank_laws S" using assms(1) by (simp_all add: clp_laws_def)
  from assms(3,4) obtain ctx1 n addr c cs b where ctx1: "SetPool S ctx p = Inr ctx1"
    and n: "ParseToInt S (itoa r) = Inr n" and c: "NewCoin S (Symbol received) n = Some c" and cs: "NewCoins S [c] = Some cs"
    and b: "SendCoinsFromModuleToAccount S (sdk_state ctx1) clp_ModuleName addr cs = Inr b" and ctx': "ctx' = ctx1\<lparr>sdk_state := b\<rparr>"
    by (auto simp: exec_FinalizeSwap_def)
  note set = SetPool_effect [OF assms(2) ctx1 assms(5-7)]
  show "clp_wf (clp_kv ctx')" "owed (clp_kv ctx') d = owed (clp_kv ctx) d - owed_by ctx (Symbol a) d + pool_owes p d"
    using set by (simp_all add: ctx')
  have "c = \<lparr>coin_Denom = Symbol received, coin_Amount = r\<rparr>"
    using NewCoin_Some [OF laws(2) c] ParseToInt_itoa [OF laws(1) n] by simp
  then show "held S ctx d - in_denom (Symbol received) r d \<le> held S ctx' d"
    using from_module [OF laws(3) b, of d] coin_laws_NewCoins [OF laws(2) cs, of d] set(3) by (simp add: held_def ctx' amt_coin del: amt_Cons)
qed

lemma swap_first_leg_effect:
  assumes "clp_laws S" and "clp_wf (clp_kv ctx)"
    and "swap_first_leg S ctx sent received x dec p = Inr (ctx', x', sent', imp, fee)"
    and "sent \<noteq> GetSettlementAsset \<Longrightarrow> GetPool ctx (Symbol sent) = Inr p"
  shows "clp_wf (clp_kv ctx')" and "sdk_state ctx' = sdk_state ctx"
    and "owed (clp_kv ctx') d = owed (clp_kv ctx) d + in_denom (Symbol sent) x d - in_denom (Symbol sent') x' d"
    and "sent' = (if sent \<noteq> GetSettlementAsset \<and> received \<noteq> GetSettlementAsset then GetSettlementAsset else sent)"
proof -
  have uint: "uint_laws S" using assms(1) by (simp add: clp_laws_def)
  have "clp_wf (clp_kv ctx') \<and> sdk_state ctx' = sdk_state ctx \<and>
    owed (clp_kv ctx') d = owed (clp_kv ctx) d + in_denom (Symbol sent) x d - in_denom (Symbol sent') x' d \<and>
    sent' = (if sent \<noteq> GetSettlementAsset \<and> received \<noteq> GetSettlementAsset then GetSettlementAsset else sent)"
  proof (cases "sent \<noteq> GetSettlementAsset \<and> received \<noteq> GetSettlementAsset")
    case True
    from assms(3) True obtain nf adj f i p' where sw: "SwapOne S sent x GetSettlementAsset p nf adj = Inr (x', f, i, p')"
      and set: "SetPool S ctx p' = Inr ctx'" and s': "sent' = GetSettlementAsset"
      by (auto simp: swap_first_leg_def split: prod.splits)
    obtain a where a: "ExternalAsset p = Some a" "Symbol a = Symbol sent" "Symbol sent \<noteq> NativeSymbol"
      using GetPool_wf [OF assms(2)] assms(4) True by blast
    have "swaps_through sent GetSettlementAsset (Symbol a)" using a(2) by (simp add: swaps_through_def)
    from SwapOne_owes [OF uint sw a(1) _ this GetPool_nonneg [OF assms(2) assms(4)]] a(2,3) True
    have p': "\<And>d. pool_owes p' d = pool_owes p d + in_denom (Symbol sent) x d - in_denom NativeSymbol x' d"
      "ExternalAsset p' = Some a" "pool_nonneg p'" by simp_all
    have "Symbol a \<noteq> NativeSymbol" using a by simp
    from SetPool_effect [OF assms(2) set p'(2) this p'(3)] p'(1) True s' a(2)
      owed_by_GetPool [OF assms(4), of d]
    show ?thesis by simp
  next
    case False
    then show ?thesis using assms(2,3) by (auto simp: swap_first_leg_def)
  qed
  then show "clp_wf (clp_kv ctx')" "sdk_state ctx' = sdk_state ctx"
    "owed (clp_kv ctx') d = owed (clp_kv ctx) d + in_denom (Symbol sent) x d - in_denom (Symbol sent') x' d"
    "sent' = (if sent \<noteq> GetSettlementAsset \<and> received \<noteq> GetSettlementAsset then GetSettlementAsset else sent)" by blast+
qed

lemma clp_Swap_Inr:
  assumes "clp_Swap S ctx msg = Inr ctx'"
  obtains sent received inPool n addr c ctx1 ctx2 x' sent' imp fee outPool nf adj r f i p' ctx3 es where
    "sw_SentAsset msg = Some sent" "sw_ReceivedAsset msg = Some received"
    "sent \<noteq> GetSettlementAsset \<Longrightarrow> GetPool ctx (Symbol sent) = Inr inPool"
    "ParseToInt S (itoa (sw_SentAmount msg)) = Inr n" "AccAddressFromBech32 S (sw_Signer msg) = Inr addr"
    "NewCoin S (Symbol sent) n = Some c" "exec_InitiateSwap S ctx c addr = Inr ctx1"
    "swap_first_leg S ctx1 sent received (sw_SentAmount msg) imp inPool = Inr (ctx2, x', sent', fee)"
    "GetPool ctx2 (if received = GetSettlementAsset then Symbol sent else Symbol received) = Inr outPool"
    "SwapOne S sent' x' received outPool nf adj = Inr (r, f, i, p')"
    "sw_MinReceivingAmount msg \<le> r"
    "exec_FinalizeSwap S ctx2 (itoa r) p' msg = Inr ctx3" "ctx' = EmitEvents es ctx3"
proof -
  from assms show thesis
    by (auto simp: clp_Swap_def clp_permitted_def clp_entry_of_def Let_def split: prod.splits if_splits intro!: that)
qed

section \<open>The invariant\<close>

definition clp_inv :: "'b sdk \<Rightarrow> 'b ctx \<Rightarrow> bool" where
  "clp_inv S ctx \<longleftrightarrow> clp_laws S \<and> clp_wf (clp_kv ctx) \<and> solvent S ctx"

text \<open>
  The messages a transaction can carry: they pass \<^verbatim>\<open>ValidateBasic\<close> and are not signed by the module's
  own account. Withdrawals are symmetric.
\<close>

definition clp_admissible :: "'b sdk \<Rightarrow> clp_msg \<Rightarrow> bool" where
  "clp_admissible S m \<longleftrightarrow>
     clp_ValidateBasic S m = Inr () \<and> AccAddressFromBech32 S (clp_Signer m) \<noteq> Inr (GetCLPModuleAddress S) \<and>
     (case m of MsgRemoveLiquidity r \<Rightarrow> rl_Asymmetry r = 0 | _ \<Rightarrow> True)"

lemma valid_asset_Inr: "valid_asset S p = Inr a \<Longrightarrow> p = Some a"
  by (auto simp: valid_asset_def split: if_splits)

lemma clp_Swap_inv:
  assumes inv: "clp_inv S ctx" and adm: "clp_admissible S (MsgSwap msg)" and step: "clp_Swap S ctx msg = Inr ctx'"
  shows "clp_inv S ctx'"
proof -
  have laws: "clp_laws S" "uint_laws S" "int_laws S" "coin_laws S" and wf: "clp_wf (clp_kv ctx)" and sol: "solvent S ctx"
    using inv by (auto simp: clp_inv_def clp_laws_def)
  from step show ?thesis
  proof (rule clp_Swap_Inr)
    fix sent received inPool n addr c ctx1 ctx2 x' sent' imp fee outPool nf adj r f i p' ctx3 es
    assume sr: "sw_SentAsset msg = Some sent" "sw_ReceivedAsset msg = Some received"
      and inPool: "sent \<noteq> GetSettlementAsset \<Longrightarrow> GetPool ctx (Symbol sent) = Inr inPool"
      and n: "ParseToInt S (itoa (sw_SentAmount msg)) = Inr n" and addr: "AccAddressFromBech32 S (sw_Signer msg) = Inr addr"
      and c: "NewCoin S (Symbol sent) n = Some c" and ctx1: "exec_InitiateSwap S ctx c addr = Inr ctx1"
      and leg: "swap_first_leg S ctx1 sent received (sw_SentAmount msg) imp inPool = Inr (ctx2, x', sent', fee)"
      and out: "GetPool ctx2 (if received = GetSettlementAsset then Symbol sent else Symbol received) = Inr outPool"
      and sw: "SwapOne S sent' x' received outPool nf adj = Inr (r, f, i, p')"
      and fin: "exec_FinalizeSwap S ctx2 (itoa r) p' msg = Inr ctx3" and ctx': "ctx' = EmitEvents es ctx3"
    have neq: "sent \<noteq> received"
      using adm sr by (auto simp: clp_admissible_def MsgSwap_ValidateBasic_def dest!: valid_asset_Inr split: if_splits)
    have "addr \<noteq> GetCLPModuleAddress S" using adm addr by (auto simp: clp_admissible_def)
    moreover have "c = \<lparr>coin_Denom = Symbol sent, coin_Amount = sw_SentAmount msg\<rparr>"
      using NewCoin_Some [OF laws(4) c] ParseToInt_itoa [OF laws(3) n] by simp
    ultimately have i1: "clp_kv ctx1 = clp_kv ctx" "\<And>d. held S ctx1 d = held S ctx d + in_denom (Symbol sent) (sw_SentAmount msg) d"
      using InitiateSwap_effect [OF laws(1)] ctx1 by blast+
    obtain imp' fee' where "fee = (imp', fee')" by (cases fee)
    note l2 = swap_first_leg_effect [OF laws(1) _ leg [unfolded this]]
    have l: "clp_wf (clp_kv ctx2)" "sdk_state ctx2 = sdk_state ctx1"
      "\<And>d. owed (clp_kv ctx2) d = owed (clp_kv ctx) d + in_denom (Symbol sent) (sw_SentAmount msg) d - in_denom (Symbol sent') x' d"
      "sent' = (if sent \<noteq> GetSettlementAsset \<and> received \<noteq> GetSettlementAsset then GetSettlementAsset else sent)"
      using l2 wf inPool i1(1) by (simp_all add: GetPool_get)
    obtain a where a: "ExternalAsset outPool = Some a" "Symbol a \<noteq> NativeSymbol"
      "Symbol a = (if received = GetSettlementAsset then Symbol sent else Symbol received)"
      using GetPool_wf [OF l(1) out] by auto
    have "swaps_through sent' received (Symbol a)" using neq l(4) a(3) by (auto simp: swaps_through_def split: if_splits)
    note p' = SwapOne_owes [OF laws(2) sw a(1,2) this GetPool_nonneg [OF l(1) out]]
    note f3 = FinalizeSwap_effect [OF laws(1) l(1) fin sr(2) p'(2) a(2) p'(3)]
    have "owed (clp_kv ctx') d \<le> held S ctx' d" for d
    proof -
      have "owed_by ctx2 (Symbol a) d = pool_owes outPool d" using owed_by_GetPool [OF out] a(3) by simp
      moreover have "owed (clp_kv ctx) d \<le> held S ctx d" using sol by (simp add: solvent_def)
      moreover have "held S ctx2 d = held S ctx1 d" "held S ctx' d = held S ctx3 d" using l(2) by (simp_all add: held_def ctx')
      ultimately show ?thesis using f3(2,3) [of d] p'(1) [of d] l(3) [of d] i1(2) [of d] by (simp add: ctx')
    qed
    then show ?thesis using laws(1) f3(1) by (simp add: clp_inv_def solvent_def ctx')
  qed
qed

section \<open>Creating a pool and adding liquidity\<close>

lemma coins_in_denom:
  "amt [\<lparr>coin_Denom = s, coin_Amount = x\<rparr>, \<lparr>coin_Denom = t, coin_Amount = y\<rparr>] d = in_denom s x d + in_denom t y d"
  by (simp add: in_denom_def)

lemma CreateLiquidityProvider_effect:
  assumes "clp_wf (clp_kv ctx)" and "exec_CreateLiquidityProvider S ctx as u a = Inr (ctx', lp)"
  shows "clp_wf (clp_kv ctx')" and "owed (clp_kv ctx') d = owed (clp_kv ctx) d" and "sdk_state ctx' = sdk_state ctx"
  using assms SetLiquidityProvider_effect [OF assms(1)] by (auto simp: exec_CreateLiquidityProvider_def Let_def)

lemma exec_CreatePool_effect:
  assumes "clp_laws S" and "clp_wf (clp_kv ctx)" and "exec_CreatePool S ctx u msg = Inr (ctx', p)"
    and "AccAddressFromBech32 S (cp_Signer msg) \<noteq> Inr (GetCLPModuleAddress S)"
    and "cp_ExternalAsset msg = Some ext" and "Symbol ext \<noteq> NativeSymbol" and "\<not> ExistsPool ctx (Symbol ext)"
  shows "clp_wf (clp_kv ctx')" and "owed (clp_kv ctx') d - owed (clp_kv ctx) d = held S ctx' d - held S ctx d"
proof -
  have laws: "int_laws S" "coin_laws S" "bank_laws S" using assms(1) by (simp_all add: clp_laws_def)
  from assms(3,5) obtain x n addr cx cn cs b ctx1 where x: "ParseToInt S (itoa (cp_ExternalAssetAmount msg)) = Inr x"
    and n: "ParseToInt S (itoa (cp_NativeAssetAmount msg)) = Inr n" and addr: "AccAddressFromBech32 S (cp_Signer msg) = Inr addr"
    and cx: "NewCoin S (Symbol ext) x = Some cx" and cn: "NewCoin S NativeSymbol n = Some cn"
    and cs: "NewCoins S [cx, cn] = Some cs"
    and b: "SendCoinsFromAccountToModule S (sdk_state ctx) addr clp_ModuleName cs = Inr b"
    and set: "SetPool S (ctx\<lparr>sdk_state := b\<rparr>) p = Inr ctx'"
    and p: "p = NewPool (Some ext) (cp_NativeAssetAmount msg) (cp_ExternalAssetAmount msg) u"
    by (auto simp: exec_CreatePool_def Let_def split: if_splits)
  have coins: "cx = \<lparr>coin_Denom = Symbol ext, coin_Amount = cp_ExternalAssetAmount msg\<rparr>"
    "cn = \<lparr>coin_Denom = NativeSymbol, coin_Amount = cp_NativeAssetAmount msg\<rparr>" "pool_nonneg p"
    using NewCoin_Some [OF laws(2) cx] NewCoin_Some [OF laws(2) cn] ParseToInt_itoa [OF laws(1)] x n
    by (auto simp: pool_nonneg_def p NewPool_def)
  have ext: "ExternalAsset p = Some ext" by (simp add: p NewPool_def)
  have wf: "clp_wf (clp_kv (ctx\<lparr>sdk_state := b\<rparr>))" using assms(2) by simp
  note s = SetPool_effect [OF wf set ext assms(6) coins(3)]
  show "clp_wf (clp_kv ctx')" by (rule s)
  have "owed_by (ctx\<lparr>sdk_state := b\<rparr>) (Symbol ext) d = 0"
    using owed_by_absent [OF assms(7)] by (simp add: owed_by_def)
  moreover have "held S ctx' d = held S ctx d + amt cs d"
    using to_module [OF laws(3) b] addr assms(4) s(3) by (auto simp: held_def)
  moreover have "amt cs d = pool_owes p d"
    using coin_laws_NewCoins [OF laws(2) cs, of d] pool_owes_in_denom [OF ext, of d]
    unfolding coins(1,2) coins_in_denom by (simp add: p NewPool_def)
  ultimately show "owed (clp_kv ctx') d - owed (clp_kv ctx) d = held S ctx' d - held S ctx d"
    using s(2) [of d] by simp
qed

lemma clp_CreatePool_inv:
  assumes inv: "clp_inv S ctx" and adm: "clp_admissible S (MsgCreatePool msg)" and step: "clp_CreatePool S ctx msg = Inr ctx'"
  shows "clp_inv S ctx'"
proof -
  have laws: "clp_laws S" and wf: "clp_wf (clp_kv ctx)" and sol: "solvent S ctx" using inv by (auto simp: clp_inv_def)
  from step obtain ext u l ctx1 p a ctx2 lp es where ext: "cp_ExternalAsset msg = Some ext" "\<not> ExistsPool ctx (Symbol ext)"
    and cp: "exec_CreatePool S ctx u msg = Inr (ctx1, p)"
    and lp: "exec_CreateLiquidityProvider S ctx1 (cp_ExternalAsset msg) l a = Inr (ctx2, lp)" and ctx': "ctx' = EmitEvents es ctx2"
    by (auto simp: clp_CreatePool_def split: if_splits prod.splits)
  have "Symbol ext \<noteq> NativeSymbol" "AccAddressFromBech32 S (cp_Signer msg) \<noteq> Inr (GetCLPModuleAddress S)"
    using adm ext(1) by (auto simp: clp_admissible_def MsgCreatePool_ValidateBasic_def asset_eq_Settlement
        dest!: valid_asset_Inr split: if_splits)
  note c = exec_CreatePool_effect [OF laws wf cp this(2) ext(1) this(1) ext(2)]
  note l = CreateLiquidityProvider_effect [OF c(1) lp]
  have "owed (clp_kv ctx') d \<le> held S ctx' d" for d
    using c(2) [of d] l(2) [of d] l(3) sol by (auto simp: ctx' solvent_def held_def dest: spec [of _ d])
  then show ?thesis using laws l(1) by (simp add: clp_inv_def solvent_def ctx')
qed

lemma GetPool_EmitEvents [simp]: "GetPool (EmitEvents es ctx) s = GetPool ctx s"
  by (simp add: GetPool_def)

lemma find_or_create_lp_Inr:
  assumes "find_or_create_lp S ctx msg ext addr u = Inr (ctx', lp, u')"
  shows "ctx' = ctx \<or> (\<exists>ctx1 l es. exec_CreateLiquidityProvider S ctx (al_ExternalAsset msg) u addr = Inr (ctx1, l) \<and>
                               ctx' = EmitEvents es ctx1)"
  using assms by (auto simp: find_or_create_lp_def split: sum.splits err.splits)

lemma find_or_create_lp_effect:
  assumes "clp_wf (clp_kv ctx)" and "find_or_create_lp S ctx msg ext addr u = Inr (ctx', lp, u')"
  shows "clp_wf (clp_kv ctx')" and "owed (clp_kv ctx') d = owed (clp_kv ctx) d" and "sdk_state ctx' = sdk_state ctx"
    and "GetPool ctx' s = GetPool ctx s"
proof -
  have pool: "GetPool ctx1 s = GetPool ctx s" if "exec_CreateLiquidityProvider S ctx as v a = Inr (ctx1, l)" for ctx1 as v a l
    using that by (auto simp: exec_CreateLiquidityProvider_def SetLiquidityProvider_def Let_def GetPool_def kv_has_def split: if_splits)
  show "clp_wf (clp_kv ctx')" "owed (clp_kv ctx') d = owed (clp_kv ctx) d" "sdk_state ctx' = sdk_state ctx"
    "GetPool ctx' s = GetPool ctx s"
    using find_or_create_lp_Inr [OF assms(2)] assms(1) CreateLiquidityProvider_effect [OF assms(1)] pool by auto
qed

lemma exec_AddLiquidity_Inr:
  assumes "exec_AddLiquidity S ctx msg p nu lu = Inr (ctx', lp)"
  obtains x n ext cx cs1 cn cs addr b nb eb ctx1 lp1 u1 ctx2 p' where
    "ParseToInt S (itoa (al_ExternalAssetAmount msg)) = Inr x" "ParseToInt S (itoa (al_NativeAssetAmount msg)) = Inr n"
    "al_ExternalAsset msg = Some ext" "NewCoin S (Symbol ext) x = Some cx" "Coins_Add S [] [cx] = Some cs1"
    "NewCoin S NativeSymbol n = Some cn" "Coins_Add S cs1 [cn] = Some cs" "AccAddressFromBech32 S (al_Signer msg) = Inr addr"
    "SendCoinsFromAccountToModule S (sdk_state ctx) addr clp_ModuleName cs = Inr b"
    "Uint_Add S (NativeAssetBalance p) (al_NativeAssetAmount msg) = Some nb"
    "Uint_Add S (ExternalAssetBalance p) (al_ExternalAssetAmount msg) = Some eb"
    "p' = p\<lparr>PoolUnits := nu, NativeAssetBalance := nb, ExternalAssetBalance := eb\<rparr>"
    "find_or_create_lp S (ctx\<lparr>sdk_state := b\<rparr>) msg ext addr lu = Inr (ctx1, lp1, u1)"
    "SetPool S ctx1 p' = Inr ctx2" "SetLiquidityProvider S ctx2 lp = Inr ctx'"
proof -
  from assms show thesis
    by (auto simp: exec_AddLiquidity_def Let_def split: if_splits prod.splits intro!: that)
qed

lemma exec_AddLiquidity_effect:
  assumes "clp_laws S" and "clp_wf (clp_kv ctx)" and "exec_AddLiquidity S ctx msg p nu lu = Inr (ctx', lp)"
    and "AccAddressFromBech32 S (al_Signer msg) \<noteq> Inr (GetCLPModuleAddress S)"
    and "al_ExternalAsset msg = Some ext" and "GetPool ctx (Symbol ext) = Inr p"
  shows "clp_wf (clp_kv ctx')" and "owed (clp_kv ctx') d - owed (clp_kv ctx) d = held S ctx' d - held S ctx d"
proof -
  have laws: "int_laws S" "coin_laws S" "bank_laws S" "uint_laws S" using assms(1) by (simp_all add: clp_laws_def)
  have "clp_wf (clp_kv ctx') \<and> owed (clp_kv ctx') d - owed (clp_kv ctx) d = held S ctx' d - held S ctx d"
    using assms(3)
  proof (rule exec_AddLiquidity_Inr)
    fix x n ext' cx cs1 cn cs addr b nb eb ctx1 lp1 u1 ctx2 p'
    assume x: "ParseToInt S (itoa (al_ExternalAssetAmount msg)) = Inr x" and n: "ParseToInt S (itoa (al_NativeAssetAmount msg)) = Inr n"
      and ext': "al_ExternalAsset msg = Some ext'" and cx: "NewCoin S (Symbol ext') x = Some cx" and cs1: "Coins_Add S [] [cx] = Some cs1"
      and cn: "NewCoin S NativeSymbol n = Some cn" and cs: "Coins_Add S cs1 [cn] = Some cs"
      and addr: "AccAddressFromBech32 S (al_Signer msg) = Inr addr"
      and b: "SendCoinsFromAccountToModule S (sdk_state ctx) addr clp_ModuleName cs = Inr b"
      and nb: "Uint_Add S (NativeAssetBalance p) (al_NativeAssetAmount msg) = Some nb"
      and eb: "Uint_Add S (ExternalAssetBalance p) (al_ExternalAssetAmount msg) = Some eb"
      and p': "p' = p\<lparr>PoolUnits := nu, NativeAssetBalance := nb, ExternalAssetBalance := eb\<rparr>"
      and lp1: "find_or_create_lp S (ctx\<lparr>sdk_state := b\<rparr>) msg ext' addr lu = Inr (ctx1, lp1, u1)"
      and set: "SetPool S ctx1 p' = Inr ctx2" and lp: "SetLiquidityProvider S ctx2 lp = Inr ctx'"
    have e: "ext' = ext" using ext' assms(5) by simp
    have coins: "cx = \<lparr>coin_Denom = Symbol ext, coin_Amount = al_ExternalAssetAmount msg\<rparr>"
      "cn = \<lparr>coin_Denom = NativeSymbol, coin_Amount = al_NativeAssetAmount msg\<rparr>"
      using NewCoin_Some [OF laws(2) cx] NewCoin_Some [OF laws(2) cn] ParseToInt_itoa [OF laws(1)] x n e by auto
    have amt: "amt cs d = in_denom (Symbol ext) (al_ExternalAssetAmount msg) d + in_denom NativeSymbol (al_NativeAssetAmount msg) d"
      using coin_laws_Coins_Add [OF laws(2) cs, of d] coin_laws_Coins_Add [OF laws(2) cs1, of d]
      by (simp add: coins in_denom_def)
    have wf1: "clp_wf (clp_kv (ctx\<lparr>sdk_state := b\<rparr>))" using assms(2) by simp
    note f = find_or_create_lp_effect [OF wf1 lp1]
    have pool1: "GetPool ctx1 (Symbol ext) = Inr p" using f(4) assms(6) by (simp add: GetPool_get)
    obtain a where a: "ExternalAsset p = Some a" "Symbol a = Symbol ext" "Symbol a \<noteq> NativeSymbol"
      using GetPool_wf [OF assms(2,6)] by auto
    have ext_p': "ExternalAsset p' = Some a" using a(1) by (simp add: p')
    have bals: "NativeAssetBalance p' = NativeAssetBalance p + al_NativeAssetAmount msg"
      "ExternalAssetBalance p' = ExternalAssetBalance p + al_ExternalAssetAmount msg" "pool_nonneg p'"
      using nb eb laws(4) by (simp_all add: uint_lawsD p' pool_nonneg_def is_uint_def)
    note s = SetPool_effect [OF f(1) set ext_p' a(3) bals(3)]
    note l = SetLiquidityProvider_effect [OF s(1) lp]
    have "pool_owes p' d = pool_owes p d + amt cs d"
      unfolding pool_owes_in_denom [OF a(1)] pool_owes_in_denom [OF ext_p'] bals(1,2) amt using a(2) by (simp add: in_denom_def)
    moreover have "owed_by ctx1 (Symbol a) d = pool_owes p d" using owed_by_GetPool [OF pool1] a(2) by simp
    moreover have "held S ctx' d = held S ctx d + amt cs d"
      using to_module [OF laws(3) b] addr assms(4) s(3) l(3) f(3) by (auto simp: held_def)
    ultimately show ?thesis using l(1) l(2) [of d] s(2) [of d] f(2) [of d] by simp
  qed
  then show "clp_wf (clp_kv ctx')" "owed (clp_kv ctx') d - owed (clp_kv ctx) d = held S ctx' d - held S ctx d" by blast+
qed

lemma clp_AddLiquidity_inv:
  assumes inv: "clp_inv S ctx" and adm: "clp_admissible S (MsgAddLiquidity msg)" and step: "clp_AddLiquidity S ctx msg = Inr ctx'"
  shows "clp_inv S ctx'"
proof -
  have laws: "clp_laws S" and wf: "clp_wf (clp_kv ctx)" and sol: "solvent S ctx" using inv by (auto simp: clp_inv_def)
  from step obtain ext p nu lu ctx1 lp es where ext: "al_ExternalAsset msg = Some ext" "GetPool ctx (Symbol ext) = Inr p"
    and al: "exec_AddLiquidity S ctx msg p nu lu = Inr (ctx1, lp)" and ctx': "ctx' = EmitEvents es ctx1"
    by (auto simp: clp_AddLiquidity_def split: if_splits prod.splits)
  have "AccAddressFromBech32 S (al_Signer msg) \<noteq> Inr (GetCLPModuleAddress S)"
    using adm by (auto simp: clp_admissible_def)
  note c = exec_AddLiquidity_effect [OF laws wf al this ext]
  have "owed (clp_kv ctx') d \<le> held S ctx' d" for d
    using c(2) [of d] sol by (auto simp: ctx' solvent_def held_def dest: spec [of _ d])
  then show ?thesis using laws c(1) by (simp add: clp_inv_def solvent_def ctx')
qed

section \<open>Removing liquidity\<close>

lemma add_positive_amt:
  "coin_laws S \<Longrightarrow> add_positive S cs c = Inr cs' \<Longrightarrow> 0 \<le> coin_Amount c \<Longrightarrow>
   amt cs' d = amt cs d + in_denom (coin_Denom c) (coin_Amount c) d"
  by (auto simp: add_positive_def in_denom_def coin_laws_Coins_Add split: if_splits)

lemma exec_RemoveLiquidity_effect:
  assumes "clp_laws S" and "clp_wf (clp_kv ctx)" and "exec_RemoveLiquidity S ctx p ce cn lp left eb nb = Inr ctx'"
    and "ExternalAsset p = Some a" and "Symbol a \<noteq> NativeSymbol" and "0 \<le> coin_Amount ce" and "0 \<le> coin_Amount cn"
    and "pool_nonneg p"
  shows "clp_wf (clp_kv ctx')"
    and "owed (clp_kv ctx') d = owed (clp_kv ctx) d - owed_by ctx (Symbol a) d + pool_owes p d"
    and "held S ctx d - in_denom (coin_Denom ce) (coin_Amount ce) d - in_denom (coin_Denom cn) (coin_Amount cn) d \<le> held S ctx' d"
    and "AccAddressFromBech32 S (LiquidityProviderAddress lp) \<noteq> Inr (GetCLPModuleAddress S) \<Longrightarrow>
      held S ctx' d = held S ctx d - in_denom (coin_Denom ce) (coin_Amount ce) d - in_denom (coin_Denom cn) (coin_Amount cn) d"
proof -
  have laws: "coin_laws S" "bank_laws S" using assms(1) by (simp_all add: clp_laws_def)
  from assms(3) obtain addr cs0 cs1 cs2 ctx1 ctx2 where addr: "AccAddressFromBech32 S (LiquidityProviderAddress lp) = Inr addr"
    and cs: "NewCoins S [] = Some cs0" "add_positive S cs0 ce = Inr cs1"
    "add_positive S cs1 cn = Inr cs2" and ctx1: "SetPool S ctx p = Inr ctx1"
    and send: "(if cs2 \<noteq> []
       then if \<not> list_all (HasBalance S (sdk_state ctx1) (GetCLPModuleAddress S)) cs2 then Inl clp_ErrNotEnoughLiquidity
            else with_bank ctx1 (SendCoinsFromModuleToAccount S (sdk_state ctx1) clp_ModuleName addr cs2)
       else Inr ctx1) = Inr ctx2"
    and fin: "(if left = 0 then bind_r (deref (lp_Asset lp)) (\<lambda>a.
          Inr (DestroyLiquidityProvider ctx2 (Symbol a) (LiquidityProviderAddress lp)))
       else SetLiquidityProvider S ctx2 (lp\<lparr>LiquidityProviderUnits := left\<rparr>)) = Inr ctx'"
    by (auto simp: exec_RemoveLiquidity_def split del: if_split)
  have ctx2: "ctx2 = ctx1 \<and> cs2 = [] \<or>
      (\<exists>b. SendCoinsFromModuleToAccount S (sdk_state ctx1) clp_ModuleName addr cs2 = Inr b \<and> ctx2 = ctx1\<lparr>sdk_state := b\<rparr>)"
    using send by (auto split: if_splits)
  have ctx': "(\<exists>t x. ctx' = DestroyLiquidityProvider ctx2 t x) \<or> (\<exists>l. SetLiquidityProvider S ctx2 l = Inr ctx')"
    using fin by (auto split: if_splits)
  note s = SetPool_effect [OF assms(2) ctx1 assms(4,5,8)]
  have c2: "clp_kv ctx2 = clp_kv ctx1" and h2: "held S ctx1 d - amt cs2 d \<le> held S ctx2 d"
    using ctx2 from_module [OF laws(2), of "sdk_state ctx1" _ cs2 _ d] by (auto simp: held_def)
  have wf2: "clp_wf (clp_kv ctx2)" using s(1) c2 by simp
  have e: "clp_wf (clp_kv ctx')" "owed (clp_kv ctx') d = owed (clp_kv ctx2) d" "sdk_state ctx' = sdk_state ctx2"
    using ctx' DestroyLiquidityProvider_effect [OF wf2] SetLiquidityProvider_effect [OF wf2] by auto
  show "clp_wf (clp_kv ctx')" by (rule e)
  show "owed (clp_kv ctx') d = owed (clp_kv ctx) d - owed_by ctx (Symbol a) d + pool_owes p d" using e(2) s(2) c2 by simp
  have amt: "amt cs2 d = in_denom (coin_Denom ce) (coin_Amount ce) d + in_denom (coin_Denom cn) (coin_Amount cn) d"
    using add_positive_amt [OF laws(1) cs(2) assms(6), of d] add_positive_amt [OF laws(1) cs(3) assms(7), of d]
      coin_laws_NewCoins [OF laws(1) cs(1), of d] by simp
  with h2 s(3) e(3)
  show "held S ctx d - in_denom (coin_Denom ce) (coin_Amount ce) d - in_denom (coin_Denom cn) (coin_Amount cn) d \<le> held S ctx' d"
    by (simp add: held_def)
  assume "AccAddressFromBech32 S (LiquidityProviderAddress lp) \<noteq> Inr (GetCLPModuleAddress S)"
  then have "held S ctx2 d = held S ctx1 d - amt cs2 d"
    using ctx2 addr bank_laws_from_module [OF laws(2), of "sdk_state ctx1" clp_ModuleName addr cs2]
    by (auto simp: held_def moves_def GetCLPModuleAddress_def)
  with amt s(3) e(3)
  show "held S ctx' d = held S ctx d - in_denom (coin_Denom ce) (coin_Amount ce) d - in_denom (coin_Denom cn) (coin_Amount cn) d"
    by (simp add: held_def)
qed

text \<open>The coins of a withdrawal, and their sum with what a pool owes.\<close>

definition coin_is :: "coin \<Rightarrow> string \<Rightarrow> bool" where
  "coin_is c s \<longleftrightarrow> coin_Denom c = s \<and> 0 \<le> coin_Amount c"

definition coin_in :: "coin \<Rightarrow> string \<Rightarrow> int" where
  "coin_in c d = in_denom (coin_Denom c) (coin_Amount c) d"

lemma adjust_coins_effect:
  assumes "int_laws S" and "coin_laws S" and "adjust_coins S so si r x co ci = Inr (co', ci')"
    and "coin_is co so" and "coin_is ci si" and "0 \<le> r"
  shows "coin_is co' so \<and> coin_is ci' si \<and>
         (if r = 0 then co' = co \<and> ci' = ci
          else coin_in co' d = coin_in co d + in_denom so r d \<and> coin_in ci' d = coin_in ci d - in_denom si x d)"
proof (cases "r = 0")
  case False
  with assms(3) obtain r' x' cr cx where r': "ParseToInt S (itoa r) = Inr r'" and x': "ParseToInt S (itoa x) = Inr x'"
    and cr: "NewCoin S so r' = Some cr" and cx: "NewCoin S si x' = Some cx"
    and co: "Coin_Add S co cr = Some co'" and ci: "Coin_Sub S ci cx = Some ci'"
    by (auto simp: adjust_coins_def)
  have "cr = \<lparr>coin_Denom = so, coin_Amount = r\<rparr>" "cx = \<lparr>coin_Denom = si, coin_Amount = x\<rparr>"
    using NewCoin_Some [OF assms(2)] cr cx ParseToInt_itoa [OF assms(1)] r' x' by blast+
  then show ?thesis using coin_laws_add [OF assms(2) co] coin_laws_sub [OF assms(2) ci] assms(4-6) False
    by (auto simp: coin_is_def coin_in_def in_denom_def)
qed (use assms in \<open>auto simp: adjust_coins_def\<close>)

definition asym_slack :: "int \<Rightarrow> string \<Rightarrow> int \<Rightarrow> string \<Rightarrow> int" where
  "asym_slack asymmetry s x d =
     (if asymmetry = 0 then 0 else in_denom (if 0 < asymmetry then NativeSymbol else s) x d)"

text \<open>The swap inside an asymmetric withdrawal.\<close>

definition inner_swap :: "'b sdk \<Rightarrow> int \<Rightarrow> asset \<Rightarrow> int \<Rightarrow> int \<Rightarrow> pool \<Rightarrow> (int \<times> int \<times> int \<times> pool) result" where
  "inner_swap S asymmetry ext decimals x p =
     bind_r (panics (GetNormalizationFactor S decimals)) (\<lambda>(nf, adj).
       if 0 < asymmetry then SwapOne S GetSettlementAsset x ext p nf adj else SwapOne S ext x GetSettlementAsset p nf adj)"

text \<open>A swap that yields nothing leaves the coins of the withdrawal as they are, and the pool has the swapped amount as well.\<close>

lemma adjust_asymmetry_effect:
  assumes "clp_laws S" and "adjust_asymmetry S asymmetry ext dec x p ce cn = Inr (p', ce', cn')"
    and "ExternalAsset p = Some a" and "Symbol a = Symbol ext" and "Symbol ext \<noteq> NativeSymbol"
    and "coin_is ce (Symbol ext)" and "coin_is cn NativeSymbol" and "pool_nonneg p"
  shows "ExternalAsset p' = Some a \<and> pool_nonneg p' \<and> coin_is ce' (Symbol ext) \<and> coin_is cn' NativeSymbol \<and>
         (\<exists>r f i. (asymmetry \<noteq> 0 \<longrightarrow> inner_swap S asymmetry ext dec x p = Inr (r, f, i, p')) \<and>
           (\<forall>d. pool_owes p' d + coin_in ce' d + coin_in cn' d
             = pool_owes p d + coin_in ce d + coin_in cn d + (if r = 0 then asym_slack asymmetry (Symbol ext) x d else 0)))"
proof -
  have laws: "uint_laws S" "int_laws S" "coin_laws S" using assms(1) by (simp_all add: clp_laws_def)
  have a: "Symbol a \<noteq> NativeSymbol" using assms(4,5) by simp
  consider "asymmetry = 0" | "0 < asymmetry" | "asymmetry < 0" by linarith
  then show ?thesis
  proof cases
    case 1
    then show ?thesis using assms by (auto simp: adjust_asymmetry_def asym_slack_def)
  next
    case 2
    then obtain nf adj r f i where nf: "GetNormalizationFactor S dec = Some (nf, adj)"
      and sw: "SwapOne S GetSettlementAsset x ext p nf adj = Inr (r, f, i, p')"
      and ac: "adjust_coins S (Symbol ext) NativeSymbol r x ce cn = Inr (ce', cn')"
      using assms(2) by (auto simp: adjust_asymmetry_def split: prod.splits)
    have "swaps_through GetSettlementAsset ext (Symbol a)" using assms(4) by (simp add: swaps_through_def)
    note o = SwapOne_owes [OF laws(1) sw assms(3) a this assms(8)]
    have "0 \<le> r" using SwapOne_to_external(2) [OF laws(1) sw] assms(5) by (simp add: asset_eq_Settlement)
    note ac' = adjust_coins_effect [OF laws(2,3) ac assms(6,7) this]
    have "inner_swap S asymmetry ext dec x p = Inr (r, f, i, p')" using 2 nf sw by (simp add: inner_swap_def)
    moreover have "pool_owes p' d + coin_in ce' d + coin_in cn' d
        = pool_owes p d + coin_in ce d + coin_in cn d + (if r = 0 then asym_slack asymmetry (Symbol ext) x d else 0)" for d
      using ac' [of d] o(1) [of d] 2 by (auto simp: asym_slack_def in_denom_def split: if_splits)
    ultimately show ?thesis using ac' o(2,3) by blast
  next
    case 3
    then obtain nf adj r f i where nf: "GetNormalizationFactor S dec = Some (nf, adj)"
      and sw: "SwapOne S ext x GetSettlementAsset p nf adj = Inr (r, f, i, p')"
      and ac: "adjust_coins S NativeSymbol (Symbol ext) r x cn ce = Inr (cn', ce')"
      using assms(2) by (auto simp: adjust_asymmetry_def split: prod.splits)
    have "swaps_through ext GetSettlementAsset (Symbol a)" using assms(4) by (simp add: swaps_through_def)
    note o = SwapOne_owes [OF laws(1) sw assms(3) a this assms(8)]
    have "0 \<le> r" using SwapOne_to_native(2) [OF laws(1) sw] assms(5) by (simp add: asset_eq_Settlement)
    note ac' = adjust_coins_effect [OF laws(2,3) ac assms(7,6) this]
    have "inner_swap S asymmetry ext dec x p = Inr (r, f, i, p')" using 3 nf sw by (simp add: inner_swap_def)
    moreover have "pool_owes p' d + coin_in ce' d + coin_in cn' d
        = pool_owes p d + coin_in ce d + coin_in cn d + (if r = 0 then asym_slack asymmetry (Symbol ext) x d else 0)" for d
      using ac' [of d] o(1) [of d] 3 by (auto simp: asym_slack_def in_denom_def split: if_splits)
    ultimately show ?thesis using ac' o(2,3) by blast
  qed
qed

lemma clp_RemoveLiquidity_Inr:
  assumes "clp_RemoveLiquidity S ctx msg = Inr ctx'"
  obtains registry ext entry pool lp wN wE left x wE' wN' ce cn u0 u nb eb p' ce' cn' ctx1 es where
    "GetRegistry ctx = Inr registry" "rl_ExternalAsset msg = Some ext" "clp_entry_of registry (Symbol ext) = Inr entry" "GetPool ctx (Symbol ext) = Inr pool"
    "GetLiquidityProvider ctx (Symbol ext) (rl_Signer msg) = Inr lp"
    "CalculateWithdrawal S (PoolUnits pool) (itoa (NativeAssetBalance pool)) (itoa (ExternalAssetBalance pool))
       (itoa (LiquidityProviderUnits lp)) (itoa (rl_WBasisPoints msg)) (rl_Asymmetry msg) = Some (wN, wE, left, x)"
    "ParseToInt S (itoa wE) = Inr wE'" "ParseToInt S (itoa wN) = Inr wN'"
    "NewCoin S (Symbol ext) wE' = Some ce" "NewCoin S NativeSymbol wN' = Some cn"
    "Uint_Sub S (PoolUnits pool) (LiquidityProviderUnits lp) = Some u0" "Uint_Add S u0 left = Some u"
    "Uint_Sub S (NativeAssetBalance pool) wN = Some nb" "Uint_Sub S (ExternalAssetBalance pool) wE = Some eb"
    "adjust_asymmetry S (rl_Asymmetry msg) ext (Decimals entry) x
       (pool\<lparr>PoolUnits := u, NativeAssetBalance := nb, ExternalAssetBalance := eb\<rparr>) ce cn = Inr (p', ce', cn')"
    "exec_RemoveLiquidity S ctx p' ce' cn' lp left (ExternalAssetBalance pool) (NativeAssetBalance pool) = Inr ctx1"
    "ctx' = EmitEvents es ctx1"
proof -
  from assms show thesis
    by (auto simp: clp_RemoveLiquidity_def Let_def bind_eq_Some_conv split: prod.splits split del: if_split intro!: that)
qed

lemma CalculateWithdrawal_uint:
  "uint_laws S \<Longrightarrow> CalculateWithdrawal S P n e l w y = Some (a, b, c, s) \<Longrightarrow> 0 \<le> s"
proof -
  assume u: "uint_laws S" and "CalculateWithdrawal S P n e l w y = Some (a, b, c, s)"
  then obtain z where "to_uint S z = Some s"
    by (auto simp: CalculateWithdrawal_def Let_def bind_eq_Some_conv split del: if_split)
  then show "0 \<le> s" using to_uint_SomeD [OF u] by (simp add: is_uint_def)
qed

text \<open>The pool after the withdrawal and before the inner swap.\<close>

definition withdrawn :: "pool \<Rightarrow> int \<Rightarrow> int \<Rightarrow> int \<Rightarrow> pool" where
  "withdrawn pool units wN wE =
     pool\<lparr>PoolUnits := PoolUnits pool - units, NativeAssetBalance := NativeAssetBalance pool - wN,
       ExternalAssetBalance := ExternalAssetBalance pool - wE\<rparr>"

lemma clp_RemoveLiquidity_effect:
  assumes laws: "clp_laws S" and wf: "clp_wf (clp_kv ctx)" and step: "clp_RemoveLiquidity S ctx msg = Inr ctx'"
  shows "\<exists>registry ext entry pool lp wN wE left x r f i p'. GetRegistry ctx = Inr registry \<and> rl_ExternalAsset msg = Some ext \<and>
      clp_entry_of registry (Symbol ext) = Inr entry \<and> GetPool ctx (Symbol ext) = Inr pool \<and>
      GetLiquidityProvider ctx (Symbol ext) (rl_Signer msg) = Inr lp \<and>
      CalculateWithdrawal S (PoolUnits pool) (itoa (NativeAssetBalance pool)) (itoa (ExternalAssetBalance pool))
        (itoa (LiquidityProviderUnits lp)) (itoa (rl_WBasisPoints msg)) (rl_Asymmetry msg) = Some (wN, wE, left, x) \<and>
      (rl_Asymmetry msg \<noteq> 0 \<longrightarrow> inner_swap S (rl_Asymmetry msg) ext (Decimals entry) x
         (withdrawn pool (LiquidityProviderUnits lp - left) wN wE) = Inr (r, f, i, p')) \<and>
      clp_wf (clp_kv ctx') \<and>
      (\<forall>d. let slack = (if r = 0 then asym_slack (rl_Asymmetry msg) (Symbol ext) x d else 0);
               deficit = owed (clp_kv ctx) d - held S ctx d + slack in
           0 \<le> asym_slack (rl_Asymmetry msg) (Symbol ext) x d \<and> owed (clp_kv ctx') d - held S ctx' d \<le> deficit \<and>
           (AccAddressFromBech32 S (LiquidityProviderAddress lp) \<noteq> Inr (GetCLPModuleAddress S) \<longrightarrow>
              owed (clp_kv ctx') d - held S ctx' d = deficit))"
  using step
proof (rule clp_RemoveLiquidity_Inr)
  fix registry ext entry pool lp wN wE left x wE' wN' ce cn u0 u nb eb p' ce' cn' ctx1 es
  assume reg: "GetRegistry ctx = Inr registry" "clp_entry_of registry (Symbol ext) = Inr entry"
    and ext: "rl_ExternalAsset msg = Some ext" and pool: "GetPool ctx (Symbol ext) = Inr pool"
    and lp: "GetLiquidityProvider ctx (Symbol ext) (rl_Signer msg) = Inr lp"
    and cw: "CalculateWithdrawal S (PoolUnits pool) (itoa (NativeAssetBalance pool)) (itoa (ExternalAssetBalance pool))
       (itoa (LiquidityProviderUnits lp)) (itoa (rl_WBasisPoints msg)) (rl_Asymmetry msg) = Some (wN, wE, left, x)"
    and w': "ParseToInt S (itoa wE) = Inr wE'" "ParseToInt S (itoa wN) = Inr wN'"
    and c: "NewCoin S (Symbol ext) wE' = Some ce" "NewCoin S NativeSymbol wN' = Some cn"
    and u: "Uint_Sub S (PoolUnits pool) (LiquidityProviderUnits lp) = Some u0" "Uint_Add S u0 left = Some u"
    and b: "Uint_Sub S (NativeAssetBalance pool) wN = Some nb" "Uint_Sub S (ExternalAssetBalance pool) wE = Some eb"
    and adj: "adjust_asymmetry S (rl_Asymmetry msg) ext (Decimals entry) x
       (pool\<lparr>PoolUnits := u, NativeAssetBalance := nb, ExternalAssetBalance := eb\<rparr>) ce cn = Inr (p', ce', cn')"
    and rem: "exec_RemoveLiquidity S ctx p' ce' cn' lp left (ExternalAssetBalance pool) (NativeAssetBalance pool) = Inr ctx1"
    and ctx': "ctx' = EmitEvents es ctx1"
  have l: "uint_laws S" "int_laws S" "coin_laws S" using laws by (simp_all add: clp_laws_def)
  obtain a where a: "ExternalAsset pool = Some a" "Symbol a = Symbol ext" "Symbol ext \<noteq> NativeSymbol"
    using GetPool_wf [OF wf pool] by auto
  define p1 where "p1 = withdrawn pool (LiquidityProviderUnits lp - left) wN wE"
  have p1_eq: "pool\<lparr>PoolUnits := u, NativeAssetBalance := nb, ExternalAssetBalance := eb\<rparr> = p1"
    using u b l(1) by (auto simp: p1_def withdrawn_def uint_lawsD)
  have coins: "ce = \<lparr>coin_Denom = Symbol ext, coin_Amount = wE\<rparr>" "cn = \<lparr>coin_Denom = NativeSymbol, coin_Amount = wN\<rparr>"
    "0 \<le> wE" "0 \<le> wN"
    using NewCoin_Some [OF l(3) c(1)] NewCoin_Some [OF l(3) c(2)] ParseToInt_itoa [OF l(2)] w' by auto
  have ext1: "ExternalAsset p1 = Some a" using a(1) by (simp add: p1_def withdrawn_def)
  have p1: "pool_owes p1 d + coin_in ce d + coin_in cn d = pool_owes pool d" for d
    unfolding pool_owes_in_denom [OF a(1)] pool_owes_in_denom [OF ext1]
    using a(2) by (auto simp: p1_def withdrawn_def coins coin_in_def in_denom_def)
  have nonneg1: "pool_nonneg p1" using b l(1) by (auto simp: pool_nonneg_def p1_def withdrawn_def uint_lawsD is_uint_def)
  have is_coin: "coin_is ce (Symbol ext)" "coin_is cn NativeSymbol" using coins by (simp_all add: coin_is_def)
  note ad = adjust_asymmetry_effect [OF laws adj [unfolded p1_eq] ext1 a(2,3) is_coin nonneg1]
  then obtain r f i where sw: "rl_Asymmetry msg \<noteq> 0 \<longrightarrow> inner_swap S (rl_Asymmetry msg) ext (Decimals entry) x p1 = Inr (r, f, i, p')"
    and eq: "pool_owes p' d + coin_in ce' d + coin_in cn' d
      = pool_owes p1 d + coin_in ce d + coin_in cn d + (if r = 0 then asym_slack (rl_Asymmetry msg) (Symbol ext) x d else 0)" for d by blast
  have "Symbol a \<noteq> NativeSymbol" using a by simp
  note rm = exec_RemoveLiquidity_effect [OF laws wf rem _ this]
  let ?def = "\<lambda>d. owed (clp_kv ctx) d - held S ctx d + (if r = 0 then asym_slack (rl_Asymmetry msg) (Symbol ext) x d else 0)"
  have o: "owed (clp_kv ctx') d = owed (clp_kv ctx) d - pool_owes pool d + pool_owes p' d" for d
    using rm(2) [of d] ad owed_by_GetPool [OF pool, of d] a(2) by (simp add: ctx' coin_is_def)
  have h: "held S ctx d - coin_in ce' d - coin_in cn' d \<le> held S ctx' d" for d
    using rm(3) [of d] ad by (simp add: ctx' held_def coin_is_def coin_in_def)
  have le: "owed (clp_kv ctx') d - held S ctx' d \<le> ?def d" for d
    using h [of d] o [of d] eq [of d] p1 [of d] by linarith
  have ex: "owed (clp_kv ctx') d - held S ctx' d = ?def d"
    if "AccAddressFromBech32 S (LiquidityProviderAddress lp) \<noteq> Inr (GetCLPModuleAddress S)" for d
  proof -
    have "held S ctx' d = held S ctx d - coin_in ce' d - coin_in cn' d"
      using rm(4) [of d] ad that by (simp add: ctx' held_def coin_is_def coin_in_def)
    then show ?thesis using o [of d] eq [of d] p1 [of d] by linarith
  qed
  have "0 \<le> asym_slack (rl_Asymmetry msg) (Symbol ext) x d" for d
    using CalculateWithdrawal_uint [OF l(1) cw] by (simp add: asym_slack_def in_denom_def)
  moreover have "clp_wf (clp_kv ctx')" using rm(1) ad by (simp add: ctx' coin_is_def)
  ultimately show ?thesis using reg ext pool lp cw sw le ex unfolding p1_def Let_def by blast
qed

text \<open>The same for the values that a withdrawal reads.\<close>

lemma clp_RemoveLiquidity_deficit:
  assumes "clp_laws S" and "clp_wf (clp_kv ctx)" and "clp_RemoveLiquidity S ctx msg = Inr ctx'"
    and "rl_ExternalAsset msg = Some ext" and "GetPool ctx (Symbol ext) = Inr pool"
    and "GetLiquidityProvider ctx (Symbol ext) (rl_Signer msg) = Inr lp"
    and "CalculateWithdrawal S (PoolUnits pool) (itoa (NativeAssetBalance pool)) (itoa (ExternalAssetBalance pool))
           (itoa (LiquidityProviderUnits lp)) (itoa (rl_WBasisPoints msg)) (rl_Asymmetry msg) = Some (wN, wE, left, x)"
  obtains registry entry r f i p' where "GetRegistry ctx = Inr registry" "clp_entry_of registry (Symbol ext) = Inr entry"
    "rl_Asymmetry msg \<noteq> 0 \<longrightarrow> inner_swap S (rl_Asymmetry msg) ext (Decimals entry) x
       (withdrawn pool (LiquidityProviderUnits lp - left) wN wE) = Inr (r, f, i, p')"
    "\<And>d. owed (clp_kv ctx') d - held S ctx' d \<le> owed (clp_kv ctx) d - held S ctx d + asym_slack (rl_Asymmetry msg) (Symbol ext) x d"
    "\<And>d. AccAddressFromBech32 S (LiquidityProviderAddress lp) \<noteq> Inr (GetCLPModuleAddress S) \<Longrightarrow>
       owed (clp_kv ctx') d - held S ctx' d
         = owed (clp_kv ctx) d - held S ctx d + (if r = 0 then asym_slack (rl_Asymmetry msg) (Symbol ext) x d else 0)"
proof -
  from clp_RemoveLiquidity_effect [OF assms(1-3)] obtain registry ext1 entry pool1 lp1 wN1 wE1 left1 x1 r f i p' where
    e: "rl_ExternalAsset msg = Some ext1" "GetPool ctx (Symbol ext1) = Inr pool1"
      "GetLiquidityProvider ctx (Symbol ext1) (rl_Signer msg) = Inr lp1"
      "CalculateWithdrawal S (PoolUnits pool1) (itoa (NativeAssetBalance pool1)) (itoa (ExternalAssetBalance pool1))
         (itoa (LiquidityProviderUnits lp1)) (itoa (rl_WBasisPoints msg)) (rl_Asymmetry msg) = Some (wN1, wE1, left1, x1)"
    and reg: "GetRegistry ctx = Inr registry" "clp_entry_of registry (Symbol ext1) = Inr entry"
      "rl_Asymmetry msg \<noteq> 0 \<longrightarrow> inner_swap S (rl_Asymmetry msg) ext1 (Decimals entry) x1
         (withdrawn pool1 (LiquidityProviderUnits lp1 - left1) wN1 wE1) = Inr (r, f, i, p')"
    and d: "\<And>d. 0 \<le> asym_slack (rl_Asymmetry msg) (Symbol ext1) x1 d \<and> owed (clp_kv ctx') d - held S ctx' d
        \<le> owed (clp_kv ctx) d - held S ctx d + (if r = 0 then asym_slack (rl_Asymmetry msg) (Symbol ext1) x1 d else 0)"
      "\<And>d. AccAddressFromBech32 S (LiquidityProviderAddress lp1) \<noteq> Inr (GetCLPModuleAddress S) \<Longrightarrow>
         owed (clp_kv ctx') d - held S ctx' d
           = owed (clp_kv ctx) d - held S ctx d + (if r = 0 then asym_slack (rl_Asymmetry msg) (Symbol ext1) x1 d else 0)"
    unfolding Let_def by blast
  have e1: "ext1 = ext" using e(1) assms(4) by simp
  have e2: "pool1 = pool" "lp1 = lp" using e(2,3) assms(5,6) by (simp_all add: e1)
  have e3: "wN1 = wN" "wE1 = wE" "left1 = left" "x1 = x" using e(4) assms(7) by (simp_all add: e2)
  have "owed (clp_kv ctx') d - held S ctx' d \<le> owed (clp_kv ctx) d - held S ctx d + asym_slack (rl_Asymmetry msg) (Symbol ext) x d" for d
    using d(1) [of d] by (simp add: e1 e3 split: if_splits)
  then show thesis using that [OF reg(1) reg(2,3) [unfolded e1 e2 e3] _ d(2) [unfolded e1 e2 e3]] by blast
qed

lemma clp_RemoveLiquidity_inv:
  assumes inv: "clp_inv S ctx" and adm: "clp_admissible S (MsgRemoveLiquidity msg)"
    and step: "clp_RemoveLiquidity S ctx msg = Inr ctx'"
  shows "clp_inv S ctx'"
proof -
  have laws: "clp_laws S" and wf: "clp_wf (clp_kv ctx)" and sol: "\<forall>d. owed (clp_kv ctx) d \<le> held S ctx d"
    using inv by (auto simp: clp_inv_def solvent_def)
  have "rl_Asymmetry msg = 0" using adm by (simp add: clp_admissible_def)
  then have "clp_wf (clp_kv ctx')" and le: "\<forall>d. owed (clp_kv ctx') d - held S ctx' d \<le> owed (clp_kv ctx) d - held S ctx d"
    using clp_RemoveLiquidity_effect [OF laws wf step] by (auto simp: asym_slack_def Let_def split: if_splits)
  moreover have "owed (clp_kv ctx') d \<le> held S ctx' d" for d using spec [OF le, of d] spec [OF sol, of d] by linarith
  ultimately show ?thesis using laws by (simp add: clp_inv_def solvent_def)
qed

section \<open>Decommissioning\<close>

text \<open>
  The refund loop: what has left the account so far is at most what was subtracted from the local counters.
\<close>

definition refunded :: "'b sdk \<Rightarrow> 'b ctx \<Rightarrow> string \<Rightarrow> int \<Rightarrow> int \<Rightarrow> 'b ctx \<times> int \<times> int \<times> int \<Rightarrow> bool" where
  "refunded S ctx0 s N E st \<longleftrightarrow>
     (case st of (ctx, u, n, e) \<Rightarrow>
       clp_wf (clp_kv ctx) \<and> 0 \<le> n \<and> 0 \<le> e \<and> GetPool ctx s = GetPool ctx0 s \<and>
       (\<forall>d. owed (clp_kv ctx) d = owed (clp_kv ctx0) d \<and>
            held S ctx0 d - in_denom NativeSymbol (N - n) d - in_denom s (E - e) d \<le> held S ctx d))"

lemma GetPool_DestroyLiquidityProvider [simp]: "GetPool (DestroyLiquidityProvider ctx t a) s = GetPool ctx s"
  by (simp add: DestroyLiquidityProvider_def GetPool_def kv_has_def)

lemma refund_lp_step:
  assumes "clp_laws S" and inv: "refunded S ctx0 (dp_Symbol msg) N E st" and step: "refund_lp S msg pool st lp = Inr st'"
  shows "refunded S ctx0 (dp_Symbol msg) N E st'"
proof -
  have l: "uint_laws S" "int_laws S" "coin_laws S" "bank_laws S" using assms(1) by (simp_all add: clp_laws_def)
  obtain ctx u n e where st: "st = (ctx, u, n, e)" by (cases st)
  from step [unfolded st] obtain wN wE y1 y2 u' n' e' wN' wE' cn ce cs ctx' where
    sub: "Uint_Sub S n wN = Some n'" "Uint_Sub S e wE = Some e'"
    and w': "ParseToInt S (itoa wN) = Inr wN'" "ParseToInt S (itoa wE) = Inr wE'"
    and c: "NewCoin S NativeSymbol wN' = Some cn" "NewCoin S (dp_Symbol msg) wE' = Some ce"
    and cs: "NewCoins S [ce, cn] = Some cs" and rem: "exec_RemoveLiquidityProvider S ctx cs lp = Inr ctx'"
    and st': "st' = (ctx', u', n', e')"
    by (auto simp: refund_lp_def split: prod.splits)
  from rem obtain addr b and a :: asset where b: "SendCoinsFromModuleToAccount S (sdk_state ctx) clp_ModuleName addr cs = Inr b"
    and ctx': "ctx' = DestroyLiquidityProvider (ctx\<lparr>sdk_state := b\<rparr>) (Symbol a) (LiquidityProviderAddress lp)"
    by (auto simp: exec_RemoveLiquidityProvider_def)
  have coins: "cn = \<lparr>coin_Denom = NativeSymbol, coin_Amount = wN\<rparr>" "ce = \<lparr>coin_Denom = dp_Symbol msg, coin_Amount = wE\<rparr>"
    using NewCoin_Some [OF l(3) c(1)] NewCoin_Some [OF l(3) c(2)] ParseToInt_itoa [OF l(2)] w' by auto
  have wf: "clp_wf (clp_kv (ctx\<lparr>sdk_state := b\<rparr>))" using inv by (simp add: refunded_def st)
  note d = DestroyLiquidityProvider_effect [OF wf, of "Symbol a" "LiquidityProviderAddress lp", folded ctx']
  have n': "n' = n - wN" "e' = e - wE" "0 \<le> n'" "0 \<le> e'" using sub l(1) by (auto simp: uint_lawsD is_uint_def)
  have held: "held S ctx0 d - in_denom NativeSymbol (N - n') d - in_denom (dp_Symbol msg) (E - e') d \<le> held S ctx' d" for d
  proof -
    have "held S ctx d - in_denom NativeSymbol wN d - in_denom (dp_Symbol msg) wE d \<le> held S ctx' d"
      using from_module [OF l(4) b, of d] coin_laws_NewCoins [OF l(3) cs, of d] d(3)
      unfolding coins coins_in_denom by (simp add: held_def)
    moreover have "held S ctx0 d - in_denom NativeSymbol (N - n) d - in_denom (dp_Symbol msg) (E - e) d \<le> held S ctx d"
      using inv by (simp add: refunded_def st)
    moreover have "in_denom NativeSymbol (N - n') d = in_denom NativeSymbol (N - n) d + in_denom NativeSymbol wN d"
      "in_denom (dp_Symbol msg) (E - e') d = in_denom (dp_Symbol msg) (E - e) d + in_denom (dp_Symbol msg) wE d"
      by (simp_all add: in_denom_def n')
    ultimately show ?thesis by linarith
  qed
  have "GetPool ctx' (dp_Symbol msg) = GetPool ctx (dp_Symbol msg)" by (simp add: ctx') (simp add: GetPool_def)
  then show ?thesis using inv d(1,2) held n'(3,4) by (simp add: refunded_def st st')
qed

lemma clp_DecommissionPool_inv:
  assumes inv: "clp_inv S ctx" and step: "clp_DecommissionPool S ctx msg = Inr ctx'"
  shows "clp_inv S ctx'"
proof -
  have laws: "clp_laws S" and wf: "clp_wf (clp_kv ctx)" and sol: "\<forall>d. owed (clp_kv ctx) d \<le> held S ctx d"
    using inv by (auto simp: clp_inv_def solvent_def)
  from step obtain pool ext lps ctx1 u n e ctx2 es where pool: "GetPool ctx (dp_Symbol msg) = Inr pool"
    and loop: "fold_r (refund_lp S msg pool) (ctx, PoolUnits pool, NativeAssetBalance pool, ExternalAssetBalance pool) lps = Inr (ctx1, u, n, e)"
    and dest: "exec_DecommissionPool ctx1 pool = Inr ctx2" and ctx': "ctx' = EmitEvents es ctx2"
    by (auto simp: clp_DecommissionPool_def split: prod.splits)
  let ?R = "refunded S ctx (dp_Symbol msg) (NativeAssetBalance pool) (ExternalAssetBalance pool)"
  obtain a where a: "ExternalAsset pool = Some a" "Symbol a = dp_Symbol msg" "dp_Symbol msg \<noteq> NativeSymbol"
    using GetPool_wf [OF wf pool] by auto
  have dest': "DestroyPool ctx1 (dp_Symbol msg) = Inr ctx2" using dest a by (simp add: exec_DecommissionPool_def)
  have "?R (ctx, PoolUnits pool, NativeAssetBalance pool, ExternalAssetBalance pool)"
    using wf GetPool_nonneg [OF wf pool] by (simp add: refunded_def pool_nonneg_def in_denom_def)
  from fold_r_inv [where P = ?R, OF this loop] have r: "?R (ctx1, u, n, e)"
    using refund_lp_step [OF laws] by blast
  have wf1: "clp_wf (clp_kv ctx1)" and pool1: "GetPool ctx1 (dp_Symbol msg) = Inr pool" using r pool by (auto simp: refunded_def)
  note d = DestroyPool_effect [OF wf1 dest']
  have "owed (clp_kv ctx') d \<le> held S ctx' d" for d
  proof -
    have "owed (clp_kv ctx1) d = owed (clp_kv ctx) d" "0 \<le> n" "0 \<le> e"
      "held S ctx d - in_denom NativeSymbol (NativeAssetBalance pool - n) d - in_denom (dp_Symbol msg) (ExternalAssetBalance pool - e) d \<le> held S ctx1 d"
      using r by (auto simp: refunded_def)
    moreover have "held S ctx' d = held S ctx1 d" using d(3) by (simp add: held_def ctx')
    ultimately show ?thesis using d(2) [of d] owed_by_GetPool [OF pool1, of d] spec [OF sol, of d] a
      by (auto simp: ctx' pool_owes_in_denom in_denom_def split: if_splits)
  qed
  then show ?thesis using laws d(1) by (simp add: clp_inv_def solvent_def ctx')
qed

section \<open>Any sequence of messages\<close>

lemma clp_inv_Events [simp]: "clp_inv S (ctx\<lparr>Events := es\<rparr>) = clp_inv S ctx"
  by (simp add: clp_inv_def solvent_def held_def)

lemma clp_Handler_inv:
  assumes "clp_inv S ctx" and "clp_admissible S m" and "clp_Handler S ctx m = Inr ctx'"
  shows "clp_inv S ctx'"
proof -
  have inv: "clp_inv S (ctx\<lparr>Events := []\<rparr>)" using assms(1) by simp
  show ?thesis
    using assms(2,3) clp_Swap_inv [OF inv] clp_CreatePool_inv [OF inv] clp_AddLiquidity_inv [OF inv]
      clp_RemoveLiquidity_inv [OF inv] clp_DecommissionPool_inv [OF inv]
    by (cases m) auto
qed

interpretation clpm: machine "clp_Handler S" "clp_inv S" "clp_admissible S"
  by unfold_locales (rule clp_Handler_inv)

end
