(* ===== verification/CLP_Example.thy ===== *)
theory CLP_Example
  imports CLP_Solvency
begin

text \<open>
  A small chain over the reference SDK on which the properties of the liquidity-pool module are
  exercised: two tokens that may be pooled, a pool of 4000000 \<^verbatim>\<open>aku\<close> against 2000000 \<^verbatim>\<open>ceth\<close> owned by one
  provider, an admin, and a trader and the provider with some of both tokens.
\<close>

section \<open>The chain\<close>

definition ex_ceth :: asset where "ex_ceth = \<lparr>Symbol = ''ceth''\<rparr>"
definition ex_aku :: asset where "ex_aku = \<lparr>Symbol = ''aku''\<rparr>"

definition ex_pool_of :: "int \<Rightarrow> int \<Rightarrow> int \<Rightarrow> pool" where
  "ex_pool_of n e u = \<lparr>ExternalAsset = Some ex_ceth, NativeAssetBalance = n, ExternalAssetBalance = e, PoolUnits = u\<rparr>"

definition ex_lp_of :: "int \<Rightarrow> liquidity_provider" where
  "ex_lp_of u = \<lparr>lp_Asset = Some ex_ceth, LiquidityProviderUnits = u, LiquidityProviderAddress = ref_String ''alice''\<rparr>"

definition ex_bank :: "int \<Rightarrow> int \<Rightarrow> ref_state" where
  "ex_bank n e = \<lparr>ref_balance = (\<lambda>a d.
      if a = ''module/clp'' then (if d = ''aku'' then n else if d = ''ceth'' then e else 0)
      else if a = ''bob'' \<or> a = ''alice'' then (if d = ''aku'' \<or> d = ''ceth'' then 5000000000000000000 else 0) else 0),
    ref_param = (\<lambda>_ _. 100), ref_accounts = (\<lambda>_. Some 0), ref_validators = []\<rparr>"

text \<open>A pool with \<open>n\<close> of the native token and \<open>e\<close> of the other, \<open>u\<close> units, all of them of one provider.\<close>

definition ex_chain :: "int \<Rightarrow> int \<Rightarrow> int \<Rightarrow> ref_state ctx" where
  "ex_chain n e u = ref_ctx\<lparr>
     tr_kv := [(tr_WhitelistStorePrefix, RegistryV [Some (clp_entry (''aku'', 18)), Some (clp_entry (''ceth'', 18))])],
     clp_kv := [(pool_key ''ceth'', PoolV (ex_pool_of n e u)),
                (GetLiquidityProviderKey ''ceth'' (ref_String ''alice''), LpV (ex_lp_of u)),
                (WhiteListValidatorPrefix, WhitelistV [ref_String ''admin''])],
     sdk_state := ex_bank n e\<rparr>"

abbreviation "ex_ctx \<equiv> ex_chain 4000000 2000000 4000000"

section \<open>Reading it\<close>

lemma ex_chain_sel [simp]:
  "clp_kv (ex_chain n e u) = [(pool_key ''ceth'', PoolV (ex_pool_of n e u)),
     (GetLiquidityProviderKey ''ceth'' (ref_String ''alice''), LpV (ex_lp_of u)),
     (WhiteListValidatorPrefix, WhitelistV [ref_String ''admin''])]"
  "sdk_state (ex_chain n e u) = ex_bank n e"
  by (simp_all add: ex_chain_def)

lemma ex_assets [simp]:
  "asset.Symbol ex_ceth = ''ceth''" "ex_aku = GetSettlementAsset" "ex_ceth \<noteq> GetSettlementAsset" "GetSettlementAsset \<noteq> ex_ceth"
  by (auto simp: ex_ceth_def ex_aku_def GetSettlementAsset_def NativeSymbol_def)

lemma ex_sel [simp]:
  "ExternalAsset (ex_pool_of n e u) = Some ex_ceth" "NativeAssetBalance (ex_pool_of n e u) = n"
  "ExternalAssetBalance (ex_pool_of n e u) = e" "PoolUnits (ex_pool_of n e u) = u"
  "lp_Asset (ex_lp_of u) = Some ex_ceth" "LiquidityProviderUnits (ex_lp_of u) = u"
  "LiquidityProviderAddress (ex_lp_of u) = ref_String ''alice''"
  by (simp_all add: ex_pool_of_def ex_lp_of_def)

lemma ex_registry: "GetRegistry (ex_chain n e u) = Inr [Some (clp_entry (''aku'', 18)), Some (clp_entry (''ceth'', 18))]"
  by (simp add: GetRegistry_def ex_chain_def kv_get_def)

lemma ex_entries:
  "clp_entry_of [Some (clp_entry (''aku'', 18)), Some (clp_entry (''ceth'', 18))] ''aku'' = Inr (clp_entry (''aku'', 18))"
  "clp_entry_of [Some (clp_entry (''aku'', 18)), Some (clp_entry (''ceth'', 18))] ''ceth'' = Inr (clp_entry (''ceth'', 18))"
  "clp_permitted (clp_entry x) = Inr ()" "Decimals (clp_entry x) = snd x"
  by (code_simp, code_simp, simp_all add: clp_permitted_def clp_entry_def)

lemma ex_denoms: "ref_ValidateDenom ''aku''" "ref_ValidateDenom ''ceth''" "NativeSymbol = ''aku''"
  by code_simp+

lemma ex_ParseToInt: "ParseToInt ref_sdk (itoa n) = (if \<bar>n\<bar> < 2 ^ 255 then Inr n else Inl clp_ErrUnableToParseInt)"
  by (simp add: ParseToInt_def ref_atoi_def check_255_def)

lemma GetPool_sdk_state [simp]: "GetPool (ctx\<lparr>sdk_state := b\<rparr>) s = GetPool ctx s"
  by (simp add: GetPool_def)

lemma GetLiquidityProvider_sdk_state [simp]: "GetLiquidityProvider (ctx\<lparr>sdk_state := b\<rparr>) s a = GetLiquidityProvider ctx s a"
  by (simp add: GetLiquidityProvider_def)

lemma ex_pool [simp]: "GetPool (ex_chain n e u) ''ceth'' = Inr (ex_pool_of n e u)"
  by (simp add: GetPool_get kv_get_def)

lemma ex_lp [simp]: "GetLiquidityProvider (ex_chain n e u) ''ceth'' (ref_String ''alice'') = Inr (ex_lp_of u)"
  by (simp add: GetLiquidityProvider_get kv_get_def)

lemma ex_nf: "GetNormalizationFactor ref_sdk 18 = Some (one_dec, False)"
  by (simp add: GetNormalizationFactor_def)

lemma ex_Asset_Validate: "Asset_Validate ref_sdk ex_ceth = Some True" "Asset_Validate ref_sdk GetSettlementAsset = Some True"
  by code_simp+

lemma ex_valid: "Pool_Validate ref_sdk (ex_pool_of n e u) = Some True"
  "LiquidityProvider_Validate ref_sdk (ex_lp_of u) = Some True"
  by (simp_all add: Pool_Validate_def LiquidityProvider_Validate_def ex_Asset_Validate)

lemma ex_SetPool:
  "SetPool ref_sdk ctx (ex_pool_of n e u) = Inr (ctx\<lparr>clp_kv := kv_set (clp_kv ctx) (pool_key ''ceth'') (PoolV (ex_pool_of n e u))\<rparr>)"
  by (simp add: SetPool_def ex_valid)

lemma ex_SetLiquidityProvider:
  "SetLiquidityProvider ref_sdk ctx (ex_lp_of u) =
     Inr (ctx\<lparr>clp_kv := kv_set (clp_kv ctx) (GetLiquidityProviderKey ''ceth'' (ref_String ''alice'')) (LpV (ex_lp_of u))\<rparr>)"
  by (simp add: SetLiquidityProvider_def ex_valid)

lemma ex_lp_update: "ex_lp_of u\<lparr>LiquidityProviderUnits := v\<rparr> = ex_lp_of v"
  by (simp add: ex_lp_of_def)

lemma ex_pool_update: "ex_pool_of n e u\<lparr>PoolUnits := u', NativeAssetBalance := n', ExternalAssetBalance := e'\<rparr> = ex_pool_of n' e' u'"
  "ex_pool_of n e u\<lparr>NativeAssetBalance := n', ExternalAssetBalance := e'\<rparr> = ex_pool_of n' e' u"
  "ex_pool_of n e u\<lparr>ExternalAssetBalance := e', NativeAssetBalance := n'\<rparr> = ex_pool_of n' e' u"
  by (simp_all add: ex_pool_of_def)

lemma ex_less: "''aku'' < ''ceth''" "\<not> ''ceth'' < ''aku''"
  by code_simp+

text \<open>What the evaluation of the module's arithmetic and of its transfers unfolds.\<close>

lemmas dec_eval = CalcSwapResult_def CalcLiquidityFee_def scale_inputs_def unscale_result_def ReducePrecision_def
  IncreasePrecision_def ref_Power_def ref_Quo_def check_255_code check_dec_code check_uint_def is_uint_code one_dec_code
  GetMinLen_def len_step_def length_itoa_num length_int_digits_num ValidateZero_def Let_def

lemmas bank_eval = ref_NewCoin_def ref_NewCoins_def ref_Coins_Add_def ref_Coin_Add_def ref_Coin_Sub_def ref_coin_ok_def
  ref_HasBalance_def with_bank_def ref_Send_def ref_IsValid_def ref_has_def ref_bal_of_def ex_bank_def
  ref_ModuleAddress_def clp_ModuleName_def ref_add_def ref_sub_def ex_denoms ex_less GetCLPModuleAddress_def

lemmas msg_eval = ex_registry ex_entries ex_ParseToInt ref_FromBech32_String ex_nf ex_SetPool ex_SetLiquidityProvider
  ex_lp_update ex_pool_update check_uint_def is_uint_code

section \<open>It is well-formed and solvent\<close>

lemma ex_wf: "0 \<le> n \<Longrightarrow> 0 \<le> e \<Longrightarrow> clp_wf (clp_kv (ex_chain n e u))"
  by (simp add: clp_wf_def kv_ok_def pool_nonneg_def pool_key_def GetPoolKey_def GetLiquidityProviderKey_def
      PoolPrefix_def LiquidityProviderPrefix_def WhiteListValidatorPrefix_def ex_denoms less_char_def)

lemma ex_owed: "owed (clp_kv (ex_chain n e u)) d = (if d = ''aku'' then n else if d = ''ceth'' then e else 0)"
  by (simp add: owed_def pool_owes.simps ex_denoms)

lemma ex_held: "0 \<le> n \<Longrightarrow> 0 \<le> e \<Longrightarrow> held ref_sdk (ex_chain n e u) d = (if d = ''aku'' then n else if d = ''ceth'' then e else 0)"
  by (simp add: held_def ref_bal ref_bal_of_def GetCLPModuleAddress_def clp_ModuleName_def ref_ModuleAddress_def ex_bank_def)

lemma ex_laws: "clp_laws ref_sdk"
  by (simp add: clp_laws_def ref_uint_laws ref_int_laws ref_coin_laws ref_bank_laws)

lemma ex_solvent: "0 \<le> n \<Longrightarrow> 0 \<le> e \<Longrightarrow> solvent ref_sdk (ex_chain n e u)"
  by (simp add: solvent_def ex_owed ex_held del: ex_chain_sel)

lemma ex_inv: "0 \<le> n \<Longrightarrow> 0 \<le> e \<Longrightarrow> clp_inv ref_sdk (ex_chain n e u)"
  by (simp add: clp_inv_def ex_laws ex_wf ex_solvent del: ex_chain_sel)

section \<open>A swap\<close>

definition ex_swap :: msg_swap where
  "ex_swap = \<lparr>sw_Signer = ref_String ''bob'', sw_SentAsset = Some ex_aku, sw_ReceivedAsset = Some ex_ceth,
              sw_SentAmount = 1000000, sw_MinReceivingAmount = 300000\<rparr>"

lemma ex_swap_sel [simp]:
  "sw_Signer ex_swap = ref_String ''bob''" "sw_SentAsset ex_swap = Some GetSettlementAsset" "sw_ReceivedAsset ex_swap = Some ex_ceth"
  "sw_SentAmount ex_swap = 1000000" "sw_MinReceivingAmount ex_swap = 300000"
  by (simp_all add: ex_swap_def)

lemma ex_swap_rounding:
  "round_div 1000000000000000000 1000000000000000000 = 1"
  "round_div 4000000000000000000000000000000000000000000 1000000000000000000000000 = 4000000000000000000"
  "round_div 1000000000000000000000000000000000000000000 1000000000000000000000000 = 1000000000000000000"
  "round_div 2000000000000000000000000000000000000000000 1000000000000000000000000 = 2000000000000000000"
  "round_div 25000000000000000000000000000000000000 1000000000000000000 = 25000000000000000000"
  "round_div 4000000000000000000000000000000000000 1000000000000000000 = 4000000000000000000"
  "round_div 8000000000000000000000000000000000000 1000000000000000000 = 8000000000000000000"
  "round_div 8000000000000000000000000000000000000 25000000000000000000 = 320000000000000000"
  "round_div 320000000000000000000000000000000000000000 1000000000000000000 = 320000000000000000000000"
  "round_div 320000000000000000000000 1000000000000000000 = 320000"
  "round_div 1000000000000000000000000000000000000 1000000000000000000 = 1000000000000000000"
  "round_div 2000000000000000000000000000000000000 1000000000000000000 = 2000000000000000000"
  "round_div 2000000000000000000000000000000000000 25000000000000000000 = 80000000000000000"
  "round_div 80000000000000000000000000000000000000000 1000000000000000000 = 80000000000000000000000"
  "round_div 80000000000000000000000 1000000000000000000 = 80000"
  by (rule round_div_eqI; simp)+

lemma ex_swap_result: "CalcSwapResult ref_sdk False one_dec False 4000000 1000000 2000000 = Some 320000"
  by (simp add: dec_eval ex_swap_rounding cong: lazy)

lemma ex_swap_fee: "CalcLiquidityFee ref_sdk False one_dec False 4000000 1000000 2000000 = Some 80000"
  by (simp add: dec_eval ex_swap_rounding cong: lazy)

lemma ex_SwapOne:
  "SwapOne ref_sdk GetSettlementAsset 1000000 ex_ceth (ex_pool_of 4000000 2000000 4000000) one_dec False =
     Inr (320000, 80000, 0, ex_pool_of 5000000 1680000 4000000)"
  by (simp add: SwapOne_def SetInputs_def ex_swap_fee ex_swap_result calcPriceImpact_def check_uint_def is_uint_code
      ex_pool_update cong: lazy)

lemma ex_InitiateSwap:
  "exec_InitiateSwap ref_sdk ex_ctx \<lparr>coin_Denom = ''aku'', coin_Amount = 1000000\<rparr> ''bob'' =
     Inr (ex_ctx\<lparr>sdk_state := ref_add (ref_sub (ex_bank 4000000 2000000) ''bob'' [\<lparr>coin_Denom = ''aku'', coin_Amount = 1000000\<rparr>])
                               ''module/clp'' [\<lparr>coin_Denom = ''aku'', coin_Amount = 1000000\<rparr>]\<rparr>)"
  by (simp add: exec_InitiateSwap_def bank_eval cong: lazy)

lemma ex_swap_ok: "\<exists>ctx'. clp_Swap ref_sdk ex_ctx ex_swap = Inr ctx'"
  by (simp add: clp_Swap_def swap_first_leg_def exec_FinalizeSwap_def total_fee_def msg_eval bank_eval ex_SwapOne ex_InitiateSwap
      del: bind_r_Inr cong: lazy)

section \<open>A withdrawal whose inner swap yields nothing\<close>

text \<open>
  Half of a pool of 4000000 \<^verbatim>\<open>aku\<close> and 4 \<^verbatim>\<open>ceth\<close> is withdrawn with an asymmetry of ten basis points: 2000 \<^verbatim>\<open>aku\<close> are
  swapped for no \<^verbatim>\<open>ceth\<close> at all. They are credited to the pool and paid out as well.
\<close>

definition ex_withdraw :: msg_remove_liquidity where
  "ex_withdraw = \<lparr>rl_Signer = ref_String ''alice'', rl_ExternalAsset = Some ex_ceth, rl_WBasisPoints = 5000, rl_Asymmetry = 10\<rparr>"

lemma ex_withdraw_sel [simp]:
  "rl_Signer ex_withdraw = ref_String ''alice''" "rl_ExternalAsset ex_withdraw = Some ex_ceth"
  "rl_WBasisPoints ex_withdraw = 5000" "rl_Asymmetry ex_withdraw = 10"
  by (simp_all add: ex_withdraw_def)

lemma ex_withdraw_rounding:
  "round_div 10000000000000000000000000000000000000000 5000000000000000000000 = 2000000000000000000"
  "round_div 4000000000000000000000000000000000000000000 2000000000000000000 = 2000000000000000000000000"
  "round_div 4000000000000000000000000000000000000000000 2000000000000000000000000 = 2000000000000000000"
  "round_div 4000000000000000000000000000000000000 2000000000000000000 = 2000000000000000000"
  "round_div 10000000000000000000000000000000000000000 10000000000000000000 = 1000000000000000000000"
  "round_div 2000000000000000000000000000000000000000000 1000000000000000000000 = 2000000000000000000000"
  "round_div 4000000000000000000000000000000000000000000 2000000000000000000000 = 2000000000000000000000"
  "round_div 2000000000000000000000000 1000000000000000000 = 2000000"
  "round_div 2000000000000000000 1000000000000000000 = 2"
  "round_div 2000000000000000000000 1000000000000000000 = 2000"
  "round_div 1000000000000000000 1000000000000000000 = 1"
  "round_div 2000000000000000000000000000000000000000000 1000000000000000000000000 = 2000000000000000000"
  "round_div 2000000000000000000000000000000000000000 1000000000000000000000000 = 2000000000000000"
  "round_div 2000000000000000000000000000000000000 1000000000000000000000000 = 2000000000000"
  "round_div 4008004000000000000000000000000000000 1000000000000000000 = 4008004000000000000"
  "round_div 4000000000000000000000000000000000 1000000000000000000 = 4000000000000000"
  "round_div 8000000000000000000000000000 1000000000000000000 = 8000000000"
  "round_div 8000000000000000000000000000 4008004000000000000 = 1996005992"
  "round_div 1996005992000000000000000000000000 1000000000000000000 = 1996005992000000"
  "round_div 1996005992000000 1000000000000000000 = 0"
  "round_div 4000000000000000000000000000000 1000000000000000000 = 4000000000000"
  "round_div 8000000000000000000000000 1000000000000000000 = 8000000"
  "round_div 8000000000000000000000000 4008004000000000000 = 1996006"
  "round_div 1996006000000000000000000000000 1000000000000000000 = 1996006000000"
  "round_div 1996006000000 1000000000000000000 = 0"
  by (rule round_div_eqI; simp)+

lemma ex_must_dec: "must_dec ref_sdk (itoa n) = check_255 (n * one_dec)"
  by (simp add: must_dec_def ref_DecFromStr_def check_255_def)

lemma ex_CalculateWithdrawal:
  "CalculateWithdrawal ref_sdk 4000000 (itoa 4000000) (itoa 4) (itoa 4000000) (itoa 5000) 10 = Some (2000000, 2, 2000000, 2000)"
  by (simp add: CalculateWithdrawal_def to_uint_def ex_must_dec dec_eval ex_withdraw_rounding cong: lazy)

lemma ex_withdraw_result: "CalcSwapResult ref_sdk False one_dec False 2000000 2000 2 = Some 0"
  by (simp add: dec_eval ex_withdraw_rounding cong: lazy)

lemma ex_withdraw_fee: "CalcLiquidityFee ref_sdk False one_dec False 2000000 2000 2 = Some 0"
  by (simp add: dec_eval ex_withdraw_rounding cong: lazy)

lemma ex_withdraw_SwapOne:
  "SwapOne ref_sdk GetSettlementAsset 2000 ex_ceth (ex_pool_of 2000000 2 2000000) one_dec False =
     Inr (0, 0, 0, ex_pool_of 2002000 2 2000000)"
  by (simp add: SwapOne_def SetInputs_def ex_withdraw_fee ex_withdraw_result calcPriceImpact_def check_uint_def is_uint_code
      ex_pool_update cong: lazy)

lemma ex_withdraw_ok:
  "\<exists>ctx'. clp_RemoveLiquidity ref_sdk (ex_chain 4000000 4 4000000) ex_withdraw = Inr ctx' \<and>
     GetPool ctx' ''ceth'' = Inr (ex_pool_of 2002000 2 2000000) \<and> held ref_sdk ctx' ''aku'' = 2000000 \<and>
     owed (clp_kv ctx') ''aku'' = 2002000"
  by (simp add: clp_RemoveLiquidity_def exec_RemoveLiquidity_def adjust_asymmetry_def adjust_coins_def add_positive_def
      ex_CalculateWithdrawal ex_withdraw_SwapOne msg_eval bank_eval held_def ref_bal GetPool_get owed_def kv_get_def
      pool_owes.simps
      del: bind_r_Inr cong: lazy)

end
