(* ===== verification/CLP_Genesis.thy ===== *)
theory CLP_Genesis
  imports CLP_Example
begin

text \<open>
  Genesis of the liquidity-pool module (\<^verbatim>\<open>x/clp/genesis.go\<close>, \<^verbatim>\<open>types/genesis.go\<close>) and the migration of the
  genesis of version 0.39. Pools and providers are repositories in the sense of \<open>repo\<close>; exporting a
  store and importing it again gives the same store.
\<close>

section \<open>Definitions\<close>

text \<open>\<^verbatim>\<open>types.GenesisState\<close>; the lists are of messages that were unmarshalled, so none is nil.\<close>

record clp_genesis =
  MinCreatePoolThreshold :: int
  AddressWhitelist :: "string list"
  PoolList :: "pool list"
  LiquidityProviders :: "liquidity_provider list"

definition clp_NewGenesisState :: "int \<Rightarrow> clp_genesis" where
  "clp_NewGenesisState params =
     \<lparr>MinCreatePoolThreshold = params, AddressWhitelist = [], PoolList = [], LiquidityProviders = []\<rparr>"

definition clp_DefaultParams :: int where
  "clp_DefaultParams = 100"

definition clp_DefaultGenesisState :: "'b sdk \<Rightarrow> clp_genesis" where
  "clp_DefaultGenesisState S =
     \<lparr>MinCreatePoolThreshold = clp_DefaultParams, AddressWhitelist = [AccAddress_String S (GetDefaultCLPAdmin S)],
      PoolList = [], LiquidityProviders = []\<rparr>"

definition clp_InitGenesis :: "'b sdk \<Rightarrow> 'b ctx \<Rightarrow> clp_genesis \<Rightarrow> 'b ctx result" where
  "clp_InitGenesis S ctx data =
     bind_r (clp_SetParams S ctx (MinCreatePoolThreshold data)) (\<lambda>ctx.
     if AddressWhitelist data = [] then Inl (Panic ''AddressWhiteList must be set.'')
     else
     bind_r (map_r (parse_addr S) (AddressWhitelist data)) (\<lambda>wl.
     let ctx = SetClpWhiteList S (SetClpWhiteList S ctx wl) wl in
     bind_r (fold_r (\<lambda>ctx pool. must_r (SetPool S ctx pool)) ctx (PoolList data)) (\<lambda>ctx.
     fold_r (SetLiquidityProvider S) ctx (LiquidityProviders data))))"

text \<open>The errors of the two listings are dropped.\<close>

definition clp_ExportGenesis :: "'b sdk \<Rightarrow> 'b ctx \<Rightarrow> clp_genesis result" where
  "clp_ExportGenesis S ctx =
     bind_r (ignore_err [] (bind_r (GetPoolsPaginated S ctx (Some max_page)) (\<lambda>(ps, _). Inr ps))) (\<lambda>poolList.
     bind_r (ignore_err [] (bind_r (GetAllLiquidityProvidersPaginated S ctx (Some max_page)) (\<lambda>(ls, _). Inr ls)))
            (\<lambda>liquidityProviders.
     bind_r (GetClpWhiteList S ctx) (\<lambda>whiteList.
     Inr \<lparr>MinCreatePoolThreshold = clp_GetParams S ctx, AddressWhitelist = map (AccAddress_String S) whiteList,
          PoolList = poolList, LiquidityProviders = liquidityProviders\<rparr>)))"

definition clp_ValidateGenesis :: "'b sdk \<Rightarrow> clp_genesis \<Rightarrow> unit result" where
  "clp_ValidateGenesis S data =
     bind_r (wrap_err clp_ErrInvalid (validateMinCreatePoolThreshold (MinCreatePoolThreshold data))) (\<lambda>_.
     bind_r (fold_r (\<lambda>_ pool. bind_r (panics (Pool_Validate S pool)) (\<lambda>ok.
               if \<not> ok then Inl clp_ErrInvalid else Inr ())) () (PoolList data)) (\<lambda>_.
     fold_r (\<lambda>_ lp. bind_r (panics (LiquidityProvider_Validate S lp)) (\<lambda>ok.
               if \<not> ok then Inl clp_ErrInvalid else Inr ())) () (LiquidityProviders data)))"

text \<open>The genesis of version 0.39 has assets by value and addresses that are not printed yet.\<close>

record v39_pool =
  v39_ExternalAsset :: asset
  v39_NativeAssetBalance :: int
  v39_ExternalAssetBalance :: int
  v39_PoolUnits :: int

record v39_liquidity_provider =
  v39_Asset :: asset
  v39_LiquidityProviderUnits :: int
  v39_LiquidityProviderAddress :: address

record v39_clp_genesis =
  v39_MinCreatePoolThreshold :: int
  v39_AddressWhitelist :: "address list"
  v39_PoolList :: "v39_pool list"
  v39_LiquidityProviderList :: "v39_liquidity_provider list"

definition clp_Migrate :: "'b sdk \<Rightarrow> v39_clp_genesis \<Rightarrow> clp_genesis" where
  "clp_Migrate S genesis =
     \<lparr>MinCreatePoolThreshold = v39_MinCreatePoolThreshold genesis,
      AddressWhitelist = map (AccAddress_String S) (v39_AddressWhitelist genesis),
      PoolList = map (\<lambda>p.
        \<lparr>ExternalAsset = Some \<lparr>Symbol = Symbol (v39_ExternalAsset p)\<rparr>, NativeAssetBalance = v39_NativeAssetBalance p,
         ExternalAssetBalance = v39_ExternalAssetBalance p, PoolUnits = v39_PoolUnits p\<rparr>) (v39_PoolList genesis),
      LiquidityProviders = map (\<lambda>l.
        \<lparr>lp_Asset = Some \<lparr>Symbol = Symbol (v39_Asset l)\<rparr>, LiquidityProviderUnits = v39_LiquidityProviderUnits l,
         LiquidityProviderAddress = AccAddress_String S (v39_LiquidityProviderAddress l)\<rparr>) (v39_LiquidityProviderList genesis)\<rparr>"

section \<open>Pools and providers as repositories\<close>

definition find_pool :: "'b ctx \<Rightarrow> string \<Rightarrow> pool option" where
  "find_pool ctx k = Option.bind (kv_get (clp_kv ctx) k) unmarshal_pool"

definition find_lp :: "'b ctx \<Rightarrow> string \<Rightarrow> liquidity_provider option" where
  "find_lp ctx k = Option.bind (kv_get (clp_kv ctx) k) unmarshal_lp"

definition key_of_pool :: "pool \<Rightarrow> string" where
  "key_of_pool p = pool_key (Symbol (the (ExternalAsset p)))"

definition key_of_lp :: "liquidity_provider \<Rightarrow> string" where
  "key_of_lp l = GetLiquidityProviderKey (Symbol (the (lp_Asset l))) (LiquidityProviderAddress l)"

definition del_key :: "'b ctx \<Rightarrow> string \<Rightarrow> 'b ctx" where
  "del_key ctx k = ctx\<lparr>clp_kv := kv_delete (clp_kv ctx) k\<rparr>"

lemma unmarshal_Some [simp]: "unmarshal_pool v = Some p \<longleftrightarrow> v = PoolV p" "unmarshal_lp v = Some l \<longleftrightarrow> v = LpV l"
  by (auto simp: unmarshal_pool_def unmarshal_lp_def split: clp_value.splits)

lemma unmarshal_other [simp]: "unmarshal_lp (PoolV p) = None" "unmarshal_lp (WhitelistV vs) = None"
  "unmarshal_pool (LpV l) = None" "unmarshal_pool (WhitelistV vs) = None"
  by (simp_all add: unmarshal_pool_def unmarshal_lp_def)

lemma find_Some: "find_pool ctx k = Some p \<longleftrightarrow> kv_get (clp_kv ctx) k = Some (PoolV p)"
  "find_lp ctx k = Some l \<longleftrightarrow> kv_get (clp_kv ctx) k = Some (LpV l)"
  by (auto simp: find_pool_def find_lp_def bind_eq_Some_conv)

lemma find_pool_GetPool: "find_pool ctx (pool_key s) = (case GetPool ctx s of Inr p \<Rightarrow> Some p | Inl _ \<Rightarrow> None)"
  by (auto simp: find_pool_def GetPool_def kv_has_def unmarshal_pool_def split: option.splits clp_value.splits)

lemma SetPool_valid:
  assumes "Pool_Validate S p = Some True"
  shows "SetPool S ctx p = Inr (ctx\<lparr>clp_kv := kv_set (clp_kv ctx) (key_of_pool p) (PoolV p)\<rparr>)"
  using assms by (auto simp: SetPool_def key_of_pool_def Pool_Validate_def bind_eq_Some_conv)

lemma SetLiquidityProvider_valid:
  assumes "LiquidityProvider_Validate S l = Some True"
  shows "SetLiquidityProvider S ctx l = Inr (ctx\<lparr>clp_kv := kv_set (clp_kv ctx) (key_of_lp l) (LpV l)\<rparr>)"
  using assms by (auto simp: SetLiquidityProvider_def key_of_lp_def LiquidityProvider_Validate_def bind_eq_Some_conv)

interpretation pools: repo find_pool "\<lambda>ctx p. must_r (SetPool S ctx p)" del_key key_of_pool "\<lambda>p. Pool_Validate S p = Some True"
  for S :: "'b sdk"
  by unfold_locales (auto simp: SetPool_valid find_pool_def del_key_def unmarshal_pool_def)

interpretation providers: repo find_lp "SetLiquidityProvider S" del_key key_of_lp "\<lambda>l. LiquidityProvider_Validate S l = Some True"
  for S :: "'b sdk"
  by unfold_locales (auto simp: SetLiquidityProvider_valid find_lp_def del_key_def unmarshal_lp_def)

section \<open>Exporting and importing\<close>

text \<open>
  A store as the module writes it: every value passed its validation, and the admin list holds
  printed addresses and is not empty.
\<close>

fun value_valid :: "'b sdk \<Rightarrow> clp_value \<Rightarrow> bool" where
  "value_valid S (PoolV p) \<longleftrightarrow> Pool_Validate S p = Some True"
| "value_valid S (LpV l) \<longleftrightarrow> LiquidityProvider_Validate S l = Some True"
| "value_valid S (WhitelistV vs) \<longleftrightarrow> vs \<noteq> [] \<and> 
     list_all (\<lambda>v. case AccAddressFromBech32 S v of Inl _ \<Rightarrow> False | Inr a \<Rightarrow> AccAddress_String S a = v) vs"

definition clp_valid :: "'b sdk \<Rightarrow> clp_value kv \<Rightarrow> bool" where
  "clp_valid S s \<longleftrightarrow> list_all (\<lambda>e. value_valid S (snd e)) s"

definition find_wl :: "'b ctx \<Rightarrow> string \<Rightarrow> string list option" where
  "find_wl ctx k = (case kv_get (clp_kv ctx) k of Some (WhitelistV vs) \<Rightarrow> Some vs | _ \<Rightarrow> None)"

lemma kv_get_cases:
  "kv_get (clp_kv ctx) k =
     (case find_pool ctx k of Some p \<Rightarrow> Some (PoolV p)
      | None \<Rightarrow> (case find_lp ctx k of Some l \<Rightarrow> Some (LpV l) | None \<Rightarrow> map_option WhitelistV (find_wl ctx k)))"
  by (auto simp: find_pool_def find_lp_def find_wl_def unmarshal_pool_def unmarshal_lp_def split: option.splits clp_value.splits)

text \<open>The entries of one kind, by prefix: the prefix of a key tells the kind of its value.\<close>

lemma kind_of_key:
  assumes "clp_wf s" and "(k, v) \<in> set s"
  shows "prefix PoolPrefix k \<longleftrightarrow> unmarshal_pool v \<noteq> None" and "prefix LiquidityProviderPrefix k \<longleftrightarrow> unmarshal_lp v \<noteq> None"
    and "v = WhitelistV vs \<Longrightarrow> k = WhiteListValidatorPrefix"
proof -
  have "entry_ok (k, v)" using assms by (auto simp: clp_wf_def list_all_iff)
  then show "prefix PoolPrefix k \<longleftrightarrow> unmarshal_pool v \<noteq> None" and "prefix LiquidityProviderPrefix k \<longleftrightarrow> unmarshal_lp v \<noteq> None"
    and "v = WhitelistV vs \<Longrightarrow> k = WhiteListValidatorPrefix"
    by (cases v; auto simp: unmarshal_pool_def unmarshal_lp_def pool_key_def GetPoolKey_def GetLiquidityProviderKey_def
        PoolPrefix_def LiquidityProviderPrefix_def WhiteListValidatorPrefix_def split: option.splits)+
qed

lemma map_filter_snd:
  "(\<And>e. e \<in> set es \<Longrightarrow> f (snd e) \<noteq> None) \<Longrightarrow> List.map_filter f (map snd es) = map (\<lambda>e. the (f (snd e))) es"
  by (induction es) (auto simp: List.map_filter_def)

lemma on_page_all: "on_page (map (\<lambda>_. True) es) es = map snd es"
  by (induction es) (auto simp: on_page_def)

lemma max_page_start: "page_Key max_page = []" "page_Offset max_page = 0"
  by (simp_all add: max_page_def)

text \<open>A listing of a whole kind returns every entry of it, in key order.\<close>

lemma paginate_all:
  assumes "page_laws S" and "page_Key r = []" and "page_Offset r = 0" and "length es \<le> page_Limit r"
    and "\<And>e. e \<in> set es \<Longrightarrow> f (snd e) \<noteq> None"
  shows "\<exists>resp. Paginate S (Some r) (map (\<lambda>e. (tl (fst e), if f (snd e) = None then Inl x else Inr ())) es) =
           Inr (map (\<lambda>_. True) es, resp)"
proof -
  have "map (\<lambda>e. (tl (fst e), if f (snd e) = None then Inl x else Inr ())) es = map (\<lambda>k. (k, Inr ())) (map (tl \<circ> fst) es)"
    using assms(5) by auto
  moreover have "map (\<lambda>_. True) (map (tl \<circ> fst) es) = map (\<lambda>_. True) es" by (simp add: comp_def)
  ultimately show ?thesis
    using assms(1-4) unfolding page_laws_def by (metis (no_types, lifting) length_map)
qed

definition pools_of :: "clp_value kv \<Rightarrow> pool list" where
  "pools_of s = map (\<lambda>e. the (unmarshal_pool (snd e))) (kv_prefix s PoolPrefix)"

definition lps_of :: "clp_value kv \<Rightarrow> liquidity_provider list" where
  "lps_of s = map (\<lambda>e. the (unmarshal_lp (snd e))) (kv_prefix s LiquidityProviderPrefix)"

lemma GetPoolsPaginated_all:
  assumes "page_laws S" and "clp_wf (clp_kv ctx)" and "length (clp_kv ctx) \<le> page_Limit max_page"
  shows "\<exists>resp. GetPoolsPaginated S ctx (Some max_page) = Inr (pools_of (clp_kv ctx), resp)"
proof -
  have *: "unmarshal_pool (snd e) \<noteq> None" if "e \<in> set (kv_prefix (clp_kv ctx) PoolPrefix)" for e
    using that kind_of_key(1) [OF assms(2), of "fst e" "snd e"] by (auto simp: kv_prefix_def)
  have "length (kv_prefix (clp_kv ctx) PoolPrefix) \<le> page_Limit max_page"
    using assms(3) length_filter_le [of _ "clp_kv ctx"] unfolding kv_prefix_def by (meson le_trans)
  from paginate_all [OF assms(1) max_page_start this, of unmarshal_pool "ErrNew ''unmarshal''"] * map_filter_snd [of _ unmarshal_pool, OF *]
  show ?thesis by (auto simp: GetPoolsPaginated_def on_page_all pools_of_def)
qed

lemma GetAllLiquidityProvidersPaginated_all:
  assumes "page_laws S" and "clp_wf (clp_kv ctx)" and "length (clp_kv ctx) \<le> page_Limit max_page"
  shows "\<exists>resp. GetAllLiquidityProvidersPaginated S ctx (Some max_page) = Inr (lps_of (clp_kv ctx), resp)"
proof -
  have *: "unmarshal_lp (snd e) \<noteq> None" if "e \<in> set (kv_prefix (clp_kv ctx) LiquidityProviderPrefix)" for e
    using that kind_of_key(2) [OF assms(2), of "fst e" "snd e"] by (auto simp: kv_prefix_def)
  have "length (kv_prefix (clp_kv ctx) LiquidityProviderPrefix) \<le> page_Limit max_page"
    using assms(3) length_filter_le [of _ "clp_kv ctx"] unfolding kv_prefix_def by (meson le_trans)
  from paginate_all [OF assms(1) max_page_start this, of unmarshal_lp "ErrNew ''unmarshal''"] * map_filter_snd [of _ unmarshal_lp, OF *]
  show ?thesis by (auto simp: GetAllLiquidityProvidersPaginated_def on_page_all lps_of_def)
qed

lemma export_store:
  assumes "page_laws S" and "clp_wf (clp_kv ctx)" and "length (clp_kv ctx) \<le> page_Limit max_page"
    and "clp_valid S (clp_kv ctx)" and "ExistsClpWhiteList ctx"
  shows "\<exists>vs. kv_get (clp_kv ctx) WhiteListValidatorPrefix = Some (WhitelistV vs) \<and> vs \<noteq> [] \<and>
           (\<exists>as. map_r (parse_addr S) vs = Inr as \<and> map (AccAddress_String S) as = vs) \<and>
           clp_ExportGenesis S ctx = Inr \<lparr>MinCreatePoolThreshold = clp_GetParams S ctx, AddressWhitelist = vs,
             PoolList = pools_of (clp_kv ctx), LiquidityProviders = lps_of (clp_kv ctx)\<rparr>"
proof -
  obtain v where v: "kv_get (clp_kv ctx) WhiteListValidatorPrefix = Some v"
    using assms(5) by (auto simp: ExistsClpWhiteList_def kv_has_def)
  then have "entry_ok (WhiteListValidatorPrefix, v)" using assms(2) clp_wf_get by blast
  then obtain vs where vs: "v = WhitelistV vs" by (cases v) (auto split: option.splits)
  have "value_valid S (WhitelistV vs)"
    using v vs assms(2,4) by (auto simp: clp_valid_def clp_wf_def list_all_iff kv_get_iff)
  then have ok: "vs \<noteq> []" "\<And>v. v \<in> set vs \<Longrightarrow> \<exists>a. AccAddressFromBech32 S v = Inr a \<and> AccAddress_String S a = v"
    by (auto simp: list_all_iff split: sum.splits) (metis sumE)
  have "\<exists>as. map_r (parse_addr S) vs = Inr as \<and> map (AccAddress_String S) as = vs"
    using ok(2) by (induction vs) (fastforce simp: parse_addr_def)+
  moreover obtain r1 r2 where "GetPoolsPaginated S ctx (Some max_page) = Inr (pools_of (clp_kv ctx), r1)"
    "GetAllLiquidityProvidersPaginated S ctx (Some max_page) = Inr (lps_of (clp_kv ctx), r2)"
    using GetPoolsPaginated_all [OF assms(1-3)] GetAllLiquidityProvidersPaginated_all [OF assms(1-3)] by blast
  ultimately show ?thesis using v vs ok(1) by (auto simp: clp_ExportGenesis_def GetClpWhiteList_def)
qed

text \<open>Reading the pools and providers of a store as maps.\<close>

lemma find_pool_map:
  assumes "clp_wf (clp_kv ctx)"
  shows "map_of (rev (map (\<lambda>p. (key_of_pool p, p)) (pools_of (clp_kv ctx)))) k = find_pool ctx k"
  unfolding find_pool_def pools_of_def
proof (rule kv_kind_map)
  show "key_of_pool p = k" if "(k, v) \<in> set (clp_kv ctx)" "unmarshal_pool v = Some p" for k v p
    using that assms by (auto simp: clp_wf_def list_all_iff key_of_pool_def split: option.splits)
qed (use assms kind_of_key(1) [OF assms] in \<open>auto simp: clp_wf_def\<close>)

lemma find_lp_map:
  assumes "clp_wf (clp_kv ctx)"
  shows "map_of (rev (map (\<lambda>l. (key_of_lp l, l)) (lps_of (clp_kv ctx)))) k = find_lp ctx k"
  unfolding find_lp_def lps_of_def
proof (rule kv_kind_map)
  show "key_of_lp l = k" if "(k, v) \<in> set (clp_kv ctx)" "unmarshal_lp v = Some l" for k v l
    using that assms by (auto simp: clp_wf_def list_all_iff key_of_lp_def split: option.splits)
qed (use assms kind_of_key(2) [OF assms] in \<open>auto simp: clp_wf_def\<close>)

text \<open>Loading pools or providers writes values of that kind only.\<close>

lemma load_pools_frame:
  assumes "list_all (\<lambda>p. Pool_Validate S p = Some True) ps" and "fold_r (\<lambda>ctx p. must_r (SetPool S ctx p)) ctx ps = Inr ctx'"
    and "kv_ok (clp_kv ctx)"
  shows "kv_ok (clp_kv ctx') \<and> (\<forall>k. find_pool ctx' k = None \<longrightarrow> kv_get (clp_kv ctx') k = kv_get (clp_kv ctx) k)"
  by (rule fold_r_inv [where P = "\<lambda>c. kv_ok (clp_kv c) \<and> (\<forall>k. find_pool c k = None \<longrightarrow> kv_get (clp_kv c) k = kv_get (clp_kv ctx) k)",
        OF _ assms(2)])
    (use assms in \<open>auto simp: list_all_iff SetPool_valid find_pool_def unmarshal_pool_def split: if_splits\<close>)

lemma load_lps_frame:
  assumes "list_all (\<lambda>l. LiquidityProvider_Validate S l = Some True) ls" and "fold_r (SetLiquidityProvider S) ctx ls = Inr ctx'"
    and "kv_ok (clp_kv ctx)"
  shows "kv_ok (clp_kv ctx') \<and> (\<forall>k. find_lp ctx' k = None \<longrightarrow> kv_get (clp_kv ctx') k = kv_get (clp_kv ctx) k)"
  by (rule fold_r_inv [where P = "\<lambda>c. kv_ok (clp_kv c) \<and> (\<forall>k. find_lp c k = None \<longrightarrow> kv_get (clp_kv c) k = kv_get (clp_kv ctx) k)",
        OF _ assms(2)])
    (use assms in \<open>auto simp: list_all_iff SetLiquidityProvider_valid find_lp_def unmarshal_lp_def split: if_splits\<close>)

lemma valid_lists:
  assumes "clp_wf s" and "clp_valid S s"
  shows "list_all (\<lambda>p. Pool_Validate S p = Some True) (pools_of s)"
    and "list_all (\<lambda>l. LiquidityProvider_Validate S l = Some True) (lps_of s)"
proof -
  have v: "value_valid S v" if "(k, v) \<in> set s" for k v
    using assms(2) that by (auto simp: clp_valid_def list_all_iff)
  show "list_all (\<lambda>p. Pool_Validate S p = Some True) (pools_of s)"
    unfolding list_all_iff pools_of_def
  proof clarsimp
    fix k v assume "(k, v) \<in> set (kv_prefix s PoolPrefix)"
    then have e: "(k, v) \<in> set s" "prefix PoolPrefix k" by (auto simp: kv_prefix_def)
    with kind_of_key(1) [OF assms(1) e(1)] obtain p where "v = PoolV p" by auto
    with v [OF e(1)] show "Pool_Validate S (the (unmarshal_pool v)) = Some True" by (simp add: unmarshal_pool_def)
  qed
  show "list_all (\<lambda>l. LiquidityProvider_Validate S l = Some True) (lps_of s)"
    unfolding list_all_iff lps_of_def
  proof clarsimp
    fix k v assume "(k, v) \<in> set (kv_prefix s LiquidityProviderPrefix)"
    then have e: "(k, v) \<in> set s" "prefix LiquidityProviderPrefix k" by (auto simp: kv_prefix_def)
    with kind_of_key(2) [OF assms(1) e(1)] obtain l where "v = LpV l" by auto
    with v [OF e(1)] show "LiquidityProvider_Validate S (the (unmarshal_lp v)) = Some True" by (simp add: unmarshal_lp_def)
  qed
qed

text \<open>The three loads of an import, one kind after the other, rebuild the store.\<close>

lemma find_wl_only:
  assumes wf: "clp_wf (clp_kv ctx)" and wl: "kv_get (clp_kv ctx) WhiteListValidatorPrefix = Some (WhitelistV vs)"
  shows "find_wl ctx k = (if k = WhiteListValidatorPrefix then Some vs else None)"
proof (cases "k = WhiteListValidatorPrefix")
  case False
  then have "kv_get (clp_kv ctx) k \<noteq> Some (WhitelistV us)" for us
    using kind_of_key(3) [OF wf] wf unfolding clp_wf_def by (metis kv_get_iff)
  then show ?thesis using False by (auto simp: find_wl_def split: option.splits clp_value.splits)
qed (simp add: find_wl_def wl)

text \<open>Importing the pools into a store that holds only the whitelist, and then the providers.\<close>

lemma reload_pools:
  fixes S :: "'b sdk" and ctx c1 :: "'b ctx"
  assumes wf: "clp_wf (clp_kv ctx)" and valid: "clp_valid S (clp_kv ctx)"
    and c1: "clp_kv c1 = [(WhiteListValidatorPrefix, WhitelistV vs)]"
  shows "\<exists>c2. fold_r (\<lambda>ctx p. must_r (SetPool S ctx p)) c1 (pools_of (clp_kv ctx)) = Inr c2 \<and> kv_ok (clp_kv c2) \<and>
    (\<forall>k. find_pool c2 k = find_pool ctx k) \<and> (\<forall>k. find_lp c2 k = None) \<and>
    (\<forall>k. find_pool ctx k = None \<longrightarrow> kv_get (clp_kv c2) k = (if k = WhiteListValidatorPrefix then Some (WhitelistV vs) else None))"
proof -
  note lists = valid_lists [OF wf valid]
  obtain c2 where c2: "fold_r (\<lambda>ctx p. must_r (SetPool S ctx p)) c1 (pools_of (clp_kv ctx)) = Inr c2"
    using pools.load_total [OF lists(1), of c1] by blast
  have get1: "kv_get (clp_kv c1) k = (if k = WhiteListValidatorPrefix then Some (WhitelistV vs) else None)" for k
    by (simp add: c1 kv_get_def)
  have p2: "find_pool c2 k = find_pool ctx k" for k
    using pools.load_find [OF lists(1) c2, of k] find_pool_map [OF wf, of k]
    by (simp add: map_add_def find_pool_def [of c1] get1 unmarshal_pool_def split: option.splits)
  have "kv_ok (clp_kv c1)" by (simp add: c1 kv_ok_def)
  from load_pools_frame [OF lists(1) c2 this]
  have ok2: "kv_ok (clp_kv c2)" and f2: "\<And>k. find_pool ctx k = None \<Longrightarrow> kv_get (clp_kv c2) k = kv_get (clp_kv c1) k"
    by (simp_all add: p2)
  have "find_lp c2 k = None" for k
  proof (cases "find_pool ctx k")
    case None
    then show ?thesis using f2 [OF None] get1 [of k] by (simp add: find_lp_def)
  next
    case (Some p)
    then have "find_pool c2 k = Some p" using p2 [of k] by simp
    then show ?thesis by (simp add: find_Some find_lp_def)
  qed
  then show ?thesis using c2 ok2 p2 f2 get1 by simp
qed

lemma reload_store:
  fixes S :: "'b sdk" and ctx c1 :: "'b ctx"
  assumes wf: "clp_wf (clp_kv ctx)" and valid: "clp_valid S (clp_kv ctx)"
    and wl: "kv_get (clp_kv ctx) WhiteListValidatorPrefix = Some (WhitelistV vs)"
    and c1: "clp_kv c1 = [(WhiteListValidatorPrefix, WhitelistV vs)]"
  shows "\<exists>c2 c3. fold_r (\<lambda>ctx p. must_r (SetPool S ctx p)) c1 (pools_of (clp_kv ctx)) = Inr c2 \<and>
           fold_r (SetLiquidityProvider S) c2 (lps_of (clp_kv ctx)) = Inr c3 \<and> clp_kv c3 = clp_kv ctx"
proof -
  note lists = valid_lists [OF wf valid]
  obtain c2 where c2: "fold_r (\<lambda>ctx p. must_r (SetPool S ctx p)) c1 (pools_of (clp_kv ctx)) = Inr c2" "kv_ok (clp_kv c2)"
    and p2: "\<And>k. find_pool c2 k = find_pool ctx k" and l2: "\<And>k. find_lp c2 k = None"
    and f2: "\<And>k. find_pool ctx k = None \<Longrightarrow> kv_get (clp_kv c2) k = (if k = WhiteListValidatorPrefix then Some (WhitelistV vs) else None)"
    using reload_pools [OF wf valid c1] by blast
  obtain c3 where c3: "fold_r (SetLiquidityProvider S) c2 (lps_of (clp_kv ctx)) = Inr c3"
    using providers.load_total [OF lists(2), of c2] by blast
  have l3: "find_lp c3 k = find_lp ctx k" for k
    using providers.load_find [OF lists(2) c3, of k] find_lp_map [OF wf, of k] l2
    by (simp add: map_add_def split: option.splits)
  from load_lps_frame [OF lists(2) c3 c2(2)]
  have ok3: "kv_ok (clp_kv c3)" and f3: "\<And>k. find_lp ctx k = None \<Longrightarrow> kv_get (clp_kv c3) k = kv_get (clp_kv c2) k"
    by (simp_all add: l3)
  have "kv_get (clp_kv c3) k = kv_get (clp_kv ctx) k" for k
  proof (cases "find_lp ctx k")
    case (Some l)
    then show ?thesis using l3 [of k] find_Some(2) by metis
  next
    case nol: None
    show ?thesis
    proof (cases "find_pool ctx k")
      case (Some p)
      then show ?thesis using f3 [OF nol] p2 [of k] find_Some(1) by metis
    next
      case nop: None
      have "kv_get (clp_kv ctx) k = map_option WhitelistV (find_wl ctx k)"
        unfolding kv_get_cases [of ctx k] nol nop by simp
      then show ?thesis using f3 [OF nol] f2 [OF nop] find_wl_only [OF wf wl, of k] by simp
    qed
  qed
  then have "clp_kv c3 = clp_kv ctx" using kv_ext_get [OF ok3] wf by (auto simp: clp_wf_def)
  then show ?thesis using c2(1) c3 by blast
qed

text \<open>
  C30: exporting the state of the liquidity-pool module and importing the exported genesis into a chain whose
  module store is empty succeeds and gives the module store back, entry for entry: pools, providers and
  admin list, as long as the store is one the module writes and has at most as many entries as a listing can return.
\<close>

theorem clp_genesis_roundtrip:
  fixes S :: "'b sdk" and ctx ctx0 :: "'b ctx"
  assumes "page_laws S" and "clp_wf (clp_kv ctx)" and "clp_valid S (clp_kv ctx)" and "ExistsClpWhiteList ctx"
    and "length (clp_kv ctx) \<le> page_Limit max_page" and "clp_GetParams S ctx \<noteq> 0" and "clp_kv ctx0 = []"
  shows "\<exists>genesis ctx'. clp_ExportGenesis S ctx = Inr genesis \<and> clp_InitGenesis S ctx0 genesis = Inr ctx' \<and>
           clp_kv ctx' = clp_kv ctx"
proof -
  obtain vs as where wl: "kv_get (clp_kv ctx) WhiteListValidatorPrefix = Some (WhitelistV vs)" "vs \<noteq> []"
    "map_r (parse_addr S) vs = Inr as" "map (AccAddress_String S) as = vs"
    and ex: "clp_ExportGenesis S ctx = Inr \<lparr>MinCreatePoolThreshold = clp_GetParams S ctx, AddressWhitelist = vs,
             PoolList = pools_of (clp_kv ctx), LiquidityProviders = lps_of (clp_kv ctx)\<rparr>"
    using export_store [OF assms(1,2,5,3,4)] by blast
  obtain c0 where c0: "clp_SetParams S ctx0 (clp_GetParams S ctx) = Inr c0" "clp_kv c0 = []"
    using assms(6,7) by (auto simp: clp_SetParams_def validateMinCreatePoolThreshold_def)
  let ?c1 = "SetClpWhiteList S (SetClpWhiteList S c0 as) as"
  have "clp_kv ?c1 = [(WhiteListValidatorPrefix, WhitelistV vs)]" using c0(2) wl(4) by (simp add: SetClpWhiteList_def)
  from reload_store [OF assms(2,3) wl(1) this] obtain c2 c3 where
    "fold_r (\<lambda>ctx p. must_r (SetPool S ctx p)) ?c1 (pools_of (clp_kv ctx)) = Inr c2"
    "fold_r (SetLiquidityProvider S) c2 (lps_of (clp_kv ctx)) = Inr c3" "clp_kv c3 = clp_kv ctx" by blast
  then show ?thesis using c0 wl(2,3) by (simp add: ex clp_InitGenesis_def)
qed

theorem clp_genesis_roundtrip_witness:
  "\<exists>genesis ctx'. clp_ExportGenesis ref_sdk ex_ctx = Inr genesis \<and> clp_InitGenesis ref_sdk ref_ctx genesis = Inr ctx' \<and>
     clp_kv ctx' = clp_kv ex_ctx"
proof (rule clp_genesis_roundtrip [OF ref_page_laws])
  show "clp_wf (clp_kv ex_ctx)" by (rule ex_wf) simp_all
  show "clp_valid ref_sdk (clp_kv ex_ctx)" by (simp add: clp_valid_def ex_valid ref_FromBech32_String)
  show "ExistsClpWhiteList ex_ctx" by (simp add: ExistsClpWhiteList_def kv_has_def kv_get_def)
  show "length (clp_kv ex_ctx) \<le> page_Limit max_page" by (simp add: max_page_def)
  show "clp_GetParams ref_sdk ex_ctx \<noteq> 0" by (simp add: clp_GetParams_def ex_bank_def)
  show "clp_kv ref_ctx = []" by (simp add: ref_ctx_def)
qed

end
