(* ===== verification/CLP_Query.thy ===== *)
theory CLP_Query
  imports CLP_Genesis
begin

text \<open>
  The queries of the liquidity-pool module: the gRPC server (\<^verbatim>\<open>x/clp/keeper/grpc_query.go\<close>) and the router of
  the older JSON interface on top of it (\<^verbatim>\<open>querier.go\<close>). A request that may be nil is an option.
\<close>

section \<open>The gRPC server\<close>

abbreviation "ErrInvalidArgument \<equiv> ErrNew ''InvalidArgument''"
abbreviation "ErrNotFound \<equiv> ErrNew ''NotFound''"

definition MaxPageLimit :: nat where "MaxPageLimit = 200"

definition page_of_limit :: "nat \<Rightarrow> page_request" where
  "page_of_limit l = \<lparr>page_Key = [], page_Offset = 0, page_Limit = l, page_CountTotal = False\<rparr>"

text \<open>The two checks each listing starts with: a missing page request is the first page, and a page is not too long.\<close>

definition checked_page :: "page_request option \<Rightarrow> page_request result" where
  "checked_page pagination =
     (let p = (case pagination of None \<Rightarrow> page_of_limit MaxPageLimit | Some p \<Rightarrow> p)
      in if MaxPageLimit < page_Limit p then Inl ErrInvalidArgument else Inr p)"

definition nonnil :: "'a option \<Rightarrow> 'a result" where
  "nonnil req = (case req of None \<Rightarrow> Inl ErrInvalidArgument | Some r \<Rightarrow> Inr r)"

record pool_res =
  pool_res_Pool :: pool
  pool_res_Height :: int
  pool_res_ClpModuleAddress :: string

record pools_res =
  pools_res_Pools :: "pool list"
  pools_res_Height :: int
  pools_res_ClpModuleAddress :: string
  pools_res_Pagination :: page_response

record lp_req =
  lp_req_Symbol :: string
  lp_req_LpAddress :: string

record lp_res =
  lp_res_LiquidityProvider :: liquidity_provider
  lp_res_Height :: int
  lp_res_NativeAssetBalance :: string
  lp_res_ExternalAssetBalance :: string

record lp_data =
  lp_data_LiquidityProvider :: liquidity_provider
  lp_data_NativeAssetBalance :: string
  lp_data_ExternalAssetBalance :: string

record lp_list_res =
  lp_list_res_LiquidityProviders :: "liquidity_provider list"
  lp_list_res_Height :: int
  lp_list_res_Pagination :: page_response

definition NewLiquidityProviderResponse :: "liquidity_provider \<Rightarrow> int \<Rightarrow> string \<Rightarrow> string \<Rightarrow> lp_res" where
  "NewLiquidityProviderResponse lp height native external =
     \<lparr>lp_res_LiquidityProvider = lp, lp_res_Height = height, lp_res_NativeAssetBalance = native,
      lp_res_ExternalAssetBalance = external\<rparr>"

definition NewLiquidityProviderData :: "liquidity_provider \<Rightarrow> string \<Rightarrow> string \<Rightarrow> lp_data" where
  "NewLiquidityProviderData lp native external =
     \<lparr>lp_data_LiquidityProvider = lp, lp_data_NativeAssetBalance = native, lp_data_ExternalAssetBalance = external\<rparr>"

definition q_GetPool :: "'b sdk \<Rightarrow> 'b ctx \<Rightarrow> string option \<Rightarrow> pool_res result" where
  "q_GetPool S ctx req =
     bind_r (nonnil req) (\<lambda>symbol.
     bind_r (wrap_err ErrNotFound (GetPool ctx symbol)) (\<lambda>pool.
     Inr \<lparr>pool_res_Pool = pool, pool_res_Height = BlockHeight ctx,
          pool_res_ClpModuleAddress = AccAddress_String S (GetCLPModuleAddress S)\<rparr>))"

definition q_GetPools :: "'b sdk \<Rightarrow> 'b ctx \<Rightarrow> page_request option option \<Rightarrow> pools_res result" where
  "q_GetPools S ctx req =
     bind_r (nonnil req) (\<lambda>pagination.
     bind_r (checked_page pagination) (\<lambda>page.
     bind_r (GetPoolsPaginated S ctx (Some page)) (\<lambda>(pools, pageRes).
     Inr \<lparr>pools_res_Pools = pools, pools_res_Height = BlockHeight ctx,
          pools_res_ClpModuleAddress = AccAddress_String S (GetCLPModuleAddress S), pools_res_Pagination = pageRes\<rparr>)))"

definition q_GetLiquidityProvider :: "'b sdk \<Rightarrow> 'b ctx \<Rightarrow> lp_req option \<Rightarrow> lp_res result" where
  "q_GetLiquidityProvider S ctx req =
     bind_r (nonnil req) (\<lambda>req.
     bind_r (GetLiquidityProvider ctx (lp_req_Symbol req) (lp_req_LpAddress req)) (\<lambda>lp.
     bind_r (GetPool ctx (lp_req_Symbol req)) (\<lambda>pool.
     bind_r (panics (CalculateAllAssetsForLP S pool lp)) (\<lambda>(native, external, _, _).
     Inr (NewLiquidityProviderResponse lp (BlockHeight ctx) (itoa native) (itoa external))))))"

text \<open>One round of the loop over a provider's assets; a pool or a record that is missing is skipped.\<close>

definition lp_data_of :: "'b sdk \<Rightarrow> 'b ctx \<Rightarrow> string \<Rightarrow> asset \<Rightarrow> lp_data option result" where
  "lp_data_of S ctx lpAddress asset =
     bind_r (ignore_err None (bind_r (GetPool ctx (Symbol asset)) (\<lambda>p. Inr (Some p)))) (\<lambda>pool.
     case pool of None \<Rightarrow> Inr None
     | Some pool \<Rightarrow>
       bind_r (ignore_err None (bind_r (GetLiquidityProvider ctx (Symbol asset) lpAddress) (\<lambda>l. Inr (Some l)))) (\<lambda>lp.
       case lp of None \<Rightarrow> Inr None
       | Some lp \<Rightarrow>
         bind_r (panics (CalculateAllAssetsForLP S pool lp)) (\<lambda>(native, external, _, _).
         Inr (Some (NewLiquidityProviderData lp (itoa native) (itoa external))))))"

definition q_GetLiquidityProviderData :: "'b sdk \<Rightarrow> 'b ctx \<Rightarrow> (string \<times> page_request option) option
    \<Rightarrow> (lp_data list \<times> int) result" where
  "q_GetLiquidityProviderData S ctx req =
     bind_r (nonnil req) (\<lambda>(lpAddress, pagination).
     bind_r (checked_page pagination) (\<lambda>page.
     bind_r (AccAddressFromBech32 S lpAddress) (\<lambda>addr.
     bind_r (GetAssetsForLiquidityProviderPaginated S ctx addr (Some (page_of_limit (page_Limit page)))) (\<lambda>(assetList, _).
     bind_r (map_r (lp_data_of S ctx lpAddress) assetList) (\<lambda>lpDataList.
     Inr (List.map_filter (\<lambda>x. x) lpDataList, BlockHeight ctx))))))"

definition q_GetAssetList :: "'b sdk \<Rightarrow> 'b ctx \<Rightarrow> (string \<times> page_request option) option \<Rightarrow> asset list result" where
  "q_GetAssetList S ctx req =
     bind_r (nonnil req) (\<lambda>(lpAddress, pagination).
     bind_r (checked_page pagination) (\<lambda>page.
     bind_r (AccAddressFromBech32 S lpAddress) (\<lambda>addr.
     bind_r (GetAssetsForLiquidityProviderPaginated S ctx addr (Some (page_of_limit MaxPageLimit))) (\<lambda>(assetList, _).
     Inr assetList))))"

definition q_GetLiquidityProviderList :: "'b sdk \<Rightarrow> 'b ctx \<Rightarrow> (string \<times> page_request option) option \<Rightarrow> lp_list_res result" where
  "q_GetLiquidityProviderList S ctx req =
     bind_r (nonnil req) (\<lambda>(symbol, pagination).
     bind_r (checked_page pagination) (\<lambda>page.
     bind_r (GetLiquidityProvidersForAssetPaginated S ctx (NewAsset symbol) (Some page)) (\<lambda>(lpList, pageRes).
     Inr \<lparr>lp_list_res_LiquidityProviders = lpList, lp_list_res_Height = BlockHeight ctx, lp_list_res_Pagination = pageRes\<rparr>)))"

definition q_GetLiquidityProviders :: "'b sdk \<Rightarrow> 'b ctx \<Rightarrow> page_request option option \<Rightarrow> lp_list_res result" where
  "q_GetLiquidityProviders S ctx req =
     bind_r (nonnil req) (\<lambda>pagination.
     bind_r (checked_page pagination) (\<lambda>page.
     bind_r (GetAllLiquidityProvidersPaginated S ctx (Some page)) (\<lambda>(lpList, pageRes).
     Inr \<lparr>lp_list_res_LiquidityProviders = lpList, lp_list_res_Height = BlockHeight ctx, lp_list_res_Pagination = pageRes\<rparr>)))"

section \<open>The JSON router\<close>

text \<open>
  The amino codec is third-party code: how a request is read and how a response is printed are the fields of a record.
\<close>

datatype clp_response =
    RPool pool_res
  | RPools pools_res
  | RProvider lp_res
  | RProviderData "lp_data list \<times> int"
  | RAssets "asset list"
  | RProviders "liquidity_provider list"

record clp_cdc =
  un_PoolReq :: "string \<Rightarrow> string result"
  un_LiquidityProviderReq :: "string \<Rightarrow> lp_req result"
  un_LiquidityProviderDataReq :: "string \<Rightarrow> (string \<times> page_request option) result"
  un_AssetListReq :: "string \<Rightarrow> (string \<times> page_request option) result"
  un_LiquidityProviderListReq :: "string \<Rightarrow> (string \<times> page_request option) result"
  clp_marshal :: "clp_response \<Rightarrow> string result"

abbreviation "ErrJSONUnmarshal \<equiv> ErrSdk ''ErrJSONUnmarshal''"
abbreviation "ErrJSONMarshal \<equiv> ErrSdk ''ErrJSONMarshal''"

definition queryPool :: "'b sdk \<Rightarrow> clp_cdc \<Rightarrow> 'b ctx \<Rightarrow> string \<Rightarrow> string result" where
  "queryPool S cdc ctx data =
     bind_r (wrap_err ErrJSONUnmarshal (un_PoolReq cdc data)) (\<lambda>params.
     bind_r (q_GetPool S ctx (Some params)) (\<lambda>res. wrap_err ErrJSONMarshal (clp_marshal cdc (RPool res))))"

definition queryPools :: "'b sdk \<Rightarrow> clp_cdc \<Rightarrow> 'b ctx \<Rightarrow> string \<Rightarrow> string result" where
  "queryPools S cdc ctx data =
     bind_r (q_GetPools S ctx (Some None)) (\<lambda>res. wrap_err ErrJSONMarshal (clp_marshal cdc (RPools res)))"

definition queryLiquidityProvider :: "'b sdk \<Rightarrow> clp_cdc \<Rightarrow> 'b ctx \<Rightarrow> string \<Rightarrow> string result" where
  "queryLiquidityProvider S cdc ctx data =
     bind_r (wrap_err ErrJSONUnmarshal (un_LiquidityProviderReq cdc data)) (\<lambda>params.
     bind_r (q_GetLiquidityProvider S ctx (Some params)) (\<lambda>res. wrap_err ErrJSONMarshal (clp_marshal cdc (RProvider res))))"

definition queryLiquidityProviderData :: "'b sdk \<Rightarrow> clp_cdc \<Rightarrow> 'b ctx \<Rightarrow> string \<Rightarrow> string result" where
  "queryLiquidityProviderData S cdc ctx data =
     bind_r (wrap_err ErrJSONUnmarshal (un_LiquidityProviderDataReq cdc data)) (\<lambda>params.
     bind_r (q_GetLiquidityProviderData S ctx (Some params)) (\<lambda>res. wrap_err ErrJSONMarshal (clp_marshal cdc (RProviderData res))))"

definition queryAssetList :: "'b sdk \<Rightarrow> clp_cdc \<Rightarrow> 'b ctx \<Rightarrow> string \<Rightarrow> string result" where
  "queryAssetList S cdc ctx data =
     bind_r (wrap_err ErrJSONUnmarshal (un_AssetListReq cdc data)) (\<lambda>params.
     bind_r (q_GetAssetList S ctx (Some params)) (\<lambda>assets. wrap_err ErrJSONMarshal (clp_marshal cdc (RAssets assets))))"

definition queryLPList :: "'b sdk \<Rightarrow> clp_cdc \<Rightarrow> 'b ctx \<Rightarrow> string \<Rightarrow> string result" where
  "queryLPList S cdc ctx data =
     bind_r (wrap_err ErrJSONUnmarshal (un_LiquidityProviderListReq cdc data)) (\<lambda>params.
     bind_r (q_GetLiquidityProviderList S ctx (Some params)) (\<lambda>res.
     wrap_err ErrJSONMarshal (clp_marshal cdc (RProviders (lp_list_res_LiquidityProviders res)))))"

definition queryAllLP :: "'b sdk \<Rightarrow> clp_cdc \<Rightarrow> 'b ctx \<Rightarrow> string \<Rightarrow> string result" where
  "queryAllLP S cdc ctx data =
     bind_r (q_GetLiquidityProviders S ctx (Some None)) (\<lambda>res.
     wrap_err ErrJSONMarshal (clp_marshal cdc (RProviders (lp_list_res_LiquidityProviders res))))"

fun clp_NewQuerier :: "'b sdk \<Rightarrow> clp_cdc \<Rightarrow> 'b ctx \<Rightarrow> string list \<Rightarrow> string \<Rightarrow> string result" where
  "clp_NewQuerier S cdc ctx [] data = Inl (Panic ''index out of range'')"
| "clp_NewQuerier S cdc ctx (p # path) data =
     (if p = ''pool'' then queryPool S cdc ctx data
      else if p = ''allpools'' then queryPools S cdc ctx data
      else if p = ''liquidityProvider'' then queryLiquidityProvider S cdc ctx data
      else if p = ''liquidityProviderData'' then queryLiquidityProviderData S cdc ctx data
      else if p = ''assetList'' then queryAssetList S cdc ctx data
      else if p = ''lpList'' then queryLPList S cdc ctx data
      else if p = ''allLp'' then queryAllLP S cdc ctx data
      else Inl (ErrSdk ''ErrUnknownRequest''))"

section \<open>Properties\<close>

text \<open>
  on a chain with at most two hundred pools, listing the pools without a page request returns exactly the pools that the keeper's
  own iteration over the store finds, in the same order.
\<close>

theorem pools_query_lists_all:
  assumes "page_laws S" and "clp_wf (clp_kv ctx)" and "length (kv_prefix (clp_kv ctx) PoolPrefix) \<le> MaxPageLimit"
  shows "\<exists>res. q_GetPools S ctx (Some None) = Inr res \<and> GetPools ctx = Inr (pools_res_Pools res)"
proof -
  let ?es = "kv_prefix (clp_kv ctx) PoolPrefix"
  have pools: "unmarshal_pool (snd e) \<noteq> None" if "e \<in> set ?es" for e
    using that kind_of_key(1) [OF assms(2), of "fst e" "snd e"] by (auto simp: kv_prefix_def)
  then have "GetPools ctx = Inr (map (\<lambda>e. the (unmarshal_pool (snd e))) ?es)"
    unfolding GetPools_def by (intro map_r_total) fastforce
  moreover have "\<exists>resp. Paginate S (Some (page_of_limit MaxPageLimit))
      (map (\<lambda>e. (tl (fst e), if unmarshal_pool (snd e) = None then Inl (ErrNew ''unmarshal'') else Inr ())) ?es) =
      Inr (map (\<lambda>_. True) ?es, resp)"
    by (rule paginate_all [OF assms(1)]) (use pools assms(3) in \<open>simp_all add: page_of_limit_def\<close>)
  ultimately show ?thesis
    using map_filter_snd [of ?es unmarshal_pool, OF pools]
    by (auto simp: q_GetPools_def nonnil_def checked_page_def Let_def page_of_limit_def GetPoolsPaginated_def on_page_all)
qed

theorem pools_query_lists_all_witness:
  "\<exists>res. q_GetPools ref_sdk ex_ctx (Some None) = Inr res \<and> GetPools ex_ctx = Inr (pools_res_Pools res)"
proof (rule pools_query_lists_all [OF ref_page_laws])
  show "clp_wf (clp_kv ex_ctx)" by (rule ex_wf) simp_all
  show "length (kv_prefix (clp_kv ex_ctx) PoolPrefix) \<le> MaxPageLimit"
    unfolding kv_prefix_def by (rule order_trans [OF length_filter_le]) (simp add: MaxPageLimit_def)
qed

text \<open>
  The query for a provider's data takes a page request but uses its limit only: whatever key and offset the caller asks for, the
  answer is the first page, so a provider with more assets than fit a page cannot be listed completely.
\<close>

theorem lp_data_ignores_page_position:
  "q_GetLiquidityProviderData S ctx (Some (lpAddress, Some page)) =
   q_GetLiquidityProviderData S ctx (Some (lpAddress, Some (page\<lparr>page_Key := k, page_Offset := n, page_CountTotal := b\<rparr>)))"
  by (simp add: q_GetLiquidityProviderData_def nonnil_def checked_page_def Let_def)

end
