(* ===== verification/Dispensation.thy ===== *)
theory Dispensation
  imports Ctx
begin

text \<open>
  The dispensation module (\<^verbatim>\<open>x/dispensation/keeper\<close>, \<^verbatim>\<open>handler.go\<close>): a distributor pays coins into the module
  account and names the recipients and a runner; the runner's messages pay the recipients out, ten at a
  time. The records of a distribution move from pending to completed or failed.
\<close>

section \<open>Distributions\<close>

text \<open>\<^verbatim>\<open>k.cdc.Unmarshal\<close> at each of the three types, and \<^verbatim>\<open>MustUnmarshal\<close>.\<close>

fun unmarshal_record :: "disp_value \<Rightarrow> distribution_record option" where
  "unmarshal_record (RecordV r) = Some r"
| "unmarshal_record _ = None"

fun unmarshal_distribution :: "disp_value \<Rightarrow> distribution option" where
  "unmarshal_distribution (DistributionV d) = Some d"
| "unmarshal_distribution _ = None"

fun unmarshal_claim :: "disp_value \<Rightarrow> user_claim option" where
  "unmarshal_claim (ClaimV c) = Some c"
| "unmarshal_claim _ = None"

definition disp_Exists :: "'b ctx \<Rightarrow> string \<Rightarrow> bool" where
  "disp_Exists ctx key = kv_has (disp_kv ctx) key"

definition disp_put :: "'b ctx \<Rightarrow> string \<Rightarrow> disp_value \<Rightarrow> 'b ctx" where
  "disp_put ctx key v = ctx\<lparr>disp_kv := kv_set (disp_kv ctx) key v\<rparr>"

definition HasCoins :: "'b sdk \<Rightarrow> 'b ctx \<Rightarrow> address \<Rightarrow> coins \<Rightarrow> bool" where
  "HasCoins S ctx user coins = list_all (\<lambda>coin. HasBalance S (sdk_state ctx) user coin) coins"

definition SetDistribution :: "'b ctx \<Rightarrow> distribution \<Rightarrow> 'b ctx result" where
  "SetDistribution ctx ar =
     (if \<not> Distribution_Validate ar then Inl disp_ErrInvalid
      else Inr (disp_put ctx (GetDistributionsKey (d_DistributionName ar) (d_DistributionType ar) (d_Runner ar))
                  (DistributionV ar)))"

definition GetDistribution :: "'b ctx \<Rightarrow> string \<Rightarrow> int \<Rightarrow> string \<Rightarrow> distribution result" where
  "GetDistribution ctx name distributionType authorizedRunner =
     (case kv_get (disp_kv ctx) (GetDistributionsKey name distributionType authorizedRunner) of
        None \<Rightarrow> Inl disp_ErrInvalid
      | Some v \<Rightarrow> panics (unmarshal_distribution v))"

definition ExistsDistribution :: "'b ctx \<Rightarrow> string \<Rightarrow> int \<Rightarrow> string \<Rightarrow> bool" where
  "ExistsDistribution ctx name distributionType authorizedRunner =
     disp_Exists ctx (GetDistributionsKey name distributionType authorizedRunner)"

definition GetDistributionIterator :: "'b ctx \<Rightarrow> disp_value kv" where
  "GetDistributionIterator ctx = kv_prefix (disp_kv ctx) DistributionsPrefix"

definition GetDistributions :: "'b ctx \<Rightarrow> distribution list" where
  "GetDistributions ctx = List.map_filter (\<lambda>e. unmarshal_distribution (snd e)) (GetDistributionIterator ctx)"

section \<open>Records\<close>

definition SetDistributionRecord :: "'b sdk \<Rightarrow> 'b ctx \<Rightarrow> distribution_record \<Rightarrow> 'b ctx result" where
  "SetDistributionRecord S ctx dr =
     (if \<not> DistributionRecord_Validate S dr then Inl disp_ErrInvalid
      else Inr (disp_put ctx (GetDistributionRecordKey (dr_DistributionStatus dr) (dr_DistributionName dr)
                  (dr_RecipientAddress dr) (dr_DistributionType dr)) (RecordV dr)))"

definition GetDistributionRecord :: "'b ctx \<Rightarrow> string \<Rightarrow> string \<Rightarrow> int \<Rightarrow> int \<Rightarrow> distribution_record result" where
  "GetDistributionRecord ctx airdropName recipientAddress status distributionType =
     (case kv_get (disp_kv ctx) (GetDistributionRecordKey status airdropName recipientAddress distributionType) of
        None \<Rightarrow> Inl disp_ErrInvalid
      | Some v \<Rightarrow> panics (unmarshal_record v))"

definition ExistsDistributionRecord :: "'b ctx \<Rightarrow> string \<Rightarrow> string \<Rightarrow> int \<Rightarrow> int \<Rightarrow> bool" where
  "ExistsDistributionRecord ctx airdropName recipientAddress status distributionType =
     disp_Exists ctx (GetDistributionRecordKey status airdropName recipientAddress distributionType)"

text \<open>The iterator of a status that is none of the three is nil.\<close>

definition GetDistributionRecordsIterator :: "'b ctx \<Rightarrow> int \<Rightarrow> disp_value kv option" where
  "GetDistributionRecordsIterator ctx status =
     (if status = DISTRIBUTION_STATUS_PENDING then Some (kv_prefix (disp_kv ctx) DistributionRecordPrefixPending)
      else if status = DISTRIBUTION_STATUS_COMPLETED then Some (kv_prefix (disp_kv ctx) DistributionRecordPrefixCompleted)
      else if status = DISTRIBUTION_STATUS_FAILED then Some (kv_prefix (disp_kv ctx) DistributionRecordPrefixFailed)
      else None)"

definition DeleteDistributionRecord :: "'b ctx \<Rightarrow> string \<Rightarrow> string \<Rightarrow> int \<Rightarrow> int \<Rightarrow> 'b ctx result" where
  "DeleteDistributionRecord ctx distributionName recipientAddress status distributionType =
     (let key = GetDistributionRecordKey status distributionName recipientAddress distributionType
      in if \<not> disp_Exists ctx key then Inl disp_ErrInvalid
         else Inr (ctx\<lparr>disp_kv := kv_delete (disp_kv ctx) key\<rparr>))"

text \<open>
  The loops over an iterator: unmarshal each value, keep the records that satisfy the condition, and stop
  after \<open>n\<close> of them (\<open>None\<close>: do not stop).
\<close>

fun collect :: "nat option \<Rightarrow> (distribution_record \<Rightarrow> bool) \<Rightarrow> disp_value kv \<Rightarrow> distribution_record list result" where
  "collect n P [] = Inr []"
| "collect n P (e # es) =
     (if n = Some 0 then Inr []
      else bind_r (panics (unmarshal_record (snd e))) (\<lambda>dr.
        if P dr then bind_r (collect (map_option (\<lambda>m. m - 1) n) P es) (\<lambda>rs. Inr (dr # rs)) else collect n P es))"

definition records_where ::
    "nat option \<Rightarrow> (distribution_record \<Rightarrow> bool) \<Rightarrow> 'b ctx \<Rightarrow> int \<Rightarrow> distribution_record list result" where
  "records_where n P ctx status = bind_r (deref (GetDistributionRecordsIterator ctx status)) (collect n P)"

definition GetRecordsForNameAndStatus :: "'b ctx \<Rightarrow> string \<Rightarrow> int \<Rightarrow> distribution_record list result" where
  "GetRecordsForNameAndStatus ctx name status = records_where None (\<lambda>dr. dr_DistributionName dr = name) ctx status"

definition GetRecordsForNameStatusAndType ::
    "'b ctx \<Rightarrow> string \<Rightarrow> int \<Rightarrow> int \<Rightarrow> distribution_record list result" where
  "GetRecordsForNameStatusAndType ctx name status distributionType =
     records_where None (\<lambda>dr. dr_DistributionName dr = name \<and> dr_DistributionType dr = distributionType) ctx status"

definition GetRecordsForRecipient :: "'b ctx \<Rightarrow> string \<Rightarrow> distribution_record list result" where
  "GetRecordsForRecipient ctx recipient =
     (let P = \<lambda>dr. dr_RecipientAddress dr = recipient in
     bind_r (records_where None P ctx DISTRIBUTION_STATUS_PENDING) (\<lambda>ps.
     bind_r (records_where None P ctx DISTRIBUTION_STATUS_COMPLETED) (\<lambda>cs.
     bind_r (records_where None P ctx DISTRIBUTION_STATUS_FAILED) (\<lambda>fs. Inr (ps @ cs @ fs)))))"

definition GetLimitedRecordsForStatus :: "'b ctx \<Rightarrow> int \<Rightarrow> distribution_record list result" where
  "GetLimitedRecordsForStatus ctx status = records_where (Some MaxRecordsPerBlock) (\<lambda>_. True) ctx status"

definition GetLimitedRecordsForRunner ::
    "'b ctx \<Rightarrow> string \<Rightarrow> string \<Rightarrow> int \<Rightarrow> int \<Rightarrow> distribution_record list result" where
  "GetLimitedRecordsForRunner ctx distributionName authorizedRunner distributionType status =
     records_where (Some MaxRecordsPerBlock)
       (\<lambda>dr. dr_DistributionName dr = distributionName \<and>
             dr_DistributionStatus dr = DISTRIBUTION_STATUS_PENDING \<and>
             dr_AuthorizedRunner dr = authorizedRunner \<and>
             dr_DistributionType dr = distributionType) ctx status"

text \<open>The pending records that do not unmarshal are left out; the others panic.\<close>

definition GetRecords :: "'b ctx \<Rightarrow> distribution_record list result" where
  "GetRecords ctx =
     bind_r (deref (GetDistributionRecordsIterator ctx DISTRIBUTION_STATUS_PENDING)) (\<lambda>es.
     let ps = List.map_filter (\<lambda>e. unmarshal_record (snd e)) es in
     bind_r (records_where None (\<lambda>_. True) ctx DISTRIBUTION_STATUS_COMPLETED) (\<lambda>cs.
     bind_r (records_where None (\<lambda>_. True) ctx DISTRIBUTION_STATUS_FAILED) (\<lambda>fs. Inr (ps @ cs @ fs))))"

definition GetRecordsForName :: "'b ctx \<Rightarrow> string \<Rightarrow> distribution_record list result" where
  "GetRecordsForName ctx name =
     (let P = \<lambda>dr. dr_DistributionName dr = name in
     bind_r (records_where None P ctx DISTRIBUTION_STATUS_PENDING) (\<lambda>ps.
     bind_r (records_where None P ctx DISTRIBUTION_STATUS_COMPLETED) (\<lambda>cs.
     bind_r (records_where None P ctx DISTRIBUTION_STATUS_FAILED) (\<lambda>fs. Inr (ps @ cs @ fs)))))"

text \<open>
  Setting the record under its new status, then deleting it under the old one. The caller may go on after
  an error, so what was written before the error is part of the result.
\<close>

definition ChangeRecordStatus ::
    "'b sdk \<Rightarrow> 'b ctx \<Rightarrow> distribution_record \<Rightarrow> int \<Rightarrow> int \<Rightarrow> 'b ctx \<times> unit result" where
  "ChangeRecordStatus S ctx dr height newStatus =
     (let oldStatus = dr_DistributionStatus dr;
          dr = dr\<lparr>dr_DistributionStatus := newStatus, dr_DistributionCompletedHeight := height\<rparr>
      in case SetDistributionRecord S ctx dr of
           Inl _ \<Rightarrow> (ctx, Inl disp_ErrDistribution)
         | Inr ctx \<Rightarrow>
             (case DeleteDistributionRecord ctx (dr_DistributionName dr) (dr_RecipientAddress dr) oldStatus
                     (dr_DistributionType dr) of
                Inl _ \<Rightarrow> (ctx, Inl disp_ErrDistribution)
              | Inr ctx \<Rightarrow> (ctx, Inr ())))"

section \<open>Claims\<close>

definition SetClaim :: "'b ctx \<Rightarrow> user_claim \<Rightarrow> 'b ctx result" where
  "SetClaim ctx ar =
     (if \<not> UserClaim_Validate ar then Inl disp_ErrInvalid
      else Inr (disp_put ctx (GetUserClaimKey (uc_UserAddress ar) (uc_UserClaimType ar)) (ClaimV ar)))"

definition GetClaim :: "'b ctx \<Rightarrow> string \<Rightarrow> int \<Rightarrow> user_claim result" where
  "GetClaim ctx recipient userClaimType =
     (case kv_get (disp_kv ctx) (GetUserClaimKey recipient userClaimType) of
        None \<Rightarrow> Inl disp_ErrInvalid
      | Some v \<Rightarrow> panics (unmarshal_claim v))"

definition ExistsClaim :: "'b ctx \<Rightarrow> string \<Rightarrow> int \<Rightarrow> bool" where
  "ExistsClaim ctx recipient userClaimType = disp_Exists ctx (GetUserClaimKey recipient userClaimType)"

definition DeleteClaim :: "'b ctx \<Rightarrow> string \<Rightarrow> int \<Rightarrow> 'b ctx" where
  "DeleteClaim ctx recipient userClaimType =
     ctx\<lparr>disp_kv := kv_delete (disp_kv ctx) (GetUserClaimKey recipient userClaimType)\<rparr>"

definition GetUserClaimsIterator :: "'b ctx \<Rightarrow> disp_value kv" where
  "GetUserClaimsIterator ctx = kv_prefix (disp_kv ctx) UserClaimPrefix"

text \<open>A message whose fields all have their zero value marshals to no bytes.\<close>

definition no_bytes :: "disp_value \<Rightarrow> bool" where
  "no_bytes v \<longleftrightarrow>
     (case v of ClaimV c \<Rightarrow> c = \<lparr>uc_UserAddress = [], uc_UserClaimType = 0, uc_UserClaimTime = None\<rparr> | _ \<Rightarrow> False)"

definition GetClaims :: "'b ctx \<Rightarrow> user_claim list" where
  "GetClaims ctx =
     List.map_filter (\<lambda>e. if no_bytes (snd e) then None else unmarshal_claim (snd e)) (GetUserClaimsIterator ctx)"

fun collect_claims :: "int \<Rightarrow> disp_value kv \<Rightarrow> user_claim list result" where
  "collect_claims t [] = Inr []"
| "collect_claims t (e # es) =
     (if no_bytes (snd e) then collect_claims t es
      else bind_r (panics (unmarshal_claim (snd e))) (\<lambda>dl.
           bind_r (collect_claims t es) (\<lambda>cs. Inr (if uc_UserClaimType dl = t then dl # cs else cs))))"

definition GetClaimsByType :: "'b ctx \<Rightarrow> int \<Rightarrow> user_claim list result" where
  "GetClaimsByType ctx userClaimType = collect_claims userClaimType (GetUserClaimsIterator ctx)"

section \<open>Creating and paying distributions\<close>

definition CreateDrop :: "'b sdk \<Rightarrow> string \<Rightarrow> int \<Rightarrow> string \<Rightarrow> 'b ctx \<Rightarrow> bank_output \<Rightarrow> 'b ctx result" where
  "CreateDrop S name distributionType authorizedRunner ctx receiver =
     (let distributionRecord = NewDistributionRecord DISTRIBUTION_STATUS_PENDING distributionType name
            (out_Address receiver) (out_Coins receiver) (BlockHeight ctx) (-1) authorizedRunner in
     bind_r (if ExistsDistributionRecord ctx name (out_Address receiver) DISTRIBUTION_STATUS_PENDING
                  (dr_DistributionType distributionRecord)
             then bind_r (wrap_err disp_ErrDistribution (GetDistributionRecord ctx name (out_Address receiver)
                            DISTRIBUTION_STATUS_PENDING (dr_DistributionType distributionRecord))) (\<lambda>oldRecord.
                  DistributionRecord_Add S distributionRecord oldRecord)
             else Inr distributionRecord) (\<lambda>distributionRecord.
     wrap_err disp_ErrFailedOutputs (SetDistributionRecord S ctx distributionRecord)))"

definition CreateDrops :: "'b sdk \<Rightarrow> 'b ctx \<Rightarrow> bank_output list \<Rightarrow> string \<Rightarrow> int \<Rightarrow> string \<Rightarrow> 'b ctx result" where
  "CreateDrops S ctx output name distributionType authorizedRunner =
     fold_r (CreateDrop S name distributionType authorizedRunner) ctx output"

text \<open>One round of the payment loop; \<^verbatim>\<open>continue\<close> is returning the context.\<close>

definition DistributeDrop :: "'b sdk \<Rightarrow> int \<Rightarrow> 'b ctx \<Rightarrow> distribution_record \<Rightarrow> 'b ctx result" where
  "DistributeDrop S height ctx record' =
     (case AccAddressFromBech32 S (dr_RecipientAddress record') of
        Inl e \<Rightarrow> if is_panic e then Inl e else Inr ctx
      | Inr recipientAddress \<Rightarrow>
         (case SendCoinsFromModuleToAccount S (sdk_state ctx) disp_ModuleName recipientAddress (dr_Coins record') of
            Inl e \<Rightarrow>
              if is_panic e then Inl e
              else (case ChangeRecordStatus S
                       (ctx\<lparr>sdk_state := FailedSend S (sdk_state ctx) disp_ModuleName recipientAddress (dr_Coins record')\<rparr>)
                       record' height DISTRIBUTION_STATUS_FAILED of
                      (ctx, Inl _) \<Rightarrow> Inl (Panic ''Unable to set Distribution Records to Failed'')
                    | (ctx, Inr _) \<Rightarrow> Inr ctx)
          | Inr b \<Rightarrow>
             (case ChangeRecordStatus S (ctx\<lparr>sdk_state := b\<rparr>) record' height DISTRIBUTION_STATUS_COMPLETED of
                (ctx, Inl _) \<Rightarrow>
                  must_r (with_bank ctx
                    (SendCoinsFromAccountToModule S (sdk_state ctx) recipientAddress disp_ModuleName (dr_Coins record')))
              | (ctx, Inr _) \<Rightarrow>
                  Inr (if DoesTypeSupportClaim record'
                       then DeleteClaim ctx (dr_RecipientAddress record') (dr_DistributionType record') else ctx))))"

definition DistributeDrops ::
    "'b sdk \<Rightarrow> 'b ctx \<Rightarrow> int \<Rightarrow> string \<Rightarrow> string \<Rightarrow> int \<Rightarrow> ('b ctx \<times> distribution_record list) result" where
  "DistributeDrops S ctx height distributionName authorizedRunner distributionType =
     bind_r (GetLimitedRecordsForRunner ctx distributionName authorizedRunner distributionType
               DISTRIBUTION_STATUS_PENDING) (\<lambda>pendingRecords.
     bind_r (fold_r (DistributeDrop S height) ctx pendingRecords) (\<lambda>ctx. Inr (ctx, pendingRecords)))"

definition AccumulateDrops :: "'b sdk \<Rightarrow> 'b ctx \<Rightarrow> string \<Rightarrow> coins \<Rightarrow> 'b ctx result" where
  "AccumulateDrops S ctx addr amount =
     bind_r (AccAddressFromBech32 S addr) (\<lambda>address.
     wrap_err disp_ErrFailedInputs
       (with_bank ctx (SendCoinsFromAccountToModule S (sdk_state ctx) address disp_ModuleName amount)))"

definition VerifyAndSetDistribution :: "'b ctx \<Rightarrow> string \<Rightarrow> int \<Rightarrow> string \<Rightarrow> 'b ctx result" where
  "VerifyAndSetDistribution ctx distributionName distributionType authorizedRunner =
     (if ExistsDistribution ctx distributionName distributionType authorizedRunner then Inl disp_ErrDistribution
      else wrap_err disp_ErrDistribution
             (SetDistribution ctx (NewDistribution distributionType distributionName authorizedRunner)))"

section \<open>Messages\<close>

definition distribution_name :: "'b ctx \<Rightarrow> string \<Rightarrow> string" where
  "distribution_name ctx distributor = itoa (BlockHeight ctx) @ ''_'' @ distributor"

definition disp_CreateDistribution :: "'b sdk \<Rightarrow> 'b ctx \<Rightarrow> msg_create_distribution \<Rightarrow> 'b ctx result" where
  "disp_CreateDistribution S ctx msg =
     (let distributionName = distribution_name ctx (cd_Distributor msg) in
     bind_r (VerifyAndSetDistribution ctx distributionName (cd_DistributionType msg) (cd_AuthorizedRunner msg)) (\<lambda>ctx.
     bind_r (TotalOutput S (cd_Output msg)) (\<lambda>totalOutput.
     bind_r (AccumulateDrops S ctx (cd_Distributor msg) totalOutput) (\<lambda>ctx.
     bind_r (CreateDrops S ctx (cd_Output msg) distributionName (cd_DistributionType msg) (cd_AuthorizedRunner msg)) (\<lambda>ctx.
     Inr (EmitEvents [(''distribution_started'',
       [(''module_account'', AccAddress_String S (GetDistributionModuleAddress S)),
        (''distribution_name'', distributionName),
        (''distribution_type'', DistributionType_String (cd_DistributionType msg))])] ctx))))))"

definition disp_CreateUserClaim :: "'b sdk \<Rightarrow> 'b ctx \<Rightarrow> msg_create_user_claim \<Rightarrow> 'b ctx result" where
  "disp_CreateUserClaim S ctx claim =
     (if ExistsClaim ctx (cu_UserClaimAddress claim) (cu_UserClaimType claim) then Inl disp_ErrInvalid
      else
     bind_r (NewUserClaim S (cu_UserClaimAddress claim) (cu_UserClaimType claim) (BlockTime ctx)) (\<lambda>newClaim.
     bind_r (SetClaim ctx newClaim) (\<lambda>ctx.
     bind_r (deref (uc_UserClaimTime newClaim)) (\<lambda>t.
     Inr (EmitEvents [(''userClaim_new'',
       [(''userClaim_creator'', uc_UserAddress newClaim),
        (''userClaim_type'', DistributionType_String (uc_UserClaimType newClaim)),
        (''userClaim_creationTime'', Timestamp_String S t)])] ctx)))))"

definition record_event :: "'b sdk \<Rightarrow> nat \<Rightarrow> distribution_record \<Rightarrow> event" where
  "record_event S i record' =
     (''distribution_record_'' @ itoa (int i),
      [(''recipient_address'', dr_RecipientAddress record'),
       (''type'', DistributionType_String (dr_DistributionType record')),
       (''amount'', Coins_String S (dr_Coins record'))])"

definition disp_RunDistribution :: "'b sdk \<Rightarrow> 'b ctx \<Rightarrow> msg_run_distribution \<Rightarrow> 'b ctx result" where
  "disp_RunDistribution S ctx distribution =
     bind_r (DistributeDrops S ctx (BlockHeight ctx) (rd_DistributionName distribution)
               (rd_AuthorizedRunner distribution) (rd_DistributionType distribution)) (\<lambda>(ctx, records).
     Inr (EmitEvents (map (\<lambda>(i, r). record_event S i r) (enumerate 0 records) @
       [(''distribution_run'',
         [(''distribution_name'', rd_DistributionName distribution),
          (''distribution_runner'', rd_AuthorizedRunner distribution)])]) ctx))"

text \<open>\<^verbatim>\<open>NewHandler\<close>: each message runs with an event manager of its own.\<close>

fun disp_Handler :: "'b sdk \<Rightarrow> 'b ctx \<Rightarrow> disp_msg \<Rightarrow> 'b ctx result" where
  "disp_Handler S ctx (MsgCreateDistribution m) = disp_CreateDistribution S (ctx\<lparr>Events := []\<rparr>) m"
| "disp_Handler S ctx (MsgCreateUserClaim m) = disp_CreateUserClaim S (ctx\<lparr>Events := []\<rparr>) m"
| "disp_Handler S ctx (MsgRunDistribution m) = disp_RunDistribution S (ctx\<lparr>Events := []\<rparr>) m"

end
