(* ===== verification/Dispensation_Solvency.thy ===== *)
theory Dispensation_Solvency
  imports Dispensation
begin

text \<open>
  What the dispensation module owes and how its operations change it: well-formed stores, the coins due to
  the recipients of pending records, the effect of creating and of paying a record, and the invariant that
  the module account holds the coins due, for any sequence of messages (\<open>machine\<close>).
\<close>

section \<open>Well-formed stores\<close>

text \<open>Every value is stored under its own key and passed its validation.\<close>

definition record_key :: "distribution_record \<Rightarrow> string" where
  "record_key r = GetDistributionRecordKey (dr_DistributionStatus r) (dr_DistributionName r) (dr_RecipientAddress r)
     (dr_DistributionType r)"

definition dist_key :: "distribution \<Rightarrow> string" where
  "dist_key d = GetDistributionsKey (d_DistributionName d) (d_DistributionType d) (d_Runner d)"

definition claim_key :: "user_claim \<Rightarrow> string" where
  "claim_key c = GetUserClaimKey (uc_UserAddress c) (uc_UserClaimType c)"

fun disp_key :: "disp_value \<Rightarrow> string" where
  "disp_key (RecordV r) = record_key r"
| "disp_key (DistributionV d) = dist_key d"
| "disp_key (ClaimV c) = claim_key c"

fun disp_valid :: "'b sdk \<Rightarrow> disp_value \<Rightarrow> bool" where
  "disp_valid S (RecordV r) \<longleftrightarrow> DistributionRecord_Validate S r"
| "disp_valid S (DistributionV d) \<longleftrightarrow> Distribution_Validate d"
| "disp_valid S (ClaimV c) \<longleftrightarrow> UserClaim_Validate c"

definition disp_wf :: "'b sdk \<Rightarrow> disp_value kv \<Rightarrow> bool" where
  "disp_wf S s \<longleftrightarrow> kv_ok s \<and> list_all (\<lambda>e. fst e = disp_key (snd e) \<and> disp_valid S (snd e)) s"

lemma disp_wf_ok: "disp_wf S s \<Longrightarrow> kv_ok s"
  by (simp add: disp_wf_def)

lemma disp_wf_set: "disp_wf S s \<Longrightarrow> disp_valid S v \<Longrightarrow> disp_wf S (kv_set s (disp_key v) v)"
  using set_kv_set [of s "disp_key v" v] by (auto simp: disp_wf_def list_all_iff)

lemma disp_wf_delete: "disp_wf S s \<Longrightarrow> disp_wf S (kv_delete s k)"
  by (auto simp: disp_wf_def list_all_iff kv_delete_def kv_ok_filter)

lemma disp_wf_get: "disp_wf S s \<Longrightarrow> kv_get s k = Some v \<Longrightarrow> k = disp_key v \<and> disp_valid S v"
  by (auto simp: disp_wf_def list_all_iff kv_get_iff)

text \<open>The first byte of a key tells what is stored there.\<close>

lemmas disp_keys = record_key_def dist_key_def claim_key_def GetDistributionRecordKey_def GetDistributionsKey_def
  GetUserClaimKey_def DistributionRecordPrefixPending_def DistributionRecordPrefixCompleted_def
  DistributionRecordPrefixFailed_def DistributionsPrefix_def UserClaimPrefix_def

definition is_pending :: "disp_value \<Rightarrow> bool" where
  "is_pending v \<longleftrightarrow> (\<exists>r. v = RecordV r \<and> dr_DistributionStatus r = DISTRIBUTION_STATUS_PENDING)"

lemma prefix_pending: "prefix DistributionRecordPrefixPending (disp_key v) \<longleftrightarrow> is_pending v"
  by (cases v) (auto simp: is_pending_def disp_keys Let_def)

lemma record_key_status:
  "prefix DistributionRecordPrefixPending (GetDistributionRecordKey st n a t) \<longleftrightarrow> st = DISTRIBUTION_STATUS_PENDING"
  by (auto simp: disp_keys Let_def)

lemma pending_not_claim: "prefix DistributionRecordPrefixPending k \<Longrightarrow> k \<noteq> GetUserClaimKey a t"
  by (auto simp: disp_keys)

lemma pending_not_dist: "prefix DistributionRecordPrefixPending k \<Longrightarrow> k \<noteq> GetDistributionsKey a t r"
  by (auto simp: disp_keys)

lemma Validate_settled: "DistributionRecord_Validate S (r\<lparr>dr_DistributionStatus := st, dr_DistributionCompletedHeight := h\<rparr>) =
    DistributionRecord_Validate S r"
  by (simp add: DistributionRecord_Validate_def)

section \<open>The coins due\<close>

definition value_due :: "string \<Rightarrow> disp_value \<Rightarrow> int" where
  "value_due d v =
     (case v of RecordV r \<Rightarrow> if dr_DistributionStatus r = DISTRIBUTION_STATUS_PENDING then amt (dr_Coins r) d else 0
      | _ \<Rightarrow> 0)"

definition due :: "disp_value kv \<Rightarrow> string \<Rightarrow> int" where
  "due s d = kv_total (value_due d) s"

definition disp_held :: "'b sdk \<Rightarrow> 'b ctx \<Rightarrow> string \<Rightarrow> int" where
  "disp_held S ctx d = bal S (sdk_state ctx) (GetDistributionModuleAddress S) d"

definition disp_laws :: "'b sdk \<Rightarrow> bool" where
  "disp_laws S \<longleftrightarrow> coin_laws S \<and> bank_laws S \<and> valid_coins_laws S \<and> failed_send_laws S"

definition disp_inv :: "'b sdk \<Rightarrow> 'b ctx \<Rightarrow> bool" where
  "disp_inv S ctx \<longleftrightarrow> disp_laws S \<and> disp_wf S (disp_kv ctx) \<and> (\<forall>d. due (disp_kv ctx) d \<le> disp_held S ctx d)"

text \<open>A distributor signs the message, so it is not the module account.\<close>

definition disp_admissible :: "'b sdk \<Rightarrow> disp_msg \<Rightarrow> bool" where
  "disp_admissible S m \<longleftrightarrow>
     (case m of MsgCreateDistribution cd \<Rightarrow> AccAddressFromBech32 S (cd_Distributor cd) \<noteq> Inr (GetDistributionModuleAddress S)
      | _ \<Rightarrow> True)"

lemma value_due_not_pending: "\<not> is_pending v \<Longrightarrow> value_due d v = 0"
  by (auto simp: value_due_def is_pending_def split: disp_value.splits)

lemma value_due_nonneg: "disp_laws S \<Longrightarrow> disp_valid S v \<Longrightarrow> 0 \<le> value_due d v"
  by (cases v) (auto simp: value_due_def disp_laws_def DistributionRecord_Validate_def valid_coins_nonneg split: if_splits)

lemma due_at_other: "disp_wf S s \<Longrightarrow> \<not> prefix DistributionRecordPrefixPending k \<Longrightarrow> kv_at (value_due d) s k = 0"
  by (auto simp: kv_at_def value_due_not_pending prefix_pending dest!: disp_wf_get split: option.splits)

lemma due_set: "disp_wf S s \<Longrightarrow> due (kv_set s k v) d = due s d - kv_at (value_due d) s k + value_due d v"
  by (simp add: due_def kv_total_set disp_wf_ok)

lemma due_delete: "disp_wf S s \<Longrightarrow> due (kv_delete s k) d = due s d - kv_at (value_due d) s k"
  by (simp add: due_def kv_total_delete disp_wf_ok)

lemma due_ge:
  assumes "disp_laws S" and "disp_wf S s" and "kv_get s k = Some v"
  shows "value_due d v \<le> due s d"
proof -
  have "\<forall>e \<in> set (kv_delete s k). 0 \<le> value_due d (snd e)"
    using disp_wf_delete [OF assms(2), of k] value_due_nonneg [OF assms(1)] by (auto simp: disp_wf_def list_all_iff)
  then have "0 \<le> due (kv_delete s k) d" by (auto simp: due_def kv_total_def intro!: sum_list_nonneg)
  then show ?thesis using due_delete [OF assms(2), of k d] assms(3) by (simp add: kv_at_def)
qed

section \<open>Creating a distribution\<close>

definition outputs_total :: "bank_output list \<Rightarrow> string \<Rightarrow> int" where
  "outputs_total os d = sum_list (map (\<lambda>o'. amt (out_Coins o') d) os)"

lemma add_outputs_amt: "coin_laws S \<Longrightarrow> add_outputs S t os = Inr t' \<Longrightarrow> amt t' d = amt t d + outputs_total os d"
proof (induction os arbitrary: t)
  case (Cons o' os)
  then obtain t1 where "Coins_Add S t (out_Coins o') = Some t1" "add_outputs S t1 os = Inr t'" by auto
  then show ?case using Cons coin_laws_Coins_Add [OF Cons.prems(1), of t "out_Coins o'" t1 d]
    by (simp add: outputs_total_def)
qed (simp add: outputs_total_def)

lemma TotalOutput_amt: "coin_laws S \<Longrightarrow> TotalOutput S os = Inr t \<Longrightarrow> amt t d = outputs_total os d"
  by (cases os) (auto simp: TotalOutput_def outputs_total_def dest: add_outputs_amt)

lemma disp_put_sel [simp]:
  "disp_kv (disp_put ctx k v) = kv_set (disp_kv ctx) k v" "sdk_state (disp_put ctx k v) = sdk_state ctx"
  "BlockHeight (disp_put ctx k v) = BlockHeight ctx"
  by (simp_all add: disp_put_def)

lemma SetDistributionRecord_Inr:
  "SetDistributionRecord S ctx r = Inr ctx' \<longleftrightarrow> DistributionRecord_Validate S r \<and> ctx' = disp_put ctx (record_key r) (RecordV r)"
  by (auto simp: SetDistributionRecord_def record_key_def)

text \<open>
  One output: the record under its key afterwards has the coins of the output and of the pending record
  that was there, and the runner of the new distribution.
\<close>

lemma CreateDrop_effect:
  assumes laws: "disp_laws S" and wf: "disp_wf S (disp_kv ctx)" and step: "CreateDrop S n t ru ctx o' = Inr ctx'"
  shows "disp_wf S (disp_kv ctx')" and "sdk_state ctx' = sdk_state ctx"
    and "due (disp_kv ctx') d = due (disp_kv ctx) d + amt (out_Coins o') d"
    and "\<exists>r. kv_get (disp_kv ctx') (GetDistributionRecordKey DISTRIBUTION_STATUS_PENDING n (out_Address o') t) = Some (RecordV r) \<and>
           dr_AuthorizedRunner r = ru \<and> dr_DistributionStatus r = DISTRIBUTION_STATUS_PENDING \<and>
           dr_DistributionName r = n \<and> dr_DistributionType r = t \<and> dr_RecipientAddress r = out_Address o' \<and>
           (\<forall>d. amt (dr_Coins r) d = kv_at (value_due d) (disp_kv ctx) (GetDistributionRecordKey DISTRIBUTION_STATUS_PENDING n (out_Address o') t)
              + amt (out_Coins o') d)"
    and "k' \<noteq> GetDistributionRecordKey DISTRIBUTION_STATUS_PENDING n (out_Address o') t \<Longrightarrow> kv_get (disp_kv ctx') k' = kv_get (disp_kv ctx) k'"
proof -
  define k where "k = GetDistributionRecordKey DISTRIBUTION_STATUS_PENDING n (out_Address o') t"
  define r0 where "r0 = NewDistributionRecord DISTRIBUTION_STATUS_PENDING t n (out_Address o') (out_Coins o') (BlockHeight ctx) (-1) ru"
  have cl: "coin_laws S" using laws by (simp add: disp_laws_def)
  obtain cs where ctx': "ctx' = disp_put ctx k (RecordV (r0\<lparr>dr_Coins := cs\<rparr>))"
    and val: "DistributionRecord_Validate S (r0\<lparr>dr_Coins := cs\<rparr>)"
    and cs: "amt cs d = amt (out_Coins o') d + kv_at (value_due d) (disp_kv ctx) k" for d
  proof (cases "kv_get (disp_kv ctx) k")
    case None
    have "ctx' = disp_put ctx k (RecordV r0)" "DistributionRecord_Validate S r0" "r0\<lparr>dr_Coins := out_Coins o'\<rparr> = r0"
      using step None by (auto simp: CreateDrop_def Let_def ExistsDistributionRecord_def disp_Exists_def kv_has_def
          SetDistributionRecord_Inr record_key_def r0_def NewDistributionRecord_def k_def)
    then show ?thesis using that [of "out_Coins o'"] None by (simp add: kv_at_def)
  next
    case (Some v)
    then have "prefix DistributionRecordPrefixPending (disp_key v)" using disp_wf_get [OF wf Some]
      by (metis k_def record_key_status)
    then obtain old where v: "v = RecordV old" "dr_DistributionStatus old = DISTRIBUTION_STATUS_PENDING"
      by (auto simp: prefix_pending is_pending_def)
    then obtain cs where c: "Coins_Add S (out_Coins o') (dr_Coins old) = Some cs"
      and s: "SetDistributionRecord S ctx (r0\<lparr>dr_Coins := cs\<rparr>) = Inr ctx'"
      using step Some by (auto simp: CreateDrop_def Let_def ExistsDistributionRecord_def disp_Exists_def kv_has_def
          GetDistributionRecord_def DistributionRecord_Add_def r0_def NewDistributionRecord_def k_def)
    have "record_key (r0\<lparr>dr_Coins := cs\<rparr>) = k" by (simp add: record_key_def r0_def NewDistributionRecord_def k_def)
    then show ?thesis using that [of cs] s coin_laws_Coins_Add [OF cl c] v Some
      by (simp add: SetDistributionRecord_Inr kv_at_def value_due_def)
  qed
  have key: "disp_key (RecordV (r0\<lparr>dr_Coins := cs\<rparr>)) = k"
    by (simp add: record_key_def r0_def NewDistributionRecord_def k_def)
  show "disp_wf S (disp_kv ctx')" using disp_wf_set [OF wf, of "RecordV (r0\<lparr>dr_Coins := cs\<rparr>)"] val key by (simp add: ctx')
  show "sdk_state ctx' = sdk_state ctx" by (simp add: ctx')
  have "value_due d (RecordV (r0\<lparr>dr_Coins := cs\<rparr>)) = amt cs d" by (simp add: value_due_def r0_def NewDistributionRecord_def)
  then show "due (disp_kv ctx') d = due (disp_kv ctx) d + amt (out_Coins o') d"
    using due_set [OF wf, of k "RecordV (r0\<lparr>dr_Coins := cs\<rparr>)" d] cs [of d] by (simp add: ctx')
  show "\<exists>r. kv_get (disp_kv ctx') (GetDistributionRecordKey DISTRIBUTION_STATUS_PENDING n (out_Address o') t) = Some (RecordV r) \<and>
      dr_AuthorizedRunner r = ru \<and> dr_DistributionStatus r = DISTRIBUTION_STATUS_PENDING \<and>
      dr_DistributionName r = n \<and> dr_DistributionType r = t \<and> dr_RecipientAddress r = out_Address o' \<and>
      (\<forall>d. amt (dr_Coins r) d = kv_at (value_due d) (disp_kv ctx) (GetDistributionRecordKey DISTRIBUTION_STATUS_PENDING n (out_Address o') t)
         + amt (out_Coins o') d)"
    using cs by (simp add: ctx' k_def r0_def NewDistributionRecord_def)
  show "k' \<noteq> GetDistributionRecordKey DISTRIBUTION_STATUS_PENDING n (out_Address o') t \<Longrightarrow> kv_get (disp_kv ctx') k' = kv_get (disp_kv ctx) k'"
    by (simp add: ctx' k_def)
qed

lemma CreateDrops_effect:
  assumes laws: "disp_laws S" and wf: "disp_wf S (disp_kv ctx)" and step: "CreateDrops S ctx os n t ru = Inr ctx'"
  shows "disp_wf S (disp_kv ctx') \<and> sdk_state ctx' = sdk_state ctx \<and>
    (\<forall>d. due (disp_kv ctx') d = due (disp_kv ctx) d + outputs_total os d)"
  using wf step unfolding CreateDrops_def
proof (induction os arbitrary: ctx)
  case (Cons o' os)
  then obtain ctx1 where s: "CreateDrop S n t ru ctx o' = Inr ctx1" "fold_r (CreateDrop S n t ru) ctx1 os = Inr ctx'" by auto
  note e = CreateDrop_effect [OF laws Cons.prems(1) s(1)]
  from Cons.IH [OF e(1) s(2)] e(2,3) show ?case by (simp add: outputs_total_def)
qed (simp add: outputs_total_def)

lemma VerifyAndSetDistribution_effect:
  assumes "disp_wf S (disp_kv ctx)" and "VerifyAndSetDistribution ctx n t ru = Inr ctx'"
  shows "disp_wf S (disp_kv ctx')" and "sdk_state ctx' = sdk_state ctx" and "due (disp_kv ctx') d = due (disp_kv ctx) d"
proof -
  let ?v = "DistributionV (NewDistribution t n ru)"
  have c: "ctx' = disp_put ctx (disp_key ?v) ?v" "disp_valid S ?v"
    using assms(2) by (auto simp: VerifyAndSetDistribution_def SetDistribution_def dist_key_def split: if_splits)
  show "disp_wf S (disp_kv ctx')" using disp_wf_set [OF assms(1) c(2)] by (simp add: c(1))
  show "sdk_state ctx' = sdk_state ctx" by (simp add: c(1))
  have "\<not> prefix DistributionRecordPrefixPending (disp_key ?v)" by (simp add: prefix_pending is_pending_def del: disp_key.simps)
  from due_at_other [OF assms(1) this] show "due (disp_kv ctx') d = due (disp_kv ctx) d"
    by (simp add: c(1) due_set [OF assms(1)] value_due_def del: disp_key.simps)
qed

text \<open>The module receives exactly what becomes due.\<close>

lemma disp_CreateDistribution_effect:
  assumes laws: "disp_laws S" and wf: "disp_wf S (disp_kv ctx)" and step: "disp_CreateDistribution S ctx m = Inr ctx'"
    and adm: "disp_admissible S (MsgCreateDistribution m)"
  shows "disp_wf S (disp_kv ctx')"
    and "due (disp_kv ctx') d = due (disp_kv ctx) d + outputs_total (cd_Output m) d"
    and "disp_held S ctx' d = disp_held S ctx d + outputs_total (cd_Output m) d"
    and "\<exists>a. AccAddressFromBech32 S (cd_Distributor m) = Inr a \<and> a \<noteq> GetDistributionModuleAddress S \<and>
      (\<forall>a' d. bal S (sdk_state ctx') a' d = bal S (sdk_state ctx) a' d - (if a' = a then outputs_total (cd_Output m) d else 0)
         + (if a' = GetDistributionModuleAddress S then outputs_total (cd_Output m) d else 0))"
proof -
  have cl: "coin_laws S" and bl: "bank_laws S" using laws by (simp_all add: disp_laws_def)
  from step obtain ctx1 t a b ctx3 es where
    v: "VerifyAndSetDistribution ctx (distribution_name ctx (cd_Distributor m)) (cd_DistributionType m) (cd_AuthorizedRunner m) = Inr ctx1"
    and t: "TotalOutput S (cd_Output m) = Inr t" and a: "AccAddressFromBech32 S (cd_Distributor m) = Inr a"
    and b: "SendCoinsFromAccountToModule S (sdk_state ctx1) a disp_ModuleName t = Inr b"
    and c: "CreateDrops S (ctx1\<lparr>sdk_state := b\<rparr>) (cd_Output m) (distribution_name ctx (cd_Distributor m))
              (cd_DistributionType m) (cd_AuthorizedRunner m) = Inr ctx3" and ctx': "ctx' = EmitEvents es ctx3"
    by (auto simp: disp_CreateDistribution_def Let_def AccumulateDrops_def)
  note v1 = VerifyAndSetDistribution_effect [OF wf v]
  have "disp_wf S (disp_kv (ctx1\<lparr>sdk_state := b\<rparr>))" using v1(1) by simp
  note c1 = CreateDrops_effect [OF laws this c]
  show "disp_wf S (disp_kv ctx')" "due (disp_kv ctx') d = due (disp_kv ctx) d + outputs_total (cd_Output m) d"
    using c1 v1(3) [of d] by (simp_all add: ctx')
  have ne: "a \<noteq> GetDistributionModuleAddress S" using a adm by (auto simp: disp_admissible_def)
  have bal: "bal S (sdk_state ctx') a' d = bal S (sdk_state ctx) a' d - (if a' = a then outputs_total (cd_Output m) d else 0)
      + (if a' = GetDistributionModuleAddress S then outputs_total (cd_Output m) d else 0)" for a' d
    using bank_laws_to_module [OF bl b] c1 v1(2) TotalOutput_amt [OF cl t]
    by (simp add: ctx' moves_def GetDistributionModuleAddress_def)
  show "disp_held S ctx' d = disp_held S ctx d + outputs_total (cd_Output m) d" using ne bal by (simp add: disp_held_def)
  show "\<exists>a. AccAddressFromBech32 S (cd_Distributor m) = Inr a \<and> a \<noteq> GetDistributionModuleAddress S \<and>
      (\<forall>a' d. bal S (sdk_state ctx') a' d = bal S (sdk_state ctx) a' d - (if a' = a then outputs_total (cd_Output m) d else 0)
         + (if a' = GetDistributionModuleAddress S then outputs_total (cd_Output m) d else 0))"
    using a ne bal by blast
qed

section \<open>Paying a record\<close>

definition settled :: "int \<Rightarrow> int \<Rightarrow> distribution_record \<Rightarrow> distribution_record" where
  "settled status height r = r\<lparr>dr_DistributionStatus := status, dr_DistributionCompletedHeight := height\<rparr>"

text \<open>A pending record of a well-formed store always changes its status.\<close>

lemma ChangeRecordStatus_ok:
  assumes wf: "disp_wf S (disp_kv ctx)" and get: "kv_get (disp_kv ctx) (record_key r) = Some (RecordV r)"
  shows "ChangeRecordStatus S ctx r h st =
    (ctx\<lparr>disp_kv := kv_delete (kv_set (disp_kv ctx) (record_key (settled st h r)) (RecordV (settled st h r))) (record_key r)\<rparr>, Inr ())"
proof -
  have "DistributionRecord_Validate S (settled st h r)" using disp_wf_get [OF wf get]
    by (simp add: Validate_settled settled_def)
  then have s: "SetDistributionRecord S ctx (settled st h r) = Inr (disp_put ctx (record_key (settled st h r)) (RecordV (settled st h r)))"
    by (simp add: SetDistributionRecord_Inr)
  have "disp_Exists (disp_put ctx (record_key (settled st h r)) (RecordV (settled st h r))) (record_key r)"
    using get by (simp add: disp_Exists_def kv_has_def)
  then show ?thesis using s
    by (simp add: ChangeRecordStatus_def Let_def settled_def DeleteDistributionRecord_def record_key_def disp_put_def)
qed

lemma settled_key:
  assumes "st \<in> {DISTRIBUTION_STATUS_COMPLETED, DISTRIBUTION_STATUS_FAILED}"
  shows "\<not> prefix DistributionRecordPrefixPending (record_key (settled st h r))"
  using assms by (auto simp: settled_def disp_keys)

text \<open>The store after a record was settled: pending records are as before, but for this one.\<close>

definition settle :: "int \<Rightarrow> int \<Rightarrow> distribution_record \<Rightarrow> disp_value kv \<Rightarrow> disp_value kv" where
  "settle st h r s = kv_delete (kv_set s (record_key (settled st h r)) (RecordV (settled st h r))) (record_key r)"

lemma settle_effect:
  assumes wf: "disp_wf S s" and get: "kv_get s (record_key r) = Some (RecordV r)"
    and pend: "dr_DistributionStatus r = DISTRIBUTION_STATUS_PENDING"
    and st: "st \<in> {DISTRIBUTION_STATUS_COMPLETED, DISTRIBUTION_STATUS_FAILED}"
  shows "disp_wf S (settle st h r s)" and "due (settle st h r s) d = due s d - amt (dr_Coins r) d"
    and "prefix DistributionRecordPrefixPending k \<Longrightarrow> kv_get (settle st h r s) k = (if k = record_key r then None else kv_get s k)"
    and "kv_get (settle st h r s) (record_key (settled st h r)) = Some (RecordV (settled st h r))"
proof -
  let ?r = "settled st h r"
  have p: "prefix DistributionRecordPrefixPending (record_key r)" using pend by (simp add: record_key_def record_key_status)
  have np: "\<not> prefix DistributionRecordPrefixPending (record_key ?r)" using settled_key [OF st] .
  have "disp_valid S (RecordV ?r)" using disp_wf_get [OF wf get] by (simp add: Validate_settled settled_def)
  then have wf1: "disp_wf S (kv_set s (record_key ?r) (RecordV ?r))" using disp_wf_set [OF wf, of "RecordV ?r"] by simp
  then show "disp_wf S (settle st h r s)" by (simp add: settle_def disp_wf_delete)
  have ne: "record_key r \<noteq> record_key ?r" using p np by auto
  have "value_due d (RecordV ?r) = 0" using np value_due_not_pending prefix_pending [of "RecordV ?r"] by simp
  then show "due (settle st h r s) d = due s d - amt (dr_Coins r) d"
    using due_delete [OF wf1, of "record_key r" d] due_set [OF wf, of "record_key ?r" "RecordV ?r" d] due_at_other [OF wf np, of d] get pend ne
    by (simp add: settle_def kv_at_def value_due_def)
  show "prefix DistributionRecordPrefixPending k \<Longrightarrow> kv_get (settle st h r s) k = (if k = record_key r then None else kv_get s k)"
    using np by (auto simp: settle_def)
  show "kv_get (settle st h r s) (record_key ?r) = Some (RecordV ?r)" using ne by (simp add: settle_def)
qed

lemma DeleteClaim_effect:
  assumes "disp_wf S (disp_kv ctx)"
  shows "disp_wf S (disp_kv (DeleteClaim ctx a t))" and "due (disp_kv (DeleteClaim ctx a t)) d = due (disp_kv ctx) d"
    and "k \<noteq> GetUserClaimKey a t \<Longrightarrow> kv_get (disp_kv (DeleteClaim ctx a t)) k = kv_get (disp_kv ctx) k"
    and "sdk_state (DeleteClaim ctx a t) = sdk_state ctx"
proof -
  have "\<not> prefix DistributionRecordPrefixPending (GetUserClaimKey a t)" using pending_not_claim by blast
  from due_at_other [OF assms this] show "due (disp_kv (DeleteClaim ctx a t)) d = due (disp_kv ctx) d"
    by (simp add: DeleteClaim_def due_delete [OF assms])
qed (use assms in \<open>simp_all add: DeleteClaim_def disp_wf_delete\<close>)

text \<open>
  What one round of the payment loop does to a pending record of a solvent module: with an address that
  does not read it is left alone; otherwise it is settled, and the module never owes more than it holds.
\<close>

definition settled_in :: "'b sdk \<Rightarrow> int \<Rightarrow> distribution_record \<Rightarrow> 'b ctx \<Rightarrow> 'b ctx \<Rightarrow> bool" where
  "settled_in S h r ctx ctx' \<longleftrightarrow>
     (\<forall>k. prefix DistributionRecordPrefixPending k \<longrightarrow>
        kv_get (disp_kv ctx') k = (if k = record_key r then None else kv_get (disp_kv ctx) k)) \<and>
     (\<exists>st \<in> {DISTRIBUTION_STATUS_COMPLETED, DISTRIBUTION_STATUS_FAILED}. \<exists>c a t.
        disp_kv ctx' = (if c then kv_delete (settle st h r (disp_kv ctx)) (GetUserClaimKey a t) else settle st h r (disp_kv ctx)))"

lemma DistributeDrop_cases:
  assumes inv: "disp_inv S ctx" and get: "kv_get (disp_kv ctx) (record_key r) = Some (RecordV r)"
    and pend: "dr_DistributionStatus r = DISTRIBUTION_STATUS_PENDING" and addr: "AccAddressFromBech32 S (dr_RecipientAddress r) = Inr a"
  shows "DistributeDrop S h ctx r =
    (case SendCoinsFromModuleToAccount S (sdk_state ctx) disp_ModuleName a (dr_Coins r) of
       Inl e \<Rightarrow> if is_panic e then Inl e
               else Inr (ctx\<lparr>sdk_state := FailedSend S (sdk_state ctx) disp_ModuleName a (dr_Coins r),
                           disp_kv := settle DISTRIBUTION_STATUS_FAILED h r (disp_kv ctx)\<rparr>)
     | Inr b \<Rightarrow> let ctx' = ctx\<lparr>sdk_state := b, disp_kv := settle DISTRIBUTION_STATUS_COMPLETED h r (disp_kv ctx)\<rparr>
               in Inr (if DoesTypeSupportClaim r then DeleteClaim ctx' (dr_RecipientAddress r) (dr_DistributionType r) else ctx'))"
proof -
  have "disp_wf S (disp_kv (ctx\<lparr>sdk_state := b\<rparr>))" "kv_get (disp_kv (ctx\<lparr>sdk_state := b\<rparr>)) (record_key r) = Some (RecordV r)" for b
    using inv get by (simp_all add: disp_inv_def)
  note c = ChangeRecordStatus_ok [OF this]
  show ?thesis
    by (simp add: DistributeDrop_def addr c settle_def Let_def split: sum.splits)
qed

lemma affordable:
  assumes "disp_inv S ctx" and "kv_get (disp_kv ctx) (record_key r) = Some (RecordV r)"
    and "dr_DistributionStatus r = DISTRIBUTION_STATUS_PENDING"
  shows "amt (dr_Coins r) d \<le> bal S (sdk_state ctx) (NewModuleAddress S disp_ModuleName) d"
proof -
  have laws: "disp_laws S" and wf: "disp_wf S (disp_kv ctx)" and sol: "due (disp_kv ctx) d \<le> disp_held S ctx d"
    using assms(1) by (auto simp: disp_inv_def)
  show ?thesis using due_ge [OF laws wf assms(2), of d] sol assms(3) by (simp add: value_due_def disp_held_def GetDistributionModuleAddress_def)
qed

text \<open>The two ways a payment ends: it fails and the record is set to failed, or it is paid and set to completed.\<close>

lemma failed_drop:
  assumes inv: "disp_inv S ctx" and get: "kv_get (disp_kv ctx) (record_key r) = Some (RecordV r)"
    and pend: "dr_DistributionStatus r = DISTRIBUTION_STATUS_PENDING"
    and send: "SendCoinsFromModuleToAccount S (sdk_state ctx) disp_ModuleName a (dr_Coins r) = Inl e"
    and ctx': "ctx' = ctx\<lparr>sdk_state := FailedSend S (sdk_state ctx) disp_ModuleName a (dr_Coins r),
                 disp_kv := settle DISTRIBUTION_STATUS_FAILED h r (disp_kv ctx)\<rparr>"
  shows "disp_inv S ctx' \<and> settled_in S h r ctx ctx'"
proof -
  have laws: "disp_laws S" and wf: "disp_wf S (disp_kv ctx)" and sol: "due (disp_kv ctx) d \<le> disp_held S ctx d" for d
    using inv by (auto simp: disp_inv_def)
  note s = settle_effect [OF wf get pend]
  have "bal S (FailedSend S (sdk_state ctx) disp_ModuleName a (dr_Coins r)) x d = bal S (sdk_state ctx) x d" for x d
    using laws send affordable [OF inv get pend] unfolding disp_laws_def failed_send_laws_def by blast
  moreover have "0 \<le> amt (dr_Coins r) d" for d
    using value_due_nonneg [OF laws, of "RecordV r" d] disp_wf_get [OF wf get] pend by (simp add: value_due_def)
  ultimately have "due (disp_kv ctx') d \<le> disp_held S ctx' d" for d
    using s(2) [of DISTRIBUTION_STATUS_FAILED h d] sol [of d] by (simp add: ctx' disp_held_def) (smt (verit))
  moreover have "settled_in S h r ctx ctx'"
    unfolding settled_in_def by (rule conjI) (use s(3) in \<open>auto simp: ctx'\<close>)
  ultimately show ?thesis using s(1) laws by (simp add: disp_inv_def ctx')
qed

lemma paid_drop:
  assumes inv: "disp_inv S ctx" and get: "kv_get (disp_kv ctx) (record_key r) = Some (RecordV r)"
    and pend: "dr_DistributionStatus r = DISTRIBUTION_STATUS_PENDING"
    and send: "SendCoinsFromModuleToAccount S (sdk_state ctx) disp_ModuleName a (dr_Coins r) = Inr b"
    and ctx1: "ctx1 = ctx\<lparr>sdk_state := b, disp_kv := settle DISTRIBUTION_STATUS_COMPLETED h r (disp_kv ctx)\<rparr>"
    and ctx': "ctx' = (if DoesTypeSupportClaim r then DeleteClaim ctx1 (dr_RecipientAddress r) (dr_DistributionType r) else ctx1)"
  shows "disp_inv S ctx' \<and> settled_in S h r ctx ctx'"
proof -
  have laws: "disp_laws S" "bank_laws S" and wf: "disp_wf S (disp_kv ctx)" and sol: "due (disp_kv ctx) d \<le> disp_held S ctx d" for d
    using inv by (auto simp: disp_inv_def disp_laws_def)
  note s = settle_effect [OF wf get pend]
  have wf1: "disp_wf S (disp_kv ctx1)" using s(1) by (simp add: ctx1)
  have "due (disp_kv ctx1) d \<le> disp_held S ctx1 d" for d
  proof -
    have "disp_held S ctx d - amt (dr_Coins r) d \<le> disp_held S ctx1 d"
      using bank_laws_from_module [OF laws(2) send] by (simp add: moves_def disp_held_def ctx1 GetDistributionModuleAddress_def)
    then show ?thesis using s(2) [of DISTRIBUTION_STATUS_COMPLETED h d] sol [of d] by (simp add: ctx1)
  qed
  then have "disp_inv S ctx'" using laws(1) wf1 DeleteClaim_effect [OF wf1] by (simp add: ctx' disp_inv_def disp_held_def)
  moreover have "disp_kv ctx' = (if DoesTypeSupportClaim r then kv_delete (settle DISTRIBUTION_STATUS_COMPLETED h r (disp_kv ctx))
      (GetUserClaimKey (dr_RecipientAddress r) (dr_DistributionType r)) else settle DISTRIBUTION_STATUS_COMPLETED h r (disp_kv ctx))"
    by (simp add: ctx' ctx1 DeleteClaim_def)
  moreover from this have "kv_get (disp_kv ctx') k = (if k = record_key r then None else kv_get (disp_kv ctx) k)"
    if "prefix DistributionRecordPrefixPending k" for k
    using s(3) [OF _ that] pending_not_claim [OF that] by (cases "k = record_key r") auto
  ultimately show ?thesis unfolding settled_in_def by blast
qed

lemma DistributeDrop_step:
  assumes inv: "disp_inv S ctx" and get: "kv_get (disp_kv ctx) (record_key r) = Some (RecordV r)"
    and pend: "dr_DistributionStatus r = DISTRIBUTION_STATUS_PENDING" and addr: "AccAddressFromBech32 S (dr_RecipientAddress r) = Inr a"
    and step: "DistributeDrop S h ctx r = Inr ctx'"
  shows "disp_inv S ctx'" and "settled_in S h r ctx ctx'"
proof -
  consider (fail) e where "SendCoinsFromModuleToAccount S (sdk_state ctx) disp_ModuleName a (dr_Coins r) = Inl e"
      "ctx' = ctx\<lparr>sdk_state := FailedSend S (sdk_state ctx) disp_ModuleName a (dr_Coins r),
                 disp_kv := settle DISTRIBUTION_STATUS_FAILED h r (disp_kv ctx)\<rparr>"
    | (ok) b where "SendCoinsFromModuleToAccount S (sdk_state ctx) disp_ModuleName a (dr_Coins r) = Inr b"
      "ctx' = (if DoesTypeSupportClaim r
         then DeleteClaim (ctx\<lparr>sdk_state := b, disp_kv := settle DISTRIBUTION_STATUS_COMPLETED h r (disp_kv ctx)\<rparr>) (dr_RecipientAddress r) (dr_DistributionType r)
         else ctx\<lparr>sdk_state := b, disp_kv := settle DISTRIBUTION_STATUS_COMPLETED h r (disp_kv ctx)\<rparr>)"
    using step unfolding DistributeDrop_cases [OF inv get pend addr]
    by (auto simp: Let_def split: sum.splits if_splits)
  then have "disp_inv S ctx' \<and> settled_in S h r ctx ctx'"
  proof cases
    case fail
    then show ?thesis by (rule failed_drop [OF inv get pend])
  next
    case ok
    then show ?thesis by (intro paid_drop [OF inv get pend ok(1) refl])
  qed
  then show "disp_inv S ctx'" "settled_in S h r ctx ctx'" by blast+
qed

section \<open>The payment loop\<close>

lemma collect_records:
  assumes "\<And>e. e \<in> set es \<Longrightarrow> unmarshal_record (snd e) \<noteq> None"
  shows "collect None P es = Inr (filter P (map (\<lambda>e. the (unmarshal_record (snd e))) es))"
    and "collect (Some n) P es = Inr (take n (filter P (map (\<lambda>e. the (unmarshal_record (snd e))) es)))"
proof -
  show "collect None P es = Inr (filter P (map (\<lambda>e. the (unmarshal_record (snd e))) es))"
    using assms
  proof (induction es)
    case (Cons e es)
    then obtain r where "unmarshal_record (snd e) = Some r" by fastforce
    then show ?case using Cons by auto
  qed simp
  show "collect (Some n) P es = Inr (take n (filter P (map (\<lambda>e. the (unmarshal_record (snd e))) es)))"
    using assms
  proof (induction es arbitrary: n)
    case (Cons e es)
    then obtain r where "unmarshal_record (snd e) = Some r" by fastforce
    then show ?case using Cons by (cases n) auto
  qed simp
qed

definition pending_records :: "disp_value kv \<Rightarrow> distribution_record list" where
  "pending_records s = map (\<lambda>e. the (unmarshal_record (snd e))) (kv_prefix s DistributionRecordPrefixPending)"

definition runner_records :: "string \<Rightarrow> string \<Rightarrow> int \<Rightarrow> disp_value kv \<Rightarrow> distribution_record list" where
  "runner_records name runner t s =
     filter (\<lambda>r. dr_DistributionName r = name \<and> dr_AuthorizedRunner r = runner \<and> dr_DistributionType r = t) (pending_records s)"

lemma pending_entry:
  assumes "disp_wf S s" and "e \<in> set (kv_prefix s DistributionRecordPrefixPending)"
  shows "\<exists>r. e = (record_key r, RecordV r) \<and> dr_DistributionStatus r = DISTRIBUTION_STATUS_PENDING \<and>
           kv_get s (record_key r) = Some (RecordV r)"
proof -
  obtain k v where e: "e = (k, v)" by (cases e)
  have "(k, v) \<in> set s" and p: "prefix DistributionRecordPrefixPending k" using assms(2) by (auto simp: e kv_prefix_def)
  then have get: "kv_get s k = Some v" using disp_wf_ok [OF assms(1)] by (simp add: kv_get_iff)
  then have "k = disp_key v" using disp_wf_get [OF assms(1)] by blast
  with p have "is_pending v" by (simp add: prefix_pending)
  then show ?thesis using \<open>k = disp_key v\<close> get by (auto simp: e is_pending_def)
qed

lemma pending_records_keys:
  assumes "disp_wf S s"
  shows "map record_key (pending_records s) = map fst (kv_prefix s DistributionRecordPrefixPending)"
proof -
  have "record_key (the (unmarshal_record (snd e))) = fst e" if "e \<in> set (kv_prefix s DistributionRecordPrefixPending)" for e
    using pending_entry [OF assms that] by auto
  then show ?thesis by (simp add: pending_records_def)
qed

lemma pending_records_in:
  assumes "disp_wf S s" and "r \<in> set (pending_records s)"
  shows "kv_get s (record_key r) = Some (RecordV r)" and "dr_DistributionStatus r = DISTRIBUTION_STATUS_PENDING"
  using pending_entry [OF assms(1)] assms(2) by (fastforce simp: pending_records_def)+

lemma pending_records_distinct: "disp_wf S s \<Longrightarrow> distinct (map record_key (pending_records s))"
  unfolding pending_records_keys by (rule kv_ok_distinct [OF kv_ok_prefix [OF disp_wf_ok]])

lemma GetLimitedRecordsForRunner_eq:
  assumes "disp_wf S (disp_kv ctx)"
  shows "GetLimitedRecordsForRunner ctx name runner t DISTRIBUTION_STATUS_PENDING = Inr (take 10 (runner_records name runner t (disp_kv ctx)))"
proof -
  let ?es = "kv_prefix (disp_kv ctx) DistributionRecordPrefixPending"
  have "unmarshal_record (snd e) \<noteq> None" if "e \<in> set ?es" for e using pending_entry [OF assms that] by auto
  note c = collect_records(2) [of ?es, OF this]
  have "filter (\<lambda>r. dr_DistributionName r = name \<and> dr_DistributionStatus r = 1 \<and> dr_AuthorizedRunner r = runner \<and> dr_DistributionType r = t)
      (pending_records (disp_kv ctx)) = runner_records name runner t (disp_kv ctx)"
    unfolding runner_records_def by (rule filter_cong) (use pending_records_in(2) [OF assms] in auto)
  then show ?thesis
    by (simp add: GetLimitedRecordsForRunner_def records_where_def GetDistributionRecordsIterator_def c MaxRecordsPerBlock_def
        pending_records_def [symmetric])
qed

text \<open>One round, whatever the address: the invariant and the other pending records stay.\<close>

lemma DistributeDrop_any:
  assumes inv: "disp_inv S ctx" and get: "kv_get (disp_kv ctx) (record_key r) = Some (RecordV r)"
    and pend: "dr_DistributionStatus r = DISTRIBUTION_STATUS_PENDING" and step: "DistributeDrop S h ctx r = Inr ctx'"
  shows "disp_inv S ctx'"
    and "prefix DistributionRecordPrefixPending k \<Longrightarrow> k \<noteq> record_key r \<Longrightarrow> kv_get (disp_kv ctx') k = kv_get (disp_kv ctx) k"
proof -
  have "disp_inv S ctx' \<and> (\<forall>k. prefix DistributionRecordPrefixPending k \<longrightarrow> k \<noteq> record_key r \<longrightarrow> kv_get (disp_kv ctx') k = kv_get (disp_kv ctx) k)"
  proof (cases "AccAddressFromBech32 S (dr_RecipientAddress r)")
    case (Inl e)
    then show ?thesis using step inv by (simp add: DistributeDrop_def split: if_splits)
  next
    case (Inr a)
    show ?thesis using DistributeDrop_step [OF inv get pend Inr step] by (simp add: settled_in_def)
  qed
  then show "disp_inv S ctx'"
    and "prefix DistributionRecordPrefixPending k \<Longrightarrow> k \<noteq> record_key r \<Longrightarrow> kv_get (disp_kv ctx') k = kv_get (disp_kv ctx) k" by blast+
qed

definition to_pay :: "'b ctx \<Rightarrow> distribution_record list \<Rightarrow> bool" where
  "to_pay ctx rs \<longleftrightarrow> distinct (map record_key rs) \<and>
     (\<forall>r \<in> set rs. kv_get (disp_kv ctx) (record_key r) = Some (RecordV r) \<and> dr_DistributionStatus r = DISTRIBUTION_STATUS_PENDING)"

lemma to_pay_Cons:
  assumes "to_pay ctx (r # rs)"
    and "\<And>k. prefix DistributionRecordPrefixPending k \<Longrightarrow> k \<noteq> record_key r \<Longrightarrow> kv_get (disp_kv ctx') k = kv_get (disp_kv ctx) k"
  shows "to_pay ctx' rs"
proof -
  have "kv_get (disp_kv ctx') (record_key r') = Some (RecordV r')" if "r' \<in> set rs" for r'
  proof -
    have g: "kv_get (disp_kv ctx) (record_key r') = Some (RecordV r')" "dr_DistributionStatus r' = 1"
      using assms(1) that by (simp_all add: to_pay_def)
    have "record_key r \<notin> record_key ` set rs" using assms(1) by (simp add: to_pay_def)
    then have "record_key r' \<noteq> record_key r" using that by (metis imageI)
    moreover have "prefix DistributionRecordPrefixPending (record_key r')" using g(2) by (simp add: record_key_def record_key_status)
    ultimately show ?thesis using assms(2) g(1) by simp
  qed
  then show ?thesis using assms(1) by (simp add: to_pay_def)
qed

lemma to_pay_runner:
  assumes "disp_wf S (disp_kv ctx)"
  shows "to_pay ctx (take n (runner_records name runner t (disp_kv ctx)))"
proof -
  let ?rs = "runner_records name runner t (disp_kv ctx)"
  have "distinct (map record_key ?rs)" unfolding runner_records_def
    by (rule distinct_map_filter [OF pending_records_distinct [OF assms]])
  then have "distinct (map record_key (take n ?rs))" by (simp add: take_map [symmetric])
  moreover have "r \<in> set (pending_records (disp_kv ctx))" if "r \<in> set (take n ?rs)" for r
    using in_set_takeD [OF that] by (simp add: runner_records_def)
  ultimately show ?thesis using pending_records_in [OF assms] by (simp add: to_pay_def)
qed

lemma payment_inv:
  assumes "disp_inv S ctx" and "to_pay ctx rs" and "fold_r (DistributeDrop S h) ctx rs = Inr ctx'"
  shows "disp_inv S ctx'"
  using assms
proof (induction rs arbitrary: ctx)
  case (Cons r rs)
  then obtain ctx1 where s: "DistributeDrop S h ctx r = Inr ctx1" "fold_r (DistributeDrop S h) ctx1 rs = Inr ctx'" by auto
  have g: "kv_get (disp_kv ctx) (record_key r) = Some (RecordV r)" "dr_DistributionStatus r = 1"
    using Cons.prems(2) by (simp_all add: to_pay_def)
  note d = DistributeDrop_any [OF Cons.prems(1) g s(1)]
  show ?case using Cons.IH [OF d(1) to_pay_Cons [OF Cons.prems(2) d(2)] s(2)] by simp
qed simp

section \<open>Any sequence of messages\<close>

lemma disp_inv_Events [simp]: "disp_inv S (ctx\<lparr>Events := es\<rparr>) = disp_inv S ctx"
  by (simp add: disp_inv_def disp_held_def)

lemma disp_inv_EmitEvents [simp]: "disp_inv S (EmitEvents es ctx) = disp_inv S ctx"
  by (simp add: disp_inv_def disp_held_def)

lemma disp_CreateUserClaim_inv: "disp_inv S ctx \<Longrightarrow> disp_CreateUserClaim S ctx m = Inr ctx' \<Longrightarrow> disp_inv S ctx'"
proof -
  assume inv: "disp_inv S ctx" and step: "disp_CreateUserClaim S ctx m = Inr ctx'"
  from step obtain c es where val: "UserClaim_Validate c" and ctx': "ctx' = EmitEvents es (disp_put ctx (claim_key c) (ClaimV c))"
    by (auto simp: disp_CreateUserClaim_def SetClaim_def claim_key_def split: if_splits)
  have wf: "disp_wf S (disp_kv ctx)" using inv by (simp add: disp_inv_def)
  have "\<not> prefix DistributionRecordPrefixPending (claim_key c)" using pending_not_claim by (metis claim_key_def)
  from due_at_other [OF wf this] have "due (kv_set (disp_kv ctx) (claim_key c) (ClaimV c)) d = due (disp_kv ctx) d" for d
    by (simp add: due_set [OF wf] value_due_def)
  then show "disp_inv S ctx'" using inv disp_wf_set [OF wf, of "ClaimV c"] val
    by (simp add: ctx' disp_inv_def disp_held_def)
qed

lemma disp_RunDistribution_inv: "disp_inv S ctx \<Longrightarrow> disp_RunDistribution S ctx m = Inr ctx' \<Longrightarrow> disp_inv S ctx'"
proof -
  assume inv: "disp_inv S ctx" and step: "disp_RunDistribution S ctx m = Inr ctx'"
  have wf: "disp_wf S (disp_kv ctx)" using inv by (simp add: disp_inv_def)
  from step obtain ctx1 es where
    s: "fold_r (DistributeDrop S (BlockHeight ctx)) ctx
          (take 10 (runner_records (rd_DistributionName m) (rd_AuthorizedRunner m) (rd_DistributionType m) (disp_kv ctx))) = Inr ctx1"
    and "ctx' = EmitEvents es ctx1"
    by (auto simp: disp_RunDistribution_def DistributeDrops_def GetLimitedRecordsForRunner_eq [OF wf])
  then show "disp_inv S ctx'" using payment_inv [OF inv to_pay_runner [OF wf] s] by simp
qed

lemma disp_CreateDistribution_inv:
  assumes "disp_inv S ctx" and "disp_admissible S (MsgCreateDistribution m)" and "disp_CreateDistribution S ctx m = Inr ctx'"
  shows "disp_inv S ctx'"
proof -
  have laws: "disp_laws S" and wf: "disp_wf S (disp_kv ctx)" and sol: "\<forall>d. due (disp_kv ctx) d \<le> disp_held S ctx d"
    using assms(1) by (auto simp: disp_inv_def)
  note e = disp_CreateDistribution_effect [OF laws wf assms(3,2)]
  have "due (disp_kv ctx') d \<le> disp_held S ctx' d" for d using e(2,3) [of d] spec [OF sol, of d] by simp
  then show ?thesis using laws e(1) by (simp add: disp_inv_def)
qed

lemma disp_Handler_inv:
  assumes "disp_inv S ctx" and "disp_admissible S m" and "disp_Handler S ctx m = Inr ctx'"
  shows "disp_inv S ctx'"
proof -
  have inv: "disp_inv S (ctx\<lparr>Events := []\<rparr>)" using assms(1) by simp
  show ?thesis
    using assms(2,3) disp_CreateDistribution_inv [OF inv] disp_CreateUserClaim_inv [OF inv] disp_RunDistribution_inv [OF inv]
    by (cases m) auto
qed

interpretation dispm: machine "disp_Handler S" "disp_inv S" "disp_admissible S"
  by unfold_locales (rule disp_Handler_inv)

end
