(* ===== verification/Float64.thy ===== *)
theory Float64
  imports Complex_Main
begin

text \<open>
  Go's \<^verbatim>\<open>float64\<close> as far as the oracle uses it: an \<^verbatim>\<open>int64\<close> converted, one division, two comparisons. A finite
  number is the rational it denotes, rounded to 53 significant bits, to even when halfway. The quotients of
  two 64-bit integers stay far from overflow and from subnormal numbers, and a converted integer is never
  the negative zero, so neither is represented.
\<close>

datatype float64 = NaN | PosInf | NegInf | Fin rat

section \<open>Rounding\<close>

fun bits :: "nat \<Rightarrow> nat" where
  "bits n = (if n = 0 then 0 else Suc (bits (n div 2)))"

declare bits.simps [simp del]

definition rne :: "int \<Rightarrow> int \<Rightarrow> int" where
  "rne n d =
     (let q = n div d; r = n mod d
      in if 2 * r < d then q else if d < 2 * r then q + 1 else if even q then q else q + 1)"

text \<open>The exponent that scales the fraction to 53 bits, and the scaled fraction.\<close>

definition scaled :: "int \<Rightarrow> int \<Rightarrow> int \<Rightarrow> int \<times> int" where
  "scaled a b k = (if 0 \<le> k then (a * 2 ^ nat k, b) else (a, b * 2 ^ nat (- k)))"

definition scale :: "int \<Rightarrow> int \<Rightarrow> int" where
  "scale a b =
     (let k = 53 + int (bits (nat b)) - int (bits (nat a)); (n, d) = scaled a b k
      in if n < 2 ^ 53 * d then k else k - 1)"

definition rnd_pos :: "int \<Rightarrow> int \<Rightarrow> rat" where
  "rnd_pos a b = (let k = scale a b; (n, d) = scaled a b k in of_int (rne n d) * 2 powi (- k))"

definition rnd :: "rat \<Rightarrow> rat" where
  "rnd x =
     (let (a, b) = quotient_of x
      in if a = 0 then 0 else if 0 < a then rnd_pos a b else - rnd_pos (- a) b)"

section \<open>Operations\<close>

definition float_of_int :: "int \<Rightarrow> float64" where
  "float_of_int n = Fin (rnd (of_int n))"

fun fdiv :: "float64 \<Rightarrow> float64 \<Rightarrow> float64" where
  "fdiv (Fin x) (Fin y) =
     (if y \<noteq> 0 then Fin (rnd (x / y)) else if x = 0 then NaN else if 0 < x then PosInf else NegInf)"
| "fdiv _ _ = NaN"

fun fle :: "float64 \<Rightarrow> float64 \<Rightarrow> bool" where
  "fle NaN _ = False"
| "fle _ NaN = False"
| "fle NegInf _ = True"
| "fle _ PosInf = True"
| "fle (Fin x) (Fin y) = (x \<le> y)"
| "fle _ _ = False"

fun flt :: "float64 \<Rightarrow> float64 \<Rightarrow> bool" where
  "flt NaN _ = False"
| "flt _ NaN = False"
| "flt PosInf _ = False"
| "flt _ NegInf = False"
| "flt (Fin x) (Fin y) = (x < y)"
| "flt _ _ = True"

section \<open>The rounding is within half a unit of the last bit\<close>

lemma bits_bounds: "0 < n \<Longrightarrow> 2 ^ (bits n - 1) \<le> n \<and> n < 2 ^ bits n \<and> 0 < bits n"
proof (induction n rule: bits.induct)
  case (1 n)
  show ?case
  proof (cases "n = 1")
    case True
    then show ?thesis by (simp add: bits.simps)
  next
    case False
    then have h: "0 < n div 2" using 1(2) by auto
    with 1 have ih: "2 ^ (bits (n div 2) - 1) \<le> n div 2" "n div 2 < 2 ^ bits (n div 2)" "0 < bits (n div 2)" by auto
    obtain m where m: "bits (n div 2) = Suc m" using ih(3) by (cases "bits (n div 2)") auto
    show ?thesis using ih m 1(2) by (subst (1 2 3) bits.simps) auto
  qed
qed

lemma rne_near: "0 < d \<Longrightarrow> \<bar>of_int (rne n d) - of_int n / of_int d\<bar> \<le> (1 / 2 :: rat)"
proof -
  assume d: "0 < d"
  have e: "(of_int n :: rat) / of_int d = of_int (n div d) + of_int (n mod d) / of_int d"
    using d by (metis (no_types, lifting) add_divide_distrib nonzero_mult_div_cancel_right of_int_add of_int_eq_0_iff of_int_mult
        div_mult_mod_eq less_irrefl)
  have r: "0 \<le> n mod d" "n mod d < d" using d by auto
  define t where "t = (of_int (n mod d) :: rat) / of_int d"
  have t: "t \<le> 1/2" if "2 * (n mod d) \<le> d"
  proof -
    have "2 * (of_int (n mod d) :: rat) \<le> of_int d" using that by (metis of_int_le_iff of_int_mult of_int_numeral)
    then show ?thesis using d by (simp add: t_def field_simps)
  qed
  have t': "1/2 \<le> t" if "d \<le> 2 * (n mod d)"
  proof -
    have "(of_int d :: rat) \<le> 2 * of_int (n mod d)" using that by (metis of_int_le_iff of_int_mult of_int_numeral)
    then show ?thesis using d by (simp add: t_def field_simps)
  qed
  have "0 \<le> t" "t < 1" using r d by (simp_all add: t_def divide_less_eq)
  then show ?thesis using t t' unfolding e t_def [symmetric] by (auto simp: rne_def Let_def abs_le_iff)
qed

lemma scaled_value:
  assumes "0 < b" and "scaled a b k = (n, d)"
  shows "0 < d" and "(of_int n :: rat) / of_int d = of_int a / of_int b * 2 powi k"
  using assms by (auto simp: scaled_def power_int_def field_simps split: if_splits)

lemma scaled_lt: "0 < b \<Longrightarrow> scaled a b k = (n, d) \<Longrightarrow> n < 2 ^ 53 * d \<longleftrightarrow> of_int a / of_int b * 2 powi k < (2 ^ 53 :: rat)"
proof -
  assume b: "0 < b" and s: "scaled a b k = (n, d)"
  note v = scaled_value [OF b s]
  have "n < 2 ^ 53 * d \<longleftrightarrow> (of_int n :: rat) < of_int (2 ^ 53 * d)" by (simp only: of_int_less_iff)
  also have "\<dots> \<longleftrightarrow> (of_int n :: rat) / of_int d < 2 ^ 53" using v(1) by (simp add: field_simps)
  finally show ?thesis by (simp only: v(2))
qed

lemma nat_bits: "0 < n \<Longrightarrow> (2 :: rat) powi (int (bits (nat n)) - 1) \<le> of_int n \<and> of_int n < (2 :: rat) powi int (bits (nat n))"
proof -
  assume "0 < n"
  then have b: "2 ^ (bits (nat n) - 1) \<le> nat n" "nat n < 2 ^ bits (nat n)" "0 < bits (nat n)" using bits_bounds [of "nat n"] by auto
  then have "2 ^ (bits (nat n) - 1) \<le> n" "n < 2 ^ bits (nat n)" using \<open>0 < n\<close> by (metis (mono_tags) nat_le_iff
        nat_power_eq zero_le_numeral nat_numeral of_nat_le_iff int_nat_eq less_imp_le of_nat_power of_nat_numeral, 
        metis less_imp_le nat_less_numeral_power_cancel_iff)
  then have "(2 :: rat) ^ (bits (nat n) - 1) \<le> of_int n" "of_int n < (2 :: rat) ^ bits (nat n)"
    by (metis of_int_le_iff of_int_numeral of_int_power, metis of_int_less_iff of_int_numeral of_int_power)
  moreover have "(2 :: rat) powi (int (bits (nat n)) - 1) = 2 ^ (bits (nat n) - 1)"
    using b(3) by (simp add: power_int_def nat_diff_distrib)
  ultimately show ?thesis by simp
qed

lemma scale_range:
  assumes "0 < a" and "0 < b"
  shows "(2 ^ 52 :: rat) \<le> of_int a / of_int b * 2 powi (scale a b)" and "of_int a / of_int b * 2 powi (scale a b) < (2 ^ 53 :: rat)"
proof -
  define la lb where "la = int (bits (nat a))" and "lb = int (bits (nat b))"
  define x :: rat where "x = of_int a / of_int b"
  define k where "k = 53 + lb - la"
  have A: "(2 :: rat) powi (la - 1) \<le> of_int a" "of_int a < (2 :: rat) powi la" using nat_bits [OF assms(1)] by (simp_all add: la_def)
  have B: "(2 :: rat) powi (lb - 1) \<le> of_int b" "of_int b < (2 :: rat) powi lb" using nat_bits [OF assms(2)] by (simp_all add: lb_def)
  have "2 powi (la - 1) / 2 powi lb \<le> x" unfolding x_def
    by (rule frac_le) (use A B assms in auto)
  then have lo: "2 powi (la - 1) / 2 powi lb * 2 powi k \<le> x * 2 powi k" by (rule mult_right_mono) simp
  have "x < 2 powi la / 2 powi (lb - 1)" unfolding x_def
    by (rule frac_less) (use A B assms in auto)
  then have hi: "x * 2 powi k < 2 powi la / 2 powi (lb - 1) * 2 powi k" by (rule mult_strict_right_mono) simp
  have "2 powi (la - 1) / 2 powi lb * 2 powi k = (2 :: rat) powi (la - 1 - lb + k)" by (simp add: power_int_add power_int_diff)
  also have "la - 1 - lb + k = 52" by (simp add: k_def)
  finally have lo': "2 ^ 52 \<le> x * 2 powi k" using lo by simp
  have "2 powi la / 2 powi (lb - 1) * 2 powi k = (2 :: rat) powi (la - (lb - 1) + k)" by (simp add: power_int_add power_int_diff)
  also have "la - (lb - 1) + k = 54" by (simp add: k_def)
  finally have hi': "x * 2 powi k < 2 ^ 54" using hi by simp
  obtain n d where nd: "scaled a b k = (n, d)" by (cases "scaled a b k")
  have s: "scale a b = (if x * 2 powi k < 2 ^ 53 then k else k - 1)"
    using scaled_lt [OF assms(2) nd] nd by (simp add: scale_def Let_def k_def la_def lb_def x_def)
  have half: "x * 2 powi (k - 1) = x * 2 powi k / 2" by (simp add: power_int_diff)
  show "(2 ^ 52 :: rat) \<le> of_int a / of_int b * 2 powi (scale a b)" and "of_int a / of_int b * 2 powi (scale a b) < (2 ^ 53 :: rat)"
    unfolding x_def [symmetric] s using lo' hi' by (auto simp only: half split: if_split) simp_all
qed

text \<open>Rounding a positive number: it is scaled into 53 bits and moved by at most one half there.\<close>

lemma rnd_pos_cases:
  assumes "0 < x"
  shows "\<exists>k q. 2 ^ 52 \<le> x * 2 powi k \<and> x * 2 powi k < 2 ^ 53 \<and> \<bar>of_int q - x * 2 powi k\<bar> \<le> 1 / 2 \<and> rnd x = of_int q * 2 powi (- k)"
proof -
  obtain a b where q: "quotient_of x = (a, b)" by (cases "quotient_of x")
  have b: "0 < b" and x: "x = of_int a / of_int b" using quotient_of_denom_pos [OF q] quotient_of_div [OF q] by auto
  have a: "0 < a" using assms b by (simp add: x zero_less_divide_iff)
  define k where "k = scale a b"
  obtain n d where nd: "scaled a b k = (n, d)" by (cases "scaled a b k")
  note v = scaled_value [OF b nd, folded x]
  have "rnd x = of_int (rne n d) * 2 powi (- k)" using a q nd by (simp add: rnd_def rnd_pos_def k_def Let_def)
  moreover have "\<bar>of_int (rne n d) - x * 2 powi k\<bar> \<le> 1 / 2" using rne_near [OF v(1), of n] by (simp only: v(2))
  ultimately show ?thesis using scale_range [OF a b, folded x k_def] by blast
qed

lemma rnd_0 [simp]: "rnd 0 = 0"
  by (simp add: rnd_def)

lemma powi_less: "(2 :: rat) powi j < 2 powi k \<longleftrightarrow> j < k"
proof -
  have "(2 :: rat) powi j < 2 powi k" if "j < k" for j k using that by (simp add: power_int_strict_increasing)
  then show ?thesis by (metis not_less_iff_gr_or_eq)
qed

text \<open>The exponent of a number is determined by the powers of two around it.\<close>

lemma scale_unique:
  assumes "(2 :: rat) powi (52 - j) \<le> x" and "x < 2 powi (53 - j)" and "2 ^ 52 \<le> x * 2 powi k" and "x * 2 powi k < 2 ^ 53"
  shows "k = j"
proof (rule ccontr)
  have p: "(2 :: rat) powi (52 - j) * 2 powi k = 2 powi (52 - j + k)" "(2 :: rat) powi (53 - j) * 2 powi k = 2 powi (53 - j + k)"
    by (simp_all add: power_int_add)
  assume "k \<noteq> j"
  then consider "k < j" | "j < k" by linarith
  then show False
  proof cases
    case 1
    have "x * 2 powi k < 2 powi (53 - j) * 2 powi k" using assms(2) by simp
    also have "\<dots> \<le> 2 powi 52" unfolding p using 1 powi_less [of 52 "53 - j + k"] by linarith
    finally show False using assms(3) by simp
  next
    case 2
    have "2 powi 53 \<le> (2 :: rat) powi (52 - j) * 2 powi k" unfolding p using 2 powi_less [of "52 - j + k" 53] by linarith
    also have "\<dots> \<le> x * 2 powi k" using assms(1) by (rule mult_right_mono) simp
    finally show False using assms(4) by simp
  qed
qed

lemma of_int_half: "\<bar>of_int z\<bar> \<le> (1 / 2 :: rat) \<Longrightarrow> z = 0"
proof (rule ccontr)
  assume h: "\<bar>of_int z\<bar> \<le> (1 / 2 :: rat)" and "z \<noteq> 0"
  then have "1 \<le> \<bar>z\<bar>" by linarith
  then have "(1 :: rat) \<le> of_int \<bar>z\<bar>" by (simp only: of_int_1_le_iff)
  with h show False by simp
qed

lemma of_int_step: "(of_int a :: rat) - 1 < of_int b \<Longrightarrow> a \<le> b"
proof -
  assume "(of_int a :: rat) - 1 < of_int b"
  then have "(of_int (a - 1) :: rat) < of_int b" by simp
  then have "a - 1 < b" by (simp only: of_int_less_iff)
  then show "a \<le> b" by linarith
qed

lemma rnd_int_exact: "0 < n \<Longrightarrow> n < 2 ^ 53 \<Longrightarrow> rnd (of_int n) = of_int n"
proof -
  assume n: "0 < n" "n < 2 ^ 53"
  define l where "l = int (bits (nat n))"
  have "quotient_of (of_int n) = (n, 1)" by (simp add: quotient_of_int)
  obtain k q where k: "2 ^ 52 \<le> (of_int n :: rat) * 2 powi k" "of_int n * 2 powi k < (2 ^ 53 :: rat)"
    "\<bar>of_int q - of_int n * 2 powi k\<bar> \<le> (1 / 2 :: rat)" "rnd (of_int n) = of_int q * 2 powi (- k)"
    using rnd_pos_cases [of "of_int n"] n(1) by auto
  have "0 \<le> k"
  proof (rule ccontr)
    assume "\<not> 0 \<le> k"
    then have "k \<le> -1" by linarith
    then have "(2 :: rat) powi k \<le> 2 powi (-1)" using powi_less [of "-1" k] by linarith
    then have "of_int n * 2 powi k \<le> of_int n * (2 powi (-1) :: rat)" using n(1) by (intro mult_left_mono) auto
    also have "\<dots> = of_int n / 2" by simp
    also have "\<dots> < 2 ^ 52"
    proof -
      have "(of_int n :: rat) < of_int (2 ^ 53)" using n(2) by (simp only: of_int_less_iff)
      then show ?thesis by simp
    qed
    finally show False using k(1) by simp
  qed
  then have "of_int n * 2 powi k = (of_int (n * 2 ^ nat k) :: rat)" by (simp add: power_int_def)
  with k(3) have "\<bar>of_int (q - n * 2 ^ nat k)\<bar> \<le> (1 / 2 :: rat)" by simp
  then have "q - n * 2 ^ nat k = 0" by (rule of_int_half)
  then have "q = n * 2 ^ nat k" by linarith
  then show ?thesis using k(4) \<open>0 \<le> k\<close> by (simp add: power_int_minus power_int_def field_simps)
qed

section \<open>The quorum test is exact\<close>

text \<open>
  Comparing the rounded quotient with the rounded constant 0.7 decides the comparison of the exact numbers
  as long as the powers stay below $2^{49}$.
\<close>

definition c07 :: int where
  "c07 = 6305039478318694"

lemma rnd_07: "rnd (7 / 10) = of_int c07 / 2 ^ 53"
  by code_simp

lemma rnd_ge_1: "1 \<le> x \<Longrightarrow> 1 \<le> rnd x"
proof -
  assume x: "1 \<le> x"
  then obtain k q where k: "2 ^ 52 \<le> x * 2 powi k" "x * 2 powi k < 2 ^ 53" "\<bar>of_int q - x * 2 powi k\<bar> \<le> 1 / 2" "rnd x = of_int q * 2 powi (- k)"
    using rnd_pos_cases [of x] by auto
  have "2 powi k \<le> x * 2 powi k" using x by simp
  also have "x * 2 powi k < 2 powi 53" using k(2) by simp
  finally have "(2 :: rat) powi k < 2 powi 53" .
  then have "k < 53" by (simp only: powi_less)
  then have "(2 :: rat) powi k \<le> 2 powi 52" using powi_less [of 52 k] by linarith
  moreover have "(2 :: rat) ^ 52 - 1 < of_int q" using k(1,3) by linarith
  then have "2 ^ 52 \<le> q" by (intro of_int_step) simp
  then have "(of_int (2 ^ 52) :: rat) \<le> of_int q" by (simp only: of_int_le_iff)
  ultimately have "(2 :: rat) powi k \<le> of_int q" by simp
  then have "2 powi k * 2 powi (- k) \<le> of_int q * (2 :: rat) powi (- k)" by (rule mult_right_mono) simp
  then show "1 \<le> rnd x" using k(4) by (simp add: power_int_minus)
qed

lemma rnd_less_half: "0 < x \<Longrightarrow> x < 1 / 2 \<Longrightarrow> rnd x \<le> 1 / 2"
proof -
  assume x: "0 < x" "x < 1 / 2"
  then obtain k q where k: "2 ^ 52 \<le> x * 2 powi k" "x * 2 powi k < 2 ^ 53" "\<bar>of_int q - x * 2 powi k\<bar> \<le> 1 / 2" "rnd x = of_int q * 2 powi (- k)"
    using rnd_pos_cases [of x] by auto
  have "x * 2 powi k < 1 / 2 * 2 powi k" using x(2) by (rule mult_strict_right_mono) simp
  with k(1) have "2 * 2 ^ 52 < (2 :: rat) powi k" by linarith
  then have "(2 :: rat) powi 53 < 2 powi k" by simp
  then have "53 < k" by (simp only: powi_less)
  then have "(2 :: rat) powi 54 \<le> 2 powi k" using powi_less [of k 54] by linarith
  moreover have "of_int q - 1 < (2 ^ 53 :: rat)" using k(2) k(3) [unfolded abs_le_iff] by linarith
  then have "of_int q - 1 < (of_int (2 ^ 53) :: rat)" by simp
  then have "q \<le> 2 ^ 53" by (rule of_int_step)
  then have "(of_int q :: rat) \<le> of_int (2 ^ 53)" by (simp only: of_int_le_iff)
  ultimately have "of_int q \<le> 1 / 2 * (2 :: rat) powi k" by simp
  then have "of_int q * 2 powi (- k) \<le> 1 / 2 * (2 :: rat) powi k * 2 powi (- k)" by (rule mult_right_mono) simp
  also have "\<dots> = 1 / 2" by (simp add: power_int_minus)
  finally show "rnd x \<le> 1 / 2" using k(4) by simp
qed

lemma rnd_half_one:
  assumes "1 / 2 \<le> x" and "x < 1"
  shows "\<exists>q. rnd x = of_int q / 2 ^ 53 \<and> \<bar>of_int q - x * 2 ^ 53\<bar> \<le> 1 / 2"
proof -
  from assms obtain k q where k: "2 ^ 52 \<le> x * 2 powi k" "x * 2 powi k < 2 ^ 53" "\<bar>of_int q - x * 2 powi k\<bar> \<le> 1 / 2" "rnd x = of_int q * 2 powi (- k)"
    using rnd_pos_cases [of x] by auto
  have "k = 53" by (rule scale_unique [OF _ _ k(1,2)]) (use assms in \<open>simp_all add: power_int_minus\<close>)
  then show ?thesis using k(3,4) by (auto simp: power_int_minus field_simps)
qed

lemma quorum_exact:
  assumes "0 \<le> p" and "0 < t" and "t < 2 ^ 49"
  shows "rnd (7 / 10) \<le> rnd (of_int p / of_int t) \<longleftrightarrow> 7 * t \<le> 10 * p"
proof -
  define x :: rat where "x = of_int p / of_int t"
  have tpos: "(0 :: rat) < of_int t" using assms(2) by simp
  have ge: "7 * t \<le> 10 * p \<longleftrightarrow> 7 / 10 \<le> x"
  proof -
    have "7 * t \<le> 10 * p \<longleftrightarrow> (of_int (7 * t) :: rat) \<le> of_int (10 * p)" by (simp only: of_int_le_iff)
    then show ?thesis using tpos by (simp add: x_def field_simps)
  qed
  have lt: "x * 2 ^ 53 < of_int c07 - 1" if "\<not> 7 * t \<le> 10 * p"
  proof -
    have "10 * p \<le> 7 * t - 1" using that by linarith
    then have "(of_int (10 * p) :: rat) \<le> of_int (7 * t - 1)" by (simp only: of_int_le_iff)
    then have "x \<le> 7 / 10 - 1 / (10 * of_int t)" using tpos by (simp add: x_def field_simps)
    moreover have "(1 :: rat) / (10 * 2 ^ 49) \<le> 1 / (10 * of_int t)"
    proof -
      have "(of_int t :: rat) \<le> of_int (2 ^ 49)" using assms(3) by (simp only: of_int_le_iff)
      then show ?thesis using tpos by (intro divide_left_mono) auto
    qed
    ultimately have "x \<le> 7 / 10 - 1 / (10 * 2 ^ 49)" by linarith
    then show ?thesis by (simp add: c07_def)
  qed
  consider "x = 0" | "0 < x" "x < 1 / 2" | "1 / 2 \<le> x" "x < 1" | "1 \<le> x"
    using assms(1) tpos by (fastforce simp: x_def)
  then show ?thesis
  proof cases
    case 3
    then obtain q where q: "rnd x = of_int q / 2 ^ 53" "\<bar>of_int q - x * 2 ^ 53\<bar> \<le> 1 / 2" using rnd_half_one by blast
    have "rnd (7 / 10) \<le> rnd x \<longleftrightarrow> (of_int c07 :: rat) \<le> of_int q" by (simp add: rnd_07 q(1) field_simps)
    then have eq: "rnd (7 / 10) \<le> rnd x \<longleftrightarrow> c07 \<le> q" by (simp only: of_int_le_iff)
    show ?thesis
    proof (cases "7 * t \<le> 10 * p")
      case True
      then have "(7 / 10) * 2 ^ 53 \<le> x * 2 ^ 53" using ge by (intro mult_right_mono) auto
      moreover have "(of_int c07 :: rat) - 1 < (7 / 10) * 2 ^ 53 - 1 / 2" by (simp add: c07_def)
      ultimately have "(of_int c07 :: rat) - 1 < of_int q" using q(2) [unfolded abs_le_iff] by linarith
      then show ?thesis using True eq of_int_step x_def by metis
    next
      case False
      have "(of_int q :: rat) < of_int c07" using lt [OF False] q(2) [unfolded abs_le_iff] by linarith
      then have "q < c07" by (simp only: of_int_less_iff)
      then show ?thesis using False eq x_def by (metis not_le)
    qed
  qed (use ge rnd_less_half [of x] rnd_ge_1 [of x] in \<open>auto simp: rnd_07 c07_def x_def [symmetric]\<close>)
qed

lemma rnd_uminus: "rnd (- x) = - rnd x"
  by (simp add: rnd_def rat_uminus_code Let_def case_prod_unfold)

lemma rnd_nonpos: "x \<le> 0 \<Longrightarrow> rnd x \<le> 0"
proof (cases "x = 0")
  case False
  moreover assume "x \<le> 0"
  ultimately have "0 < - x" by simp
  from rnd_pos_cases [OF this] obtain k q where
    k: "2 ^ 52 \<le> - x * 2 powi k" "\<bar>of_int q - - x * 2 powi k\<bar> \<le> 1 / 2" "rnd (- x) = of_int q * 2 powi (- k)"
    by blast
  define y where "y = - x * 2 powi k"
  have "(1 :: rat) \<le> 2 ^ 52" by simp
  then have "(0 :: rat) \<le> of_int q" using k(1,2) unfolding y_def [symmetric] abs_le_iff by linarith
  then have "0 \<le> rnd (- x)" using k(3) by simp
  then show ?thesis by (simp add: rnd_uminus)
qed simp

text \<open>The test of the code on two integers, a negative dividend included.\<close>

lemma quorum_test:
  assumes "0 < t" and "t < 2 ^ 49" and "p < 2 ^ 53"
  shows "fle (Fin (rnd (7 / 10))) (fdiv (float_of_int p) (float_of_int t)) \<longleftrightarrow> 7 * t \<le> 10 * p"
    and "flt (fdiv (float_of_int p) (float_of_int t)) (Fin (rnd (7 / 10))) \<longleftrightarrow> 10 * p < 7 * t"
proof -
  have t: "rnd (of_int t) = of_int t" using assms by (intro rnd_int_exact) auto
  define r where "r = rnd (rnd (of_int p) / of_int t)"
  have r: "fdiv (float_of_int p) (float_of_int t) = Fin r" using assms(1) by (simp add: float_of_int_def t r_def)
  have "rnd (7 / 10) \<le> r \<longleftrightarrow> 7 * t \<le> 10 * p"
  proof (cases "0 \<le> p")
    case True
    then have "rnd (of_int p) = of_int p" using rnd_int_exact [of p] assms(3) by (cases "p = 0") auto
    then show ?thesis using quorum_exact [OF True assms(1,2)] by (simp add: r_def)
  next
    case False
    then have "rnd (of_int p) / of_int t \<le> 0" using assms(1) rnd_nonpos [of "of_int p"] by (simp add: divide_le_0_iff)
    then have "r \<le> 0" unfolding r_def by (rule rnd_nonpos)
    then show ?thesis using False assms(1) by (simp add: rnd_07 c07_def)
  qed
  then show "fle (Fin (rnd (7 / 10))) (fdiv (float_of_int p) (float_of_int t)) \<longleftrightarrow> 7 * t \<le> 10 * p"
    and "flt (fdiv (float_of_int p) (float_of_int t)) (Fin (rnd (7 / 10))) \<longleftrightarrow> 10 * p < 7 * t"
    unfolding r by auto
qed

end
