(* ===== verification/Oracle.thy ===== *)
theory Oracle
  imports Ctx Float64 "HOL-Library.Word" "HOL-Library.Multiset"
begin

text \<open>
  The oracle module (\<^verbatim>\<open>x/oracle\<close>): validators of a whitelist vote on prophecies, and a prophecy is decided
  when the votes for one claim reach a share of the whitelist's voting power. Powers are \<^verbatim>\<open>int64\<close>, kept as
  64-bit words; their ratio is a \<^verbatim>\<open>float64\<close>. Go ranges over a map in an unspecified order: the order is a
  parameter, of which only that it is a permutation is known.
\<close>

section \<open>Admin account and whitelist\<close>

definition oracle_SetAdminAccount :: "'b ctx \<Rightarrow> address \<Rightarrow> 'b ctx" where
  "oracle_SetAdminAccount ctx adminAccount =
     ctx\<lparr>oracle_kv := kv_set (oracle_kv ctx) oracle_AdminAccountPrefix (OAdminV adminAccount)\<rparr>"

definition oracle_GetAdminAccount :: "'b ctx \<Rightarrow> address result" where
  "oracle_GetAdminAccount ctx =
     (case kv_get (oracle_kv ctx) oracle_AdminAccountPrefix of
        None \<Rightarrow> Inr []
      | Some (OAdminV a) \<Rightarrow> Inr a
      | Some _ \<Rightarrow> Inl (Panic ''unmarshal''))"

definition oracle_IsAdminAccount :: "'b ctx \<Rightarrow> address \<Rightarrow> bool result" where
  "oracle_IsAdminAccount ctx adminAccount =
     bind_r (oracle_GetAdminAccount ctx) (\<lambda>account.
     if account = [] then Inr False else Inr (account = adminAccount))"

definition SetOracleWhiteList :: "'b sdk \<Rightarrow> 'b ctx \<Rightarrow> address list \<Rightarrow> 'b ctx" where
  "SetOracleWhiteList S ctx validatorList =
     ctx\<lparr>oracle_kv := kv_set (oracle_kv ctx) oracle_WhiteListValidatorPrefix
           (OWhiteListV (map (ValAddress_String S) validatorList))\<rparr>"

definition oracle_Exists :: "'b ctx \<Rightarrow> string \<Rightarrow> bool" where
  "oracle_Exists ctx key = kv_has (oracle_kv ctx) key"

definition ExistsOracleWhiteList :: "'b ctx \<Rightarrow> bool" where
  "ExistsOracleWhiteList ctx = oracle_Exists ctx oracle_WhiteListValidatorPrefix"

definition GetOracleWhiteList :: "'b sdk \<Rightarrow> 'b ctx \<Rightarrow> address list result" where
  "GetOracleWhiteList S ctx =
     (case kv_get (oracle_kv ctx) oracle_WhiteListValidatorPrefix of
        None \<Rightarrow> Inr []
      | Some (OWhiteListV vs) \<Rightarrow> map_r (\<lambda>entry. must_r (ValAddressFromBech32 S entry)) vs
      | Some _ \<Rightarrow> Inl (Panic ''unmarshal''))"

definition oracle_ValidateAddress :: "'b sdk \<Rightarrow> 'b ctx \<Rightarrow> address \<Rightarrow> bool result" where
  "oracle_ValidateAddress S ctx address =
     (if \<not> ExistsOracleWhiteList ctx then Inr False
      else bind_r (GetOracleWhiteList S ctx) (\<lambda>valList. Inr (list_ex (\<lambda>validator. validator = address) valList)))"

definition AddOracleWhiteList :: "'b sdk \<Rightarrow> 'b ctx \<Rightarrow> address \<Rightarrow> 'b ctx result" where
  "AddOracleWhiteList S ctx validator =
     bind_r (GetOracleWhiteList S ctx) (\<lambda>valList. Inr (SetOracleWhiteList S ctx (valList @ [validator])))"

definition RemoveOracleWhiteList :: "'b sdk \<Rightarrow> 'b ctx \<Rightarrow> address \<Rightarrow> 'b ctx result" where
  "RemoveOracleWhiteList S ctx validator =
     bind_r (GetOracleWhiteList S ctx) (\<lambda>valList.
     Inr (SetOracleWhiteList S ctx (filter (\<lambda>addr. validator \<noteq> addr) valList)))"

definition oracle_ProcessUpdateWhiteListValidator ::
    "'b sdk \<Rightarrow> 'b ctx \<Rightarrow> address \<Rightarrow> address \<Rightarrow> string \<Rightarrow> 'b ctx result" where
  "oracle_ProcessUpdateWhiteListValidator S ctx cosmosSender validator operationtype =
     bind_r (oracle_IsAdminAccount ctx cosmosSender) (\<lambda>isAdmin.
     if \<not> isAdmin then Inl ErrNotAdminAccount
     else if operationtype = ''add'' then AddOracleWhiteList S ctx validator
     else if operationtype = ''remove'' then RemoveOracleWhiteList S ctx validator
     else Inl ErrInvalidOperationType)"

section \<open>Prophecies in the store\<close>

fun unmarshal_prophecy :: "oracle_value \<Rightarrow> db_prophecy option" where
  "unmarshal_prophecy (ProphecyV p) = Some p"
| "unmarshal_prophecy _ = None"

definition GetProphecies :: "'b sdk \<Rightarrow> 'b ctx \<Rightarrow> prophecy list result" where
  "GetProphecies S ctx =
     map_r (\<lambda>e. bind_r (panics (unmarshal_prophecy (snd e))) (\<lambda>dbProphecy. must_r (DeserializeFromDB S dbProphecy)))
       (kv_from (oracle_kv ctx) ProphecyPrefix)"

text \<open>\<open>None\<close>: the prophecy was not found, which includes that its maps do not read.\<close>

definition GetProphecy :: "'b sdk \<Rightarrow> 'b ctx \<Rightarrow> string \<Rightarrow> prophecy option result" where
  "GetProphecy S ctx id' =
     (case kv_get (oracle_kv ctx) (prophecy_key id') of
        None \<Rightarrow> Inr None
      | Some v \<Rightarrow> bind_r (panics (unmarshal_prophecy v)) (\<lambda>dbProphecy.
          case DeserializeFromDB S dbProphecy of Inl _ \<Rightarrow> Inr None | Inr p \<Rightarrow> Inr (Some p)))"

definition SetDBProphecy :: "'b ctx \<Rightarrow> db_prophecy \<Rightarrow> 'b ctx" where
  "SetDBProphecy ctx prophecy = ctx\<lparr>oracle_kv := kv_set (oracle_kv ctx) (prophecy_key (db_Id prophecy)) (ProphecyV prophecy)\<rparr>"

definition SetProphecy :: "'b sdk \<Rightarrow> 'b ctx \<Rightarrow> prophecy \<Rightarrow> 'b ctx result" where
  "SetProphecy S ctx prophecy = bind_r (SerializeForDB S prophecy) (\<lambda>dbProphecy. Inr (SetDBProphecy ctx dbProphecy))"

definition EnsureAddressIsInWhitelist :: "'b sdk \<Rightarrow> 'b ctx \<Rightarrow> string \<Rightarrow> unit result" where
  "EnsureAddressIsInWhitelist S ctx validatorAddress =
     bind_r (GetOracleWhiteList S ctx) (\<lambda>whiteList.
     if list_ex (\<lambda>address. ValAddress_String S address = validatorAddress) whiteList then Inr ()
     else Inl ErrValidatorNotInWhiteList)"

section \<open>Counting votes\<close>

text \<open>The keeper's parameters: the share of power needed, and the order in which a map is ranged over.\<close>

record oracle_env =
  consensusNeeded :: float64
  MapOrder :: "(string \<times> address list) list \<Rightarrow> (string \<times> address list) list"

definition order_ok :: "oracle_env \<Rightarrow> bool" where
  "order_ok K \<longleftrightarrow> (\<forall>m. mset (MapOrder K m) = mset m)"

definition DefaultConsensusNeeded :: float64 where
  "DefaultConsensusNeeded = Fin (rnd (7 / 10))"

definition oracle_NewKeeper :: "oracle_env \<Rightarrow> oracle_env result" where
  "oracle_NewKeeper K =
     (if fle (consensusNeeded K) (Fin 0) \<or> flt (Fin 1) (consensusNeeded K)
      then Inl (Panic ''minimum consensus proportion of validator staking power must be > 0 and <= 1'') else Inr K)"

definition power :: "validator \<Rightarrow> 64 word" where
  "power v = word_of_int (GetConsensusPower v)"

fun inWhiteList :: "validator \<Rightarrow> address list \<Rightarrow> bool result" where
  "inWhiteList validator [] = Inr False"
| "inWhiteList validator (a # as) =
     bind_r (GetOperator validator) (\<lambda>operator. if operator = a then Inr True else inWhiteList validator as)"

fun whitelist_power :: "address list \<Rightarrow> 64 word \<Rightarrow> validator list \<Rightarrow> 64 word result" where
  "whitelist_power wl totalPower [] = Inr totalPower"
| "whitelist_power wl totalPower (v # vs) =
     bind_r (inWhiteList v wl) (\<lambda>b. whitelist_power wl (if b then totalPower + power v else totalPower) vs)"

definition validatorsByAddress :: "validator list \<Rightarrow> string \<Rightarrow> validator option" where
  "validatorsByAddress vs = map_of (rev (map (\<lambda>v. (OperatorAddress v, v)) vs))"

definition claim_power :: "'b sdk \<Rightarrow> validator list \<Rightarrow> address list \<Rightarrow> 64 word" where
  "claim_power S vs validatorAddrs =
     foldl (\<lambda>claimPower a. case validatorsByAddress vs (ValAddress_String S a) of
              None \<Rightarrow> claimPower | Some v \<Rightarrow> claimPower + power v) 0 validatorAddrs"

text \<open>One round over the claims: the total claimed power, the highest power and its claim.\<close>

definition count_claim :: "'b sdk \<Rightarrow> validator list \<Rightarrow> 64 word \<times> 64 word \<times> string \<Rightarrow> string \<times> address list
    \<Rightarrow> 64 word \<times> 64 word \<times> string" where
  "count_claim S vs st e =
     (case st of (totalClaimsPower, highestClaimPower, highestClaim) \<Rightarrow>
      let claimPower = claim_power S vs (snd e);
          totalClaimsPower = totalClaimsPower + claimPower
      in if sint highestClaimPower < sint claimPower then (totalClaimsPower, claimPower, fst e)
         else (totalClaimsPower, highestClaimPower, highestClaim))"

definition FindHighestClaim :: "'b sdk \<Rightarrow> oracle_env \<Rightarrow> 'b ctx \<Rightarrow> prophecy \<Rightarrow> address list
    \<Rightarrow> (string \<times> 64 word \<times> 64 word \<times> 64 word) result" where
  "FindHighestClaim S K ctx prophecy whiteListValidatorAddresses =
     (let validators = GetBondedValidatorsByPower S (sdk_state ctx) in
     bind_r (whitelist_power whiteListValidatorAddresses 0 validators) (\<lambda>totalPower.
     case foldl (count_claim S validators) (0, -1, []) (MapOrder K (p_ClaimValidators prophecy)) of
       (totalClaimsPower, highestClaimPower, highestClaim) \<Rightarrow>
         Inr (highestClaim, highestClaimPower, totalClaimsPower, totalPower)))"

definition processCompletion :: "'b sdk \<Rightarrow> oracle_env \<Rightarrow> 'b ctx \<Rightarrow> prophecy \<Rightarrow> prophecy result" where
  "processCompletion S K ctx prophecy =
     bind_r (GetOracleWhiteList S ctx) (\<lambda>whiteList.
     bind_r (FindHighestClaim S K ctx prophecy whiteList) (\<lambda>(highestClaim, highestClaimPower, totalClaimsPower, totalPower).
     let highestConsensusRatio = fdiv (float_of_int (sint highestClaimPower)) (float_of_int (sint totalPower));
         remainingPossibleClaimPower = totalPower - totalClaimsPower;
         highestPossibleClaimPower = highestClaimPower + remainingPossibleClaimPower;
         highestPossibleConsensusRatio = fdiv (float_of_int (sint highestPossibleClaimPower)) (float_of_int (sint totalPower))
     in if fle (consensusNeeded K) highestConsensusRatio
        then Inr (prophecy\<lparr>p_Status := \<lparr>st_Text = STATUS_TEXT_SUCCESS, st_FinalClaim = highestClaim\<rparr>\<rparr>)
        else if flt highestPossibleConsensusRatio (consensusNeeded K)
        then Inr (prophecy\<lparr>p_Status := (p_Status prophecy)\<lparr>st_Text := STATUS_TEXT_FAILED\<rparr>\<rparr>)
        else Inr prophecy))"

definition checkActiveValidator :: "'b sdk \<Rightarrow> 'b ctx \<Rightarrow> address \<Rightarrow> bool" where
  "checkActiveValidator S ctx validatorAddress =
     (case GetValidator S (sdk_state ctx) validatorAddress of None \<Rightarrow> False | Some validator \<Rightarrow> IsBonded validator)"

definition oracle_ProcessClaim :: "'b sdk \<Rightarrow> oracle_env \<Rightarrow> 'b ctx \<Rightarrow> oracle_claim \<Rightarrow> ('b ctx \<times> status) result" where
  "oracle_ProcessClaim S K ctx claim =
     bind_r (EnsureAddressIsInWhitelist S ctx (oc_ValidatorAddress claim)) (\<lambda>_.
     bind_r (ValAddressFromBech32 S (oc_ValidatorAddress claim)) (\<lambda>valAddr.
     if \<not> checkActiveValidator S ctx valAddr then Inl ErrInvalidValidator
     else if oc_Id claim = [] then Inl ErrInvalidIdentifier
     else if oc_Content claim = [] then Inl ErrInvalidClaim
     else
     bind_r (GetProphecy S ctx (oc_Id claim)) (\<lambda>found.
     let prophecy = (case found of None \<Rightarrow> NewProphecy (oc_Id claim) | Some p \<Rightarrow> p) in
     if st_Text (p_Status prophecy) \<noteq> STATUS_TEXT_PENDING then Inl ErrProphecyFinalized
     else if map_at [] (p_ValidatorClaims prophecy) (oc_ValidatorAddress claim) \<noteq> [] then Inl ErrDuplicateMessage
     else
     bind_r (processCompletion S K ctx (AddClaim S prophecy valAddr (oc_Content claim))) (\<lambda>prophecy.
     bind_r (SetProphecy S ctx prophecy) (\<lambda>ctx. Inr (ctx, p_Status prophecy))))))"

section \<open>Genesis\<close>

record oracle_genesis =
  og_AddressWhitelist :: "string list option"
  og_AdminAddress :: string
  og_Prophecies :: "db_prophecy option list"

definition oracle_DefaultGenesisState :: oracle_genesis where
  "oracle_DefaultGenesisState = \<lparr>og_AddressWhitelist = Some [], og_AdminAddress = [], og_Prophecies = []\<rparr>"

definition oracle_InitGenesis :: "'b sdk \<Rightarrow> 'b ctx \<Rightarrow> oracle_genesis \<Rightarrow> 'b ctx result" where
  "oracle_InitGenesis S ctx data =
     bind_r (case og_AddressWhitelist data of
               None \<Rightarrow> Inr ctx
             | Some as \<Rightarrow> bind_r (map_r (\<lambda>entry. must_r (ValAddressFromBech32 S entry)) (filter (\<lambda>entry. TrimSpace entry \<noteq> []) as))
                           (\<lambda>wl. Inr (SetOracleWhiteList S ctx wl))) (\<lambda>ctx.
     bind_r (if TrimSpace (og_AdminAddress data) \<noteq> []
             then bind_r (must_r (AccAddressFromBech32 S (og_AdminAddress data))) (\<lambda>a. Inr (oracle_SetAdminAccount ctx a))
             else Inr ctx) (\<lambda>ctx.
     fold_r (\<lambda>ctx p. bind_r (deref p) (\<lambda>dbProphecy. Inr (SetDBProphecy ctx dbProphecy))) ctx (og_Prophecies data)))"

definition oracle_ExportGenesis :: "'b sdk \<Rightarrow> 'b ctx \<Rightarrow> oracle_genesis result" where
  "oracle_ExportGenesis S ctx =
     bind_r (GetOracleWhiteList S ctx) (\<lambda>whiteList.
     bind_r (oracle_GetAdminAccount ctx) (\<lambda>adminAcc.
     bind_r (GetProphecies S ctx) (\<lambda>prophecies.
     bind_r (map_r (\<lambda>p. must_r (SerializeForDB S p)) prophecies) (\<lambda>dbProphecies.
     Inr \<lparr>og_AddressWhitelist = Some (map (ValAddress_String S) whiteList), og_AdminAddress = AccAddress_String S adminAcc,
          og_Prophecies = map Some dbProphecies\<rparr>))))"

definition oracle_ValidateGenesis :: "oracle_genesis \<Rightarrow> unit result" where
  "oracle_ValidateGenesis data = Inr ()"

text \<open>The genesis of version 0.39: addresses not printed, and a status of three values.\<close>

record v39_status =
  v39s_Text :: int
  v39s_FinalClaim :: string

record v39_db_prophecy =
  v39p_ID :: string
  v39p_Status :: v39_status
  v39p_ClaimValidators :: string
  v39p_ValidatorClaims :: string

record v39_oracle_genesis =
  v39o_AddressWhitelist :: "address list"
  v39o_AdminAddress :: address
  v39o_Prophecies :: "v39_db_prophecy list"

definition migrate_status :: "v39_status \<Rightarrow> status" where
  "migrate_status legacy =
     \<lparr>st_Text = (if v39s_Text legacy = 0 then STATUS_TEXT_PENDING
                else if v39s_Text legacy = 2 then STATUS_TEXT_FAILED
                else if v39s_Text legacy = 1 then STATUS_TEXT_SUCCESS
                else STATUS_TEXT_UNSPECIFIED),
      st_FinalClaim = v39s_FinalClaim legacy\<rparr>"

definition oracle_Migrate :: "'b sdk \<Rightarrow> v39_oracle_genesis \<Rightarrow> oracle_genesis" where
  "oracle_Migrate S genesis =
     \<lparr>og_AddressWhitelist = Some (map (ValAddress_String S) (v39o_AddressWhitelist genesis)),
      og_AdminAddress = AccAddress_String S (v39o_AdminAddress genesis),
      og_Prophecies = map (\<lambda>legacy. Some \<lparr>db_Id = v39p_ID legacy, db_Status = migrate_status (v39p_Status legacy),
        db_ClaimValidators = v39p_ClaimValidators legacy, db_ValidatorClaims = v39p_ValidatorClaims legacy\<rparr>) (v39o_Prophecies genesis)\<rparr>"

end
