(* ===== verification/EthBridge.thy ===== *)
theory EthBridge
  imports Oracle TokenRegistry
begin

text \<open>
  The Ethereum bridge (\<^verbatim>\<open>x/ethbridge\<close>): validators report events of the bridge contract as claims, which the
  oracle decides and which then mint coins here; locking and burning coins here emits the events the
  relayer carries to Ethereum. Keeper, message server, handler, queries, genesis and migration.
\<close>

section \<open>Peggy tokens\<close>

definition eth_Exists :: "'b ctx \<Rightarrow> string \<Rightarrow> bool" where
  "eth_Exists ctx key = kv_has (eth_kv ctx) key"

definition GetPeggyToken :: "'b ctx \<Rightarrow> string list result" where
  "GetPeggyToken ctx =
     (if \<not> eth_Exists ctx PeggyTokenKeyPrefix then Inr []
      else case kv_get (eth_kv ctx) PeggyTokenKeyPrefix of
          Some (PeggyTokensV tokens) \<Rightarrow> Inr tokens
        | _ \<Rightarrow> Inl (Panic ''unmarshal''))"

definition ExistsPeggyToken :: "'b ctx \<Rightarrow> string \<Rightarrow> bool result" where
  "ExistsPeggyToken ctx token = bind_r (GetPeggyToken ctx) (\<lambda>tokens. Inr (list_ex (\<lambda>value. value = token) tokens))"

definition AddPeggyToken :: "'b ctx \<Rightarrow> string \<Rightarrow> 'b ctx result" where
  "AddPeggyToken ctx token =
     bind_r (ExistsPeggyToken ctx token) (\<lambda>exists'.
     if exists' then Inr ctx
     else bind_r (GetPeggyToken ctx) (\<lambda>tokens.
       Inr (ctx\<lparr>eth_kv := kv_set (eth_kv ctx) PeggyTokenKeyPrefix (PeggyTokensV (tokens @ [token]))\<rparr>)))"

section \<open>The account that receives fees in ceth\<close>

definition SetCethReceiverAccount :: "'b sdk \<Rightarrow> 'b ctx \<Rightarrow> address \<Rightarrow> 'b ctx" where
  "SetCethReceiverAccount S ctx cethReceiverAccount =
     ctx\<lparr>eth_kv := kv_set (eth_kv ctx) CethReceiverAccountPrefix (CethReceiverV (AccAddress_String S cethReceiverAccount))\<rparr>"

text \<open>The nil address is the empty one. A stored account that does not read counts as not set.\<close>

definition GetCethReceiverAccount :: "'b sdk \<Rightarrow> 'b ctx \<Rightarrow> address result" where
  "GetCethReceiverAccount S ctx =
     (case kv_get (eth_kv ctx) CethReceiverAccountPrefix of
        None \<Rightarrow> Inr []
      | Some (CethReceiverV s) \<Rightarrow>
          if s = [] then Inr [] else ignore_err [] (AccAddressFromBech32 S s)
      | Some _ \<Rightarrow> Inl (Panic ''unmarshal''))"

definition IsCethReceiverAccount :: "'b sdk \<Rightarrow> 'b ctx \<Rightarrow> address \<Rightarrow> bool result" where
  "IsCethReceiverAccount S ctx cethReceiverAccount =
     bind_r (GetCethReceiverAccount S ctx) (\<lambda>account. Inr (account = cethReceiverAccount))"

definition IsCethReceiverAccountSet :: "'b sdk \<Rightarrow> 'b ctx \<Rightarrow> bool result" where
  "IsCethReceiverAccountSet S ctx = bind_r (GetCethReceiverAccount S ctx) (\<lambda>account. Inr (account \<noteq> []))"

section \<open>Blacklist\<close>

definition IsBlacklisted :: "'b ctx \<Rightarrow> string \<Rightarrow> bool" where
  "IsBlacklisted ctx address = kv_has (eth_kv ctx) (BlacklistPrefix @ address)"

definition blacklist_removals :: "eth_value kv \<Rightarrow> string list \<Rightarrow> string list" where
  "blacklist_removals s addresses =
     filter (\<lambda>address. \<not> list_ex (\<lambda>current. current = address) addresses)
       (map (\<lambda>e. tl (fst e)) (filter (\<lambda>e. 1 < length (fst e)) (kv_from s BlacklistPrefix)))"

definition SetBlacklist :: "'b sdk \<Rightarrow> 'b ctx \<Rightarrow> msg_set_blacklist \<Rightarrow> 'b ctx result" where
  "SetBlacklist S ctx msg =
     bind_r (AccAddressFromBech32 S (sb_From msg)) (\<lambda>from'.
     bind_r (IsAdminAccount ctx from') (\<lambda>isAdmin.
     if \<not> isAdmin then Inl ErrNotAdminAccount
     else
     let removals = blacklist_removals (eth_kv ctx) (sb_Addresses msg);
         s = foldl (\<lambda>s address. kv_delete s (BlacklistPrefix @ address)) (eth_kv ctx) removals;
         s = foldl (\<lambda>s address. kv_set s (BlacklistPrefix @ address) BlacklistedV) s (sb_Addresses msg)
     in Inr (ctx\<lparr>eth_kv := s\<rparr>)))"

definition GetBlacklist :: "'b ctx \<Rightarrow> string list" where
  "GetBlacklist ctx = map (\<lambda>e. tl (fst e)) (kv_from (eth_kv ctx) BlacklistPrefix)"

section \<open>Keeper\<close>

definition eth_ProcessClaim :: "'b sdk \<Rightarrow> geth \<Rightarrow> oracle_env \<Rightarrow> 'b ctx \<Rightarrow> eth_bridge_claim option \<Rightarrow> ('b ctx \<times> status) result" where
  "eth_ProcessClaim S G K ctx claim =
     bind_r (deref claim) (\<lambda>claim.
     bind_r (CreateOracleClaimFromEthClaim S G claim) (\<lambda>oracleClaim.
     oracle_ProcessClaim S K ctx oracleClaim))"

definition eth_coins :: "'b sdk \<Rightarrow> string \<Rightarrow> int \<Rightarrow> coins result" where
  "eth_coins S symbol amount =
     bind_r (panics (NewCoin S symbol amount)) (\<lambda>c. panics (NewCoins S [c]))"

definition ProcessSuccessfulClaim :: "'b sdk \<Rightarrow> geth \<Rightarrow> 'b ctx \<Rightarrow> string \<Rightarrow> 'b ctx result" where
  "ProcessSuccessfulClaim S G ctx claim =
     bind_r (CreateOracleClaimFromOracleString G claim) (\<lambda>oracleClaim.
     let receiverAddress = occ_CosmosReceiver oracleClaim in
     bind_r
       (if occ_ClaimType oracleClaim = CLAIM_TYPE_LOCK
        then
          let symbol = PeggedCoinPrefix @ occ_Symbol oracleClaim in
          bind_r (AddPeggyToken ctx symbol) (\<lambda>ctx.
          bind_r (eth_coins S symbol (occ_Amount oracleClaim)) (\<lambda>coins.
          bind_r (with_bank ctx (MintCoins S (sdk_state ctx) eth_ModuleName coins)) (\<lambda>ctx. Inr (ctx, coins))))
        else if occ_ClaimType oracleClaim = CLAIM_TYPE_BURN
        then
          bind_r (eth_coins S (occ_Symbol oracleClaim) (occ_Amount oracleClaim)) (\<lambda>coins.
          bind_r (with_bank ctx (MintCoins S (sdk_state ctx) eth_ModuleName coins)) (\<lambda>ctx. Inr (ctx, coins)))
        else Inl ErrInvalidClaimType) (\<lambda>(ctx, coins).
     must_r (with_bank ctx (SendCoinsFromModuleToAccount S (sdk_state ctx) eth_ModuleName receiverAddress coins))))"

definition ProcessBurn :: "'b sdk \<Rightarrow> 'b ctx \<Rightarrow> address \<Rightarrow> msg_burn \<Rightarrow> 'b ctx result" where
  "ProcessBurn S ctx cosmosSender msg =
     (if IsBlacklisted ctx (bn_EthereumReceiver msg) then Inl ErrInvalidEthAddress
      else
      bind_r (IsCethReceiverAccountSet S ctx) (\<lambda>isSet.
      bind_r
        (if isSet
         then
           bind_r (eth_coins S CethSymbol (bn_CethAmount msg)) (\<lambda>coins.
           bind_r (GetCethReceiverAccount S ctx) (\<lambda>receiver.
           bind_r (with_bank ctx (SendCoins S (sdk_state ctx) cosmosSender receiver coins)) (\<lambda>ctx.
           bind_r (eth_coins S (bn_Symbol msg) (bn_Amount msg)) (\<lambda>coins. Inr (ctx, coins)))))
         else if bn_Symbol msg = CethSymbol
         then
           bind_r (panics (Int_Add S (bn_CethAmount msg) (bn_Amount msg))) (\<lambda>n.
           bind_r (eth_coins S CethSymbol n) (\<lambda>coins. Inr (ctx, coins)))
         else
           bind_r (panics (NewCoin S (bn_Symbol msg) (bn_Amount msg))) (\<lambda>c1.
           bind_r (panics (NewCoin S CethSymbol (bn_CethAmount msg))) (\<lambda>c2.
           bind_r (panics (NewCoins S [c1, c2])) (\<lambda>coins. Inr (ctx, coins))))) (\<lambda>(ctx, coins).
      bind_r (with_bank ctx (SendCoinsFromAccountToModule S (sdk_state ctx) cosmosSender eth_ModuleName coins)) (\<lambda>ctx.
      bind_r (eth_coins S (bn_Symbol msg) (bn_Amount msg)) (\<lambda>coins.
      with_bank ctx (BurnCoins S (sdk_state ctx) eth_ModuleName coins))))))"

definition ProcessLock :: "'b sdk \<Rightarrow> 'b ctx \<Rightarrow> address \<Rightarrow> msg_lock \<Rightarrow> 'b ctx result" where
  "ProcessLock S ctx cosmosSender msg =
     (if IsBlacklisted ctx (lk_EthereumReceiver msg) then Inl ErrInvalidEthAddress
      else
      bind_r (IsCethReceiverAccountSet S ctx) (\<lambda>isSet.
      bind_r
        (if isSet
         then
           bind_r (eth_coins S CethSymbol (lk_CethAmount msg)) (\<lambda>coins.
           bind_r (GetCethReceiverAccount S ctx) (\<lambda>receiver.
           bind_r (with_bank ctx (SendCoins S (sdk_state ctx) cosmosSender receiver coins)) (\<lambda>ctx.
           bind_r (eth_coins S (lk_Symbol msg) (lk_Amount msg)) (\<lambda>coins. Inr (ctx, coins)))))
         else
           bind_r (panics (NewCoin S (lk_Symbol msg) (lk_Amount msg))) (\<lambda>c1.
           bind_r (panics (NewCoin S CethSymbol (lk_CethAmount msg))) (\<lambda>c2.
           bind_r (panics (NewCoins S [c1, c2])) (\<lambda>coins. Inr (ctx, coins))))) (\<lambda>(ctx, coins).
      bind_r (with_bank ctx (SendCoinsFromAccountToModule S (sdk_state ctx) cosmosSender eth_ModuleName coins)) (\<lambda>ctx.
      bind_r (eth_coins S (lk_Symbol msg) (lk_Amount msg)) (\<lambda>coins.
      with_bank ctx (BurnCoins S (sdk_state ctx) eth_ModuleName coins))))))"

definition eth_ProcessUpdateWhiteListValidator :: "'b sdk \<Rightarrow> 'b ctx \<Rightarrow> address \<Rightarrow> address \<Rightarrow> string \<Rightarrow> 'b ctx result" where
  "eth_ProcessUpdateWhiteListValidator S ctx cosmosSender validator operationtype =
     oracle_ProcessUpdateWhiteListValidator S ctx cosmosSender validator operationtype"

definition ProcessUpdateCethReceiverAccount :: "'b sdk \<Rightarrow> 'b ctx \<Rightarrow> address \<Rightarrow> address \<Rightarrow> 'b ctx result" where
  "ProcessUpdateCethReceiverAccount S ctx cosmosSender cethReceiverAccount =
     bind_r (oracle_IsAdminAccount ctx cosmosSender) (\<lambda>isAdmin.
     if \<not> isAdmin then Inl (ErrNew ''only admin account can update ceth receiver account'')
     else Inr (SetCethReceiverAccount S ctx cethReceiverAccount))"

definition ProcessRescueCeth :: "'b sdk \<Rightarrow> 'b ctx \<Rightarrow> msg_rescue_ceth \<Rightarrow> 'b ctx result" where
  "ProcessRescueCeth S ctx msg =
     bind_r (AccAddressFromBech32 S (rc_CosmosSender msg)) (\<lambda>cosmosSender.
     bind_r (AccAddressFromBech32 S (rc_CosmosReceiver msg)) (\<lambda>cosmosReceiver.
     bind_r (oracle_IsAdminAccount ctx cosmosSender) (\<lambda>isAdmin.
     if \<not> isAdmin then Inl (ErrNew ''only admin account can call rescue ceth'')
     else
     bind_r (eth_coins S CethSymbol (rc_CethAmount msg)) (\<lambda>coins.
     with_bank ctx (SendCoinsFromModuleToAccount S (sdk_state ctx) eth_ModuleName cosmosReceiver coins)))))"

section \<open>Message server and handler\<close>

text \<open>Only whether the account exists and its sequence matter; the log lines are left out.\<close>

definition Lock :: "'b sdk \<Rightarrow> 'b ctx \<Rightarrow> msg_lock \<Rightarrow> 'b ctx result" where
  "Lock S ctx msg =
     bind_r (ExistsPeggyToken ctx (lk_Symbol msg)) (\<lambda>pegged.
     if pegged then Inl (ErrNew (''Pegged token '' @ lk_Symbol msg @ '' can't be lock.''))
     else
     bind_r (AccAddressFromBech32 S (lk_CosmosSender msg)) (\<lambda>cosmosSender.
     case GetAccount S (sdk_state ctx) cosmosSender of
       None \<Rightarrow> Inl ErrInvalidAddress
     | Some sequence \<Rightarrow>
         bind_r (ProcessLock S ctx cosmosSender msg) (\<lambda>ctx.
         Inr (EmitEvents
           [message_event eth_ModuleName (lk_CosmosSender msg),
            (''lock'', [(''ethereum_chain_id'', itoa (lk_EthereumChainId msg)), (''cosmos_sender'', lk_CosmosSender msg),
              (''cosmos_sender_sequence'', itoa (int sequence)), (''ethereum_receiver'', lk_EthereumReceiver msg),
              (''amount'', itoa (lk_Amount msg)), (''symbol'', lk_Symbol msg), (''ceth_amount'', itoa (lk_CethAmount msg))])] ctx))))"

definition Burn :: "'b sdk \<Rightarrow> 'b ctx \<Rightarrow> msg_burn \<Rightarrow> 'b ctx result" where
  "Burn S ctx msg =
     bind_r (ExistsPeggyToken ctx (bn_Symbol msg)) (\<lambda>pegged.
     if \<not> pegged then Inl (ErrNew (''Native token '' @ bn_Symbol msg @ '' can't be burn.''))
     else
     bind_r (AccAddressFromBech32 S (bn_CosmosSender msg)) (\<lambda>cosmosSender.
     case GetAccount S (sdk_state ctx) cosmosSender of
       None \<Rightarrow> Inl ErrInvalidAddress
     | Some sequence \<Rightarrow>
         bind_r (ProcessBurn S ctx cosmosSender msg) (\<lambda>ctx.
         Inr (EmitEvents
           [message_event eth_ModuleName (bn_CosmosSender msg),
            (''burn'', [(''ethereum_chain_id'', itoa (bn_EthereumChainId msg)), (''cosmos_sender'', bn_CosmosSender msg),
              (''cosmos_sender_sequence'', itoa (int sequence)), (''ethereum_receiver'', bn_EthereumReceiver msg),
              (''amount'', itoa (bn_Amount msg)), (''symbol'', bn_Symbol msg), (''ceth_amount'', itoa (bn_CethAmount msg))])] ctx))))"

definition claim_events :: "eth_bridge_claim \<Rightarrow> status \<Rightarrow> event list" where
  "claim_events c status =
     [message_event eth_ModuleName (ec_ValidatorAddress c),
      (''create_claim'', [(''cosmos_sender'', ec_ValidatorAddress c), (''ethereum_sender'', ec_EthereumSender c),
        (''ethereum_sender_nonce'', itoa (ec_Nonce c)), (''cosmos_receiver'', ec_CosmosReceiver c),
        (''amount'', itoa (ec_Amount c)), (''symbol'', ec_Symbol c), (''token_contract_address'', ec_TokenContractAddress c),
        (''claim_type'', ClaimType_String (ec_ClaimType c))]),
      (''prophecy_status'', [(''status'', StatusText_String (st_Text status))])]"

definition CreateEthBridgeClaim :: "'b sdk \<Rightarrow> geth \<Rightarrow> oracle_env \<Rightarrow> 'b ctx \<Rightarrow> eth_bridge_claim option \<Rightarrow> 'b ctx result" where
  "CreateEthBridgeClaim S G K ctx msg =
     bind_r (eth_ProcessClaim S G K ctx msg) (\<lambda>(ctx, status).
     bind_r (if st_Text status = STATUS_TEXT_SUCCESS then ProcessSuccessfulClaim S G ctx (st_FinalClaim status) else Inr ctx) (\<lambda>ctx.
     bind_r (deref msg) (\<lambda>c. Inr (EmitEvents (claim_events c status) ctx))))"

definition UpdateWhiteListValidator :: "'b sdk \<Rightarrow> 'b ctx \<Rightarrow> msg_update_whitelist_validator \<Rightarrow> 'b ctx result" where
  "UpdateWhiteListValidator S ctx msg =
     bind_r (AccAddressFromBech32 S (uw_CosmosSender msg)) (\<lambda>cosmosSender.
     case GetAccount S (sdk_state ctx) cosmosSender of
       None \<Rightarrow> Inl (ErrSdk ''ErrUnknownAddress'')
     | Some sequence \<Rightarrow>
         bind_r (wrap_err ErrInvalidAddress (ValAddressFromBech32 S (uw_Validator msg))) (\<lambda>valAddr.
         bind_r (eth_ProcessUpdateWhiteListValidator S ctx cosmosSender valAddr (uw_OperationType msg)) (\<lambda>ctx.
         Inr (EmitEvents
           [message_event eth_ModuleName (uw_CosmosSender msg),
            (''lock'', [(''cosmos_sender'', uw_CosmosSender msg), (''validator'', uw_Validator msg),
              (''operation_type'', uw_OperationType msg)])] ctx))))"

definition UpdateCethReceiverAccount :: "'b sdk \<Rightarrow> 'b ctx \<Rightarrow> msg_update_ceth_receiver \<Rightarrow> 'b ctx result" where
  "UpdateCethReceiverAccount S ctx msg =
     bind_r (AccAddressFromBech32 S (ur_CosmosSender msg)) (\<lambda>cosmosSender.
     bind_r (AccAddressFromBech32 S (ur_CethReceiverAccount msg)) (\<lambda>cethReceiverAddress.
     case GetAccount S (sdk_state ctx) cosmosSender of
       None \<Rightarrow> Inl ErrInvalidAddress
     | Some sequence \<Rightarrow>
         bind_r (ProcessUpdateCethReceiverAccount S ctx cosmosSender cethReceiverAddress) (\<lambda>ctx.
         Inr (EmitEvents
           [message_event eth_ModuleName (ur_CosmosSender msg),
            (''lock'', [(''cosmos_sender'', ur_CosmosSender msg), (''ceth_receiver_account'', ur_CethReceiverAccount msg)])] ctx))))"

definition RescueCeth :: "'b sdk \<Rightarrow> 'b ctx \<Rightarrow> msg_rescue_ceth \<Rightarrow> 'b ctx result" where
  "RescueCeth S ctx msg =
     bind_r (AccAddressFromBech32 S (rc_CosmosSender msg)) (\<lambda>cosmosSender.
     case GetAccount S (sdk_state ctx) cosmosSender of
       None \<Rightarrow> Inl ErrInvalidAddress
     | Some sequence \<Rightarrow> ProcessRescueCeth S ctx msg)"

definition srv_SetBlacklist :: "'b sdk \<Rightarrow> 'b ctx \<Rightarrow> msg_set_blacklist \<Rightarrow> 'b ctx result" where
  "srv_SetBlacklist S ctx msg = SetBlacklist S ctx msg"

fun eth_Handler :: "'b sdk \<Rightarrow> geth \<Rightarrow> oracle_env \<Rightarrow> 'b ctx \<Rightarrow> eth_msg \<Rightarrow> 'b ctx result" where
  "eth_Handler S G K ctx (MsgCreateEthBridgeClaim m) = CreateEthBridgeClaim S G K (ctx\<lparr>Events := []\<rparr>) m"
| "eth_Handler S G K ctx (MsgBurn m) = Burn S (ctx\<lparr>Events := []\<rparr>) m"
| "eth_Handler S G K ctx (MsgLock m) = Lock S (ctx\<lparr>Events := []\<rparr>) m"
| "eth_Handler S G K ctx (MsgUpdateWhiteListValidator m) = UpdateWhiteListValidator S (ctx\<lparr>Events := []\<rparr>) m"
| "eth_Handler S G K ctx (MsgUpdateCethReceiverAccount m) = UpdateCethReceiverAccount S (ctx\<lparr>Events := []\<rparr>) m"
| "eth_Handler S G K ctx (MsgRescueCeth m) = RescueCeth S (ctx\<lparr>Events := []\<rparr>) m"
| "eth_Handler S G K ctx (MsgSetBlacklist m) = srv_SetBlacklist S (ctx\<lparr>Events := []\<rparr>) m"

section \<open>Queries\<close>

record eth_prophecy_request =
  pq_EthereumChainId :: int
  pq_BridgeContractAddress :: string
  pq_Nonce :: int
  pq_Symbol :: string
  pq_TokenContractAddress :: string
  pq_EthereumSender :: string

record eth_prophecy_response =
  pr_Id :: string
  pr_Status :: status
  pr_Claims :: "eth_bridge_claim list"

definition NewQueryEthProphecyRequest ::
    "geth \<Rightarrow> int \<Rightarrow> eth_address \<Rightarrow> int \<Rightarrow> string \<Rightarrow> eth_address \<Rightarrow> eth_address \<Rightarrow> eth_prophecy_request" where
  "NewQueryEthProphecyRequest G ethereumChainID bridgeContractAddress nonce symbol tokenContractAddress ethereumSender =
     \<lparr>pq_EthereumChainId = ethereumChainID, pq_BridgeContractAddress = EthereumAddress_String G bridgeContractAddress,
      pq_Nonce = nonce, pq_Symbol = symbol, pq_TokenContractAddress = EthereumAddress_String G tokenContractAddress,
      pq_EthereumSender = EthereumAddress_String G ethereumSender\<rparr>"

definition NewQueryEthProphecyResponse :: "string \<Rightarrow> status \<Rightarrow> eth_bridge_claim list \<Rightarrow> eth_prophecy_response" where
  "NewQueryEthProphecyResponse id' status claims = \<lparr>pr_Id = id', pr_Status = status, pr_Claims = claims\<rparr>"

text \<open>The claims are listed in the order of the map, an argument.\<close>

definition q_EthProphecy :: "'b sdk \<Rightarrow> geth \<Rightarrow> (string kv \<Rightarrow> (string \<times> string) list) \<Rightarrow> 'b ctx \<Rightarrow> eth_prophecy_request
    \<Rightarrow> eth_prophecy_response result" where
  "q_EthProphecy S G order ctx req =
     (let id' = itoa (pq_EthereumChainId req) @ itoa (pq_Nonce req) @ pq_EthereumSender req in
     bind_r (GetProphecy S ctx id') (\<lambda>found.
     case found of
       None \<Rightarrow> Inl ErrProphecyNotFound
     | Some prophecy \<Rightarrow>
         bind_r (MapOracleClaimsToEthBridgeClaims S (pq_EthereumChainId req)
             (NewEthereumAddress G (pq_BridgeContractAddress req)) (pq_Nonce req) (pq_Symbol req)
             (NewEthereumAddress G (pq_TokenContractAddress req)) (NewEthereumAddress G (pq_EthereumSender req))
             (order (p_ValidatorClaims prophecy)) (CreateEthClaimFromOracleString S G)) (\<lambda>bridgeClaims.
         Inr (NewQueryEthProphecyResponse (p_ID prophecy) (p_Status prophecy) bridgeClaims))))"

definition q_GetBlacklist :: "'b ctx \<Rightarrow> string list result" where
  "q_GetBlacklist ctx = Inr (GetBlacklist ctx)"

text \<open>The older queries, with the JSON codec as arguments.\<close>

definition legacyQueryEthProphecy ::
    "'b sdk \<Rightarrow> geth \<Rightarrow> (string kv \<Rightarrow> (string \<times> string) list) \<Rightarrow> (string \<Rightarrow> eth_prophecy_request result)
     \<Rightarrow> (eth_prophecy_response \<Rightarrow> string result) \<Rightarrow> 'b ctx \<Rightarrow> string \<Rightarrow> string result" where
  "legacyQueryEthProphecy S G order unmarshal marshal ctx data =
     bind_r (wrap_err ErrJSONMarshalling (unmarshal data)) (\<lambda>req.
     bind_r (q_EthProphecy S G order ctx req) (\<lambda>response. marshal response))"

definition legacyQueryBlacklist ::
    "(string \<Rightarrow> unit result) \<Rightarrow> (string list \<Rightarrow> string result) \<Rightarrow> 'b ctx \<Rightarrow> string \<Rightarrow> string result" where
  "legacyQueryBlacklist unmarshal marshal ctx data =
     bind_r (wrap_err ErrJSONMarshalling (unmarshal data)) (\<lambda>req.
     bind_r (q_GetBlacklist ctx) (\<lambda>response. marshal response))"

definition eth_NewLegacyQuerier ::
    "'b sdk \<Rightarrow> geth \<Rightarrow> (string kv \<Rightarrow> (string \<times> string) list) \<Rightarrow> (string \<Rightarrow> eth_prophecy_request result)
     \<Rightarrow> (eth_prophecy_response \<Rightarrow> string result) \<Rightarrow> (string \<Rightarrow> unit result) \<Rightarrow> (string list \<Rightarrow> string result)
     \<Rightarrow> 'b ctx \<Rightarrow> string list \<Rightarrow> string \<Rightarrow> string result" where
  "eth_NewLegacyQuerier S G order unmarshal marshal unmarshalB marshalB ctx path data =
     (case path of
        [] \<Rightarrow> Inl (Panic ''index out of range'')
      | p # _ \<Rightarrow>
          if p = ''prophecies'' then legacyQueryEthProphecy S G order unmarshal marshal ctx data
          else if p = ''blacklist'' then legacyQueryBlacklist unmarshalB marshalB ctx data
          else Inl (ErrSdk ''ErrUnknownRequest''))"

section \<open>Genesis\<close>

record eth_genesis =
  eg_CethReceiveAccount :: string
  eg_PeggyTokens :: "string list"

definition eth_DefaultGenesis :: eth_genesis where
  "eth_DefaultGenesis = \<lparr>eg_CethReceiveAccount = [], eg_PeggyTokens = []\<rparr>"

definition eth_InitGenesis :: "'b sdk \<Rightarrow> 'b ctx \<Rightarrow> eth_genesis \<Rightarrow> 'b ctx result" where
  "eth_InitGenesis S ctx data =
     bind_r (if eg_CethReceiveAccount data \<noteq> []
             then bind_r (must_r (AccAddressFromBech32 S (eg_CethReceiveAccount data))) (\<lambda>receiveAccount.
               Inr (SetCethReceiverAccount S ctx receiveAccount))
             else Inr ctx) (\<lambda>ctx.
     fold_r AddPeggyToken ctx (eg_PeggyTokens data))"

definition eth_ExportGenesis :: "'b sdk \<Rightarrow> 'b ctx \<Rightarrow> eth_genesis result" where
  "eth_ExportGenesis S ctx =
     bind_r (GetPeggyToken ctx) (\<lambda>peggyTokens.
     bind_r (GetCethReceiverAccount S ctx) (\<lambda>receiveAccount.
     Inr \<lparr>eg_CethReceiveAccount = AccAddress_String S receiveAccount, eg_PeggyTokens = peggyTokens\<rparr>))"

definition eth_ValidateGenesis :: "eth_genesis \<Rightarrow> unit result" where
  "eth_ValidateGenesis data = Inr ()"

record v39_eth_genesis =
  v39e_PeggyTokens :: "string list"
  v39e_CethReceiverAccount :: address

definition eth_Migrate :: "'b sdk \<Rightarrow> v39_eth_genesis \<Rightarrow> eth_genesis" where
  "eth_Migrate S state =
     \<lparr>eg_CethReceiveAccount = AccAddress_String S (v39e_CethReceiverAccount state), eg_PeggyTokens = v39e_PeggyTokens state\<rparr>"

end
