(* ===== verification/Oracle_Votes.thy ===== *)
theory Oracle_Votes
  imports Oracle
begin

text \<open>
  What the counting of votes computes: the powers as integers, the claim with the highest power, and the
  decision of \<open>processCompletion\<close> without floating point. A prophecy is well-formed if every validator
  votes at most once and the two maps of the prophecy agree.
\<close>

section \<open>Powers as integers\<close>

definition vpow :: "'b sdk \<Rightarrow> validator list \<Rightarrow> address \<Rightarrow> int" where
  "vpow S vs a = (case validatorsByAddress vs (ValAddress_String S a) of None \<Rightarrow> 0 | Some v \<Rightarrow> GetConsensusPower v)"

definition cpow :: "'b sdk \<Rightarrow> validator list \<Rightarrow> address list \<Rightarrow> int" where
  "cpow S vs as = sum_list (map (vpow S vs) as)"

definition listed :: "address list \<Rightarrow> validator \<Rightarrow> bool" where
  "listed wl v = (case GetOperator v of Inl _ \<Rightarrow> False | Inr a \<Rightarrow> a \<in> set wl)"

definition wpow :: "address list \<Rightarrow> validator list \<Rightarrow> int" where
  "wpow wl vs = sum_list (map GetConsensusPower (filter (listed wl) vs))"

definition bonded_power :: "validator list \<Rightarrow> int" where
  "bonded_power vs = sum_list (map GetConsensusPower vs)"

lemma claim_power_word: "claim_power S vs as = word_of_int (cpow S vs as)"
proof -
  have "foldl (\<lambda>claimPower a. case validatorsByAddress vs (ValAddress_String S a) of
      None \<Rightarrow> claimPower | Some v \<Rightarrow> claimPower + power v) w as = w + word_of_int (cpow S vs as)" for w
    by (induction as arbitrary: w) (auto simp: cpow_def vpow_def power_def split: option.split)
  then show ?thesis by (simp add: claim_power_def)
qed

lemma inWhiteList_listed:
  "\<exists>a. GetOperator v = Inr a \<Longrightarrow> inWhiteList v wl = Inr (listed wl v)"
  by (elim exE, induction wl) (simp_all add: listed_def)

lemma whitelist_power_word:
  "\<forall>v \<in> set vs. \<exists>a. GetOperator v = Inr a \<Longrightarrow> whitelist_power wl w vs = Inr (w + word_of_int (wpow wl vs))"
  by (induction vs arbitrary: w) (auto simp: wpow_def inWhiteList_listed power_def)

lemma sint_small: "- (2 ^ 63) \<le> n \<Longrightarrow> n < 2 ^ 63 \<Longrightarrow> sint (word_of_int n :: 64 word) = n"
  by (simp add: int_word_sint)

lemma wpow_le: "\<forall>v \<in> set vs. 0 \<le> GetConsensusPower v \<Longrightarrow> 0 \<le> wpow wl vs \<and> wpow wl vs \<le> bonded_power vs"
  by (induction vs) (auto simp: wpow_def bonded_power_def)

lemma vpow_nonneg: "\<forall>v \<in> set vs. 0 \<le> GetConsensusPower v \<Longrightarrow> 0 \<le> vpow S vs a"
proof (cases "validatorsByAddress vs (ValAddress_String S a)")
  case (Some v)
  then have "v \<in> set vs" by (auto simp: validatorsByAddress_def dest: map_of_SomeD)
  then show "\<forall>v \<in> set vs. 0 \<le> GetConsensusPower v \<Longrightarrow> ?thesis" using Some by (simp add: vpow_def)
qed (simp add: vpow_def)

lemma cpow_nonneg: "\<forall>v \<in> set vs. 0 \<le> GetConsensusPower v \<Longrightarrow> 0 \<le> cpow S vs as"
  unfolding cpow_def by (rule sum_list_nonneg) (auto intro: vpow_nonneg)

lemma validatorsByAddress_Some:
  assumes "distinct (map OperatorAddress vs)"
  shows "validatorsByAddress vs s = Some v \<longleftrightarrow> v \<in> set vs \<and> OperatorAddress v = s"
proof -
  have "distinct (map fst (rev (map (\<lambda>v. (OperatorAddress v, v)) vs)))"
    using assms by (simp add: rev_map [symmetric] comp_def)
  then show ?thesis unfolding validatorsByAddress_def by (subst map_of_eq_Some_iff) (auto simp: comp_def)
qed

text \<open>Validators of different addresses, all in a set, have at most the power of that set.\<close>

lemma cpow_le:
  assumes "distinct (map OperatorAddress vs)" and "\<forall>v \<in> set vs. 0 \<le> GetConsensusPower v"
    and "distinct as" and "inj_on (ValAddress_String S) (set as)"
    and "\<forall>v \<in> set vs. OperatorAddress v \<in> ValAddress_String S ` set as \<longrightarrow> P v"
  shows "cpow S vs as \<le> sum_list (map GetConsensusPower (filter P vs))"
proof -
  note vba = validatorsByAddress_Some [OF assms(1)]
  let ?A = "{a \<in> set as. \<exists>v \<in> set vs. OperatorAddress v = ValAddress_String S a}"
  define val where "val = (\<lambda>a. the (validatorsByAddress vs (ValAddress_String S a)))"
  have val: "val a \<in> set vs \<and> OperatorAddress (val a) = ValAddress_String S a \<and> vpow S vs a = GetConsensusPower (val a)"
    if a: "a \<in> ?A" for a
  proof -
    obtain v where "v \<in> set vs" "OperatorAddress v = ValAddress_String S a" using a by blast
    moreover from this have "validatorsByAddress vs (ValAddress_String S a) = Some v" by (simp add: vba)
    ultimately show ?thesis by (simp add: val_def vpow_def)
  qed
  have zero: "vpow S vs a = 0" if "a \<in> set as - ?A" for a
  proof -
    have "validatorsByAddress vs (ValAddress_String S a) \<noteq> Some v" for v using that vba by blast
    then have "validatorsByAddress vs (ValAddress_String S a) = None" by (cases "validatorsByAddress vs (ValAddress_String S a)") auto
    then show ?thesis by (simp add: vpow_def)
  qed
  have inj: "inj_on val ?A"
  proof (rule inj_onI)
    fix a b assume ab: "a \<in> ?A" "b \<in> ?A" "val a = val b"
    then have "ValAddress_String S a = ValAddress_String S b" using val [OF ab(1)] val [OF ab(2)] by (simp only:)
    then show "a = b" using inj_onD [OF assms(4), of a b] ab(1,2) by blast
  qed
  have "cpow S vs as = (\<Sum>a \<in> set as. vpow S vs a)" using assms(3) by (simp add: cpow_def sum_list_distinct_conv_sum_set)
  also have "\<dots> = (\<Sum>a \<in> ?A. vpow S vs a)" by (rule sum.mono_neutral_right) (use zero in auto)
  also have "\<dots> = (\<Sum>a \<in> ?A. GetConsensusPower (val a))" using val by (intro sum.cong) auto
  also have "\<dots> = sum GetConsensusPower (val ` ?A)" using inj by (simp add: sum.reindex)
  also have "\<dots> \<le> sum GetConsensusPower (set (filter P vs))"
  proof (rule sum_mono2)
    show "val ` ?A \<subseteq> set (filter P vs)"
    proof
      fix v assume "v \<in> val ` ?A"
      then obtain a where a: "a \<in> ?A" "v = val a" by blast
      with val [OF a(1)] assms(5) show "v \<in> set (filter P vs)" by auto
    qed
  qed (use assms(2) in auto)
  also have "\<dots> = sum_list (map GetConsensusPower (filter P vs))"
    using distinct_map [THEN iffD1, OF assms(1)] by (simp add: sum_list_distinct_conv_sum_set)
  finally show ?thesis .
qed

section \<open>Votes\<close>

text \<open>Every claim has voters who are recorded with that claim, none of them twice.\<close>

definition votes_ok :: "'b sdk \<Rightarrow> prophecy \<Rightarrow> bool" where
  "votes_ok S p \<longleftrightarrow> prophecy_ok p \<and>
     (\<forall>(c, as) \<in> set (p_ClaimValidators p). c \<noteq> [] \<and> distinct as \<and>
        (\<forall>a \<in> set as. kv_get (p_ValidatorClaims p) (ValAddress_String S a) = Some c))"

definition voters :: "prophecy \<Rightarrow> address list" where
  "voters p = concat (map snd (p_ClaimValidators p))"

lemma ValAddress_String_inj:
  "addr_laws S \<Longrightarrow> valid_address a \<Longrightarrow> valid_address b \<Longrightarrow> ValAddress_String S a = ValAddress_String S b \<Longrightarrow> a = b"
  unfolding addr_laws_def by (metis sum.inject(2))

lemma voters_distinct: "votes_ok S p \<Longrightarrow> distinct (voters p)"
proof -
  have "distinct (concat (map snd m))"
    if "distinct (map fst m)" "\<forall>(c, as) \<in> set m. distinct as \<and> (\<forall>a \<in> set as. f a = Some c)"
    for m :: "(string \<times> address list) list" and f
    using that
  proof (induction m)
    case (Cons e m)
    have "set (snd e) \<inter> set (concat (map snd m)) = {}"
    proof (rule ccontr)
      assume "set (snd e) \<inter> set (concat (map snd m)) \<noteq> {}"
      then obtain a e' where "a \<in> set (snd e)" "e' \<in> set m" "a \<in> set (snd e')" by auto
      with Cons.prems(2) have "f a = Some (fst e)" "f a = Some (fst e')" by (auto simp: case_prod_unfold)
      with \<open>e' \<in> set m\<close> Cons.prems(1) show False by (auto simp: image_iff)
    qed
    with Cons show ?case by (auto simp: case_prod_unfold)
  qed simp
  from this [of "p_ClaimValidators p" "\<lambda>a. kv_get (p_ValidatorClaims p) (ValAddress_String S a)"]
  show "votes_ok S p \<Longrightarrow> distinct (voters p)"
    by (auto simp: votes_ok_def prophecy_ok_def voters_def case_prod_unfold dest: kv_ok_distinct)
qed

lemma voters_valid: "votes_ok S p \<Longrightarrow> a \<in> set (voters p) \<Longrightarrow> valid_address a"
  by (auto simp: votes_ok_def prophecy_ok_def voters_def)

text \<open>A vote of a validator that has not voted keeps the votes well-formed.\<close>

lemma votes_ok_New [simp]: "votes_ok S (NewProphecy i)"
  by (simp add: votes_ok_def) (simp add: NewProphecy_def)

lemma votes_ok_status [simp]: "votes_ok S (p\<lparr>p_Status := s\<rparr>) = votes_ok S p"
  by (simp add: votes_ok_def)

lemma votes_ok_AddClaim:
  assumes S: "addr_laws S" and p: "votes_ok S p" and v: "valid_address v" and c: "ValidString c" "c \<noteq> []"
    and new: "map_at [] (p_ValidatorClaims p) (ValAddress_String S v) = []"
  shows "votes_ok S (AddClaim S p v c)"
proof -
  have fresh: "v \<notin> set as" if "(d, as) \<in> set (p_ClaimValidators p)" for d as
    using that p new by (auto simp: votes_ok_def map_at_def)
  have old: "distinct as \<and> d \<noteq> [] \<and> (\<forall>a \<in> set as. a \<noteq> v \<and> ValAddress_String S a \<noteq> ValAddress_String S v \<and>
      kv_get (p_ValidatorClaims p) (ValAddress_String S a) = Some d)" if "(d, as) \<in> set (p_ClaimValidators p)" for d as
  proof -
    have "valid_address a" if "a \<in> set as" for a
      using voters_valid [OF p, of a] that \<open>(d, as) \<in> _\<close> by (force simp: voters_def)
    then show ?thesis using that p fresh [OF that] ValAddress_String_inj [OF S _ v] by (fastforce simp: votes_ok_def)
  qed
  have kv: "kv_ok (p_ClaimValidators p)" using p by (simp add: votes_ok_def prophecy_ok_def)
  have cur: "distinct (map_at [] (p_ClaimValidators p) c) \<and> v \<notin> set (map_at [] (p_ClaimValidators p) c) \<and>
      (\<forall>a \<in> set (map_at [] (p_ClaimValidators p) c). ValAddress_String S a \<noteq> ValAddress_String S v \<and>
        kv_get (p_ValidatorClaims p) (ValAddress_String S a) = Some c)"
  proof (cases "kv_get (p_ClaimValidators p) c")
    case (Some as)
    then have "(c, as) \<in> set (p_ClaimValidators p)" using kv by (simp add: kv_get_iff)
    from old [OF this] Some show ?thesis by (auto simp: map_at_def)
  qed (simp add: map_at_def)
  have "d \<noteq> [] \<and> distinct as \<and> (\<forall>a \<in> set as. kv_get (p_ValidatorClaims (AddClaim S p v c)) (ValAddress_String S a) = Some d)"
    if "(d, as) \<in> set (p_ClaimValidators (AddClaim S p v c))" for d as
    using kv_set_mem [OF kv that [unfolded AddClaim_def Let_def, simplified]] old [of d as] cur c(2)
    by (auto simp: AddClaim_def)
  then show ?thesis using prophecy_ok_AddClaim [OF S _ v c(1)] p by (auto simp: votes_ok_def)
qed

section \<open>The highest claim\<close>

lemma count_fold:
  assumes "\<forall>e \<in> set es. 0 \<le> cpow S vs (snd e) \<and> cpow S vs (snd e) < 2 ^ 63" and "-1 \<le> h" "h < 2 ^ 63"
  shows "\<exists>h' c'. foldl (count_claim S vs) (t, word_of_int h, c) es =
      (t + word_of_int (sum_list (map (\<lambda>e. cpow S vs (snd e)) es)), word_of_int h', c') \<and>
      h' = Max (insert h ((\<lambda>e. cpow S vs (snd e)) ` set es)) \<and>
      (h' = h \<and> c' = c \<or> (\<exists>as. (c', as) \<in> set es \<and> cpow S vs as = h'))"
  using assms
proof (induction es arbitrary: t h c)
  case (Cons e es)
  let ?p = "cpow S vs (snd e)"
  have step: "count_claim S vs (t, word_of_int h, c) e =
      (t + word_of_int ?p, word_of_int (max h ?p), if h < ?p then fst e else c)"
    using Cons.prems by (simp add: count_claim_def claim_power_word sint_small max_def Let_def)
  have "-1 \<le> max h ?p" "max h ?p < 2 ^ 63" using Cons.prems by auto
  from Cons.IH [OF _ this, of "t + word_of_int ?p" "if h < ?p then fst e else c"] Cons.prems obtain h' c' where
    f: "foldl (count_claim S vs) (t, word_of_int h, c) (e # es) =
      (t + word_of_int ?p + word_of_int (sum_list (map (\<lambda>e. cpow S vs (snd e)) es)), word_of_int h', c')"
    and h': "h' = Max (insert (max h ?p) ((\<lambda>e. cpow S vs (snd e)) ` set es))"
    and c': "h' = max h ?p \<and> c' = (if h < ?p then fst e else c) \<or> (\<exists>as. (c', as) \<in> set es \<and> cpow S vs as = h')"
    by (auto simp: step)
  have "h' = Max (insert h ((\<lambda>e. cpow S vs (snd e)) ` set (e # es)))"
    unfolding h' by (cases "es = []") (simp_all add: Max_insert max.assoc)
  moreover have "h' = h \<and> c' = c \<or> (\<exists>as. (c', as) \<in> set (e # es) \<and> cpow S vs as = h')"
    using c' by (cases e) (auto simp: max_def split: if_splits)
  ultimately show ?case using f by (auto simp: algebra_simps)
qed simp

section \<open>The decision\<close>

definition claims_power :: "'b sdk \<Rightarrow> validator list \<Rightarrow> prophecy \<Rightarrow> int" where
  "claims_power S vs p = sum_list (map (\<lambda>e. cpow S vs (snd e)) (p_ClaimValidators p))"

definition highest_power :: "'b sdk \<Rightarrow> validator list \<Rightarrow> prophecy \<Rightarrow> int" where
  "highest_power S vs p = Max ((\<lambda>e. cpow S vs (snd e)) ` set (p_ClaimValidators p))"

definition has_highest :: "'b sdk \<Rightarrow> validator list \<Rightarrow> prophecy \<Rightarrow> string \<Rightarrow> bool" where
  "has_highest S vs p c \<longleftrightarrow> (\<exists>as. (c, as) \<in> set (p_ClaimValidators p) \<and> cpow S vs as = highest_power S vs p)"

text \<open>
  The rule a prophecy is decided by, on integers: seven tenths of the whitelist's power for one claim is
  success, no chance to get there is failure.
\<close>

definition decide :: "int \<Rightarrow> int \<Rightarrow> int \<Rightarrow> string \<Rightarrow> prophecy \<Rightarrow> prophecy" where
  "decide highest claims total' c p =
     (if 7 * total' \<le> 10 * highest then p\<lparr>p_Status := \<lparr>st_Text = STATUS_TEXT_SUCCESS, st_FinalClaim = c\<rparr>\<rparr>
      else if 10 * (highest + (total' - claims)) < 7 * total'
      then p\<lparr>p_Status := (p_Status p)\<lparr>st_Text := STATUS_TEXT_FAILED\<rparr>\<rparr>
      else p)"

lemma claims_power_voters: "claims_power S vs p = cpow S vs (voters p)"
proof -
  have "sum_list (map (\<lambda>e. cpow S vs (snd e)) m) = cpow S vs (concat (map snd m))" for m :: "(string \<times> address list) list"
    by (induction m) (simp_all add: cpow_def)
  then show ?thesis by (simp add: claims_power_def voters_def)
qed

lemma staking_okD:
  assumes "staking_ok S b"
  shows "distinct (map OperatorAddress (GetBondedValidatorsByPower S b))"
    and "\<forall>v \<in> set (GetBondedValidatorsByPower S b). 0 \<le> GetConsensusPower v"
    and "\<forall>v \<in> set (GetBondedValidatorsByPower S b). \<exists>a. GetOperator v = Inr a"
    and "bonded_power (GetBondedValidatorsByPower S b) < 2 ^ 63"
  using assms by (auto simp: staking_ok_def bonded_power_def)

lemma claim_bounds:
  assumes "addr_laws S" and "staking_ok S b" and "votes_ok S p"
  defines "vs \<equiv> GetBondedValidatorsByPower S b"
  shows "claims_power S vs p \<le> bonded_power vs"
    and "(c, as) \<in> set (p_ClaimValidators p) \<Longrightarrow> 0 \<le> cpow S vs as \<and> cpow S vs as \<le> claims_power S vs p"
proof -
  note st = staking_okD [OF assms(2), folded vs_def]
  have "inj_on (ValAddress_String S) (set (voters p))"
    using ValAddress_String_inj [OF assms(1)] voters_valid [OF assms(3)] by (intro inj_onI) blast
  from cpow_le [OF st(1,2) voters_distinct [OF assms(3)] this, of "\<lambda>_. True"]
  show "claims_power S vs p \<le> bonded_power vs" by (simp add: claims_power_voters bonded_power_def)
  have "\<forall>e \<in> set m. cpow S vs (snd e) \<le> sum_list (map (\<lambda>e. cpow S vs (snd e)) m)" for m :: "(string \<times> address list) list"
    using cpow_nonneg [OF st(2)] by (auto intro!: member_le_sum_list rev_image_eqI)
  then show "(c, as) \<in> set (p_ClaimValidators p) \<Longrightarrow> 0 \<le> cpow S vs as \<and> cpow S vs as \<le> claims_power S vs p"
    using cpow_nonneg [OF st(2)] unfolding claims_power_def by fastforce
qed

lemma highest_power_eq:
  assumes "addr_laws S" and "staking_ok S b" and "votes_ok S p" and "p_ClaimValidators p \<noteq> []"
  defines "vs \<equiv> GetBondedValidatorsByPower S b"
  shows "0 \<le> highest_power S vs p \<and> highest_power S vs p \<le> claims_power S vs p"
proof -
  have "highest_power S vs p \<in> (\<lambda>e. cpow S vs (snd e)) ` set (p_ClaimValidators p)"
    unfolding highest_power_def using assms(4) by (intro Max_in) auto
  then show ?thesis using claim_bounds(2) [OF assms(1-3)] unfolding vs_def by auto
qed

lemma FindHighestClaim_spec:
  assumes "addr_laws S" and "order_ok K" and "staking_ok S (sdk_state ctx)" and "votes_ok S p" and "p_ClaimValidators p \<noteq> []"
  defines "vs \<equiv> GetBondedValidatorsByPower S (sdk_state ctx)"
  shows "\<exists>c. has_highest S vs p c \<and> FindHighestClaim S K ctx p wl =
    Inr (c, word_of_int (highest_power S vs p), word_of_int (claims_power S vs p), word_of_int (wpow wl vs))"
proof -
  let ?m = "MapOrder K (p_ClaimValidators p)" and ?f = "\<lambda>e. cpow S vs (snd e)"
  have ms: "mset ?m = mset (p_ClaimValidators p)" using assms(2) by (simp add: order_ok_def)
  then have set: "set ?m = set (p_ClaimValidators p)" by (rule mset_eq_setD)
  from ms have "sum_mset (image_mset ?f (mset ?m)) = sum_mset (image_mset ?f (mset (p_ClaimValidators p)))" by simp
  then have sum: "sum_list (map ?f ?m) = claims_power S vs p"
    unfolding claims_power_def by (simp add: sum_mset_sum_list flip: mset_map)
  note st = staking_okD [OF assms(3), folded vs_def]
  note bounds = claim_bounds [OF assms(1,3,4), folded vs_def] highest_power_eq [OF assms(1,3,4,5), folded vs_def]
  have "\<forall>e \<in> set ?m. 0 \<le> ?f e \<and> ?f e < 2 ^ 63"
    unfolding set using bounds(1,2) st(4) by force
  from count_fold [OF this, of "-1" 0 "[]"] obtain h c where
    f: "foldl (count_claim S vs) (0, -1, []) ?m = (word_of_int (claims_power S vs p), word_of_int h, c)"
    and h: "h = Max (insert (-1) (?f ` set (p_ClaimValidators p)))"
    and c: "h = -1 \<or> (\<exists>as. (c, as) \<in> set (p_ClaimValidators p) \<and> cpow S vs as = h)"
    by (auto simp: sum set)
  have "h = max (-1) (highest_power S vs p)"
    unfolding h highest_power_def using assms(5) by (intro Max_insert) auto
  then have h': "h = highest_power S vs p" using bounds(3) by simp
  then have "has_highest S vs p c" using c bounds(3) by (auto simp: has_highest_def)
  then show ?thesis using whitelist_power_word [OF st(3), of wl 0] f
    by (simp add: FindHighestClaim_def Let_def h' flip: vs_def)
qed

lemma processCompletion_decides:
  assumes "addr_laws S" and "order_ok K" and "consensusNeeded K = DefaultConsensusNeeded"
    and "staking_ok S (sdk_state ctx)" and "votes_ok S p" and "p_ClaimValidators p \<noteq> []"
    and "GetOracleWhiteList S ctx = Inr wl"
  defines "vs \<equiv> GetBondedValidatorsByPower S (sdk_state ctx)"
  assumes "0 < wpow wl vs" and "bonded_power vs < 2 ^ 49"
  shows "\<exists>c. has_highest S vs p c \<and> processCompletion S K ctx p =
    Inr (decide (highest_power S vs p) (claims_power S vs p) (wpow wl vs) c p)"
proof -
  let ?h = "highest_power S vs p" and ?c = "claims_power S vs p" and ?t = "wpow wl vs"
  obtain c where c: "has_highest S vs p c" "FindHighestClaim S K ctx p wl = Inr (c, word_of_int ?h, word_of_int ?c, word_of_int ?t)"
    using FindHighestClaim_spec [OF assms(1,2,4,5,6), folded vs_def, of wl] by blast
  note b = claim_bounds(1) [OF assms(1,4,5), folded vs_def] highest_power_eq [OF assms(1,4,5,6), folded vs_def]
    wpow_le [OF staking_okD(2) [OF assms(4)], folded vs_def, of wl]
  have small: "?h < 2 ^ 49" "?c < 2 ^ 49" "?t < 2 ^ 49" "?h + (?t - ?c) < 2 ^ 49" using b assms(10) by linarith+
  have w: "sint (word_of_int ?h :: 64 word) = ?h" "sint (word_of_int ?t :: 64 word) = ?t"
    using b small assms(9) by (auto intro!: sint_small)
  have "word_of_int ?h + (word_of_int ?t - word_of_int ?c) = (word_of_int (?h + (?t - ?c)) :: 64 word)" by simp
  moreover have "sint (word_of_int (?h + (?t - ?c)) :: 64 word) = ?h + (?t - ?c)"
    using b small assms(9) by (intro sint_small) simp_all
  ultimately have r: "sint (word_of_int ?h + (word_of_int ?t - word_of_int ?c) :: 64 word) = ?h + (?t - ?c)" by simp
  have "?h < 2 ^ 53" "?h + (?t - ?c) < 2 ^ 53" using small(1,4) by simp_all
  note q = quorum_test [OF assms(9) small(3)] this
  have "processCompletion S K ctx p = Inr (decide ?h ?c ?t c p)"
    by (simp add: processCompletion_def assms(3,7) c(2) Let_def w r DefaultConsensusNeeded_def q(1,2) [OF q(3)]
        q(1,2) [OF q(4)] decide_def del: of_int_add of_int_diff)
  with c(1) show ?thesis by blast
qed

end
