(* ===== verification/Oracle_Props.thy ===== *)
theory Oracle_Props
  imports Oracle_Votes
begin

text \<open>
  What a vote does to the oracle's state: the stored prophecies stay well-formed, a decided prophecy
  is final, and the outcome does not depend on the order in which Go ranges over a map.
\<close>

section \<open>The state of the oracle\<close>

text \<open>Every prophecy in the store is the one its key names, and it reads as a prophecy with well-formed votes.\<close>

definition oracle_inv :: "'b sdk \<Rightarrow> 'b ctx \<Rightarrow> bool" where
  "oracle_inv S ctx \<longleftrightarrow>
     (\<forall>i v. kv_get (oracle_kv ctx) (prophecy_key i) = Some v \<longrightarrow>
        (\<exists>db p. v = ProphecyV db \<and> DeserializeFromDB S db = Inr p \<and> p_ID p = i \<and> votes_ok S p))"

definition finalised :: "'b sdk \<Rightarrow> 'b ctx \<Rightarrow> string \<Rightarrow> prophecy \<Rightarrow> bool" where
  "finalised S ctx i p \<longleftrightarrow> GetProphecy S ctx i = Inr (Some p) \<and> st_Text (p_Status p) \<noteq> STATUS_TEXT_PENDING"

lemma oracle_inv_Get:
  assumes "oracle_inv S ctx"
  shows "GetProphecy S ctx i = Inr None \<and> kv_get (oracle_kv ctx) (prophecy_key i) = None \<or>
    (\<exists>p. GetProphecy S ctx i = Inr (Some p) \<and> p_ID p = i \<and> votes_ok S p)"
proof (cases "kv_get (oracle_kv ctx) (prophecy_key i)")
  case None
  then show ?thesis by (simp add: GetProphecy_def)
next
  case (Some v)
  then obtain db p where "v = ProphecyV db" "DeserializeFromDB S db = Inr p" "p_ID p = i" "votes_ok S p"
    using assms unfolding oracle_inv_def by blast
  then show ?thesis using Some by (simp add: GetProphecy_def)
qed

lemma oracle_inv_kv: "oracle_kv ctx' = oracle_kv ctx \<Longrightarrow> oracle_inv S ctx' = oracle_inv S ctx"
  by (simp add: oracle_inv_def)

lemma GetProphecy_kv: "oracle_kv ctx' = oracle_kv ctx \<Longrightarrow> GetProphecy S ctx' = GetProphecy S ctx"
  by (rule ext) (simp add: GetProphecy_def)

lemma finalised_kv: "oracle_kv ctx' = oracle_kv ctx \<Longrightarrow> finalised S ctx' = finalised S ctx"
  by (drule GetProphecy_kv [of _ _ S]) (simp add: finalised_def fun_eq_iff)

text \<open>Writing the admin account or the whitelist leaves the prophecies alone.\<close>

lemma whitelist_keeps:
  "oracle_inv S (SetOracleWhiteList S ctx wl) = oracle_inv S ctx"
  "GetProphecy S (SetOracleWhiteList S ctx wl) i = GetProphecy S ctx i"
  by (simp_all add: oracle_inv_def SetOracleWhiteList_def GetProphecy_def)

lemma ProcessUpdateWhiteListValidator_keeps:
  assumes "oracle_ProcessUpdateWhiteListValidator S ctx s v t = Inr ctx'"
  shows "\<exists>wl. ctx' = SetOracleWhiteList S ctx wl"
  using assms
  by (auto simp: oracle_ProcessUpdateWhiteListValidator_def AddOracleWhiteList_def RemoveOracleWhiteList_def
      split: if_splits)

section \<open>A vote\<close>

lemma processCompletion_status: "processCompletion S K ctx p = Inr p' \<Longrightarrow> \<exists>s. p' = p\<lparr>p_Status := s\<rparr>"
proof -
  assume "processCompletion S K ctx p = Inr p'"
  moreover have "\<exists>s. p = p\<lparr>p_Status := s\<rparr>" by (rule exI [of _ "p_Status p"]) simp
  ultimately show "\<exists>s. p' = p\<lparr>p_Status := s\<rparr>"
    unfolding processCompletion_def Let_def by (auto split: if_splits)
qed

lemma GetOracleWhiteList_valid:
  "addr_laws S \<Longrightarrow> GetOracleWhiteList S ctx = Inr wl \<Longrightarrow> a \<in> set wl \<Longrightarrow> valid_address a"
proof -
  have "map_r (\<lambda>entry. must_r (ValAddressFromBech32 S entry)) vs = Inr wl \<Longrightarrow> addr_laws S \<Longrightarrow> a \<in> set wl \<Longrightarrow> valid_address a"
    for vs wl a
    by (induction vs arbitrary: wl) (auto simp: addr_laws_def)
  then show "addr_laws S \<Longrightarrow> GetOracleWhiteList S ctx = Inr wl \<Longrightarrow> a \<in> set wl \<Longrightarrow> valid_address a"
    by (auto simp: GetOracleWhiteList_def split: option.splits oracle_value.splits)
qed

text \<open>The voter is on the whitelist, under the printed form of its address.\<close>

lemma voter_listed:
  assumes "addr_laws S" and "EnsureAddressIsInWhitelist S ctx s = Inr ()" and "ValAddressFromBech32 S s = Inr a"
  shows "\<exists>wl. GetOracleWhiteList S ctx = Inr wl \<and> a \<in> set wl \<and> valid_address a \<and> ValAddress_String S a = s"
proof -
  obtain wl b where wl: "GetOracleWhiteList S ctx = Inr wl" "b \<in> set wl" "ValAddress_String S b = s"
    using assms(2) by (auto simp: EnsureAddressIsInWhitelist_def list_ex_iff split: if_splits)
  have b: "valid_address b" using GetOracleWhiteList_valid assms(1) wl by blast
  then have "ValAddressFromBech32 S s = Inr b" using assms(1) wl(3) by (auto simp: addr_laws_def)
  with assms(3) wl b show ?thesis by auto
qed

lemma ProcessClaim_effect:
  assumes "addr_laws S" and "json_map_laws S" and "oracle_inv S ctx" and "ValidString (oc_Content claim)"
    and step: "oracle_ProcessClaim S K ctx claim = Inr (ctx', st)"
  shows "\<exists>p a s. (GetProphecy S ctx (oc_Id claim) = Inr (Some p) \<or>
        GetProphecy S ctx (oc_Id claim) = Inr None \<and> p = NewProphecy (oc_Id claim)) \<and>
      st_Text (p_Status p) = STATUS_TEXT_PENDING \<and>
      processCompletion S K ctx (AddClaim S p a (oc_Content claim)) = Inr ((AddClaim S p a (oc_Content claim))\<lparr>p_Status := st\<rparr>) \<and>
      votes_ok S (AddClaim S p a (oc_Content claim)) \<and>
      DeserializeFromDB S s = Inr ((AddClaim S p a (oc_Content claim))\<lparr>p_Status := st\<rparr>) \<and>
      ctx' = ctx\<lparr>oracle_kv := kv_set (oracle_kv ctx) (prophecy_key (oc_Id claim)) (ProphecyV s)\<rparr>"
proof -
  from step obtain a found p q where
    en: "EnsureAddressIsInWhitelist S ctx (oc_ValidatorAddress claim) = Inr ()"
    and a: "ValAddressFromBech32 S (oc_ValidatorAddress claim) = Inr a"
    and c: "oc_Content claim \<noteq> []" and found: "GetProphecy S ctx (oc_Id claim) = Inr found"
    and p: "p = (case found of None \<Rightarrow> NewProphecy (oc_Id claim) | Some p \<Rightarrow> p)"
    and pend: "st_Text (p_Status p) = STATUS_TEXT_PENDING"
    and new: "map_at [] (p_ValidatorClaims p) (oc_ValidatorAddress claim) = []"
    and q: "processCompletion S K ctx (AddClaim S p a (oc_Content claim)) = Inr q"
    and set: "SetProphecy S ctx q = Inr ctx'" and st: "p_Status q = st"
    unfolding oracle_ProcessClaim_def Let_def by (auto split: if_splits)
  have va: "valid_address a" "ValAddress_String S a = oc_ValidatorAddress claim" using voter_listed [OF assms(1) en a] by blast+
  have "votes_ok S p" "p_ID p = oc_Id claim"
    using oracle_inv_Get [OF assms(3), of "oc_Id claim"] found p by auto
  then have ok: "votes_ok S (AddClaim S p a (oc_Content claim))"
    using votes_ok_AddClaim [OF assms(1) _ va(1) assms(4) c] new va(2) by simp
  obtain s where s: "q = (AddClaim S p a (oc_Content claim))\<lparr>p_Status := s\<rparr>" using processCompletion_status [OF q] by blast
  then have "s = st" using st by simp
  have qok: "prophecy_ok q" and qid: "p_ID q = oc_Id claim"
    using ok \<open>p_ID p = _\<close> by (auto simp: s votes_ok_def AddClaim_def Let_def)
  obtain db where "SerializeForDB S q = Inr db" "DeserializeFromDB S db = Inr q" "db_Id db = oc_Id claim"
    using DeserializeFromDB_SerializeForDB [OF assms(2) qok] qid by auto
  then show ?thesis using found p pend q set ok s \<open>s = st\<close>
    by (intro exI [of _ p] exI [of _ a] exI [of _ db]) (auto simp: SetProphecy_def SetDBProphecy_def split: option.splits)
qed

lemma ProcessClaim_inv:
  assumes "addr_laws S" and "json_map_laws S" and "oracle_inv S ctx" and "ValidString (oc_Content claim)"
    and "oracle_ProcessClaim S K ctx claim = Inr (ctx', st)"
  shows "oracle_inv S ctx'"
proof -
  from ProcessClaim_effect [OF assms] obtain p a s where
    p: "GetProphecy S ctx (oc_Id claim) = Inr (Some p) \<or> GetProphecy S ctx (oc_Id claim) = Inr None \<and> p = NewProphecy (oc_Id claim)"
    and ok: "votes_ok S (AddClaim S p a (oc_Content claim))"
    and s: "DeserializeFromDB S s = Inr ((AddClaim S p a (oc_Content claim))\<lparr>p_Status := st\<rparr>)"
    and ctx': "ctx' = ctx\<lparr>oracle_kv := kv_set (oracle_kv ctx) (prophecy_key (oc_Id claim)) (ProphecyV s)\<rparr>" by blast
  have "p_ID p = oc_Id claim" using p oracle_inv_Get [OF assms(3), of "oc_Id claim"] by auto
  then show ?thesis using s ok assms(3) by (auto simp: oracle_inv_def ctx' AddClaim_def Let_def)
qed

lemma ProcessClaim_finalised:
  assumes "finalised S ctx i p" and "oc_Id claim = i"
  shows "oracle_ProcessClaim S K ctx claim \<noteq> Inr r"
  using assms unfolding oracle_ProcessClaim_def finalised_def Let_def by (auto split: if_splits)

lemma ProcessClaim_keeps_final:
  assumes "addr_laws S" and "json_map_laws S" and "oracle_inv S ctx" and "ValidString (oc_Content claim)"
    and "oracle_ProcessClaim S K ctx claim = Inr (ctx', st)" and "finalised S ctx i p"
  shows "finalised S ctx' i p"
proof -
  have "oc_Id claim \<noteq> i" using ProcessClaim_finalised [OF assms(6), of claim] assms(5) by blast
  moreover obtain s where "ctx' = ctx\<lparr>oracle_kv := kv_set (oracle_kv ctx) (prophecy_key (oc_Id claim)) (ProphecyV s)\<rparr>"
    using ProcessClaim_effect [OF assms(1-5)] by blast
  ultimately show ?thesis using assms(6) by (auto simp: finalised_def GetProphecy_def)
qed

section \<open>The order of the votes\<close>

lemma claims_power_listed:
  assumes "addr_laws S" and "staking_ok S b" and "votes_ok S p" and "set (voters p) \<subseteq> set wl"
  defines "vs \<equiv> GetBondedValidatorsByPower S b"
  shows "claims_power S vs p \<le> wpow wl vs"
proof -
  note st = staking_okD [OF assms(2), folded vs_def]
  note inj = ValAddress_String_inj [OF assms(1)]
  have "inj_on (ValAddress_String S) (set (voters p))"
    using inj voters_valid [OF assms(3)] by (intro inj_onI) blast
  moreover have "listed wl v" if v: "v \<in> set vs" "OperatorAddress v \<in> ValAddress_String S ` set (voters p)" for v
  proof -
    obtain a where a: "valid_address a" "GetOperator v = Inr a" "OperatorAddress v = ValAddress_String S a"
      using v(1) assms(2) by (auto simp: staking_ok_def vs_def)
    obtain b where b: "b \<in> set (voters p)" "OperatorAddress v = ValAddress_String S b" using v(2) by blast
    have "a = b" using inj [OF a(1) voters_valid [OF assms(3) b(1)]] a(3) b(2) by simp
    then show ?thesis using a(2) b(1) assms(4) by (auto simp: listed_def)
  qed
  ultimately have "cpow S vs (voters p) \<le> sum_list (map GetConsensusPower (filter (listed wl) vs))"
    using st(1,2) voters_distinct [OF assms(3)] by (intro cpow_le) auto
  then show ?thesis by (simp add: claims_power_voters wpow_def)
qed

lemma sum_list_two:
  assumes "\<forall>x \<in> set xs. 0 \<le> (f x :: int)" and "x \<in> set xs" and "y \<in> set xs" and "x \<noteq> y"
  shows "f x + f y \<le> sum_list (map f xs)"
proof -
  have "sum f {x, y} \<le> sum f (set xs)" using assms by (intro sum_mono2) auto
  also have "\<dots> \<le> sum_list (map f xs)"
    using assms(1)
  proof (induction xs)
    case (Cons z zs)
    then show ?case by (cases "z \<in> set zs") (auto simp: insert_absorb)
  qed simp
  finally show ?thesis using assms(4) by simp
qed

lemma success_unique:
  assumes "addr_laws S" and "staking_ok S b" and "votes_ok S p" and "set (voters p) \<subseteq> set wl"
  defines "vs \<equiv> GetBondedValidatorsByPower S b"
  assumes "0 < wpow wl vs" and "7 * wpow wl vs \<le> 10 * highest_power S vs p"
    and "has_highest S vs p c" and "has_highest S vs p d"
  shows "c = d"
proof (rule ccontr)
  assume "c \<noteq> d"
  obtain as bs where e: "(c, as) \<in> set (p_ClaimValidators p)" "cpow S vs as = highest_power S vs p"
    "(d, bs) \<in> set (p_ClaimValidators p)" "cpow S vs bs = highest_power S vs p"
    using assms(8,9) unfolding has_highest_def by blast
  have "\<forall>e \<in> set (p_ClaimValidators p). 0 \<le> cpow S vs (snd e)"
    using cpow_nonneg [OF staking_okD(2) [OF assms(2)]] by (auto simp: vs_def)
  from sum_list_two [OF this e(1,3)] \<open>c \<noteq> d\<close> have "2 * highest_power S vs p \<le> claims_power S vs p"
    by (simp add: claims_power_def e(2,4))
  also have "\<dots> \<le> wpow wl vs" unfolding vs_def by (rule claims_power_listed [OF assms(1-4)])
  finally show False using assms(6,7) by linarith
qed

lemma completion_order:
  assumes "addr_laws S" and "order_ok K" "order_ok K'"
    and "consensusNeeded K = DefaultConsensusNeeded" "consensusNeeded K' = DefaultConsensusNeeded"
    and "staking_ok S (sdk_state ctx)" and "votes_ok S p" and "p_ClaimValidators p \<noteq> []"
    and "GetOracleWhiteList S ctx = Inr wl" and "set (voters p) \<subseteq> set wl"
  defines "vs \<equiv> GetBondedValidatorsByPower S (sdk_state ctx)"
  assumes "0 < wpow wl vs" and "bonded_power vs < 2 ^ 49"
  shows "processCompletion S K ctx p = processCompletion S K' ctx p"
proof -
  obtain c where c: "has_highest S vs p c"
    "processCompletion S K ctx p = Inr (decide (highest_power S vs p) (claims_power S vs p) (wpow wl vs) c p)"
    using processCompletion_decides [OF assms(1,2,4,6-9)] assms(12,13) unfolding vs_def by blast
  obtain d where d: "has_highest S vs p d"
    "processCompletion S K' ctx p = Inr (decide (highest_power S vs p) (claims_power S vs p) (wpow wl vs) d p)"
    using processCompletion_decides [OF assms(1,3,5,6-9)] assms(12,13) unfolding vs_def by blast
  show ?thesis
  proof (cases "7 * wpow wl vs \<le> 10 * highest_power S vs p")
    case True
    then have "c = d" using success_unique [OF assms(1,6,7,10)] assms(12) c(1) d(1) unfolding vs_def by blast
    then show ?thesis using c(2) d(2) by simp
  next
    case False
    then show ?thesis using c(2) d(2) by (simp add: decide_def)
  qed
qed

lemma kv_set_not_Nil [simp]: "kv_set s k v \<noteq> []"
  by (metis kv_get_set kv_get_Nil option.distinct(1))

lemma voters_AddClaim: "votes_ok S p \<Longrightarrow> set (voters (AddClaim S p a c)) \<subseteq> insert a (set (voters p))"
proof
  fix x assume ok: "votes_ok S p" and "x \<in> set (voters (AddClaim S p a c))"
  then obtain e where e: "e \<in> set (p_ClaimValidators (AddClaim S p a c))" "x \<in> set (snd e)" by (auto simp: voters_def)
  have kv: "kv_ok (p_ClaimValidators p)" using ok by (simp add: votes_ok_def prophecy_ok_def)
  consider "e = (c, map_at [] (p_ClaimValidators p) c @ [a])" | "e \<in> set (p_ClaimValidators p)"
    using kv_set_mem [OF kv] e(1) by (fastforce simp: AddClaim_def Let_def)
  then show "x \<in> insert a (set (voters p))"
  proof cases
    case 1
    then have "x = a \<or> x \<in> set (map_at [] (p_ClaimValidators p) c)" using e(2) by auto
    then show ?thesis
    proof (cases "kv_get (p_ClaimValidators p) c")
      case (Some as)
      then have "(c, as) \<in> set (p_ClaimValidators p)" using kv by (simp add: kv_get_iff)
      then show ?thesis using \<open>x = a \<or> _\<close> Some by (force simp: map_at_def voters_def)
    qed (simp add: map_at_def)
  qed (use e(2) in \<open>auto simp: voters_def\<close>)
qed

section \<open>An example\<close>

text \<open>Three validators of power 50, 30 and 20 on the whitelist; the second has voted for \<open>b\<close> on the prophecy \<open>p1\<close>.\<close>

definition ex_validator :: "address \<Rightarrow> int \<Rightarrow> validator" where
  "ex_validator a n = \<lparr>OperatorAddress = ref_String a, GetOperator = Inr a, IsBonded = True, GetConsensusPower = n\<rparr>"

definition ex_vals :: "validator list" where
  "ex_vals = [ex_validator ''v1'' 50, ex_validator ''v2'' 30, ex_validator ''v3'' 20]"

definition ex_db :: "prophecy \<Rightarrow> db_prophecy" where
  "ex_db p = \<lparr>db_Id = p_ID p, db_Status = p_Status p, db_ClaimValidators = ref_print_map ref_print_list (p_ClaimValidators p),
     db_ValidatorClaims = ref_print_map hex_encode (p_ValidatorClaims p)\<rparr>"

definition ex_prophecy :: prophecy where
  "ex_prophecy = AddClaim ref_sdk (NewProphecy ''p1'') ''v2'' ''b''"

definition ex_votes :: "ref_state ctx" where
  "ex_votes = ref_ctx\<lparr>sdk_state := (sdk_state ref_ctx)\<lparr>ref_validators := ex_vals\<rparr>,
     oracle_kv := [(oracle_WhiteListValidatorPrefix, OWhiteListV (map ref_String [''v1'', ''v2'', ''v3''])),
       (prophecy_key ''p1'', ProphecyV (ex_db ex_prophecy))]\<rparr>"

definition ex_keeper :: "bool \<Rightarrow> oracle_env" where
  "ex_keeper r = \<lparr>consensusNeeded = DefaultConsensusNeeded, MapOrder = (if r then rev else (\<lambda>m. m))\<rparr>"

lemma ex_keeper_ok [simp]: "order_ok (ex_keeper r)" "consensusNeeded (ex_keeper r) = DefaultConsensusNeeded"
  by (simp_all add: order_ok_def ex_keeper_def)

lemma ex_db_reads [simp]: "DeserializeFromDB ref_sdk (ex_db p) = Inr p"
proof -
  have "ref_read_map ref_read_list (ref_print_map ref_print_list m) = m" for m
    using ref_print_list_chars by (intro ref_read_print_map) auto
  moreover have "ref_read_map hex_decode (ref_print_map hex_encode m) = m" for m
    using hex_encode_chars by (intro ref_read_print_map) auto
  ultimately show ?thesis by (simp add: DeserializeFromDB_def ex_db_def)
qed

lemma ex_String_inj: "valid_address a \<Longrightarrow> valid_address b \<Longrightarrow> ref_String a = ref_String b \<longleftrightarrow> a = b"
  using ValAddress_String_inj [OF ref_addr_laws, of a b] by auto

lemma ex_vals_bonded [simp]: "GetBondedValidatorsByPower ref_sdk (sdk_state ex_votes) = ex_vals"
  by (simp add: ex_votes_def ex_vals_def ex_validator_def)

lemma ex_vals_filter [simp]: "filter IsBonded (ref_validators (sdk_state ex_votes)) = ex_vals"
  using ex_vals_bonded by simp

lemma ex_staking: "staking_ok ref_sdk (sdk_state ex_votes)"
  by (auto simp: staking_ok_def ex_votes_def ex_vals_def ex_validator_def ex_String_inj valid_address_def split: if_splits)

lemma ex_powers [simp]: "wpow [''v1'', ''v2'', ''v3''] ex_vals = 100" "bonded_power ex_vals = 100"
  by (simp_all add: wpow_def bonded_power_def listed_def ex_vals_def ex_validator_def)

lemma ex_whitelist [simp]: "GetOracleWhiteList ref_sdk ex_votes = Inr [''v1'', ''v2'', ''v3'']"
  by (simp add: GetOracleWhiteList_def ex_votes_def kv_get_def ref_FromBech32_String)

lemma ex_ValidString: "ValidString ''a''" "ValidString ''b''"
  by (rule ValidString_ascii; simp)+

lemma ex_votes_ok: "votes_ok ref_sdk ex_prophecy"
  unfolding ex_prophecy_def
  by (rule votes_ok_AddClaim [OF ref_addr_laws votes_ok_New]) (simp_all add: valid_address_def ex_ValidString map_at_def NewProphecy_def)

lemma ex_oracle_inv: "oracle_inv ref_sdk ex_votes"
proof -
  have "i = ''p1'' \<and> v = ProphecyV (ex_db ex_prophecy)" if "kv_get (oracle_kv ex_votes) (prophecy_key i) = Some v" for i v
    using that by (auto simp: ex_votes_def kv_get_def split: if_splits)
  then show ?thesis using ex_votes_ok by (fastforce simp: oracle_inv_def ex_prophecy_def AddClaim_def)
qed

text \<open>
  C6: With the default share of 0.7, \<open>processCompletion\<close> decides a prophecy by exact integer arithmetic:
  success is seven tenths of the power of the whitelisted validators for one claim, which is a claim of
  highest power, and failure is that the power which has not voted cannot lift the highest claim to it.
  Neither the rounding of the two \<^verbatim>\<open>float64\<close> quotients nor the wrap-around of \<^verbatim>\<open>int64\<close> ever changes the
  outcome while the bonded power stays below $2^{49}$.
\<close>

theorem completion_exact:
  assumes "addr_laws S" and "order_ok K" and "consensusNeeded K = DefaultConsensusNeeded"
    and "staking_ok S (sdk_state ctx)" and "votes_ok S p" and "p_ClaimValidators p \<noteq> []"
    and "GetOracleWhiteList S ctx = Inr wl"
    and "0 < wpow wl (GetBondedValidatorsByPower S (sdk_state ctx))"
    and "bonded_power (GetBondedValidatorsByPower S (sdk_state ctx)) < 2 ^ 49"
  shows "\<exists>c. has_highest S (GetBondedValidatorsByPower S (sdk_state ctx)) p c \<and> processCompletion S K ctx p =
    Inr (decide (highest_power S (GetBondedValidatorsByPower S (sdk_state ctx)) p)
      (claims_power S (GetBondedValidatorsByPower S (sdk_state ctx)) p)
      (wpow wl (GetBondedValidatorsByPower S (sdk_state ctx))) c p)"
  using assms by (rule processCompletion_decides)

theorem completion_exact_witness:
  "processCompletion ref_sdk (ex_keeper True) ex_votes (AddClaim ref_sdk ex_prophecy ''v1'' ''b'') =
     Inr ((AddClaim ref_sdk ex_prophecy ''v1'' ''b'')\<lparr>p_Status := \<lparr>st_Text = STATUS_TEXT_SUCCESS, st_FinalClaim = ''b''\<rparr>\<rparr>)"
proof -
  let ?p = "AddClaim ref_sdk ex_prophecy ''v1'' ''b''"
  have ok: "votes_ok ref_sdk ?p"
    by (rule votes_ok_AddClaim [OF ref_addr_laws ex_votes_ok])
      (simp_all add: valid_address_def ex_ValidString map_at_def ex_prophecy_def NewProphecy_def AddClaim_def ex_String_inj kv_get_def)
  have cv: "p_ClaimValidators ?p = [(''b'', [''v2'', ''v1''])]"
    by (simp add: AddClaim_def ex_prophecy_def NewProphecy_def map_at_def kv_get_def)
  have pow: "cpow ref_sdk ex_vals [''v2'', ''v1''] = 80"
    by (simp add: cpow_def vpow_def validatorsByAddress_def ex_vals_def ex_validator_def ex_String_inj valid_address_def)
  obtain c where "has_highest ref_sdk ex_vals ?p c" "processCompletion ref_sdk (ex_keeper True) ex_votes ?p =
      Inr (decide (highest_power ref_sdk ex_vals ?p) (claims_power ref_sdk ex_vals ?p) 100 c ?p)"
    using completion_exact [OF ref_addr_laws _ _ ex_staking ok _ ex_whitelist, of "ex_keeper True"] by (auto simp: cv)
  then show ?thesis by (simp add: has_highest_def highest_power_def claims_power_def cv pow decide_def)
qed

text \<open>
  C10: The effect of a vote does not depend on the order in which Go ranges over the map of claims, which
  differs from node to node, as long as the validators that have voted are still on the whitelist.
\<close>

theorem vote_order_independent:
  assumes "addr_laws S" and "order_ok K" and "order_ok K'"
    and "consensusNeeded K = DefaultConsensusNeeded" and "consensusNeeded K' = DefaultConsensusNeeded"
    and "staking_ok S (sdk_state ctx)" and "oracle_inv S ctx" and "ValidString (oc_Content claim)"
    and "GetOracleWhiteList S ctx = Inr wl"
    and "\<forall>p. GetProphecy S ctx (oc_Id claim) = Inr (Some p) \<longrightarrow> set (voters p) \<subseteq> set wl"
    and "0 < wpow wl (GetBondedValidatorsByPower S (sdk_state ctx))"
    and "bonded_power (GetBondedValidatorsByPower S (sdk_state ctx)) < 2 ^ 49"
  shows "oracle_ProcessClaim S K ctx claim = oracle_ProcessClaim S K' ctx claim"
proof -
  have "processCompletion S K ctx (AddClaim S p a (oc_Content claim)) =
      processCompletion S K' ctx (AddClaim S p a (oc_Content claim))"
    if en: "EnsureAddressIsInWhitelist S ctx (oc_ValidatorAddress claim) = Inr ()"
      and a: "ValAddressFromBech32 S (oc_ValidatorAddress claim) = Inr a" and c: "oc_Content claim \<noteq> []"
      and found: "GetProphecy S ctx (oc_Id claim) = Inr found"
      and p: "p = (case found of None \<Rightarrow> NewProphecy (oc_Id claim) | Some p \<Rightarrow> p)"
      and new: "map_at [] (p_ValidatorClaims p) (oc_ValidatorAddress claim) = []" for a found p
  proof -
    have va: "valid_address a" "ValAddress_String S a = oc_ValidatorAddress claim" "a \<in> set wl"
      using voter_listed [OF assms(1) en a] assms(9) by auto
    have ok: "votes_ok S p" using oracle_inv_Get [OF assms(7), of "oc_Id claim"] found p by auto
    have "set (voters p) \<subseteq> set wl"
      using assms(10) found p by (cases found) (auto simp: voters_def NewProphecy_def)
    then have "set (voters (AddClaim S p a (oc_Content claim))) \<subseteq> set wl" using voters_AddClaim [OF ok] va(3) by blast
    moreover have "votes_ok S (AddClaim S p a (oc_Content claim))"
      using votes_ok_AddClaim [OF assms(1) ok va(1) assms(8) c] new va(2) by simp
    moreover have "p_ClaimValidators (AddClaim S p a (oc_Content claim)) \<noteq> []"
      by (simp add: AddClaim_def Let_def)
    ultimately show ?thesis using completion_order assms by blast
  qed
  then show ?thesis
    unfolding oracle_ProcessClaim_def Let_def by (intro bind_r_cong if_cong refl) auto
qed

theorem vote_order_independent_witness:
  "oracle_ProcessClaim ref_sdk (ex_keeper False) ex_votes \<lparr>oc_Id = ''p1'', oc_ValidatorAddress = ref_String ''v1'', oc_Content = ''a''\<rparr> =
   oracle_ProcessClaim ref_sdk (ex_keeper True) ex_votes \<lparr>oc_Id = ''p1'', oc_ValidatorAddress = ref_String ''v1'', oc_Content = ''a''\<rparr>"
proof -
  have "set (voters ex_prophecy) \<subseteq> set [''v1'', ''v2'', ''v3'']"
    by (simp add: ex_prophecy_def voters_def AddClaim_def NewProphecy_def map_at_def)
  moreover have "GetProphecy ref_sdk ex_votes ''p1'' = Inr (Some ex_prophecy)"
    by (simp add: GetProphecy_def ex_votes_def kv_get_def)
  ultimately show ?thesis
    by (intro vote_order_independent [OF ref_addr_laws _ _ _ _ ex_staking ex_oracle_inv _ ex_whitelist]) (simp_all add: ex_ValidString)
qed

section \<open>Votes of validators taken off the whitelist\<close>

text \<open>
  Four validators of power 30, 30, 20 and 100. The first has voted for \<open>a\<close>, the second for \<open>b\<close>; then all but the
  third are taken off the whitelist, and the third votes for \<open>c\<close>.
\<close>

definition ex_split_prophecy :: prophecy where
  "ex_split_prophecy = AddClaim ref_sdk (AddClaim ref_sdk (NewProphecy ''p1'') ''v1'' ''a'') ''v2'' ''b''"

definition ex_split_vals :: "validator list" where
  "ex_split_vals = [ex_validator ''v4'' 100, ex_validator ''v1'' 30, ex_validator ''v2'' 30, ex_validator ''v3'' 20]"

definition ex_split :: "ref_state ctx" where
  "ex_split = ref_ctx\<lparr>sdk_state := (sdk_state ref_ctx)\<lparr>ref_validators := ex_split_vals\<rparr>,
     oracle_kv := [(oracle_WhiteListValidatorPrefix, OWhiteListV [ref_String ''v3'']),
       (prophecy_key ''p1'', ProphecyV (ex_db ex_split_prophecy))]\<rparr>"

lemma ex_split_reads:
  "GetOracleWhiteList ref_sdk ex_split = Inr [''v3'']" "GetProphecy ref_sdk ex_split ''p1'' = Inr (Some ex_split_prophecy)"
  "GetBondedValidatorsByPower ref_sdk (sdk_state ex_split) = ex_split_vals" "ref_validators (sdk_state ex_split) = ex_split_vals"
  by (simp_all add: GetOracleWhiteList_def GetProphecy_def ex_split_def kv_get_def ref_FromBech32_String ex_split_vals_def ex_validator_def)

lemma ex_split_claims:
  "p_ClaimValidators (AddClaim ref_sdk ex_split_prophecy ''v3'' ''c'') = [(''a'', [''v1'']), (''b'', [''v2'']), (''c'', [''v3''])]"
  by (simp add: AddClaim_def ex_split_prophecy_def NewProphecy_def map_at_def kv_get_def less_char_def)

lemma ex_split_powers:
  "claim_power ref_sdk ex_split_vals [''v1''] = 30" "claim_power ref_sdk ex_split_vals [''v2''] = 30"
  "claim_power ref_sdk ex_split_vals [''v3''] = 20" "whitelist_power [''v3''] 0 ex_split_vals = Inr 20"
  by (simp_all add: claim_power_def validatorsByAddress_def ex_split_vals_def ex_validator_def power_def ex_String_inj valid_address_def)

lemma ex_split_decides:
  "processCompletion ref_sdk (ex_keeper r) ex_split (AddClaim ref_sdk ex_split_prophecy ''v3'' ''c'') =
     Inr ((AddClaim ref_sdk ex_split_prophecy ''v3'' ''c'')
       \<lparr>p_Status := \<lparr>st_Text = STATUS_TEXT_SUCCESS, st_FinalClaim = (if r then ''b'' else ''a'')\<rparr>\<rparr>)"
proof -
  have "FindHighestClaim ref_sdk (ex_keeper r) ex_split (AddClaim ref_sdk ex_split_prophecy ''v3'' ''c'') [''v3''] =
      Inr (if r then ''b'' else ''a'', 30, 80, 20)"
    by (cases r) (simp_all add: FindHighestClaim_def ex_split_reads ex_split_claims ex_split_powers ex_keeper_def count_claim_def
        del: ref_sdk_sel)
  moreover have "fle (consensusNeeded (ex_keeper r)) (fdiv (float_of_int 30) (float_of_int 20))"
    using quorum_test(1) [of 20 30] by (simp add: DefaultConsensusNeeded_def)
  ultimately show ?thesis by (simp add: processCompletion_def ex_split_reads(1) Let_def)
qed

text \<open>
  C38: Votes of validators that were taken off the whitelist still count for their claims, while their power no longer
  counts for the total. Two such claims of the same power can both pass the threshold; which one is then
  paid depends on the order in which the node ranges over a map, so that two nodes come to different results.
\<close>

theorem delisted_votes_split:
  "\<exists>ctx1 ctx2. oracle_ProcessClaim ref_sdk (ex_keeper False) ex_split
       \<lparr>oc_Id = ''p1'', oc_ValidatorAddress = ref_String ''v3'', oc_Content = ''c''\<rparr> =
     Inr (ctx1, \<lparr>st_Text = STATUS_TEXT_SUCCESS, st_FinalClaim = ''a''\<rparr>) \<and>
   oracle_ProcessClaim ref_sdk (ex_keeper True) ex_split
       \<lparr>oc_Id = ''p1'', oc_ValidatorAddress = ref_String ''v3'', oc_Content = ''c''\<rparr> =
     Inr (ctx2, \<lparr>st_Text = STATUS_TEXT_SUCCESS, st_FinalClaim = ''b''\<rparr>)"
proof -
  have "\<exists>ctx'. oracle_ProcessClaim ref_sdk (ex_keeper r) ex_split
       \<lparr>oc_Id = ''p1'', oc_ValidatorAddress = ref_String ''v3'', oc_Content = ''c''\<rparr> =
     Inr (ctx', \<lparr>st_Text = STATUS_TEXT_SUCCESS, st_FinalClaim = (if r then ''b'' else ''a'')\<rparr>)" for r
  proof -
    have "EnsureAddressIsInWhitelist ref_sdk ex_split (ref_String ''v3'') = Inr ()"
      by (simp add: EnsureAddressIsInWhitelist_def ex_split_reads)
    moreover have "checkActiveValidator ref_sdk ex_split ''v3''"
      by (simp add: checkActiveValidator_def ex_split_reads ex_split_vals_def ex_validator_def)
    moreover have "st_Text (p_Status ex_split_prophecy) = STATUS_TEXT_PENDING"
      "map_at [] (p_ValidatorClaims ex_split_prophecy) (ref_String ''v3'') = []"
      by (simp_all add: ex_split_prophecy_def NewProphecy_def NewStatus_def AddClaim_def map_at_def ex_String_inj valid_address_def kv_get_def)
    ultimately show ?thesis
      by (simp add: oracle_ProcessClaim_def ref_FromBech32_String ex_split_reads ex_split_decides SetProphecy_def SerializeForDB_def
          Let_def del: bind_r_Inr)
  qed
  from this [of False] this [of True] show ?thesis by simp
qed

end
