(* ===== verification/EthBridge_Example.thy ===== *)
theory EthBridge_Example
  imports EthBridge Oracle_Props
begin

text \<open>
  A concrete bridge: an instance of what the bridge uses of go-ethereum that satisfies the laws, a chain with
  one whitelisted validator, and runs of a claim, a lock and a burn on it.
\<close>

section \<open>Claims as text\<close>

definition print_content :: "oracle_claim_content \<Rightarrow> string" where
  "print_content c = ref_print_list [occ_CosmosReceiver c, itoa (occ_Amount c), occ_Symbol c, occ_TokenContractAddress c,
     itoa (occ_ClaimType c)]"

definition read_content :: "string \<Rightarrow> oracle_claim_content result" where
  "read_content s =
     (case ref_read_list s of
        [r, n, y, t, k] \<Rightarrow>
          (case (atoi n, atoi k) of
             (Some n, Some k) \<Rightarrow> Inr \<lparr>occ_CosmosReceiver = r, occ_Amount = n, occ_Symbol = y,
               occ_TokenContractAddress = t, occ_ClaimType = k\<rparr>
           | _ \<Rightarrow> Inl (ErrNew ''json''))
      | _ \<Rightarrow> Inl (ErrNew ''json''))"

definition ref_geth :: geth where
  "ref_geth = \<lparr>IsHexAddress = (\<lambda>s. HasPrefix s ''0x''), HexToAddress = ToLower, Address_String = (\<lambda>a. a),
     MarshalContent = (\<lambda>c. Inr (print_content c)), UnmarshalContent = read_content\<rparr>"

lemma ref_geth_sel [simp]:
  "HexToAddress ref_geth = ToLower" "MarshalContent ref_geth = (\<lambda>c. Inr (print_content c))" "UnmarshalContent ref_geth = read_content"
  by (simp_all add: ref_geth_def)

lemma read_print_content [simp]: "read_content (print_content c) = Inr c"
  by (simp add: read_content_def print_content_def)

lemma print_content_ok [simp]: "print_content c \<noteq> []" "ValidString (print_content c)"
proof -
  show "print_content c \<noteq> []" by (simp add: print_content_def ref_print_list_def)
  have "of_char d div 16 < (16 :: nat)" "of_char d mod 16 < (16 :: nat)" for d
    using of_char_less [of d] by (auto intro: less_mult_imp_div_less)
  then have "x \<in> set (hex_encode a) \<Longrightarrow> of_char x < (128 :: nat)" for a x
    using hex_char_ord by (auto simp: hex_encode_def)
  then show "ValidString (print_content c)"
    by (intro ValidString_ascii) (auto simp: print_content_def ref_print_list_def list_all_iff)
qed

lemma ref_content_laws: "content_laws ref_geth"
  by (simp add: content_laws_def)

section \<open>A chain\<close>

text \<open>The validator \<open>v1\<close> has all the power; \<open>bob\<close> has 1000 \<^verbatim>\<open>ceth\<close> and 1000 \<^verbatim>\<open>aku\<close>; \<^verbatim>\<open>ceth\<close> is pegged.\<close>

definition ex_bridge_bank :: ref_state where
  "ex_bridge_bank = (sdk_state ref_ctx)\<lparr>ref_validators := [ex_validator ''v1'' 100],
     ref_balance := (\<lambda>a d. if a = ''bob'' \<and> (d = ''ceth'' \<or> d = ''aku'') then 1000 else 0)\<rparr>"

definition ex_bridge :: "ref_state ctx" where
  "ex_bridge = ref_ctx\<lparr>sdk_state := ex_bridge_bank,
     oracle_kv := [(oracle_WhiteListValidatorPrefix, OWhiteListV [ref_String ''v1''])],
     eth_kv := [(PeggyTokenKeyPrefix, PeggyTokensV [''ceth''])]\<rparr>"

definition ex_claim :: eth_bridge_claim where
  "ex_claim = \<lparr>ec_EthereumChainId = 1, ec_BridgeContractAddress = ''0x1'', ec_Nonce = 7, ec_Symbol = ''eth'',
     ec_TokenContractAddress = ''0x0'', ec_EthereumSender = ''0x9'', ec_CosmosReceiver = ref_String ''bob'',
     ec_ValidatorAddress = ref_String ''v1'', ec_Amount = 5, ec_ClaimType = CLAIM_TYPE_LOCK\<rparr>"

definition ex_content :: oracle_claim_content where
  "ex_content = \<lparr>occ_CosmosReceiver = ''bob'', occ_Amount = 5, occ_Symbol = ''eth'',
     occ_TokenContractAddress = ''0x0'', occ_ClaimType = CLAIM_TYPE_LOCK\<rparr>"

definition ex_id :: string where
  "ex_id = oracle_id 1 7 ''0x9''"

lemma ex_bridge_sel [simp]:
  "sdk_state ex_bridge = ex_bridge_bank" "eth_kv ex_bridge = [(PeggyTokenKeyPrefix, PeggyTokensV [''ceth''])]"
  "oracle_kv ex_bridge = [(oracle_WhiteListValidatorPrefix, OWhiteListV [ref_String ''v1''])]"
  "ex_bridge\<lparr>Events := []\<rparr> = ex_bridge"
  by (simp_all add: ex_bridge_def ref_ctx_def)

lemma ex_bridge_staking: "staking_ok ref_sdk ex_bridge_bank" "ref_validators ex_bridge_bank = [ex_validator ''v1'' 100]"
  "GetBondedValidatorsByPower ref_sdk ex_bridge_bank = [ex_validator ''v1'' 100]"
  by (simp_all add: staking_ok_def ex_bridge_bank_def ex_validator_def valid_address_def split: if_splits)

lemma ex_bridge_whitelist: "GetOracleWhiteList ref_sdk ex_bridge = Inr [''v1'']"
  by (simp add: GetOracleWhiteList_def kv_get_def ref_FromBech32_String)

lemma ex_bridge_oracle_inv: "oracle_inv ref_sdk ex_bridge"
  by (simp add: oracle_inv_def kv_get_def)

text \<open>The first vote of \<open>v1\<close> decides.\<close>

lemma ex_decides:
  "processCompletion ref_sdk (ex_keeper r) ex_bridge (AddClaim ref_sdk (NewProphecy i) ''v1'' (print_content c)) =
     Inr ((AddClaim ref_sdk (NewProphecy i) ''v1'' (print_content c))
       \<lparr>p_Status := \<lparr>st_Text = STATUS_TEXT_SUCCESS, st_FinalClaim = print_content c\<rparr>\<rparr>)"
proof -
  let ?p = "AddClaim ref_sdk (NewProphecy i) ''v1'' (print_content c)" and ?vs = "[ex_validator ''v1'' 100]"
  have ok: "votes_ok ref_sdk ?p"
    by (rule votes_ok_AddClaim [OF ref_addr_laws votes_ok_New]) (simp_all add: valid_address_def map_at_def NewProphecy_def)
  have cv: "p_ClaimValidators ?p = [(print_content c, [''v1''])]"
    by (simp add: AddClaim_def NewProphecy_def map_at_def)
  have pow: "cpow ref_sdk ?vs [''v1''] = 100" "wpow [''v1''] ?vs = 100" "bonded_power ?vs = 100"
    by (simp_all add: cpow_def vpow_def validatorsByAddress_def ex_validator_def wpow_def listed_def bonded_power_def)
  have "staking_ok ref_sdk (sdk_state ex_bridge)" by (simp add: ex_bridge_staking)
  from processCompletion_decides [OF ref_addr_laws ex_keeper_ok this ok _ ex_bridge_whitelist, of r]
  obtain d where "has_highest ref_sdk ?vs ?p d" "processCompletion ref_sdk (ex_keeper r) ex_bridge ?p =
      Inr (decide (highest_power ref_sdk ?vs ?p) (claims_power ref_sdk ?vs ?p) 100 d ?p)"
    by (auto simp: cv pow ex_bridge_staking simp del: ref_sdk_sel)
  then show ?thesis by (simp add: has_highest_def highest_power_def claims_power_def cv pow decide_def)
qed

section \<open>Runs\<close>

lemmas eth_eval = eth_coins_def ref_NewCoin_def ref_NewCoins_def ref_coin_ok_def with_bank_def ref_Send_def ref_IsValid_def ref_has_def
  ref_bal_of_def ref_Mint_def ref_Burn_def ref_ModuleAddress_def eth_ModuleName_def ref_add_def ref_sub_def

lemma ex_eth_denoms: "ref_ValidateDenom ''ceth''" "ref_ValidateDenom ''aku''" "''aku'' < ''ceth''"
  by code_simp+

lemma ex_oracle_claim:
  "CreateOracleClaimFromEthClaim ref_sdk ref_geth ex_claim =
     Inr \<lparr>oc_Id = ex_id, oc_ValidatorAddress = ref_String ''v1'', oc_Content = print_content ex_content\<rparr>"
proof -
  have "ToLower ''0x0'' = ''0x0''" by code_simp
  then show ?thesis
    by (simp add: CreateOracleClaimFromEthClaim_def ex_claim_def ref_FromBech32_String NewOracleClaimContent_def
        NewEthereumAddress_def NewClaim_def ex_id_def ex_content_def)
qed

lemma ex_id_ne: "ex_id \<noteq> []"
  by (simp add: ex_id_def oracle_id_def)

lemma ex_vote:
  "\<exists>db. oracle_ProcessClaim ref_sdk (ex_keeper r) ex_bridge
       \<lparr>oc_Id = ex_id, oc_ValidatorAddress = ref_String ''v1'', oc_Content = print_content ex_content\<rparr> =
     Inr (ex_bridge\<lparr>oracle_kv := kv_set (oracle_kv ex_bridge) (prophecy_key ex_id) (ProphecyV db)\<rparr>,
       \<lparr>st_Text = STATUS_TEXT_SUCCESS, st_FinalClaim = print_content ex_content\<rparr>)"
proof -
  let ?p = "(AddClaim ref_sdk (NewProphecy ex_id) ''v1'' (print_content ex_content))
       \<lparr>p_Status := \<lparr>st_Text = STATUS_TEXT_SUCCESS, st_FinalClaim = print_content ex_content\<rparr>\<rparr>"
  have "SetProphecy ref_sdk ex_bridge ?p =
      Inr (ex_bridge\<lparr>oracle_kv := kv_set (oracle_kv ex_bridge) (prophecy_key ex_id) (ProphecyV (ex_db ?p))\<rparr>)"
    by (simp add: SetProphecy_def SerializeForDB_def SetDBProphecy_def ex_db_def AddClaim_def)
  moreover have "EnsureAddressIsInWhitelist ref_sdk ex_bridge (ref_String ''v1'') = Inr ()"
    by (simp add: EnsureAddressIsInWhitelist_def ex_bridge_whitelist)
  moreover have "checkActiveValidator ref_sdk ex_bridge ''v1''"
    by (simp add: checkActiveValidator_def ex_bridge_staking ex_validator_def)
  moreover have "GetProphecy ref_sdk ex_bridge ex_id = Inr None" by (simp add: GetProphecy_def kv_get_def)
  moreover have "st_Text (p_Status (NewProphecy ex_id)) = STATUS_TEXT_PENDING" "p_ValidatorClaims (NewProphecy ex_id) = []"
    by (simp_all add: NewProphecy_def NewStatus_def)
  ultimately show ?thesis
    by (simp add: oracle_ProcessClaim_def ref_FromBech32_String ex_id_ne map_at_def ex_decides del: ref_sdk_sel(4) bind_r_Inr) blast
qed

lemma ex_pay:
  assumes "sdk_state ctx = ex_bridge_bank" and "eth_kv ctx = eth_kv ex_bridge"
  shows "\<exists>ctx'. ProcessSuccessfulClaim ref_sdk ref_geth ctx (print_content ex_content) = Inr ctx' \<and>
    bal ref_sdk (sdk_state ctx') ''bob'' ''ceth'' = 1005"
proof -
  have "AddPeggyToken ctx ''ceth'' = Inr ctx"
    using assms(2) by (simp add: AddPeggyToken_def ExistsPeggyToken_def GetPeggyToken_def eth_Exists_def kv_has_def kv_get_def)
  then show ?thesis
    by (simp add: ProcessSuccessfulClaim_def CreateOracleClaimFromOracleString_def ex_content_def PeggedCoinPrefix_def eth_eval
        ex_eth_denoms assms(1) ex_bridge_bank_def ref_ctx_def ref_bal Let_def del: bind_r_Inr cong: lazy)
qed

lemma ex_claim_accepted:
  "\<exists>ctx'. eth_Handler ref_sdk ref_geth (ex_keeper r) ex_bridge (MsgCreateEthBridgeClaim (Some ex_claim)) = Inr ctx' \<and>
     bal ref_sdk (sdk_state ctx') ''bob'' ''ceth'' = 1005"
proof -
  obtain db where v: "oracle_ProcessClaim ref_sdk (ex_keeper r) ex_bridge
       \<lparr>oc_Id = ex_id, oc_ValidatorAddress = ref_String ''v1'', oc_Content = print_content ex_content\<rparr> =
     Inr (ex_bridge\<lparr>oracle_kv := kv_set (oracle_kv ex_bridge) (prophecy_key ex_id) (ProphecyV db)\<rparr>,
       \<lparr>st_Text = STATUS_TEXT_SUCCESS, st_FinalClaim = print_content ex_content\<rparr>)" using ex_vote by blast
  let ?ctx = "ex_bridge\<lparr>oracle_kv := kv_set (oracle_kv ex_bridge) (prophecy_key ex_id) (ProphecyV db)\<rparr>"
  obtain ctx' where b: "ProcessSuccessfulClaim ref_sdk ref_geth ?ctx (print_content ex_content) = Inr ctx'"
    "bal ref_sdk (sdk_state ctx') ''bob'' ''ceth'' = 1005" using ex_pay [of ?ctx] by auto
  then show ?thesis
    by (simp add: CreateEthBridgeClaim_def eth_ProcessClaim_def ex_oracle_claim v del: bind_r_Inr)
qed

definition ex_lock :: msg_lock where
  "ex_lock = \<lparr>lk_CosmosSender = ref_String ''bob'', lk_Amount = 30, lk_Symbol = ''aku'', lk_EthereumChainId = 1,
     lk_EthereumReceiver = ''0x9'', lk_CethAmount = 4\<rparr>"

lemma ex_lock_accepted: "\<exists>ctx'. eth_Handler ref_sdk ref_geth K ex_bridge (MsgLock ex_lock) = Inr ctx'"
  by (simp add: Lock_def ProcessLock_def ExistsPeggyToken_def GetPeggyToken_def eth_Exists_def kv_has_def kv_get_def
      IsBlacklisted_def BlacklistPrefix_def PeggyTokenKeyPrefix_def CethReceiverAccountPrefix_def
      IsCethReceiverAccountSet_def GetCethReceiverAccount_def ref_FromBech32_String CethSymbol_def
      ex_lock_def eth_eval ex_eth_denoms ex_bridge_bank_def ref_ctx_def del: bind_r_Inr cong: lazy)

definition ex_burn :: msg_burn where
  "ex_burn = \<lparr>bn_CosmosSender = ref_String ''bob'', bn_Amount = 30, bn_Symbol = ''ceth'', bn_EthereumChainId = 1,
     bn_EthereumReceiver = ''0x9'', bn_CethAmount = 4\<rparr>"

lemma ex_burn_accepted: "\<exists>ctx'. eth_Handler ref_sdk ref_geth K ex_bridge (MsgBurn ex_burn) = Inr ctx'"
  by (simp add: Burn_def ProcessBurn_def ExistsPeggyToken_def GetPeggyToken_def eth_Exists_def kv_has_def kv_get_def
      IsBlacklisted_def BlacklistPrefix_def PeggyTokenKeyPrefix_def CethReceiverAccountPrefix_def
      IsCethReceiverAccountSet_def GetCethReceiverAccount_def ref_FromBech32_String CethSymbol_def check_255_def
      ex_burn_def eth_eval ex_eth_denoms ex_bridge_bank_def ref_ctx_def del: bind_r_Inr cong: lazy)

text \<open>The chain after the claim, and the chain with an admin.\<close>

definition ex_decided :: "string \<Rightarrow> prophecy" where
  "ex_decided i = (AddClaim ref_sdk (NewProphecy i) ''v1'' (print_content ex_content))
     \<lparr>p_Status := \<lparr>st_Text = STATUS_TEXT_SUCCESS, st_FinalClaim = print_content ex_content\<rparr>\<rparr>"

definition ex_after :: "string \<Rightarrow> ref_state ctx" where
  "ex_after i = ex_bridge\<lparr>oracle_kv := oracle_kv ex_bridge @ [(prophecy_key i, ProphecyV (ex_db (ex_decided i)))]\<rparr>"

lemma ex_after_final: "finalised ref_sdk (ex_after i) i (ex_decided i)"
  by (simp add: finalised_def GetProphecy_def ex_after_def kv_get_def) (simp add: ex_decided_def)

lemma ex_after_oracle_inv: "oracle_inv ref_sdk (ex_after i)"
proof -
  have "votes_ok ref_sdk (AddClaim ref_sdk (NewProphecy i) ''v1'' (print_content ex_content))"
    by (rule votes_ok_AddClaim [OF ref_addr_laws votes_ok_New]) (simp_all add: valid_address_def map_at_def NewProphecy_def)
  then have ok: "votes_ok ref_sdk (ex_decided i)" by (simp add: ex_decided_def)
  moreover have "p_ID (ex_decided i) = i" by (simp add: ex_decided_def AddClaim_def)
  moreover have "j = i \<and> v = ProphecyV (ex_db (ex_decided i))" if "kv_get (oracle_kv (ex_after i)) (prophecy_key j) = Some v" for j v
    using that by (auto simp: ex_after_def kv_get_def split: if_splits)
  ultimately show ?thesis by (fastforce simp: oracle_inv_def)
qed

definition ex_admin :: "ref_state ctx" where
  "ex_admin = SetAdminAccount (ex_bridge\<lparr>eth_kv := [(BlacklistPrefix @ ''0xaa'', BlacklistedV)]\<rparr>) ''admin''"

definition ex_blacklist :: msg_set_blacklist where
  "ex_blacklist = \<lparr>sb_From = ref_String ''admin'', sb_Addresses = [''0xAA'']\<rparr>"

lemma ex_blacklist_accepted: "\<exists>ctx'. eth_Handler ref_sdk ref_geth K ex_admin (MsgSetBlacklist ex_blacklist) = Inr ctx'"
  by (simp add: srv_SetBlacklist_def SetBlacklist_def ex_blacklist_def ref_FromBech32_String IsAdminAccount_def
      GetAdminAccount_def ex_admin_def SetAdminAccount_def Let_def)

end
