(* ===== verification/EthBridge_Props.thy ===== *)
theory EthBridge_Props
  imports EthBridge_Example
begin

text \<open>
  Theorems on the Ethereum bridge: the votes stay well-formed over any sequence of messages, a decided claim is
  never decided or paid out again, a successful claim mints exactly what it says, locking and burning
  take exactly what they say, and the blacklist holds what the last message listed.
\<close>

section \<open>What each message leaves alone\<close>

lemma with_bank_keeps: "with_bank ctx r = Inr ctx' \<Longrightarrow> \<exists>b. ctx' = ctx\<lparr>sdk_state := b\<rparr>"
  by auto

lemma ProcessLock_keeps: "ProcessLock S ctx a m = Inr ctx' \<Longrightarrow> \<exists>b. ctx' = ctx\<lparr>sdk_state := b\<rparr>"
  by (auto simp: ProcessLock_def split: if_splits)

lemma ProcessBurn_keeps: "ProcessBurn S ctx a m = Inr ctx' \<Longrightarrow> \<exists>b. ctx' = ctx\<lparr>sdk_state := b\<rparr>"
  by (auto simp: ProcessBurn_def split: if_splits)

lemma Lock_keeps: "Lock S ctx m = Inr ctx' \<Longrightarrow> oracle_kv ctx' = oracle_kv ctx \<and> eth_kv ctx' = eth_kv ctx"
  by (auto simp: Lock_def split: if_splits option.splits dest!: ProcessLock_keeps)

lemma Burn_keeps: "Burn S ctx m = Inr ctx' \<Longrightarrow> oracle_kv ctx' = oracle_kv ctx \<and> eth_kv ctx' = eth_kv ctx"
  by (auto simp: Burn_def split: if_splits option.splits dest!: ProcessBurn_keeps)

lemma RescueCeth_keeps: "RescueCeth S ctx m = Inr ctx' \<Longrightarrow> oracle_kv ctx' = oracle_kv ctx \<and> eth_kv ctx' = eth_kv ctx"
  by (auto simp: RescueCeth_def ProcessRescueCeth_def split: if_splits option.splits)

lemma UpdateCethReceiverAccount_keeps:
  "UpdateCethReceiverAccount S ctx m = Inr ctx' \<Longrightarrow> oracle_kv ctx' = oracle_kv ctx \<and>
     (\<exists>a. eth_kv ctx' = kv_set (eth_kv ctx) CethReceiverAccountPrefix (CethReceiverV a))"
  by (auto simp: UpdateCethReceiverAccount_def ProcessUpdateCethReceiverAccount_def SetCethReceiverAccount_def
      split: if_splits option.splits)

lemma UpdateWhiteListValidator_keeps:
  "UpdateWhiteListValidator S ctx m = Inr ctx' \<Longrightarrow>
     eth_kv ctx' = eth_kv ctx \<and> (\<exists>wl. oracle_kv ctx' = oracle_kv (SetOracleWhiteList S ctx wl))"
  by (auto simp: UpdateWhiteListValidator_def eth_ProcessUpdateWhiteListValidator_def split: option.splits
      dest!: ProcessUpdateWhiteListValidator_keeps) (auto simp: SetOracleWhiteList_def)

lemma SetBlacklist_keeps: "srv_SetBlacklist S ctx m = Inr ctx' \<Longrightarrow> oracle_kv ctx' = oracle_kv ctx"
  by (auto simp: srv_SetBlacklist_def SetBlacklist_def Let_def split: if_splits)

lemma AddPeggyToken_keeps:
  "AddPeggyToken ctx t = Inr ctx' \<Longrightarrow>
     ctx' = ctx \<or> (\<exists>ts. ctx' = ctx\<lparr>eth_kv := kv_set (eth_kv ctx) PeggyTokenKeyPrefix (PeggyTokensV ts)\<rparr>)"
  by (auto simp: AddPeggyToken_def split: if_splits)

lemma ProcessSuccessfulClaim_keeps:
  assumes "ProcessSuccessfulClaim S G ctx c = Inr ctx'"
  shows "oracle_kv ctx' = oracle_kv ctx \<and>
    (eth_kv ctx' = eth_kv ctx \<or> (\<exists>ts. eth_kv ctx' = kv_set (eth_kv ctx) PeggyTokenKeyPrefix (PeggyTokensV ts)))"
  using assms unfolding ProcessSuccessfulClaim_def Let_def
  by (auto split: if_splits dest!: AddPeggyToken_keeps)

section \<open>The invariant\<close>

text \<open>The keys of the bridge's store are the list of peggy tokens, the receiver account and blacklisted addresses.\<close>

definition eth_wf :: "eth_value kv \<Rightarrow> bool" where
  "eth_wf s \<longleftrightarrow> kv_ok s \<and>
     (\<forall>(k, v) \<in> set s. (case v of PeggyTokensV _ \<Rightarrow> k = PeggyTokenKeyPrefix
        | CethReceiverV _ \<Rightarrow> k = CethReceiverAccountPrefix
        | BlacklistedV \<Rightarrow> prefix BlacklistPrefix k))"

definition eth_laws :: "'b sdk \<Rightarrow> geth \<Rightarrow> bool" where
  "eth_laws S G \<longleftrightarrow> addr_laws S \<and> json_map_laws S \<and> content_laws G"

definition eth_inv :: "'b sdk \<Rightarrow> geth \<Rightarrow> 'b ctx \<Rightarrow> bool" where
  "eth_inv S G ctx \<longleftrightarrow> eth_laws S G \<and> oracle_inv S ctx \<and> eth_wf (eth_kv ctx)"

lemma eth_wf_set:
  "eth_wf s \<Longrightarrow> eth_wf (kv_set s PeggyTokenKeyPrefix (PeggyTokensV ts))"
  "eth_wf s \<Longrightarrow> eth_wf (kv_set s CethReceiverAccountPrefix (CethReceiverV a))"
  "eth_wf s \<Longrightarrow> eth_wf (kv_set s (BlacklistPrefix @ b) BlacklistedV)"
  by (fastforce simp: eth_wf_def dest: kv_set_mem)+

lemma eth_wf_delete: "eth_wf s \<Longrightarrow> eth_wf (kv_delete s k)"
  by (auto simp: eth_wf_def kv_delete_def kv_ok_filter)

lemma eth_wf_foldl:
  "eth_wf s \<Longrightarrow> eth_wf (foldl (\<lambda>s a. kv_delete s (BlacklistPrefix @ a)) s as)"
  "eth_wf s \<Longrightarrow> eth_wf (foldl (\<lambda>s a. kv_set s (BlacklistPrefix @ a) BlacklistedV) s as)"
  by (induction as arbitrary: s) (simp_all add: eth_wf_delete eth_wf_set)

lemma SetBlacklist_wf: "srv_SetBlacklist S ctx m = Inr ctx' \<Longrightarrow> eth_wf (eth_kv ctx) \<Longrightarrow> eth_wf (eth_kv ctx')"
  by (auto simp: srv_SetBlacklist_def SetBlacklist_def Let_def eth_wf_foldl split: if_splits)

text \<open>A claim: the oracle's vote, then the payment if that vote decided the prophecy.\<close>

lemma CreateEthBridgeClaim_cases:
  assumes "CreateEthBridgeClaim S G K ctx m = Inr ctx'"
  obtains c oc ctx1 st ctx2 where "m = Some c" "CreateOracleClaimFromEthClaim S G c = Inr oc"
    "oracle_ProcessClaim S K ctx oc = Inr (ctx1, st)"
    "(if st_Text st = STATUS_TEXT_SUCCESS then ProcessSuccessfulClaim S G ctx1 (st_FinalClaim st) else Inr ctx1) = Inr ctx2"
    "ctx' = EmitEvents (claim_events c st) ctx2"
  using assms unfolding CreateEthBridgeClaim_def eth_ProcessClaim_def by auto

lemma CreateOracleClaim_content:
  "content_laws G \<Longrightarrow> CreateOracleClaimFromEthClaim S G c = Inr oc \<Longrightarrow>
     ValidString (oc_Content oc) \<and> oc_Id oc = oracle_id (ec_EthereumChainId c) (ec_Nonce c) (ec_EthereumSender c)"
  by (auto simp: CreateOracleClaimFromEthClaim_def content_laws_def NewClaim_def Let_def)

lemma claim_keeps:
  assumes "(if st_Text st = STATUS_TEXT_SUCCESS then ProcessSuccessfulClaim S G ctx1 (st_FinalClaim st) else Inr ctx1) = Inr ctx2"
  shows "oracle_kv ctx2 = oracle_kv ctx1" and "eth_wf (eth_kv ctx1) \<Longrightarrow> eth_wf (eth_kv ctx2)"
  using assms by (auto split: if_splits dest!: ProcessSuccessfulClaim_keeps intro: eth_wf_set)

lemma CreateEthBridgeClaim_inv:
  assumes "eth_inv S G ctx" and "CreateEthBridgeClaim S G K ctx m = Inr ctx'"
  shows "eth_inv S G ctx'" and "finalised S ctx i p \<Longrightarrow> finalised S ctx' i p"
proof -
  have laws: "addr_laws S" "json_map_laws S" "content_laws G" "oracle_inv S ctx" "eth_wf (eth_kv ctx)"
    using assms(1) by (simp_all add: eth_inv_def eth_laws_def)
  from assms(2) obtain c oc ctx1 st ctx2 where c: "CreateOracleClaimFromEthClaim S G c = Inr oc"
    and o: "oracle_ProcessClaim S K ctx oc = Inr (ctx1, st)"
    and s: "(if st_Text st = STATUS_TEXT_SUCCESS then ProcessSuccessfulClaim S G ctx1 (st_FinalClaim st) else Inr ctx1) = Inr ctx2"
    and ctx': "ctx' = EmitEvents (claim_events c st) ctx2"
    by (rule CreateEthBridgeClaim_cases)
  have v: "ValidString (oc_Content oc)" using CreateOracleClaim_content laws(3) c by blast
  have kv: "oracle_kv ctx' = oracle_kv ctx1" using claim_keeps(1) [OF s] by (simp add: ctx')
  have "eth_kv ctx1 = eth_kv ctx" using ProcessClaim_effect [OF laws(1,2,4) v o] by auto
  then have "eth_wf (eth_kv ctx')" using claim_keeps(2) [OF s] laws(5) by (simp add: ctx')
  then show "eth_inv S G ctx'"
    using ProcessClaim_inv [OF laws(1,2,4) v o] oracle_inv_kv [OF kv] assms(1) by (simp add: eth_inv_def)
  show "finalised S ctx i p \<Longrightarrow> finalised S ctx' i p"
    using ProcessClaim_keeps_final [OF laws(1,2,4) v o] finalised_kv [OF kv] by simp
qed

lemma finalised_SetOracleWhiteList: "oracle_kv ctx' = oracle_kv (SetOracleWhiteList S ctx wl) \<Longrightarrow>
    oracle_inv S ctx' = oracle_inv S ctx \<and> finalised S ctx' i p = finalised S ctx i p"
  using oracle_inv_kv [of ctx' "SetOracleWhiteList S ctx wl" S] finalised_kv [of ctx' "SetOracleWhiteList S ctx wl" S]
  by (simp add: whitelist_keeps finalised_def)

lemma eth_step:
  assumes "eth_inv S G ctx" and "eth_Handler S G K ctx m = Inr ctx'"
  shows "eth_inv S G ctx' \<and> (finalised S ctx i p \<longrightarrow> finalised S ctx' i p)"
proof -
  let ?ctx = "ctx\<lparr>Events := []\<rparr>"
  have inv: "eth_inv S G ?ctx" "eth_laws S G" "oracle_inv S ctx" "eth_wf (eth_kv ctx)"
    using assms(1) by (simp_all add: eth_inv_def oracle_inv_def)
  have fin: "finalised S ?ctx i p = finalised S ctx i p" using finalised_kv [of ?ctx ctx S] by simp
  have keep: "oracle_kv ctx' = oracle_kv ctx \<Longrightarrow> eth_wf (eth_kv ctx') \<Longrightarrow> ?thesis"
    using inv oracle_inv_kv [of ctx' ctx S] finalised_kv [of ctx' ctx S] by (simp add: eth_inv_def)
  show ?thesis
  proof (cases m)
    case (MsgCreateEthBridgeClaim x)
    then show ?thesis using CreateEthBridgeClaim_inv [OF inv(1)] assms(2) fin by simp
  next
    case (MsgUpdateWhiteListValidator x)
    then have "eth_kv ctx' = eth_kv ctx" and "\<exists>wl. oracle_kv ctx' = oracle_kv (SetOracleWhiteList S ?ctx wl)"
      using assms(2) UpdateWhiteListValidator_keeps [of S ?ctx x ctx'] by auto
    then show ?thesis using finalised_SetOracleWhiteList [of ctx' S ?ctx _ i p] inv fin by (auto simp: eth_inv_def)
  next
    case (MsgBurn x)
    then show ?thesis using keep Burn_keeps [of S ?ctx x ctx'] assms(2) inv by simp
  next
    case (MsgLock x)
    then show ?thesis using keep Lock_keeps [of S ?ctx x ctx'] assms(2) inv by simp
  next
    case (MsgUpdateCethReceiverAccount x)
    then show ?thesis using keep UpdateCethReceiverAccount_keeps [of S ?ctx x ctx'] assms(2) inv by (auto simp: eth_wf_set)
  next
    case (MsgRescueCeth x)
    then show ?thesis using keep RescueCeth_keeps [of S ?ctx x ctx'] assms(2) inv by simp
  next
    case (MsgSetBlacklist x)
    then show ?thesis using keep SetBlacklist_keeps [of S ?ctx x ctx'] SetBlacklist_wf [of S ?ctx x ctx'] assms(2) inv by simp
  qed
qed

text \<open>Two machines over the same messages: the invariant, and the invariant with one prophecy decided.\<close>

interpretation ethm: machine "eth_Handler S G K" "eth_inv S G" "\<lambda>_. True"
  by unfold_locales (use eth_step in blast)

interpretation finalm: machine "eth_Handler S G K" "\<lambda>ctx. eth_inv S G ctx \<and> finalised S ctx i p" "\<lambda>_. True"
  by unfold_locales (use eth_step in blast)

section \<open>Balances\<close>

text \<open>What coming in and going out of the bridge does to the balances.\<close>

lemma eth_coins_amt: "coin_laws S \<Longrightarrow> eth_coins S s n = Inr cs \<Longrightarrow> 0 \<le> n \<and> (\<forall>d. amt cs d = (if d = s then n else 0))"
  by (auto simp: eth_coins_def coin_laws_NewCoin coin_laws_NewCoins split: if_splits)

definition credited :: "'b sdk \<Rightarrow> 'b ctx \<Rightarrow> 'b ctx \<Rightarrow> address \<Rightarrow> string \<Rightarrow> int \<Rightarrow> bool" where
  "credited S ctx ctx' r s n \<longleftrightarrow>
     (\<forall>a d. bal S (sdk_state ctx') a d = bal S (sdk_state ctx) a d + (if a = r \<and> d = s then n else 0))"

definition minted_symbol :: "oracle_claim_content \<Rightarrow> string" where
  "minted_symbol c = (if occ_ClaimType c = CLAIM_TYPE_LOCK then PeggedCoinPrefix @ occ_Symbol c else occ_Symbol c)"

lemma mint_and_send:
  assumes "coin_laws S" and "bank_laws S" and "eth_coins S s n = Inr cs"
    and "MintCoins S (sdk_state ctx) eth_ModuleName cs = Inr b"
    and "SendCoinsFromModuleToAccount S b eth_ModuleName r cs = Inr b'"
  shows "bal S b' a d = bal S (sdk_state ctx) a d + (if a = r \<and> d = s then n else 0)"
  using eth_coins_amt [OF assms(1,3)] bank_laws_mint [OF assms(2,4)] bank_laws_from_module [OF assms(2,5)]
  by (simp add: moves_def)

lemma AddPeggyToken_listed: "AddPeggyToken ctx t = Inr ctx' \<Longrightarrow> ExistsPeggyToken ctx' t = Inr True"
  by (auto simp: AddPeggyToken_def ExistsPeggyToken_def GetPeggyToken_def eth_Exists_def kv_has_def list_ex_iff split: if_splits)

lemma ExistsPeggyToken_sdk: "ExistsPeggyToken (ctx\<lparr>sdk_state := b\<rparr>) t = ExistsPeggyToken ctx t"
  by (simp add: ExistsPeggyToken_def GetPeggyToken_def eth_Exists_def)

lemma ProcessSuccessfulClaim_effect:
  assumes "coin_laws S" and "bank_laws S" and "ProcessSuccessfulClaim S G ctx s = Inr ctx'"
  shows "\<exists>c. UnmarshalContent G s = Inr c \<and> occ_ClaimType c \<in> {CLAIM_TYPE_LOCK, CLAIM_TYPE_BURN} \<and>
    credited S ctx ctx' (occ_CosmosReceiver c) (minted_symbol c) (occ_Amount c) \<and>
    (occ_ClaimType c = CLAIM_TYPE_LOCK \<longrightarrow> ExistsPeggyToken ctx' (minted_symbol c) = Inr True)"
proof -
  from assms(3) obtain c where c: "UnmarshalContent G s = Inr c"
    by (auto simp: ProcessSuccessfulClaim_def CreateOracleClaimFromOracleString_def)
  consider "occ_ClaimType c = CLAIM_TYPE_LOCK" | "occ_ClaimType c = CLAIM_TYPE_BURN"
    using assms(3) c by (auto simp: ProcessSuccessfulClaim_def CreateOracleClaimFromOracleString_def split: if_splits)
  then show ?thesis
  proof cases
    case 1
    then obtain ctx1 cs b b' where "AddPeggyToken ctx (minted_symbol c) = Inr ctx1" "eth_coins S (minted_symbol c) (occ_Amount c) = Inr cs"
      "MintCoins S (sdk_state ctx1) eth_ModuleName cs = Inr b" "ctx' = ctx1\<lparr>sdk_state := b'\<rparr>"
      "SendCoinsFromModuleToAccount S b eth_ModuleName (occ_CosmosReceiver c) cs = Inr b'"
      using assms(3) c by (auto simp: ProcessSuccessfulClaim_def CreateOracleClaimFromOracleString_def minted_symbol_def Let_def)
    moreover have "sdk_state ctx1 = sdk_state ctx" using AddPeggyToken_keeps [OF calculation(1)] by auto
    moreover have "ExistsPeggyToken ctx' (minted_symbol c) = Inr True"
      using AddPeggyToken_listed [OF calculation(1)] calculation(4) by (simp only: ExistsPeggyToken_sdk)
    ultimately show ?thesis using c 1 mint_and_send [OF assms(1,2), of _ _ _ ctx1] by (auto simp: credited_def)
  next
    case 2
    then obtain cs b b' where "eth_coins S (minted_symbol c) (occ_Amount c) = Inr cs"
      "MintCoins S (sdk_state ctx) eth_ModuleName cs = Inr b" "ctx' = ctx\<lparr>sdk_state := b'\<rparr>"
      "SendCoinsFromModuleToAccount S b eth_ModuleName (occ_CosmosReceiver c) cs = Inr b'"
      using assms(3) c by (auto simp: ProcessSuccessfulClaim_def CreateOracleClaimFromOracleString_def minted_symbol_def Let_def)
    then show ?thesis using c 2 mint_and_send [OF assms(1,2), of _ _ _ ctx] by (auto simp: credited_def)
  qed
qed

definition sent_out :: "'b sdk \<Rightarrow> 'b ctx \<Rightarrow> 'b ctx \<Rightarrow> address \<Rightarrow> string \<Rightarrow> int \<Rightarrow> int \<Rightarrow> bool" where
  "sent_out S ctx ctx' sender s n ceth \<longleftrightarrow>
     (\<exists>r. GetCethReceiverAccount S ctx = Inr r \<and>
       (let fees = (if r = [] then NewModuleAddress S eth_ModuleName else r) in
        \<forall>a d. bal S (sdk_state ctx') a d = bal S (sdk_state ctx) a d
          - (if a = sender \<and> d = s then n else 0) - (if a = sender \<and> d = CethSymbol then ceth else 0)
          + (if a = fees \<and> d = CethSymbol then ceth else 0)))"

lemma send_and_burn:
  assumes "coin_laws S" and "bank_laws S" and "eth_coins S s n = Inr cs"
    and "SendCoinsFromAccountToModule S b a eth_ModuleName cs' = Inr b1" and "BurnCoins S b1 eth_ModuleName cs = Inr b2"
  shows "bal S b2 x d = bal S b x d - (if x = a then amt cs' d else 0)
    + (if x = NewModuleAddress S eth_ModuleName then amt cs' d - (if d = s then n else 0) else 0)"
  using eth_coins_amt [OF assms(1,3)] bank_laws_to_module [OF assms(2,4)] bank_laws_burn [OF assms(2,5)]
  by (simp add: moves_def)

lemma ProcessLock_effect:
  assumes "coin_laws S" and "bank_laws S" and "ProcessLock S ctx a m = Inr ctx'"
  shows "sent_out S ctx ctx' a (lk_Symbol m) (lk_Amount m) (lk_CethAmount m) \<and> \<not> IsBlacklisted ctx (lk_EthereumReceiver m)"
proof -
  let ?s = "lk_Symbol m" and ?n = "lk_Amount m" and ?c = "lk_CethAmount m"
  obtain r where r: "GetCethReceiverAccount S ctx = Inr r" and b: "\<not> IsBlacklisted ctx (lk_EthereumReceiver m)"
    using assms(3) by (auto simp: ProcessLock_def IsCethReceiverAccountSet_def split: if_splits)
  show ?thesis
  proof (cases "r = []")
    case True
    then obtain c1 c2 cs cs' b1 b2 where s: "NewCoin S ?s ?n = Some c1" "NewCoin S CethSymbol ?c = Some c2"
      "NewCoins S [c1, c2] = Some cs'" "eth_coins S ?s ?n = Inr cs"
      "SendCoinsFromAccountToModule S (sdk_state ctx) a eth_ModuleName cs' = Inr b1"
      "BurnCoins S b1 eth_ModuleName cs = Inr b2" "ctx' = ctx\<lparr>sdk_state := b2\<rparr>"
      using assms(3) r b by (auto simp: ProcessLock_def IsCethReceiverAccountSet_def)
    have "amt cs' d = (if d = ?s then ?n else 0) + (if d = CethSymbol then ?c else 0)" for d
      using s(1-3) by (auto simp: coin_laws_NewCoin [OF assms(1)] coin_laws_NewCoins [OF assms(1)] split: if_splits)
    then show ?thesis using send_and_burn [OF assms(1,2) s(4-6)] True r b by (simp add: sent_out_def s(7))
  next
    case False
    then obtain cc cs b0 b1 b2 where s: "eth_coins S CethSymbol ?c = Inr cc" "SendCoins S (sdk_state ctx) a r cc = Inr b0"
      "eth_coins S ?s ?n = Inr cs" "SendCoinsFromAccountToModule S b0 a eth_ModuleName cs = Inr b1"
      "BurnCoins S b1 eth_ModuleName cs = Inr b2" "ctx' = ctx\<lparr>sdk_state := b2\<rparr>"
      using assms(3) r b by (auto simp: ProcessLock_def IsCethReceiverAccountSet_def)
    then show ?thesis using send_and_burn [OF assms(1,2) s(3-5)] bank_laws_send [OF assms(2) s(2)] False r b
      eth_coins_amt [OF assms(1) s(1)] eth_coins_amt [OF assms(1) s(3)] by (simp add: sent_out_def moves_def)
  qed
qed

lemma ProcessBurn_effect:
  assumes "coin_laws S" and "bank_laws S" and "int_laws S" and "ProcessBurn S ctx a m = Inr ctx'"
  shows "sent_out S ctx ctx' a (bn_Symbol m) (bn_Amount m) (bn_CethAmount m) \<and> \<not> IsBlacklisted ctx (bn_EthereumReceiver m)"
proof -
  let ?s = "bn_Symbol m" and ?n = "bn_Amount m" and ?c = "bn_CethAmount m"
  obtain r where r: "GetCethReceiverAccount S ctx = Inr r" and b: "\<not> IsBlacklisted ctx (bn_EthereumReceiver m)"
    using assms(4) by (auto simp: ProcessBurn_def IsCethReceiverAccountSet_def split: if_splits)
  show ?thesis
  proof (cases "r = []")
    case True
    have "\<exists>cs' cs b1 b2. (\<forall>d. amt cs' d = (if d = ?s then ?n else 0) + (if d = CethSymbol then ?c else 0)) \<and>
      eth_coins S ?s ?n = Inr cs \<and> SendCoinsFromAccountToModule S (sdk_state ctx) a eth_ModuleName cs' = Inr b1 \<and>
      BurnCoins S b1 eth_ModuleName cs = Inr b2 \<and> ctx' = ctx\<lparr>sdk_state := b2\<rparr>"
    proof (cases "?s = CethSymbol")
      case ceth: True
      then obtain n cs' cs b1 b2 where s: "Int_Add S ?c ?n = Some n" "eth_coins S CethSymbol n = Inr cs'"
        "eth_coins S ?s ?n = Inr cs" "SendCoinsFromAccountToModule S (sdk_state ctx) a eth_ModuleName cs' = Inr b1"
        "BurnCoins S b1 eth_ModuleName cs = Inr b2" "ctx' = ctx\<lparr>sdk_state := b2\<rparr>"
        using assms(4) r b True by (auto simp: ProcessBurn_def IsCethReceiverAccountSet_def)
      have "n = ?c + ?n" using s(1) assms(3) yields_Some unfolding int_laws_def by blast
      then have "\<forall>d. amt cs' d = (if d = ?s then ?n else 0) + (if d = CethSymbol then ?c else 0)"
        using eth_coins_amt [OF assms(1) s(2)] ceth by simp
      then show ?thesis using s(3-6) by blast
    next
      case False
      then obtain c1 c2 cs cs' b1 b2 where s: "NewCoin S ?s ?n = Some c1" "NewCoin S CethSymbol ?c = Some c2"
        "NewCoins S [c1, c2] = Some cs'" "eth_coins S ?s ?n = Inr cs"
        "SendCoinsFromAccountToModule S (sdk_state ctx) a eth_ModuleName cs' = Inr b1"
        "BurnCoins S b1 eth_ModuleName cs = Inr b2" "ctx' = ctx\<lparr>sdk_state := b2\<rparr>"
        using assms(4) r b True by (auto simp: ProcessBurn_def IsCethReceiverAccountSet_def)
      have "amt cs' d = (if d = ?s then ?n else 0) + (if d = CethSymbol then ?c else 0)" for d
        using s(1-3) by (auto simp: coin_laws_NewCoin [OF assms(1)] coin_laws_NewCoins [OF assms(1)] split: if_splits)
      then show ?thesis using s(4-7) by blast
    qed
    then show ?thesis using send_and_burn [OF assms(1,2)] True r b by (auto simp: sent_out_def)
  next
    case False
    then obtain cc cs b0 b1 b2 where s: "eth_coins S CethSymbol ?c = Inr cc" "SendCoins S (sdk_state ctx) a r cc = Inr b0"
      "eth_coins S ?s ?n = Inr cs" "SendCoinsFromAccountToModule S b0 a eth_ModuleName cs = Inr b1"
      "BurnCoins S b1 eth_ModuleName cs = Inr b2" "ctx' = ctx\<lparr>sdk_state := b2\<rparr>"
      using assms(4) r b by (auto simp: ProcessBurn_def IsCethReceiverAccountSet_def)
    then show ?thesis using send_and_burn [OF assms(1,2) s(3-5)] bank_laws_send [OF assms(2) s(2)] False r b
      eth_coins_amt [OF assms(1) s(1)] eth_coins_amt [OF assms(1) s(3)] by (simp add: sent_out_def moves_def)
  qed
qed

section \<open>The blacklist\<close>

lemma kv_get_foldl_delete:
  "kv_get (foldl (\<lambda>s a. kv_delete s (f a)) s as) k = (if k \<in> f ` set as then None else kv_get s k)"
  by (induction as arbitrary: s) auto

lemma kv_get_foldl_set:
  "kv_get (foldl (\<lambda>s a. kv_set s (f a) v) s as) k = (if k \<in> f ` set as then Some v else kv_get s k)"
  by (induction as arbitrary: s) auto

lemma eth_wf_from:
  assumes "eth_wf s" and "(k, v) \<in> set s"
  shows "BlacklistPrefix \<le> k \<longleftrightarrow> (\<exists>a. k = BlacklistPrefix @ a)"
proof
  assume "BlacklistPrefix \<le> k"
  moreover from assms have "k = PeggyTokenKeyPrefix \<or> k = CethReceiverAccountPrefix \<or> prefix BlacklistPrefix k"
    by (cases v) (fastforce simp: eth_wf_def)+
  ultimately show "\<exists>a. k = BlacklistPrefix @ a"
    by (auto simp: PeggyTokenKeyPrefix_def CethReceiverAccountPrefix_def BlacklistPrefix_def less_char_def prefix_def)
qed (auto simp: BlacklistPrefix_def)

lemma blacklist_removals_mem:
  assumes "eth_wf s"
  shows "a \<in> set (blacklist_removals s as) \<longleftrightarrow> a \<noteq> [] \<and> a \<notin> set as \<and> kv_has s (BlacklistPrefix @ a)"
proof -
  have ok: "kv_ok s" using assms by (simp add: eth_wf_def)
  have "a \<in> (\<lambda>e. tl (fst e)) ` {e \<in> set s. BlacklistPrefix \<le> fst e \<and> 1 < length (fst e)} \<longleftrightarrow>
      a \<noteq> [] \<and> (\<exists>v. (BlacklistPrefix @ a, v) \<in> set s)"
  proof
    assume "a \<in> (\<lambda>e. tl (fst e)) ` {e \<in> set s. BlacklistPrefix \<le> fst e \<and> 1 < length (fst e)}"
    then obtain k v where e: "(k, v) \<in> set s" "BlacklistPrefix \<le> k" "1 < length k" "a = tl k" by auto
    then obtain b where "k = BlacklistPrefix @ b" using eth_wf_from [OF assms e(1)] by blast
    with e show "a \<noteq> [] \<and> (\<exists>v. (BlacklistPrefix @ a, v) \<in> set s)" by (auto simp: BlacklistPrefix_def)
  next
    assume "a \<noteq> [] \<and> (\<exists>v. (BlacklistPrefix @ a, v) \<in> set s)"
    then show "a \<in> (\<lambda>e. tl (fst e)) ` {e \<in> set s. BlacklistPrefix \<le> fst e \<and> 1 < length (fst e)}"
      by (force simp: BlacklistPrefix_def)
  qed
  moreover have "kv_has s (BlacklistPrefix @ a) \<longleftrightarrow> (\<exists>v. (BlacklistPrefix @ a, v) \<in> set s)"
    using kv_get_iff [OF ok, of "BlacklistPrefix @ a"] by (auto simp: kv_has_def)
  ultimately show ?thesis by (auto simp: blacklist_removals_def kv_from_def list_ex_iff conj_ac)
qed

lemma SetBlacklist_get:
  assumes "eth_wf (eth_kv ctx)" and "SetBlacklist S ctx m = Inr ctx'"
  shows "kv_get (eth_kv ctx') k =
    (if k \<in> (@) BlacklistPrefix ` set (sb_Addresses m) then Some BlacklistedV
     else if k \<in> (@) BlacklistPrefix ` set (blacklist_removals (eth_kv ctx) (sb_Addresses m)) then None
     else kv_get (eth_kv ctx) k)"
  using assms(2) by (auto simp: SetBlacklist_def Let_def kv_get_foldl_set kv_get_foldl_delete split: if_splits)

section \<open>Theorems\<close>

text \<open>
  C21: No sequence of bridge messages, accepted or rejected, breaks the records of the votes: every stored prophecy
  is the one its key names, its maps read back, no validator is counted twice or for two claims, and
  the bridge's own store keeps its shape.
\<close>

theorem eth_run_votes_ok:
  assumes "eth_inv S G ctx"
  shows "eth_inv S G (run (eth_Handler S G K) ctx ms)"
  using assms by (rule ethm.run_invar) (simp add: list_all_iff)

lemma ex_bridge_inv: "eth_inv ref_sdk ref_geth ex_bridge"
  by (simp add: eth_inv_def eth_laws_def ref_addr_laws ref_json_map_laws ref_content_laws ex_bridge_oracle_inv eth_wf_def kv_ok_def)

theorem eth_run_votes_ok_witness:
  "eth_inv ref_sdk ref_geth (run (eth_Handler ref_sdk ref_geth (ex_keeper True)) ex_bridge
     [MsgCreateEthBridgeClaim (Some ex_claim), MsgLock ex_lock, MsgBurn ex_burn, MsgCreateEthBridgeClaim (Some ex_claim)])"
  by (rule eth_run_votes_ok) (rule ex_bridge_inv)

lemma final_rejects:
  assumes "eth_inv S G ctx" and "finalised S ctx i p"
    and "oracle_id (ec_EthereumChainId c) (ec_Nonce c) (ec_EthereumSender c) = i"
  shows "finalised S (run (eth_Handler S G K) ctx ms) i p \<and>
    (\<exists>e. eth_Handler S G K (run (eth_Handler S G K) ctx ms) (MsgCreateEthBridgeClaim (Some c)) = Inl e)"
proof -
  let ?ctx = "run (eth_Handler S G K) ctx ms"
  have inv: "eth_inv S G ?ctx \<and> finalised S ?ctx i p"
    using assms(1,2) finalm.run_invar [of S G ctx i p ms K] by (simp add: list_all_iff)
  then have fin: "finalised S (?ctx\<lparr>Events := []\<rparr>) i p" using finalised_kv [of "?ctx\<lparr>Events := []\<rparr>" ?ctx S] by simp
  have "CreateEthBridgeClaim S G K (?ctx\<lparr>Events := []\<rparr>) (Some c) \<noteq> Inr ctx'" for ctx'
  proof
    assume "CreateEthBridgeClaim S G K (?ctx\<lparr>Events := []\<rparr>) (Some c) = Inr ctx'"
    then obtain oc r where "CreateOracleClaimFromEthClaim S G c = Inr oc" "oracle_ProcessClaim S K (?ctx\<lparr>Events := []\<rparr>) oc = Inr r"
      by (rule CreateEthBridgeClaim_cases) auto
    then show False
      using ProcessClaim_finalised [OF fin] CreateOracleClaim_content [of G S c oc] inv assms(3) by (auto simp: eth_inv_def eth_laws_def)
  qed
  then show ?thesis using inv by (cases "CreateEthBridgeClaim S G K (?ctx\<lparr>Events := []\<rparr>) (Some c)") auto
qed

text \<open>
  C4: A decided prophecy is final. Whatever messages follow, it keeps its status and its votes, and every further
  claim of the same event is rejected, so no event is paid out twice.
\<close>

theorem decided_is_final:
  assumes "eth_inv S G ctx" and "finalised S ctx (oracle_id (ec_EthereumChainId c) (ec_Nonce c) (ec_EthereumSender c)) p"
  shows "finalised S (run (eth_Handler S G K) ctx ms) (oracle_id (ec_EthereumChainId c) (ec_Nonce c) (ec_EthereumSender c)) p \<and>
    (\<exists>e. eth_Handler S G K (run (eth_Handler S G K) ctx ms) (MsgCreateEthBridgeClaim (Some c)) = Inl e)"
  by (rule final_rejects [OF assms refl])

lemma ex_after_inv: "eth_inv ref_sdk ref_geth (ex_after i)"
  using ex_bridge_inv ex_after_oracle_inv by (simp add: eth_inv_def ex_after_def)

theorem decided_is_final_witness:
  "finalised ref_sdk (run (eth_Handler ref_sdk ref_geth (ex_keeper True)) (ex_after ex_id) [MsgBurn ex_burn]) ex_id (ex_decided ex_id) \<and>
    (\<exists>e. eth_Handler ref_sdk ref_geth (ex_keeper True)
       (run (eth_Handler ref_sdk ref_geth (ex_keeper True)) (ex_after ex_id) [MsgBurn ex_burn])
       (MsgCreateEthBridgeClaim (Some ex_claim)) = Inl e)"
proof -
  have "oracle_id (ec_EthereumChainId ex_claim) (ec_Nonce ex_claim) (ec_EthereumSender ex_claim) = ex_id"
    by (simp add: ex_claim_def ex_id_def)
  then show ?thesis
    using decided_is_final [of ref_sdk ref_geth "ex_after ex_id" ex_claim "ex_decided ex_id"] ex_after_inv ex_after_final by metis
qed

text \<open>
  C8: A claim that is accepted either leaves every balance as it is, or it decides the prophecy and pays: the final
  claim, read back, names a receiver, a token and an amount, and exactly that amount is created and held by
  the receiver afterwards, as a pegged token for a lock on Ethereum and as itself for a burn. The
  prophecy is final from then on.
\<close>

theorem claim_pays_exactly:
  assumes "eth_inv S G ctx" and "coin_laws S" and "bank_laws S"
    and "eth_Handler S G K ctx (MsgCreateEthBridgeClaim (Some c)) = Inr ctx'"
  shows "sdk_state ctx' = sdk_state ctx \<or>
    (\<exists>p oc. finalised S ctx' (oracle_id (ec_EthereumChainId c) (ec_Nonce c) (ec_EthereumSender c)) p \<and>
       UnmarshalContent G (st_FinalClaim (p_Status p)) = Inr oc \<and>
       credited S ctx ctx' (occ_CosmosReceiver oc) (minted_symbol oc) (occ_Amount oc) \<and>
       (occ_ClaimType oc = CLAIM_TYPE_LOCK \<longrightarrow> ExistsPeggyToken ctx' (minted_symbol oc) = Inr True))"
proof -
  let ?ctx = "ctx\<lparr>Events := []\<rparr>"
  have laws: "addr_laws S" "json_map_laws S" "content_laws G" "oracle_inv S ?ctx"
    using assms(1) by (simp_all add: eth_inv_def eth_laws_def oracle_inv_def)
  from assms(4) obtain oc ctx1 st ctx2 where oc: "CreateOracleClaimFromEthClaim S G c = Inr oc"
    and o: "oracle_ProcessClaim S K ?ctx oc = Inr (ctx1, st)"
    and s: "(if st_Text st = STATUS_TEXT_SUCCESS then ProcessSuccessfulClaim S G ctx1 (st_FinalClaim st) else Inr ctx1) = Inr ctx2"
    and ctx': "ctx' = EmitEvents (claim_events c st) ctx2"
    by (auto elim!: CreateEthBridgeClaim_cases)
  have id: "ValidString (oc_Content oc)" "oc_Id oc = oracle_id (ec_EthereumChainId c) (ec_Nonce c) (ec_EthereumSender c)"
    using CreateOracleClaim_content [OF laws(3) oc] by simp_all
  from ProcessClaim_effect [OF laws(1,2,4) id(1) o] obtain q db where
    db: "DeserializeFromDB S db = Inr (q\<lparr>p_Status := st\<rparr>)"
    and ctx1: "ctx1 = ?ctx\<lparr>oracle_kv := kv_set (oracle_kv ?ctx) (prophecy_key (oc_Id oc)) (ProphecyV db)\<rparr>" by blast
  show ?thesis
  proof (cases "st_Text st = STATUS_TEXT_SUCCESS")
    case True
    then have s2: "ProcessSuccessfulClaim S G ctx1 (st_FinalClaim st) = Inr ctx2" using s by simp
    have "GetProphecy S ctx1 (oc_Id oc) = Inr (Some (q\<lparr>p_Status := st\<rparr>))" by (simp add: GetProphecy_def ctx1 db)
    then have "finalised S ctx1 (oc_Id oc) (q\<lparr>p_Status := st\<rparr>)" using True by (simp add: finalised_def)
    moreover have "oracle_kv ctx' = oracle_kv ctx1" using claim_keeps(1) [OF s] by (simp add: ctx')
    ultimately have "finalised S ctx' (oc_Id oc) (q\<lparr>p_Status := st\<rparr>)" using finalised_kv [of ctx' ctx1 S] by simp
    moreover from ProcessSuccessfulClaim_effect [OF assms(2,3) s2] obtain d where
      "UnmarshalContent G (st_FinalClaim st) = Inr d" "credited S ctx1 ctx2 (occ_CosmosReceiver d) (minted_symbol d) (occ_Amount d)"
      "occ_ClaimType d = CLAIM_TYPE_LOCK \<longrightarrow> ExistsPeggyToken ctx2 (minted_symbol d) = Inr True" by blast
    moreover have "ExistsPeggyToken ctx' t = ExistsPeggyToken ctx2 t" for t
      by (simp add: ctx' ExistsPeggyToken_def GetPeggyToken_def eth_Exists_def)
    ultimately show ?thesis
      by (intro disjI2 exI [of _ "q\<lparr>p_Status := st\<rparr>"] exI [of _ d]) (simp add: id credited_def ctx' ctx1)
  qed (use s in \<open>auto simp: ctx' ctx1\<close>)
qed

theorem claim_pays_exactly_witness:
  "\<exists>ctx' (p :: prophecy) oc. eth_Handler ref_sdk ref_geth (ex_keeper True) ex_bridge (MsgCreateEthBridgeClaim (Some ex_claim)) = Inr ctx' \<and>
     UnmarshalContent ref_geth (st_FinalClaim (p_Status p)) = Inr oc \<and>
     credited ref_sdk ex_bridge ctx' (occ_CosmosReceiver oc) (minted_symbol oc) (occ_Amount oc)"
proof -
  obtain ctx' where c: "eth_Handler ref_sdk ref_geth (ex_keeper True) ex_bridge (MsgCreateEthBridgeClaim (Some ex_claim)) = Inr ctx'"
    "bal ref_sdk (sdk_state ctx') ''bob'' ''ceth'' = 1005" using ex_claim_accepted by blast
  then have "sdk_state ctx' \<noteq> sdk_state ex_bridge" by (auto simp: ref_bal ref_bal_of_def ex_bridge_bank_def)
  with claim_pays_exactly [OF ex_bridge_inv ref_coin_laws ref_bank_laws c(1)] obtain p :: prophecy and oc where
    "UnmarshalContent ref_geth (st_FinalClaim (p_Status p)) = Inr oc"
    "credited ref_sdk ex_bridge ctx' (occ_CosmosReceiver oc) (minted_symbol oc) (occ_Amount oc)" by auto
  with c(1) show ?thesis by (intro exI conjI)
qed

text \<open>
  C12: Locking and burning take from the sender exactly the amount, which leaves the chain's supply, and the fee in
  \<^verbatim>\<open>ceth\<close>, which the receiver account gets, or the module where none is set. Only a token that is not
  pegged can be locked and only one that is can be burned, and never to a blacklisted receiver.
\<close>

theorem outgoing_takes_exactly:
  assumes "coin_laws S" and "bank_laws S" and "int_laws S"
  shows "(eth_Handler S G K ctx (MsgLock lk) = Inr ctx' \<longrightarrow>
      (\<exists>a. AccAddressFromBech32 S (lk_CosmosSender lk) = Inr a \<and>
         sent_out S ctx ctx' a (lk_Symbol lk) (lk_Amount lk) (lk_CethAmount lk)) \<and>
      ExistsPeggyToken ctx (lk_Symbol lk) = Inr False \<and> \<not> IsBlacklisted ctx (lk_EthereumReceiver lk)) \<and>
    (eth_Handler S G K ctx (MsgBurn bn) = Inr ctx' \<longrightarrow>
      (\<exists>a. AccAddressFromBech32 S (bn_CosmosSender bn) = Inr a \<and>
         sent_out S ctx ctx' a (bn_Symbol bn) (bn_Amount bn) (bn_CethAmount bn)) \<and>
      ExistsPeggyToken ctx (bn_Symbol bn) = Inr True \<and> \<not> IsBlacklisted ctx (bn_EthereumReceiver bn))"
proof -
  let ?ctx = "ctx\<lparr>Events := []\<rparr>"
  have ev: "sent_out S ?ctx ctx1 a s n c \<Longrightarrow> sent_out S ctx (EmitEvents es ctx1) a s n c"
    "ExistsPeggyToken ?ctx t = ExistsPeggyToken ctx t" "IsBlacklisted ?ctx r = IsBlacklisted ctx r" for ctx1 a s n c es t r
    by (simp_all add: sent_out_def GetCethReceiverAccount_def ExistsPeggyToken_def GetPeggyToken_def eth_Exists_def IsBlacklisted_def)
  show ?thesis
    using ProcessLock_effect [OF assms(1,2), of ?ctx] ProcessBurn_effect [OF assms, of ?ctx]
    by (auto simp: Lock_def Burn_def ev(2,3) intro!: ev(1) split: if_splits option.splits)
qed

theorem outgoing_takes_exactly_witness:
  "\<exists>ctx1 ctx2. sent_out ref_sdk ex_bridge ctx1 ''bob'' ''aku'' 30 4 \<and> sent_out ref_sdk ex_bridge ctx2 ''bob'' ''ceth'' 30 4 \<and>
     eth_Handler ref_sdk ref_geth (ex_keeper True) ex_bridge (MsgLock ex_lock) = Inr ctx1 \<and>
     eth_Handler ref_sdk ref_geth (ex_keeper True) ex_bridge (MsgBurn ex_burn) = Inr ctx2"
proof -
  obtain ctx1 ctx2 where c: "eth_Handler ref_sdk ref_geth (ex_keeper True) ex_bridge (MsgLock ex_lock) = Inr ctx1"
    "eth_Handler ref_sdk ref_geth (ex_keeper True) ex_bridge (MsgBurn ex_burn) = Inr ctx2"
    using ex_lock_accepted ex_burn_accepted by blast
  note o = outgoing_takes_exactly [OF ref_coin_laws ref_bank_laws ref_int_laws]
  have "sent_out ref_sdk ex_bridge ctx1 ''bob'' ''aku'' 30 4"
    using o [THEN conjunct1, THEN mp, OF c(1)] by (simp add: ex_lock_def ref_FromBech32_String)
  moreover have "sent_out ref_sdk ex_bridge ctx2 ''bob'' ''ceth'' 30 4"
    using o [THEN conjunct2, THEN mp, OF c(2)] by (simp add: ex_burn_def ref_FromBech32_String)
  ultimately show ?thesis using c by blast
qed

text \<open>
  C29: After the admin has set the blacklist, an address is blacklisted exactly if the message lists it, letter by
  letter: another spelling of the same Ethereum address is not. The one entry no message can remove is
  that of the empty address. Peggy tokens and the receiver account are not touched.
\<close>

theorem blacklist_is_last_set:
  assumes "eth_wf (eth_kv ctx)" and "eth_Handler S G K ctx (MsgSetBlacklist m) = Inr ctx'"
  shows "(IsBlacklisted ctx' a \<longleftrightarrow> a \<in> set (sb_Addresses m) \<or> a = [] \<and> IsBlacklisted ctx []) \<and>
    GetPeggyToken ctx' = GetPeggyToken ctx \<and> GetCethReceiverAccount S ctx' = GetCethReceiverAccount S ctx"
proof -
  let ?ctx = "ctx\<lparr>Events := []\<rparr>"
  have wf: "eth_wf (eth_kv ?ctx)" and step: "SetBlacklist S ?ctx m = Inr ctx'" using assms by (simp_all add: srv_SetBlacklist_def)
  note get = SetBlacklist_get [OF wf step] and rem = blacklist_removals_mem [OF wf]
  have "kv_get (eth_kv ctx') k = kv_get (eth_kv ctx) k" if "k \<in> {PeggyTokenKeyPrefix, CethReceiverAccountPrefix}" for k
    using that get [of k] by (auto simp: PeggyTokenKeyPrefix_def CethReceiverAccountPrefix_def BlacklistPrefix_def)
  then show ?thesis using get [of "BlacklistPrefix @ a"] rem [of a "sb_Addresses m"]
    by (auto simp: IsBlacklisted_def kv_has_def GetPeggyToken_def GetCethReceiverAccount_def eth_Exists_def split: if_splits)
qed

text \<open>The old entry is another spelling of the new one; it is off the list afterwards.\<close>

theorem blacklist_is_last_set_witness:
  "\<exists>ctx'. eth_Handler ref_sdk ref_geth (ex_keeper True) ex_admin (MsgSetBlacklist ex_blacklist) = Inr ctx' \<and>
     IsBlacklisted ctx' ''0xAA'' \<and> \<not> IsBlacklisted ctx' ''0xaa'' \<and>
     NewEthereumAddress ref_geth ''0xAA'' = NewEthereumAddress ref_geth ''0xaa''"
proof -
  obtain ctx' where c: "eth_Handler ref_sdk ref_geth (ex_keeper True) ex_admin (MsgSetBlacklist ex_blacklist) = Inr ctx'"
    using ex_blacklist_accepted by blast
  have "eth_wf (eth_kv ex_admin)" by (simp add: ex_admin_def SetAdminAccount_def eth_wf_def kv_ok_def)
  note b = blacklist_is_last_set [OF this c]
  have "IsBlacklisted ctx' ''0xAA''" and "\<not> IsBlacklisted ctx' ''0xaa''"
    using b [of "''0xAA''"] b [of "''0xaa''"] by (simp_all add: ex_blacklist_def)
  moreover have "NewEthereumAddress ref_geth ''0xAA'' = NewEthereumAddress ref_geth ''0xaa''" by code_simp
  ultimately show ?thesis using c by blast
qed

text \<open>
  C39: The identifier of an event is its chain, its nonce and its sender printed one after the other with nothing
  between them, so two events can have the same one: after event 11 of chain 1 is decided, event 1
  of the same sender on chain 11 is never accepted.
\<close>

theorem events_collide:
  assumes "eth_inv S G ctx" and "finalised S ctx (oracle_id 1 11 (ec_EthereumSender c)) p"
    and "ec_EthereumChainId c = 11" and "ec_Nonce c = 1"
  shows "\<exists>e. eth_Handler S G K (run (eth_Handler S G K) ctx ms) (MsgCreateEthBridgeClaim (Some c)) = Inl e"
proof -
  have "itoa 11 = ''11''" "itoa 1 = ''1''" by code_simp+
  then have "oracle_id (ec_EthereumChainId c) (ec_Nonce c) (ec_EthereumSender c) = oracle_id 1 11 (ec_EthereumSender c)"
    using assms(3,4) by (simp add: oracle_id_def)
  from final_rejects [OF assms(1,2) this] show ?thesis by blast
qed

theorem events_collide_witness:
  "\<exists>e. eth_Handler ref_sdk ref_geth (ex_keeper True)
     (run (eth_Handler ref_sdk ref_geth (ex_keeper True)) (ex_after (oracle_id 1 11 ''0x9'')) [MsgLock ex_lock])
     (MsgCreateEthBridgeClaim (Some (ex_claim\<lparr>ec_EthereumChainId := 11, ec_Nonce := 1\<rparr>))) = Inl e"
  by (rule events_collide [OF ex_after_inv, where p = "ex_decided (oracle_id 1 11 ''0x9'')"]) (simp_all add: ex_claim_def ex_after_final)

end
