(* ===== verification/IBCTransfer.thy ===== *)
theory IBCTransfer
  imports TokenRegistry
begin

text \<open>
  The wrapper of the repository around the IBC transfer module (\<^verbatim>\<open>x/ibctransfer\<close>): who may send a token out, which
  incoming token is let in, and the conversion of incoming coins to the precision they have here. What it
  calls of ibc-go is the record \<open>ibc\<close>, a parameter.
\<close>

section \<open>Packets and the transfer module\<close>

record packet =
  SourcePort :: string
  SourceChannel :: string
  DestPort :: string
  DestChannel :: string
  Data :: string

record packet_data =
  pd_Denom :: string
  pd_Amount :: string
  pd_Sender :: string
  pd_Receiver :: string

record msg_transfer =
  tf_SourcePort :: string
  tf_SourceChannel :: string
  tf_Token :: coin
  tf_Sender :: string
  tf_Receiver :: string

record denom_trace =
  dt_Path :: string
  dt_BaseDenom :: string

record 'b ibc =
  UnmarshalPacketData :: "string \<Rightarrow> packet_data result"
  sdk_OnRecvPacket :: "'b \<Rightarrow> packet \<Rightarrow> packet_data \<Rightarrow> 'b result"
  sdk_Transfer :: "'b \<Rightarrow> msg_transfer \<Rightarrow> 'b result"
  ReceiverChainIsSource :: "string \<Rightarrow> string \<Rightarrow> string \<Rightarrow> bool"
  GetDenomPrefix :: "string \<Rightarrow> string \<Rightarrow> string"
  ParseDenomTrace :: "string \<Rightarrow> denom_trace"
  IBCDenom :: "denom_trace \<Rightarrow> string"
  Sum256 :: "string \<Rightarrow> string"

datatype acknowledgement = ErrorAcknowledgement err | ResultAcknowledgement

definition ibc_ModuleName :: string where "ibc_ModuleName = ''scibctransfer''"
definition ibc_Version :: string where "ibc_Version = ''ics20-sc.1''"

abbreviation "ErrConvertingToUnitDenom \<equiv> ErrReg ''scibctransfer'' 1"
abbreviation "ErrAmountTooLowToConvert \<equiv> ErrReg ''scibctransfer'' 3"

definition GetEscrowAddress :: "'b ibc \<Rightarrow> string \<Rightarrow> string \<Rightarrow> address" where
  "GetEscrowAddress I portID channelID =
     (let contents = portID @ ''/'' @ channelID;
          preImage = ibc_Version @ [CHR 0x00] @ contents
      in take 20 (Sum256 I preImage))"

section \<open>Sending\<close>

definition ibc_Transfer :: "'b ibc \<Rightarrow> 'b ctx \<Rightarrow> msg_transfer \<Rightarrow> 'b ctx result" where
  "ibc_Transfer I ctx msg =
     bind_r (GetRegistry ctx) (\<lambda>registry.
     bind_r (wrap_err tr_ErrPermissionDenied (GetEntry registry (coin_Denom (tf_Token msg)))) (\<lambda>registryEntry.
     if UnitDenom registryEntry \<noteq> [] \<and> UnitDenom registryEntry \<noteq> Denom registryEntry then Inl tr_ErrPermissionDenied
     else if \<not> CheckEntryPermissions registryEntry [Permission_IBCEXPORT] then Inl tr_ErrPermissionDenied
     else if coin_Amount (tf_Token msg) \<le> 0 then Inl ErrAmountTooLowToConvert
     else with_bank ctx (sdk_Transfer I (sdk_state ctx) msg)))"

section \<open>Precision\<close>

definition ibc_IncreasePrecision :: "'b sdk \<Rightarrow> int \<Rightarrow> nat \<Rightarrow> int result" where
  "ibc_IncreasePrecision S dec po =
     bind_r (panics (Dec_Power S (NewDec S 10) po)) (\<lambda>p. panics (Dec_MulTruncate S dec p))"

definition ibc_ReducePrecision :: "'b sdk \<Rightarrow> int \<Rightarrow> nat \<Rightarrow> int result" where
  "ibc_ReducePrecision S dec po =
     bind_r (panics (Dec_Power S (NewDec S 10) po)) (\<lambda>p. panics (Dec_QuoTruncate S dec p))"

definition truncated :: "'b sdk \<Rightarrow> int \<Rightarrow> int result" where
  "truncated S d = bind_r (panics (Dec_TruncateInt S d)) (\<lambda>n. panics (NewIntFromBigInt S n))"

text \<open>The difference of two \<^verbatim>\<open>int64\<close> as a \<^verbatim>\<open>uint64\<close>.\<close>

definition decimals_diff :: "registry_entry \<Rightarrow> registry_entry \<Rightarrow> nat" where
  "decimals_diff a b = nat ((Decimals a - Decimals b) mod 2 ^ 64)"

definition ConvertCoinsForTransfer :: "'b sdk \<Rightarrow> msg_transfer \<Rightarrow> registry_entry \<Rightarrow> registry_entry \<Rightarrow> (coin \<times> coin) result" where
  "ConvertCoinsForTransfer S msg sendRegistryEntry sendAsRegistryEntry =
     (let po = decimals_diff sendRegistryEntry sendAsRegistryEntry;
          decAmount = NewDecFromInt S (coin_Amount (tf_Token msg)) in
     bind_r (ibc_ReducePrecision S decAmount po) (\<lambda>convAmountDec.
     bind_r (truncated S convAmountDec) (\<lambda>convAmount.
     bind_r (panics (NewCoin S (IbcCounterpartyDenom sendRegistryEntry) convAmount)) (\<lambda>convToken.
     bind_r (ibc_IncreasePrecision S (NewDecFromInt S convAmount) po) (\<lambda>tokenAmountDec.
     bind_r (truncated S tokenAmountDec) (\<lambda>tokenAmount.
     bind_r (panics (NewCoin S (coin_Denom (tf_Token msg)) tokenAmount)) (\<lambda>token.
     Inr (token, convToken))))))))"

definition PrepareToSendConvertedCoins :: "'b sdk \<Rightarrow> 'b ibc \<Rightarrow> 'b ctx \<Rightarrow> msg_transfer \<Rightarrow> coin \<Rightarrow> coin \<Rightarrow> 'b ctx result" where
  "PrepareToSendConvertedCoins S I ctx msg token convToken =
     bind_r (AccAddressFromBech32 S (tf_Sender msg)) (\<lambda>sender.
     let escrowAddress = GetEscrowAddress I (tf_SourcePort msg) (tf_SourceChannel msg) in
     bind_r (panics (NewCoins S [token])) (\<lambda>tokens.
     bind_r (with_bank ctx (SendCoins S (sdk_state ctx) sender escrowAddress tokens)) (\<lambda>ctx.
     bind_r (panics (NewCoins S [convToken])) (\<lambda>convCoins.
     bind_r (with_bank ctx (MintCoins S (sdk_state ctx) ibc_ModuleName convCoins)) (\<lambda>ctx.
     bind_r (with_bank ctx (SendCoinsFromModuleToAccount S (sdk_state ctx) ibc_ModuleName sender convCoins)) (\<lambda>ctx.
     Inr (EmitEvents
       [(''converted_transfer'', [(''module'', ibc_ModuleName), (''sent_amount'', itoa (coin_Amount token)),
         (''sent_denom'', coin_Denom token), (''converted_amount'', itoa (coin_Amount convToken)),
         (''converted_denom'', coin_Denom convToken)])] ctx)))))))"

definition ConvertIncomingCoins :: "'b sdk \<Rightarrow> string \<Rightarrow> nat \<Rightarrow> int result" where
  "ConvertIncomingCoins S amount diff =
     (case NewIntFromString S amount of
        None \<Rightarrow> Inl (ErrNew ''Failed to convert to int from string'')
      | Some intAmount \<Rightarrow>
          bind_r (ibc_IncreasePrecision S (NewDecFromInt S intAmount) diff) (\<lambda>d. truncated S d))"

section \<open>Receiving\<close>

definition IsRecvPacketAllowed :: "'b ibc \<Rightarrow> packet \<Rightarrow> packet_data \<Rightarrow> registry_entry \<Rightarrow> bool" where
  "IsRecvPacketAllowed I packet data mintedDenomEntry =
     (if ReceiverChainIsSource I (SourcePort packet) (SourceChannel packet) (pd_Denom data) then True
      else CheckEntryPermissions mintedDenomEntry [Permission_IBCIMPORT])"

text \<open>Slicing a string beyond its end panics.\<close>

definition GetMintedDenomFromPacket :: "'b ibc \<Rightarrow> packet \<Rightarrow> packet_data \<Rightarrow> string result" where
  "GetMintedDenomFromPacket I packet data =
     (if ReceiverChainIsSource I (SourcePort packet) (SourceChannel packet) (pd_Denom data)
      then
        let n = length (GetDenomPrefix I (SourcePort packet) (SourceChannel packet)) in
        if length (pd_Denom data) < n then Inl (Panic ''slice bounds out of range'')
        else
        let denom = drop n (pd_Denom data);
            denomTrace = ParseDenomTrace I denom
        in if dt_Path denomTrace \<noteq> [] then Inr (IBCDenom I denomTrace) else Inr denom
      else Inr (IBCDenom I (ParseDenomTrace I (GetDenomPrefix I (DestPort packet) (DestChannel packet) @ pd_Denom data))))"

definition ExecConvForIncomingCoins ::
    "'b sdk \<Rightarrow> 'b ibc \<Rightarrow> 'b ctx \<Rightarrow> registry_entry \<Rightarrow> registry_entry \<Rightarrow> packet \<Rightarrow> packet_data \<Rightarrow> 'b ctx result" where
  "ExecConvForIncomingCoins S I ctx mintedDenomEntry convertToDenomEntry packet data =
     bind_r (AccAddressFromBech32 S (pd_Receiver data)) (\<lambda>receiver.
     case NewIntFromString S (pd_Amount data) of
       None \<Rightarrow> Inl (ErrNew ''Unable to get string amount'')
     | Some amount \<Rightarrow>
         bind_r (panics (NewCoin S (Denom mintedDenomEntry) amount)) (\<lambda>c.
         bind_r (panics (NewCoins S [c])) (\<lambda>incomingCoins.
         bind_r (with_bank ctx (SendCoinsFromAccountToModule S (sdk_state ctx) receiver ibc_ModuleName incomingCoins)) (\<lambda>ctx.
         bind_r (with_bank ctx (BurnCoins S (sdk_state ctx) ibc_ModuleName incomingCoins)) (\<lambda>ctx.
         bind_r (panics (NewCoin S (Denom convertToDenomEntry) amount)) (\<lambda>c.
         bind_r (panics (NewCoins S [c])) (\<lambda>finalCoins.
         bind_r (if Decimals mintedDenomEntry < Decimals convertToDenomEntry
                 then bind_r (ConvertIncomingCoins S (pd_Amount data) (decimals_diff convertToDenomEntry mintedDenomEntry)) (\<lambda>convAmount.
                   bind_r (panics (NewCoin S (Denom convertToDenomEntry) convAmount)) (\<lambda>c.
                   bind_r (panics (NewCoins S [c])) (\<lambda>finalCoins. Inr (convAmount, finalCoins))))
                 else Inr (amount, finalCoins)) (\<lambda>(convAmount, finalCoins).
         let escrowAddress = GetEscrowAddress I (DestPort packet) (DestChannel packet) in
         bind_r (with_bank ctx (SendCoins S (sdk_state ctx) escrowAddress receiver finalCoins)) (\<lambda>ctx.
         Inr (EmitEvents
           [(''converted_received_packet'', [(''module'', ibc_ModuleName), (''packet_amount'', pd_Amount data),
             (''packet_denom'', Denom mintedDenomEntry), (''converted_amount'', itoa convAmount),
             (''converted_denom'', Denom convertToDenomEntry)])] ctx))))))))))"

definition packet_event :: "packet_data \<Rightarrow> bool \<Rightarrow> event" where
  "packet_event data success =
     (''fungible_token_packet'', [(''module'', ''transfer''), (''receiver'', pd_Receiver data), (''denom'', pd_Denom data),
       (''amount'', pd_Amount data), (''success'', if success then ''true'' else ''false'')])"

text \<open>
  The context is returned with the acknowledgement: the caller keeps it if the acknowledgement is a result and
  discards it if it is an error. What a failed call leaves in it is discarded, so it is not modelled.
\<close>

fun lift_panic :: "'a result \<Rightarrow> (err + 'a) result" where
  "lift_panic (Inl (Panic m)) = Inl (Panic m)"
| "lift_panic (Inl e) = Inr (Inl e)"
| "lift_panic (Inr x) = Inr (Inr x)"

text \<open>
  The part after the transfer module has received the coins. The channel module writes the changes made for a packet
  back only when its acknowledgement is a success, so the state beside an error acknowledgement does not follow the
  first steps of a conversion that fails later on.
\<close>

definition convert_received ::
    "'b sdk \<Rightarrow> 'b ibc \<Rightarrow> 'b ctx \<Rightarrow> packet \<Rightarrow> packet_data \<Rightarrow> registry \<Rightarrow> string \<Rightarrow> ('b ctx \<times> acknowledgement) result" where
  "convert_received S I ctx packet data registry mintedDenom =
     (case GetEntry registry mintedDenom of
       Inl e \<Rightarrow> Inr (EmitEvents [packet_event data False] ctx, ErrorAcknowledgement (ErrSdk ''ErrInvalidCoins''))
     | Inr mintedDenomEntry \<Rightarrow>
         if \<not> IsRecvPacketAllowed I packet data mintedDenomEntry
         then Inr (EmitEvents [packet_event data False] ctx, ErrorAcknowledgement (ErrSdk ''ErrInvalidCoins''))
         else
         (case GetEntry registry (UnitDenom mintedDenomEntry) of
            Inl e \<Rightarrow> Inr (EmitEvents [packet_event data False] ctx, ResultAcknowledgement)
          | Inr convertToDenomEntry \<Rightarrow>
              if 0 < Decimals convertToDenomEntry \<and> 0 < Decimals mintedDenomEntry \<and>
                 Decimals mintedDenomEntry < Decimals convertToDenomEntry
              then
                bind_r (lift_panic (ExecConvForIncomingCoins S I ctx mintedDenomEntry convertToDenomEntry packet data)) (\<lambda>r.
                case r of
                  Inl e \<Rightarrow> Inr (ctx, ErrorAcknowledgement ErrConvertingToUnitDenom)
                | Inr ctx \<Rightarrow> Inr (EmitEvents [packet_event data True] ctx, ResultAcknowledgement))
              else Inr (EmitEvents [packet_event data True] ctx, ResultAcknowledgement)))"

definition OnRecvPacketWhitelistConvert :: "'b sdk \<Rightarrow> 'b ibc \<Rightarrow> 'b ctx \<Rightarrow> packet \<Rightarrow> ('b ctx \<times> acknowledgement) result" where
  "OnRecvPacketWhitelistConvert S I ctx packet =
     bind_r (lift_panic (UnmarshalPacketData I (Data packet))) (\<lambda>r. case r of Inl e \<Rightarrow> Inr (ctx, ErrorAcknowledgement e) | Inr data \<Rightarrow>
     bind_r (lift_panic (with_bank ctx (sdk_OnRecvPacket I (sdk_state ctx) packet data))) (\<lambda>r.
     case r of Inl e \<Rightarrow> Inr (ctx, ErrorAcknowledgement e) | Inr ctx \<Rightarrow>
     bind_r (GetMintedDenomFromPacket I packet data) (\<lambda>mintedDenom.
     bind_r (GetRegistry ctx) (\<lambda>registry.
     convert_received S I ctx packet data registry mintedDenom))))"

section \<open>The module's callbacks\<close>

text \<open>
  The callbacks of the wrapped module: those that open and close channels, and those for the acknowledgement and the
  timeout of a packet that was sent. A capability and the counterparty's end are known by their names.
\<close>

record 'b channel_callbacks =
  am_OnChanOpenInit :: "'b \<Rightarrow> nat \<Rightarrow> string list \<Rightarrow> string \<Rightarrow> string \<Rightarrow> string \<Rightarrow> string \<times> string \<Rightarrow> string \<Rightarrow> 'b result"
  am_OnChanOpenTry :: "'b \<Rightarrow> nat \<Rightarrow> string list \<Rightarrow> string \<Rightarrow> string \<Rightarrow> string \<Rightarrow> string \<times> string \<Rightarrow> string \<Rightarrow> string \<Rightarrow> 'b result"
  am_OnChanOpenAck :: "'b \<Rightarrow> string \<Rightarrow> string \<Rightarrow> string \<Rightarrow> 'b result"
  am_OnChanOpenConfirm :: "'b \<Rightarrow> string \<Rightarrow> string \<Rightarrow> 'b result"
  am_OnChanCloseInit :: "'b \<Rightarrow> string \<Rightarrow> string \<Rightarrow> 'b result"
  am_OnChanCloseConfirm :: "'b \<Rightarrow> string \<Rightarrow> string \<Rightarrow> 'b result"
  am_OnAcknowledgementPacket :: "'b \<Rightarrow> packet \<Rightarrow> string \<Rightarrow> address \<Rightarrow> 'b result"
  am_OnTimeoutPacket :: "'b \<Rightarrow> packet \<Rightarrow> address \<Rightarrow> 'b result"

definition OnChanOpenInit ::
    "'b channel_callbacks \<Rightarrow> 'b ctx \<Rightarrow> nat \<Rightarrow> string list \<Rightarrow> string \<Rightarrow> string \<Rightarrow> string \<Rightarrow> string \<times> string \<Rightarrow> string \<Rightarrow> 'b ctx result" where
  "OnChanOpenInit C ctx order connectionHops portID channelID channelCap counterparty version =
     with_bank ctx (am_OnChanOpenInit C (sdk_state ctx) order connectionHops portID channelID channelCap counterparty version)"

definition OnChanOpenTry ::
    "'b channel_callbacks \<Rightarrow> 'b ctx \<Rightarrow> nat \<Rightarrow> string list \<Rightarrow> string \<Rightarrow> string \<Rightarrow> string \<Rightarrow> string \<times> string \<Rightarrow> string \<Rightarrow> string \<Rightarrow> 'b ctx result" where
  "OnChanOpenTry C ctx order connectionHops portID channelID channelCap counterparty version counterpartyVersion =
     with_bank ctx (am_OnChanOpenTry C (sdk_state ctx) order connectionHops portID channelID channelCap counterparty version counterpartyVersion)"

definition OnChanOpenAck :: "'b channel_callbacks \<Rightarrow> 'b ctx \<Rightarrow> string \<Rightarrow> string \<Rightarrow> string \<Rightarrow> 'b ctx result" where
  "OnChanOpenAck C ctx portID channelID counterpartyVersion =
     with_bank ctx (am_OnChanOpenAck C (sdk_state ctx) portID channelID counterpartyVersion)"

definition OnChanOpenConfirm :: "'b channel_callbacks \<Rightarrow> 'b ctx \<Rightarrow> string \<Rightarrow> string \<Rightarrow> 'b ctx result" where
  "OnChanOpenConfirm C ctx portID channelID = with_bank ctx (am_OnChanOpenConfirm C (sdk_state ctx) portID channelID)"

definition OnChanCloseInit :: "'b channel_callbacks \<Rightarrow> 'b ctx \<Rightarrow> string \<Rightarrow> string \<Rightarrow> 'b ctx result" where
  "OnChanCloseInit C ctx portID channelID = with_bank ctx (am_OnChanCloseInit C (sdk_state ctx) portID channelID)"

definition OnChanCloseConfirm :: "'b channel_callbacks \<Rightarrow> 'b ctx \<Rightarrow> string \<Rightarrow> string \<Rightarrow> 'b ctx result" where
  "OnChanCloseConfirm C ctx portID channelID = with_bank ctx (am_OnChanOpenConfirm C (sdk_state ctx) portID channelID)"

definition ibc_OnRecvPacket :: "'b sdk \<Rightarrow> 'b ibc \<Rightarrow> 'b ctx \<Rightarrow> packet \<Rightarrow> ('b ctx \<times> acknowledgement) result" where
  "ibc_OnRecvPacket S I ctx packet = OnRecvPacketWhitelistConvert S I ctx packet"

definition OnAcknowledgementPacket :: "'b channel_callbacks \<Rightarrow> 'b ctx \<Rightarrow> packet \<Rightarrow> string \<Rightarrow> address \<Rightarrow> 'b ctx result" where
  "OnAcknowledgementPacket C ctx packet acknowledgement relayer =
     with_bank ctx (am_OnAcknowledgementPacket C (sdk_state ctx) packet acknowledgement relayer)"

definition OnTimeoutPacket :: "'b channel_callbacks \<Rightarrow> 'b ctx \<Rightarrow> packet \<Rightarrow> address \<Rightarrow> 'b ctx result" where
  "OnTimeoutPacket C ctx packet relayer = with_bank ctx (am_OnTimeoutPacket C (sdk_state ctx) packet relayer)"

end
