(* ===== verification/IBC_Props.thy ===== *)
theory IBC_Props
  imports IBCTransfer
begin

text \<open>
  Theorems on the transfer wrapper: conversion of precision is exact and loses less than one unit, and an
  incoming packet is only acknowledged for a token that may come in, with exactly its value paid out of escrow.
\<close>

section \<open>Precision\<close>

lemma power_of_ten: "dec_laws S \<Longrightarrow> Dec_Power S (NewDec S 10) k = Some p \<Longrightarrow> p = 10 ^ k * one_dec"
  using dec_laws_pow [of S 10 k] by (auto simp: dec_laws_NewDec dest: yields_Some)

lemma truncated_exact:
  "dec_laws S \<Longrightarrow> int_laws S \<Longrightarrow> 0 \<le> d \<Longrightarrow> truncated S d = Inr n \<Longrightarrow> n = d div one_dec"
  unfolding truncated_def int_laws_def by (auto dest!: dec_laws_trunc dest: yields_Some) (metis yields_Some)

lemma one_dec_signs [simp]: "0 < one_dec" "0 \<le> one_dec" "one_dec \<noteq> 0"
  by (simp_all add: one_dec_def)

lemma increase_exact:
  assumes "dec_laws S" and "mul_truncate_laws S" and "int_laws S" and "0 \<le> n"
    and "ibc_IncreasePrecision S (NewDecFromInt S n) k = Inr d" and "truncated S d = Inr m"
  shows "m = n * 10 ^ k"
proof -
  obtain p where p: "Dec_Power S (NewDec S 10) k = Some p" "Dec_MulTruncate S (n * one_dec) p = Some d"
    using assms(2,5) by (auto simp: ibc_IncreasePrecision_def mul_truncate_laws_def)
  have p': "p = 10 ^ k * one_dec" using power_of_ten [OF assms(1) p(1)] .
  have "yields (Dec_MulTruncate S (n * one_dec) p) (n * one_dec * p div one_dec)"
    using assms(2,4) unfolding mul_truncate_laws_def p' by (metis mult_nonneg_nonneg one_dec_signs(2) zero_le_numeral zero_le_power)
  from yields_Some [OF this p(2)] have "d = n * 10 ^ k * one_dec"
    by (simp add: p' mult.assoc)
  then show ?thesis using truncated_exact [OF assms(1,3) _ assms(6)] assms(4) by simp
qed

lemma reduce_exact:
  assumes "dec_laws S" and "mul_truncate_laws S" and "int_laws S" and "0 \<le> n"
    and "ibc_ReducePrecision S (NewDecFromInt S n) k = Inr d" and "truncated S d = Inr m"
  shows "m = n div 10 ^ k"
proof -
  obtain p where p: "Dec_Power S (NewDec S 10) k = Some p" "Dec_QuoTruncate S (n * one_dec) p = Some d"
    using assms(2,5) by (auto simp: ibc_ReducePrecision_def mul_truncate_laws_def)
  have p': "p = 10 ^ k * one_dec" using power_of_ten [OF assms(1) p(1)] .
  have "yields (Dec_QuoTruncate S (n * one_dec) p) (n * one_dec * one_dec div p)"
    using assms(4) by (intro dec_laws_quotr [OF assms(1)]) (simp_all add: p')
  from yields_Some [OF this p(2)] have "d = n * one_dec div 10 ^ k"
    by (simp add: p')
  moreover have "n * one_dec div 10 ^ k div one_dec = n div 10 ^ k"
    by (simp add: zdiv_zmult2_eq [symmetric] mult.commute [of _ one_dec])
  ultimately show ?thesis
    using truncated_exact [OF assms(1,3) _ assms(6)] assms(4) by (simp add: pos_imp_zdiv_nonneg_iff)
qed

text \<open>What is deducted for an outgoing transfer is worth exactly what is sent, and less than one unit of it stays.\<close>

lemma ConvertCoinsForTransfer_exact:
  assumes "dec_laws S" and "mul_truncate_laws S" and "int_laws S" and "coin_laws S" and "0 \<le> coin_Amount (tf_Token msg)"
    and "ConvertCoinsForTransfer S msg e e' = Inr (token, conv)"
  shows "coin_Amount token = coin_Amount conv * 10 ^ decimals_diff e e'" and "coin_Amount token \<le> coin_Amount (tf_Token msg)"
    and "coin_Amount (tf_Token msg) < coin_Amount token + 10 ^ decimals_diff e e'"
proof -
  let ?n = "coin_Amount (tf_Token msg)" and ?k = "decimals_diff e e'"
  from assms(6) obtain d c d2 t where s: "ibc_ReducePrecision S (NewDecFromInt S ?n) ?k = Inr d" "truncated S d = Inr c"
    "NewCoin S (IbcCounterpartyDenom e) c = Some conv" "ibc_IncreasePrecision S (NewDecFromInt S c) ?k = Inr d2"
    "truncated S d2 = Inr t" "NewCoin S (coin_Denom (tf_Token msg)) t = Some token"
    unfolding ConvertCoinsForTransfer_def Let_def by auto
  have c: "c = ?n div 10 ^ ?k" using reduce_exact [OF assms(1-3,5) s(1,2)] .
  have "0 \<le> c" using assms(5) by (simp add: c pos_imp_zdiv_nonneg_iff)
  then have t: "t = c * 10 ^ ?k" using increase_exact [OF assms(1-3) _ s(4,5)] by simp
  have a: "coin_Amount token = t" "coin_Amount conv = c" using s(3,6) by (auto simp: coin_laws_NewCoin [OF assms(4)] split: if_splits)
  show "coin_Amount token = coin_Amount conv * 10 ^ ?k" by (simp add: a t)
  have "?n = c * 10 ^ ?k + ?n mod 10 ^ ?k" by (simp only: c div_mult_mod_eq)
  moreover have "0 \<le> ?n mod 10 ^ ?k" "?n mod 10 ^ ?k < 10 ^ ?k" by simp_all
  ultimately show "coin_Amount token \<le> ?n" and "?n < coin_Amount token + 10 ^ ?k" unfolding a t by linarith+
qed

section \<open>Receiving\<close>

definition converted :: "'b sdk \<Rightarrow> 'b \<Rightarrow> 'b \<Rightarrow> address \<Rightarrow> address \<Rightarrow> string \<Rightarrow> int \<Rightarrow> string \<Rightarrow> int \<Rightarrow> bool" where
  "converted S b b' receiver escrow d n u m \<longleftrightarrow>
     (\<forall>a x. bal S b' a x = bal S b a x - (if a = receiver \<and> x = d then n else 0)
        - (if a = escrow \<and> x = u then m else 0) + (if a = receiver \<and> x = u then m else 0))"

lemma coins_of_one: "coin_laws S \<Longrightarrow> NewCoin S d n = Some c \<Longrightarrow> NewCoins S [c] = Some cs \<Longrightarrow>
    0 \<le> n \<and> (\<forall>x. amt cs x = (if x = d then n else 0))"
  by (auto simp: coin_laws_NewCoin coin_laws_NewCoins split: if_splits)

lemma ExecConv_effect:
  assumes "dec_laws S" and "mul_truncate_laws S" and "int_laws S" and "coin_laws S" and "bank_laws S"
    and "Decimals e < Decimals u" and "ExecConvForIncomingCoins S I ctx e u packet data = Inr ctx'"
  shows "\<exists>r n. AccAddressFromBech32 S (pd_Receiver data) = Inr r \<and> NewIntFromString S (pd_Amount data) = Some n \<and>
    converted S (sdk_state ctx) (sdk_state ctx') r (GetEscrowAddress I (DestPort packet) (DestChannel packet))
      (Denom e) n (Denom u) (n * 10 ^ decimals_diff u e)"
proof -
  let ?x = "GetEscrowAddress I (DestPort packet) (DestChannel packet)"
  from assms(7) obtain r n where r: "AccAddressFromBech32 S (pd_Receiver data) = Inr r" "NewIntFromString S (pd_Amount data) = Some n"
    by (auto simp: ExecConvForIncomingCoins_def split: option.splits)
  with assms(6,7) obtain c cs b1 b2 m c2 cs2 b3 where
    s: "NewCoin S (Denom e) n = Some c" "NewCoins S [c] = Some cs"
    "SendCoinsFromAccountToModule S (sdk_state ctx) r ibc_ModuleName cs = Inr b1" "BurnCoins S b1 ibc_ModuleName cs = Inr b2"
    and m: "ConvertIncomingCoins S (pd_Amount data) (decimals_diff u e) = Inr m"
    and t: "NewCoin S (Denom u) m = Some c2" "NewCoins S [c2] = Some cs2" "SendCoins S b2 ?x r cs2 = Inr b3" "sdk_state ctx' = b3"
    by (auto simp: ExecConvForIncomingCoins_def Let_def)
  have cs: "0 \<le> n" "\<And>x. amt cs x = (if x = Denom e then n else 0)" using coins_of_one [OF assms(4) s(1,2)] by auto
  have "m = n * 10 ^ decimals_diff u e"
    using m r(2) increase_exact [OF assms(1-3) cs(1)] by (auto simp: ConvertIncomingCoins_def)
  moreover have "\<And>x. amt cs2 x = (if x = Denom u then m else 0)" using coins_of_one [OF assms(4) t(1,2)] by auto
  ultimately show ?thesis
    using r cs(2) bank_laws_to_module [OF assms(5) s(3)] bank_laws_burn [OF assms(5) s(4)] bank_laws_send [OF assms(5) t(3)]
    by (auto simp: converted_def moves_def t(4))
qed

text \<open>
  What a received packet changes beyond the transfer itself: the conversion, when the entry names a registered unit of
  more decimals, and nothing otherwise.
\<close>

definition conversion_done :: "'b sdk \<Rightarrow> 'b ibc \<Rightarrow> 'b \<Rightarrow> 'b \<Rightarrow> packet \<Rightarrow> packet_data \<Rightarrow> registry \<Rightarrow> registry_entry \<Rightarrow> bool" where
  "conversion_done S I b b' packet data wl e \<longleftrightarrow>
     (case GetEntry wl (UnitDenom e) of
        Inl _ \<Rightarrow> b' = b
      | Inr u \<Rightarrow>
          if 0 < Decimals e \<and> Decimals e < Decimals u
          then \<exists>r n. AccAddressFromBech32 S (pd_Receiver data) = Inr r \<and> NewIntFromString S (pd_Amount data) = Some n \<and>
            converted S b b' r (GetEscrowAddress I (DestPort packet) (DestChannel packet))
              (Denom e) n (Denom u) (n * 10 ^ decimals_diff u e)
          else b' = b)"

lemma lift_panic_bind:
  "bind_r (lift_panic m) (\<lambda>r. case r of Inl e \<Rightarrow> Inr (f e) | Inr x \<Rightarrow> g x) = Inr y \<longleftrightarrow>
     (\<exists>e. \<not> is_panic e \<and> m = Inl e \<and> y = f e) \<or> (\<exists>x. m = Inr x \<and> g x = Inr y)"
  by (cases m rule: lift_panic.cases) auto

lemma convert_received_Result:
  assumes "dec_laws S" and "mul_truncate_laws S" and "int_laws S" and "coin_laws S" and "bank_laws S"
    and step: "convert_received S I ctx packet data wl minted = Inr (ctx', ResultAcknowledgement)"
  shows "\<exists>e. GetEntry wl minted = Inr e \<and>
    (ReceiverChainIsSource I (SourcePort packet) (SourceChannel packet) (pd_Denom data) \<or> Permission_IBCIMPORT \<in> set (Permissions e)) \<and>
    conversion_done S I (sdk_state ctx) (sdk_state ctx') packet data wl e"
proof -
  from step obtain e where e: "GetEntry wl minted = Inr e" "IsRecvPacketAllowed I packet data e"
    by (cases "GetEntry wl minted") (auto simp: convert_received_def split: if_splits)
  have ok: "ReceiverChainIsSource I (SourcePort packet) (SourceChannel packet) (pd_Denom data) \<or> Permission_IBCIMPORT \<in> set (Permissions e)"
    using e(2) by (auto simp: IsRecvPacketAllowed_def split: if_splits)
  show ?thesis
  proof (cases "GetEntry wl (UnitDenom e)")
    case (Inl x)
    then show ?thesis using e step ok by (auto simp: convert_received_def conversion_done_def)
  next
    case (Inr u)
    show ?thesis
    proof (cases "0 < Decimals u \<and> 0 < Decimals e \<and> Decimals e < Decimals u")
      case True
      then obtain ctx1 where "ExecConvForIncomingCoins S I ctx e u packet data = Inr ctx1" "sdk_state ctx' = sdk_state ctx1"
        using step e Inr by (auto simp: convert_received_def lift_panic_bind simp del: bind_r_Inr)
      with ExecConv_effect [OF assms(1-5)] True Inr e ok show ?thesis by (auto simp: conversion_done_def)
    next
      case False
      then show ?thesis using step e Inr ok by (auto simp: convert_received_def conversion_done_def)
    qed
  qed
qed

text \<open>
  C11: An incoming packet is acknowledged as received only if the token it becomes here is in the registry and either
  comes home or has the permission to be imported. Beyond what the transfer module did, the balances then
  change by the conversion exactly when the entry names a registered unit of more decimals: the receiver gives up the
  received coins, which are burned, and gets the same value in the finer unit out of the escrow account of the channel.
\<close>

theorem received_exactly:
  assumes "dec_laws S" and "mul_truncate_laws S" and "int_laws S" and "coin_laws S" and "bank_laws S"
    and "ibc_OnRecvPacket S I ctx packet = Inr (ctx', ResultAcknowledgement)"
  shows "\<exists>data b minted wl e. UnmarshalPacketData I (Data packet) = Inr data \<and>
    sdk_OnRecvPacket I (sdk_state ctx) packet data = Inr b \<and>
    GetMintedDenomFromPacket I packet data = Inr minted \<and> GetRegistry ctx = Inr wl \<and> GetEntry wl minted = Inr e \<and>
    (ReceiverChainIsSource I (SourcePort packet) (SourceChannel packet) (pd_Denom data) \<or> Permission_IBCIMPORT \<in> set (Permissions e)) \<and>
    conversion_done S I b (sdk_state ctx') packet data wl e"
proof -
  from assms(6) obtain data b minted wl where
    d: "UnmarshalPacketData I (Data packet) = Inr data" "sdk_OnRecvPacket I (sdk_state ctx) packet data = Inr b"
    "GetMintedDenomFromPacket I packet data = Inr minted" "GetRegistry (ctx\<lparr>sdk_state := b\<rparr>) = Inr wl"
    "convert_received S I (ctx\<lparr>sdk_state := b\<rparr>) packet data wl minted = Inr (ctx', ResultAcknowledgement)"
    unfolding ibc_OnRecvPacket_def OnRecvPacketWhitelistConvert_def lift_panic_bind by auto
  have "GetRegistry ctx = Inr wl" using d(4) by (simp add: GetRegistry_def)
  with convert_received_Result [OF assms(1-5) d(5)] d(1-3) show ?thesis by auto
qed

section \<open>An example\<close>

text \<open>
  Five units of an imported token of 10 decimals arrive for \<open>bob\<close>; here the token has 18 decimals, and the escrow
  account of the channel holds enough of it.
\<close>

definition ex_data :: packet_data where
  "ex_data = \<lparr>pd_Denom = ''xeth'', pd_Amount = ''5'', pd_Sender = ''s'', pd_Receiver = ref_String ''bob''\<rparr>"

definition ex_packet :: packet where
  "ex_packet = \<lparr>SourcePort = ''transfer'', SourceChannel = ''channel-1'', DestPort = ''transfer'', DestChannel = ''channel-0'', Data = []\<rparr>"

definition ref_ibc :: "ref_state ibc" where
  "ref_ibc = \<lparr>UnmarshalPacketData = (\<lambda>_. Inr ex_data),
     sdk_OnRecvPacket = (\<lambda>b p d. Inr (ref_add b ''bob'' [\<lparr>coin_Denom = ''ibc/xeth'', coin_Amount = 5\<rparr>])),
     sdk_Transfer = (\<lambda>b m. Inr b), ReceiverChainIsSource = (\<lambda>p c d. HasPrefix d (p @ ''/'' @ c @ ''/'')),
     GetDenomPrefix = (\<lambda>p c. p @ ''/'' @ c @ ''/''), ParseDenomTrace = (\<lambda>s. \<lparr>dt_Path = [], dt_BaseDenom = s\<rparr>),
     IBCDenom = (\<lambda>t. ''ibc/xeth''), Sum256 = (\<lambda>s. s)\<rparr>"

definition ex_xeth :: registry_entry where
  "ex_xeth = (clp_entry (''ibc/xeth'', 10))\<lparr>Permissions := [Permission_IBCIMPORT], UnitDenom := ''ceth''\<rparr>"

definition ex_escrow :: address where
  "ex_escrow = GetEscrowAddress ref_ibc ''transfer'' ''channel-0''"

definition ex_ibc :: "ref_state ctx" where
  "ex_ibc = ref_ctx\<lparr>tr_kv := [(tr_WhitelistStorePrefix, RegistryV [Some ex_xeth, Some (clp_entry (''ceth'', 18))])],
     sdk_state := (sdk_state ref_ctx)\<lparr>ref_balance := (\<lambda>a d. if a = ex_escrow \<and> d = ''ceth'' then 1000000000 else 0)\<rparr>\<rparr>"

lemma ex_ibc_codes:
  "ReceiverChainIsSource ref_ibc ''transfer'' ''channel-1'' ''xeth'' = False" "ref_atoi ''5'' = Some 5"
  "EqualFold ''ibc/xeth'' ''ibc/xeth''" "\<not> EqualFold ''ibc/xeth'' ''ceth''" "EqualFold ''ceth'' ''ceth''"
  "ConvertIncomingCoins ref_sdk ''5'' 8 = Inr 500000000" "ref_ValidateDenom ''ibc/xeth''" "ref_ValidateDenom ''ceth''"
  "ex_escrow \<noteq> ''bob''" "ex_escrow \<noteq> ''module/scibctransfer''"
  by code_simp+

lemma ex_ibc_registry:
  "GetRegistry ex_ibc = Inr [Some ex_xeth, Some (clp_entry (''ceth'', 18))]"
  "GetEntry [Some ex_xeth, Some (clp_entry (''ceth'', 18))] ''ibc/xeth'' = Inr ex_xeth"
  "GetEntry [Some ex_xeth, Some (clp_entry (''ceth'', 18))] ''ceth'' = Inr (clp_entry (''ceth'', 18))"
  "UnitDenom ex_xeth = ''ceth''" "Denom ex_xeth = ''ibc/xeth''" "Decimals ex_xeth = 10" "Permissions ex_xeth = [Permission_IBCIMPORT]"
  "Denom (clp_entry (''ceth'', 18)) = ''ceth''" "Decimals (clp_entry (''ceth'', 18)) = 18"
  by (simp_all add: GetRegistry_def ex_ibc_def kv_get_def ex_xeth_def clp_entry_def ex_ibc_codes)

lemma ref_ibc_sel [simp]:
  "UnmarshalPacketData ref_ibc = (\<lambda>_. Inr ex_data)"
  "sdk_OnRecvPacket ref_ibc = (\<lambda>b p d. Inr (ref_add b ''bob'' [\<lparr>coin_Denom = ''ibc/xeth'', coin_Amount = 5\<rparr>]))"
  "IBCDenom ref_ibc = (\<lambda>t. ''ibc/xeth'')"
  by (simp_all add: ref_ibc_def)

lemma ex_ibc_sel:
  "pd_Amount ex_data = ''5''" "pd_Receiver ex_data = ref_String ''bob''" "DestPort ex_packet = ''transfer''"
  "DestChannel ex_packet = ''channel-0''" "SourcePort ex_packet = ''transfer''" "SourceChannel ex_packet = ''channel-1''"
  "pd_Denom ex_data = ''xeth''"
  by (simp_all add: ex_data_def ex_packet_def)

lemma ex_received:
  "\<exists>ctx'. ibc_OnRecvPacket ref_sdk ref_ibc ex_ibc ex_packet = Inr (ctx', ResultAcknowledgement) \<and>
     bal ref_sdk (sdk_state ctx') ''bob'' ''ceth'' = 500000000"
proof -
  let ?ctx = "ex_ibc\<lparr>sdk_state := ref_add (sdk_state ex_ibc) ''bob'' [\<lparr>coin_Denom = ''ibc/xeth'', coin_Amount = 5\<rparr>]\<rparr>"
  have "decimals_diff (clp_entry (''ceth'', 18)) ex_xeth = 8" by (simp add: decimals_diff_def ex_ibc_registry)
  then have "\<exists>ctx'. ExecConvForIncomingCoins ref_sdk ref_ibc ?ctx ex_xeth (clp_entry (''ceth'', 18)) ex_packet ex_data = Inr ctx' \<and>
      bal ref_sdk (sdk_state ctx') ''bob'' ''ceth'' = 500000000"
    using ex_ibc_codes(9,10)
    by (simp add: ExecConvForIncomingCoins_def ex_data_def ex_packet_def ref_FromBech32_String ex_ibc_codes(2,6,7,8) ex_ibc_registry
        ref_NewCoin_def ref_NewCoins_def ref_coin_ok_def with_bank_def ref_Send_def ref_IsValid_def ref_has_def ref_bal_of_def
        ref_Burn_def ref_ModuleAddress_def ibc_ModuleName_def ref_add_def ref_sub_def ex_ibc_def ref_ctx_def ref_bal Let_def
        flip: ex_escrow_def del: bind_r_Inr cong: lazy)
  then obtain ctx' where c: "ExecConvForIncomingCoins ref_sdk ref_ibc ?ctx ex_xeth (clp_entry (''ceth'', 18)) ex_packet ex_data = Inr ctx'"
    "bal ref_sdk (sdk_state ctx') ''bob'' ''ceth'' = 500000000" by blast
  have r: "GetRegistry ?ctx = Inr [Some ex_xeth, Some (clp_entry (''ceth'', 18))]"
    using ex_ibc_registry(1) by (simp add: GetRegistry_def)
  have "GetMintedDenomFromPacket ref_ibc ex_packet ex_data = Inr ''ibc/xeth''" "IsRecvPacketAllowed ref_ibc ex_packet ex_data ex_xeth"
    by (simp_all add: GetMintedDenomFromPacket_def IsRecvPacketAllowed_def ex_packet_def ex_data_def ex_ibc_codes(1) ex_ibc_registry)
  then show ?thesis
    using c(2) by (simp add: ibc_OnRecvPacket_def OnRecvPacketWhitelistConvert_def with_bank_def r convert_received_def ex_ibc_registry c(1)
        ex_ibc_codes(4) del: bind_r_Inr)
qed

theorem received_exactly_witness:
  "\<exists>ctx'. ibc_OnRecvPacket ref_sdk ref_ibc ex_ibc ex_packet = Inr (ctx', ResultAcknowledgement) \<and>
     (\<exists>b. converted ref_sdk b (sdk_state ctx') ''bob'' ex_escrow ''ibc/xeth'' 5 ''ceth'' 500000000)"
proof -
  obtain ctx' where c: "ibc_OnRecvPacket ref_sdk ref_ibc ex_ibc ex_packet = Inr (ctx', ResultAcknowledgement)"
    "bal ref_sdk (sdk_state ctx') ''bob'' ''ceth'' = 500000000" using ex_received by blast
  have minted: "GetMintedDenomFromPacket ref_ibc ex_packet ex_data = Inr ''ibc/xeth''"
    by (simp add: GetMintedDenomFromPacket_def ex_packet_def ex_data_def ex_ibc_codes(1))
  from received_exactly [OF ref_dec_laws ref_mul_truncate_laws ref_int_laws ref_coin_laws ref_bank_laws c(1)]
  have "\<exists>b. converted ref_sdk b (sdk_state ctx') ''bob'' ex_escrow ''ibc/xeth'' 5 ''ceth'' (5 * 10 ^ 8)"
    by (auto simp: conversion_done_def minted ex_ibc_registry(1) ex_ibc_sel ref_FromBech32_String ex_ibc_codes decimals_diff_def ex_escrow_def
        clp_entry_def ex_xeth_def split: if_splits)
  with c(1) show ?thesis by auto
qed

end
