(* ===== verification/Frames.thy ===== *)
theory Frames
  imports CLP_Solvency Dispensation_Solvency EthBridge_Props IBC_Props
begin

text \<open>
  What a module leaves alone: every handler writes the stores of its own module only, and takes coins only from its
  own account and from the account that signed the message.
\<close>

section \<open>Staying within bounds\<close>

text \<open>The view \<open>V\<close> of the state is kept, and only the accounts of \<open>L\<close> may lose coins.\<close>

definition keeps :: "'b sdk \<Rightarrow> ('b ctx \<Rightarrow> 'v) \<Rightarrow> address set \<Rightarrow> 'b ctx \<Rightarrow> 'b ctx \<Rightarrow> bool" where
  "keeps S V L ctx ctx' \<longleftrightarrow> V ctx' = V ctx \<and> (\<forall>a d. a \<notin> L \<longrightarrow> bal S (sdk_state ctx) a d \<le> bal S (sdk_state ctx') a d)"

lemma keeps_refl [simp]: "keeps S V L ctx ctx"
  by (simp add: keeps_def)

lemma keeps_trans [trans]: "keeps S V L ctx ctx1 \<Longrightarrow> keeps S V L ctx1 ctx2 \<Longrightarrow> keeps S V L ctx ctx2"
  unfolding keeps_def by (metis order.trans)

lemma keeps_mono: "keeps S V L ctx ctx' \<Longrightarrow> L \<subseteq> L' \<Longrightarrow> keeps S V L' ctx ctx'"
  by (auto simp: keeps_def)

lemma keeps_store: "V ctx' = V ctx \<Longrightarrow> sdk_state ctx' = sdk_state ctx \<Longrightarrow> keeps S V L ctx ctx'"
  by (simp add: keeps_def)

lemma keeps_bank: "V (ctx\<lparr>sdk_state := b\<rparr>) = V ctx \<Longrightarrow> moves S (sdk_state ctx) b f t cs \<Longrightarrow> f \<in> L \<Longrightarrow>
    keeps S V L ctx (ctx\<lparr>sdk_state := b\<rparr>)"
  by (auto simp: keeps_def moves_def)

text \<open>A signer that reads is an account of \<open>L\<close>.\<close>

definition signed_in :: "'b sdk \<Rightarrow> address set \<Rightarrow> string \<Rightarrow> bool" where
  "signed_in S L s \<longleftrightarrow> (\<forall>a. AccAddressFromBech32 S s = Inr a \<longrightarrow> a \<in> L)"

definition outside_clp where "outside_clp ctx = (tr_kv ctx, disp_kv ctx, oracle_kv ctx, eth_kv ctx)"
definition outside_disp where "outside_disp ctx = (tr_kv ctx, clp_kv ctx, oracle_kv ctx, eth_kv ctx)"
definition outside_eth where "outside_eth ctx = (tr_kv ctx, clp_kv ctx, disp_kv ctx)"
definition outside_tr where "outside_tr ctx = (clp_kv ctx, disp_kv ctx, oracle_kv ctx, eth_kv ctx)"
definition outside_ibc where "outside_ibc ctx = (tr_kv ctx, clp_kv ctx, disp_kv ctx, oracle_kv ctx, eth_kv ctx)"

lemma outside_simps [simp]:
  "outside_clp (ctx\<lparr>clp_kv := s\<rparr>) = outside_clp ctx" "outside_clp (ctx\<lparr>sdk_state := b\<rparr>) = outside_clp ctx"
  "outside_clp (ctx\<lparr>Events := es\<rparr>) = outside_clp ctx" "outside_clp (EmitEvents es ctx) = outside_clp ctx"
  "outside_disp (ctx\<lparr>disp_kv := s'\<rparr>) = outside_disp ctx" "outside_disp (ctx\<lparr>sdk_state := b\<rparr>) = outside_disp ctx"
  "outside_disp (ctx\<lparr>Events := es\<rparr>) = outside_disp ctx" "outside_disp (EmitEvents es ctx) = outside_disp ctx"
  "outside_eth (ctx\<lparr>eth_kv := s1\<rparr>) = outside_eth ctx" "outside_eth (ctx\<lparr>oracle_kv := s2\<rparr>) = outside_eth ctx"
  "outside_eth (ctx\<lparr>sdk_state := b\<rparr>) = outside_eth ctx"
  "outside_eth (ctx\<lparr>Events := es\<rparr>) = outside_eth ctx" "outside_eth (EmitEvents es ctx) = outside_eth ctx"
  "outside_ibc (ctx\<lparr>sdk_state := b\<rparr>) = outside_ibc ctx" "outside_ibc (EmitEvents es ctx) = outside_ibc ctx"
  "outside_tr (ctx\<lparr>tr_kv := s3\<rparr>) = outside_tr ctx" "outside_tr (ctx\<lparr>Events := es\<rparr>) = outside_tr ctx"
  "outside_tr (EmitEvents es ctx) = outside_tr ctx"
  by (simp_all add: outside_clp_def outside_disp_def outside_eth_def outside_tr_def outside_ibc_def)

lemma keeps_EmitEvents [simp]:
  "keeps S outside_clp L ctx (EmitEvents es ctx') = keeps S outside_clp L ctx ctx'"
  "keeps S outside_disp L ctx (EmitEvents es ctx') = keeps S outside_disp L ctx ctx'"
  "keeps S outside_eth L ctx (EmitEvents es ctx') = keeps S outside_eth L ctx ctx'"
  "keeps S outside_ibc L ctx (EmitEvents es ctx') = keeps S outside_ibc L ctx ctx'"
  by (simp_all add: keeps_def)

lemma keeps_own_events [simp]:
  "keeps S outside_clp L (ctx\<lparr>Events := es\<rparr>) ctx' = keeps S outside_clp L ctx ctx'"
  "keeps S outside_disp L (ctx\<lparr>Events := es\<rparr>) ctx' = keeps S outside_disp L ctx ctx'"
  "keeps S outside_eth L (ctx\<lparr>Events := es\<rparr>) ctx' = keeps S outside_eth L ctx ctx'"
  "keeps S outside_tr L (ctx\<lparr>Events := es\<rparr>) ctx' = keeps S outside_tr L ctx ctx'"
  by (simp_all add: keeps_def)

section \<open>Liquidity pools\<close>

abbreviation "clp_keeps S L \<equiv> keeps S outside_clp (insert (GetCLPModuleAddress S) L)"

lemma clp_store_keeps:
  "SetPool S ctx p = Inr ctx' \<Longrightarrow> keeps S outside_clp L ctx ctx'"
  "DestroyPool ctx s = Inr ctx' \<Longrightarrow> keeps S outside_clp L ctx ctx'"
  "SetLiquidityProvider S ctx lp = Inr ctx' \<Longrightarrow> keeps S outside_clp L ctx ctx'"
  "keeps S outside_clp L ctx (DestroyLiquidityProvider ctx s a)"
  by (auto simp: SetPool_def DestroyPool_def SetLiquidityProvider_def DestroyLiquidityProvider_def split: if_splits
      intro!: keeps_store)

lemma clp_bank_keeps:
  "bank_laws S \<Longrightarrow> SendCoinsFromAccountToModule S (sdk_state ctx) a m cs = Inr b \<Longrightarrow> a \<in> L \<Longrightarrow>
     clp_keeps S L ctx (ctx\<lparr>sdk_state := b\<rparr>)"
  "bank_laws S \<Longrightarrow> SendCoinsFromModuleToAccount S (sdk_state ctx) clp_ModuleName a cs = Inr b \<Longrightarrow>
     clp_keeps S L ctx (ctx\<lparr>sdk_state := b\<rparr>)"
  by (auto intro!: keeps_bank dest: bank_laws_to_module bank_laws_from_module simp: GetCLPModuleAddress_def)

lemma exec_keeps:
  assumes "bank_laws S"
  shows "exec_CreatePool S ctx u m = Inr (ctx', p) \<Longrightarrow> signed_in S L (cp_Signer m) \<Longrightarrow> clp_keeps S L ctx ctx'"
    and "exec_CreateLiquidityProvider S ctx asset n b = Inr (ctx', lp) \<Longrightarrow> clp_keeps S L ctx ctx'"
    and "find_or_create_lp S ctx am ext b n = Inr (ctx', lp, n') \<Longrightarrow> clp_keeps S L ctx ctx'"
    and "exec_RemoveLiquidityProvider S ctx cs lp' = Inr ctx' \<Longrightarrow> clp_keeps S L ctx ctx'"
    and "exec_DecommissionPool ctx pl = Inr ctx' \<Longrightarrow> clp_keeps S L ctx ctx'"
    and "exec_InitiateSwap S ctx c a = Inr ctx' \<Longrightarrow> a \<in> L \<Longrightarrow> clp_keeps S L ctx ctx'"
    and "exec_FinalizeSwap S ctx str pl sm = Inr ctx' \<Longrightarrow> clp_keeps S L ctx ctx'"
    and "swap_first_leg S ctx s r n k pl = Inr (ctx', rest) \<Longrightarrow> clp_keeps S L ctx ctx'"
proof -
  note k = clp_store_keeps clp_bank_keeps [OF assms]
  show "exec_CreatePool S ctx u m = Inr (ctx', p) \<Longrightarrow> signed_in S L (cp_Signer m) \<Longrightarrow> clp_keeps S L ctx ctx'"
    by (auto simp: exec_CreatePool_def signed_in_def Let_def split: if_splits intro: keeps_trans [OF k(5) k(1)])
  show lp: "exec_CreateLiquidityProvider S ctx asset n b = Inr (ctx', lp) \<Longrightarrow> clp_keeps S L ctx ctx'" for ctx asset n b ctx' lp L
    by (auto simp: exec_CreateLiquidityProvider_def Let_def intro: k)
  show "find_or_create_lp S ctx am ext b n = Inr (ctx', lp, n') \<Longrightarrow> clp_keeps S L ctx ctx'"
    by (auto dest!: find_or_create_lp_Inr intro: lp)
  show "exec_RemoveLiquidityProvider S ctx cs lp' = Inr ctx' \<Longrightarrow> clp_keeps S L ctx ctx'"
    by (auto simp: exec_RemoveLiquidityProvider_def intro: keeps_trans k)
  show "exec_DecommissionPool ctx pl = Inr ctx' \<Longrightarrow> clp_keeps S L ctx ctx'"
    by (auto simp: exec_DecommissionPool_def intro: k)
  show "exec_InitiateSwap S ctx c a = Inr ctx' \<Longrightarrow> a \<in> L \<Longrightarrow> clp_keeps S L ctx ctx'"
    by (auto simp: exec_InitiateSwap_def split: if_splits intro: k)
  show "exec_FinalizeSwap S ctx str pl sm = Inr ctx' \<Longrightarrow> clp_keeps S L ctx ctx'"
    by (auto simp: exec_FinalizeSwap_def intro: keeps_trans k)
  show "swap_first_leg S ctx s r n k pl = Inr (ctx', rest) \<Longrightarrow> clp_keeps S L ctx ctx'"
    by (auto simp: swap_first_leg_def split: if_splits prod.splits intro: k)
qed

lemma exec_liquidity_keeps:
  assumes "bank_laws S"
  shows "exec_AddLiquidity S ctx m p nu lu = Inr (ctx', lp) \<Longrightarrow> signed_in S L (al_Signer m) \<Longrightarrow>
      clp_keeps S L ctx ctx'"
    and "exec_RemoveLiquidity S ctx p cx cn lp' left eb nb = Inr ctx' \<Longrightarrow> clp_keeps S L ctx ctx'"
proof -
  note k = clp_store_keeps clp_bank_keeps [OF assms]
  show "clp_keeps S L ctx ctx'" if "exec_AddLiquidity S ctx m p nu lu = Inr (ctx', lp)" "signed_in S L (al_Signer m)"
  proof (rule exec_AddLiquidity_Inr [OF that(1)])
    fix b ctx1 ctx2 addr ext lp1 u1 p' cs
    assume s: "AccAddressFromBech32 S (al_Signer m) = Inr addr" "SendCoinsFromAccountToModule S (sdk_state ctx) addr clp_ModuleName cs = Inr b"
      "find_or_create_lp S (ctx\<lparr>sdk_state := b\<rparr>) m ext addr lu = Inr (ctx1, lp1, u1)" "SetPool S ctx1 p' = Inr ctx2"
      "SetLiquidityProvider S ctx2 lp = Inr ctx'"
    have "clp_keeps S L ctx (ctx\<lparr>sdk_state := b\<rparr>)" using s(1,2) that(2) by (auto simp: signed_in_def intro: k)
    also have "clp_keeps S L (ctx\<lparr>sdk_state := b\<rparr>) ctx1" by (rule exec_keeps(3) [OF assms s(3)])
    also have "clp_keeps S L ctx1 ctx2" using s(4) by (rule k)
    also have "clp_keeps S L ctx2 ctx'" using s(5) by (rule k)
    finally show ?thesis .
  qed
  show "clp_keeps S L ctx ctx'" if "exec_RemoveLiquidity S ctx p cx cn lp' left eb nb = Inr ctx'"
  proof -
    from that obtain ctx1 ctx2 where "SetPool S ctx p = Inr ctx1" and "clp_keeps S L ctx1 ctx2" and "clp_keeps S L ctx2 ctx'"
      by (auto simp: exec_RemoveLiquidity_def split: if_splits intro: k keeps_refl)
    then show ?thesis by (blast intro: keeps_trans k)
  qed
qed

lemma refunds_keep:
  assumes "bank_laws S" and "fold_r (refund_lp S m p) (ctx, x) lps = Inr (ctx', y)"
  shows "clp_keeps S L ctx ctx'"
proof -
  have "(\<lambda>st. clp_keeps S L ctx (fst st)) (ctx', y)"
    by (rule fold_r_inv [where P = "\<lambda>st. clp_keeps S L ctx (fst st)", OF _ assms(2)])
      (auto simp: refund_lp_def split: prod.splits elim!: keeps_trans intro: exec_keeps(4) [OF assms(1)])
  then show ?thesis by simp
qed

lemma clp_Swap_keeps:
  assumes "bank_laws S" and "clp_Swap S ctx m = Inr ctx'" and "signed_in S L (sw_Signer m)"
  shows "clp_keeps S L ctx ctx'"
proof -
  from assms(2,3) obtain c a ctx1 sent received n k pl ctx2 rest str fp ctx3 es where
    a: "a \<in> L" and s: "exec_InitiateSwap S ctx c a = Inr ctx1" "swap_first_leg S ctx1 sent received n k pl = Inr (ctx2, rest)"
    "exec_FinalizeSwap S ctx2 str fp m = Inr ctx3" "ctx' = EmitEvents es ctx3"
    by (auto simp: clp_Swap_def signed_in_def Let_def split: prod.splits if_splits)
  have "clp_keeps S L ctx ctx1" by (rule exec_keeps(6) [OF assms(1) s(1) a])
  also have "clp_keeps S L ctx1 ctx2" by (rule exec_keeps(8) [OF assms(1) s(2)])
  also have "clp_keeps S L ctx2 ctx3" by (rule exec_keeps(7) [OF assms(1) s(3)])
  finally show ?thesis by (simp add: s(4))
qed

lemma clp_DecommissionPool_keeps:
  assumes "bank_laws S" and "clp_DecommissionPool S ctx m = Inr ctx'"
  shows "clp_keeps S L ctx ctx'"
proof -
  from assms(2) obtain p x lps ctx1 y ctx2 es where s: "fold_r (refund_lp S m p) (ctx, x) lps = Inr (ctx1, y)"
    "exec_DecommissionPool ctx1 p = Inr ctx2" "ctx' = EmitEvents es ctx2"
    by (auto simp: clp_DecommissionPool_def split: if_splits prod.splits)
  show ?thesis using refunds_keep [OF assms(1) s(1)] exec_keeps(5) [OF assms(1) s(2)] by (auto simp: s(3) intro: keeps_trans)
qed

lemma clp_Handler_keeps:
  assumes "bank_laws S" and "clp_Handler S ctx m = Inr ctx'" and "signed_in S L (clp_Signer m)"
  shows "clp_keeps S L ctx ctx'"
proof (cases m)
  case (MsgCreatePool c)
  with assms(2,3) obtain u ctx1 p n a lp es where s: "exec_CreatePool S (ctx\<lparr>Events := []\<rparr>) u c = Inr (ctx1, p)"
    "exec_CreateLiquidityProvider S ctx1 (cp_ExternalAsset c) n a = Inr (es, lp)" "clp_keeps S L ctx ctx' = clp_keeps S L ctx es"
    by (auto simp: clp_CreatePool_def split: if_splits prod.splits)
  have "clp_keeps S L ctx ctx1" using exec_keeps(1) [OF assms(1) s(1)] assms(3) MsgCreatePool by simp
  then show ?thesis using exec_keeps(2) [OF assms(1) s(2)] s(3) by (auto intro: keeps_trans)
next
  case (MsgDecommissionPool d)
  then show ?thesis using clp_DecommissionPool_keeps [OF assms(1)] assms(2) by fastforce
next
  case (MsgAddLiquidity l)
  with assms(2,3) obtain p nu lu ctx1 lp es where s: "exec_AddLiquidity S (ctx\<lparr>Events := []\<rparr>) l p nu lu = Inr (ctx1, lp)" "ctx' = EmitEvents es ctx1"
    by (auto simp: clp_AddLiquidity_def split: prod.splits)
  then show ?thesis using exec_liquidity_keeps(1) [OF assms(1) s(1)] assms(3) MsgAddLiquidity by simp
next
  case (MsgRemoveLiquidity l)
  with assms(2) obtain p cx cn lp n eb nb ctx1 es where
    s: "exec_RemoveLiquidity S (ctx\<lparr>Events := []\<rparr>) p cx cn lp n eb nb = Inr ctx1" "ctx' = EmitEvents es ctx1"
    by (auto simp: clp_RemoveLiquidity_def Let_def split: prod.splits if_splits)
  then show ?thesis using exec_liquidity_keeps(2) [OF assms(1) s(1)] by simp
next
  case (MsgSwap w)
  then show ?thesis using clp_Swap_keeps [OF assms(1)] assms(2,3) by fastforce
qed

section \<open>Dispensation\<close>

abbreviation "disp_keeps S L \<equiv> keeps S outside_disp (insert (GetDistributionModuleAddress S) L)"

lemma disp_store_keeps:
  "SetDistribution ctx ds = Inr ctx' \<Longrightarrow> keeps S outside_disp L ctx ctx'"
  "SetDistributionRecord S ctx r = Inr ctx' \<Longrightarrow> keeps S outside_disp L ctx ctx'"
  "SetClaim ctx c = Inr ctx' \<Longrightarrow> keeps S outside_disp L ctx ctx'"
  "CreateDrop S n t ar ctx out = Inr ctx' \<Longrightarrow> keeps S outside_disp L ctx ctx'"
  "keeps S outside_disp L ctx (DeleteClaim ctx s k)"
  by (auto simp: SetDistribution_def SetDistributionRecord_def SetClaim_def CreateDrop_def DeleteClaim_def disp_put_def Let_def
      split: if_splits intro!: keeps_store)

lemma CreateDrops_keeps: "CreateDrops S ctx outs n t ar = Inr ctx' \<Longrightarrow> keeps S outside_disp L ctx ctx'"
  unfolding CreateDrops_def
  by (rule fold_r_inv [where P = "keeps S outside_disp L ctx"]) (auto elim!: keeps_trans intro: disp_store_keeps)

lemma DistributeDrop_keeps:
  assumes inv: "disp_inv S ctx" and get: "kv_get (disp_kv ctx) (record_key r) = Some (RecordV r)"
    and pend: "dr_DistributionStatus r = DISTRIBUTION_STATUS_PENDING" and step: "DistributeDrop S h ctx r = Inr ctx'"
  shows "disp_keeps S L ctx ctx'"
proof (cases "AccAddressFromBech32 S (dr_RecipientAddress r)")
  case (Inl e)
  then show ?thesis using step by (auto simp: DistributeDrop_def split: if_splits)
next
  case (Inr a)
  note c = DistributeDrop_cases [OF inv get pend Inr, of h]
  have laws: "bank_laws S" "failed_send_laws S" "disp_laws S" using inv by (simp_all add: disp_inv_def disp_laws_def)
  show ?thesis
  proof (cases "SendCoinsFromModuleToAccount S (sdk_state ctx) disp_ModuleName a (dr_Coins r)")
    case (Inl e)
    have "bal S (FailedSend S (sdk_state ctx) disp_ModuleName a (dr_Coins r)) x d = bal S (sdk_state ctx) x d" for x d
      using laws(2) Inl affordable [OF inv get pend] unfolding failed_send_laws_def by blast
    then show ?thesis using step c Inl by (auto simp: keeps_def outside_disp_def split: if_splits)
  next
    case (Inr b)
    then have "moves S (sdk_state ctx) b (GetDistributionModuleAddress S) a (dr_Coins r)"
      using bank_laws_from_module [OF laws(1)] by (simp add: GetDistributionModuleAddress_def)
    then have "disp_keeps S L ctx (ctx\<lparr>sdk_state := b\<rparr>)" by (rule keeps_bank [rotated]) simp_all
    then show ?thesis using step c Inr by (auto simp: keeps_def outside_disp_def Let_def DeleteClaim_def split: if_splits)
  qed
qed

lemma payments_keep:
  assumes "disp_inv S ctx" and "to_pay ctx rs" and "fold_r (DistributeDrop S h) ctx rs = Inr ctx'"
  shows "disp_keeps S L ctx ctx'"
  using assms
proof (induction rs arbitrary: ctx)
  case (Cons r rs)
  then obtain ctx1 where s: "DistributeDrop S h ctx r = Inr ctx1" "fold_r (DistributeDrop S h) ctx1 rs = Inr ctx'" by auto
  have g: "kv_get (disp_kv ctx) (record_key r) = Some (RecordV r)" "dr_DistributionStatus r = 1"
    using Cons.prems(2) by (simp_all add: to_pay_def)
  note d = DistributeDrop_any [OF Cons.prems(1) g s(1)]
  have "disp_keeps S L ctx1 ctx'" by (rule Cons.IH [OF d(1) to_pay_Cons [OF Cons.prems(2) d(2)] s(2)])
  with DistributeDrop_keeps [OF Cons.prems(1) g s(1)] show ?case by (rule keeps_trans)
qed simp

lemma disp_Handler_keeps:
  assumes "disp_inv S ctx" and "disp_Handler S ctx m = Inr ctx'"
    and "\<And>cd. m = MsgCreateDistribution cd \<Longrightarrow> signed_in S L (cd_Distributor cd)"
  shows "disp_keeps S L ctx ctx'"
proof (cases m)
  case (MsgCreateDistribution c)
  let ?ctx = "ctx\<lparr>Events := []\<rparr>"
  have laws: "bank_laws S" using assms(1) by (simp add: disp_inv_def disp_laws_def)
  from MsgCreateDistribution assms(2,3) obtain ds ctx1 cs a b n t ar ctx2 es where
    a: "a \<in> L" and s: "SetDistribution ?ctx ds = Inr ctx1" "SendCoinsFromAccountToModule S (sdk_state ctx1) a disp_ModuleName cs = Inr b"
    "CreateDrops S (ctx1\<lparr>sdk_state := b\<rparr>) (cd_Output c) n t ar = Inr ctx2" "ctx' = EmitEvents es ctx2"
    by (auto simp: disp_CreateDistribution_def VerifyAndSetDistribution_def AccumulateDrops_def signed_in_def Let_def split: if_splits)
  have "disp_keeps S L ?ctx ctx1" by (rule disp_store_keeps(1) [OF s(1)])
  also have "disp_keeps S L ctx1 (ctx1\<lparr>sdk_state := b\<rparr>)"
    by (rule keeps_bank [OF _ bank_laws_to_module [OF laws s(2)]]) (simp_all add: a)
  also have "disp_keeps S L (ctx1\<lparr>sdk_state := b\<rparr>) ctx2" by (rule CreateDrops_keeps [OF s(3)])
  finally show ?thesis by (simp add: s(4))
next
  case (MsgCreateUserClaim c)
  then obtain uc ctx1 es where "SetClaim (ctx\<lparr>Events := []\<rparr>) uc = Inr ctx1" "ctx' = EmitEvents es ctx1"
    using assms(2) by (auto simp: disp_CreateUserClaim_def split: if_splits)
  then show ?thesis using disp_store_keeps(3) by fastforce
next
  case (MsgRunDistribution c)
  let ?ctx = "ctx\<lparr>Events := []\<rparr>"
  have inv: "disp_inv S ?ctx" and wf: "disp_wf S (disp_kv ?ctx)" using assms(1) by (simp_all add: disp_inv_def disp_held_def)
  from MsgRunDistribution assms(2) obtain ctx1 es where
    s: "fold_r (DistributeDrop S (BlockHeight ?ctx)) ?ctx
          (take 10 (runner_records (rd_DistributionName c) (rd_AuthorizedRunner c) (rd_DistributionType c) (disp_kv ?ctx))) = Inr ctx1"
    and e: "ctx' = EmitEvents es ctx1"
    by (auto simp: disp_RunDistribution_def DistributeDrops_def GetLimitedRecordsForRunner_eq [OF wf])
  from payments_keep [OF inv to_pay_runner [OF wf] s] show ?thesis by (simp add: e)
qed

section \<open>Ethereum bridge and oracle\<close>

abbreviation "eth_keeps S L \<equiv> keeps S outside_eth (insert (NewModuleAddress S eth_ModuleName) L)"

lemma eth_bank_keeps:
  assumes "bank_laws S"
  shows "SendCoins S (sdk_state ctx) a t cs = Inr b \<Longrightarrow> a \<in> L \<Longrightarrow> eth_keeps S L ctx (ctx\<lparr>sdk_state := b\<rparr>)"
    and "SendCoinsFromAccountToModule S (sdk_state ctx) a m cs = Inr b \<Longrightarrow> a \<in> L \<Longrightarrow> eth_keeps S L ctx (ctx\<lparr>sdk_state := b\<rparr>)"
    and "SendCoinsFromModuleToAccount S (sdk_state ctx) eth_ModuleName a cs = Inr b \<Longrightarrow> eth_keeps S L ctx (ctx\<lparr>sdk_state := b\<rparr>)"
    and "MintCoins S (sdk_state ctx) m cs = Inr b \<Longrightarrow> eth_keeps S L ctx (ctx\<lparr>sdk_state := b\<rparr>)"
    and "BurnCoins S (sdk_state ctx) eth_ModuleName cs = Inr b \<Longrightarrow> eth_keeps S L ctx (ctx\<lparr>sdk_state := b\<rparr>)"
proof -
  show "SendCoins S (sdk_state ctx) a t cs = Inr b \<Longrightarrow> a \<in> L \<Longrightarrow> eth_keeps S L ctx (ctx\<lparr>sdk_state := b\<rparr>)"
    "SendCoinsFromAccountToModule S (sdk_state ctx) a m cs = Inr b \<Longrightarrow> a \<in> L \<Longrightarrow> eth_keeps S L ctx (ctx\<lparr>sdk_state := b\<rparr>)"
    "SendCoinsFromModuleToAccount S (sdk_state ctx) eth_ModuleName a cs = Inr b \<Longrightarrow> eth_keeps S L ctx (ctx\<lparr>sdk_state := b\<rparr>)"
    using bank_laws_send [OF assms] bank_laws_to_module [OF assms] bank_laws_from_module [OF assms] by (blast intro!: keeps_bank outside_simps)+
  show "MintCoins S (sdk_state ctx) m cs = Inr b \<Longrightarrow> eth_keeps S L ctx (ctx\<lparr>sdk_state := b\<rparr>)"
    using bank_laws_mint [OF assms] by (fastforce simp: keeps_def)
  show "BurnCoins S (sdk_state ctx) eth_ModuleName cs = Inr b \<Longrightarrow> eth_keeps S L ctx (ctx\<lparr>sdk_state := b\<rparr>)"
    using bank_laws_burn [OF assms] by (fastforce simp: keeps_def)
qed

lemma eth_store_keeps:
  "AddPeggyToken ctx t = Inr ctx' \<Longrightarrow> keeps S outside_eth L ctx ctx'"
  "oracle_ProcessClaim S K ctx c = Inr (ctx', st) \<Longrightarrow> keeps S outside_eth L ctx ctx'"
  "oracle_ProcessUpdateWhiteListValidator S ctx s v op = Inr ctx' \<Longrightarrow> keeps S outside_eth L ctx ctx'"
  "ProcessUpdateCethReceiverAccount S ctx s a = Inr ctx' \<Longrightarrow> keeps S outside_eth L ctx ctx'"
  "SetBlacklist S ctx m = Inr ctx' \<Longrightarrow> keeps S outside_eth L ctx ctx'"
  by (auto simp: AddPeggyToken_def oracle_ProcessClaim_def SetProphecy_def SetDBProphecy_def oracle_ProcessUpdateWhiteListValidator_def
      AddOracleWhiteList_def RemoveOracleWhiteList_def SetOracleWhiteList_def ProcessUpdateCethReceiverAccount_def
      SetCethReceiverAccount_def SetBlacklist_def Let_def split: if_splits intro!: keeps_store)

lemma ProcessSuccessfulClaim_framed:
  assumes "bank_laws S" and "ProcessSuccessfulClaim S G ctx c = Inr ctx'"
  shows "eth_keeps S L ctx ctx'"
proof -
  from assms(2) obtain ctx1 m cs b r b' where "ctx1 = ctx \<or> (\<exists>t. AddPeggyToken ctx t = Inr ctx1)"
    and s: "MintCoins S (sdk_state ctx1) m cs = Inr b" "SendCoinsFromModuleToAccount S b eth_ModuleName r cs = Inr b'"
    "ctx' = ctx1\<lparr>sdk_state := b'\<rparr>"
    by (auto simp: ProcessSuccessfulClaim_def Let_def split: if_splits) blast+
  then have "eth_keeps S L ctx ctx1" by (auto intro: eth_store_keeps)
  also have "eth_keeps S L ctx1 (ctx1\<lparr>sdk_state := b\<rparr>)" by (rule eth_bank_keeps(4) [OF assms(1) s(1)])
  also have "eth_keeps S L (ctx1\<lparr>sdk_state := b\<rparr>) ctx'" using eth_bank_keeps(3) [OF assms(1), of "ctx1\<lparr>sdk_state := b\<rparr>"] s(2,3) by simp
  finally show ?thesis .
qed

lemma sending_keeps:
  assumes "bank_laws S" and "a \<in> L"
  shows "ProcessLock S ctx a lm = Inr ctx' \<Longrightarrow> eth_keeps S L ctx ctx'"
    and "ProcessBurn S ctx a bm = Inr ctx' \<Longrightarrow> eth_keeps S L ctx ctx'"
proof -
  note k = eth_bank_keeps [OF assms(1)]
  have chain: "eth_keeps S L ctx (ctx\<lparr>sdk_state := b3\<rparr>)"
    if "b = sdk_state ctx \<or> SendCoins S (sdk_state ctx) a r cs = Inr b" "SendCoinsFromAccountToModule S b a eth_ModuleName cs2 = Inr b2"
      "BurnCoins S b2 eth_ModuleName cs3 = Inr b3" for b r cs cs2 b2 cs3 b3
  proof -
    have "eth_keeps S L ctx (ctx\<lparr>sdk_state := b\<rparr>)" using that(1) assms(2) by (auto intro: k)
    also have "eth_keeps S L (ctx\<lparr>sdk_state := b\<rparr>) (ctx\<lparr>sdk_state := b2\<rparr>)" using k(2) [of "ctx\<lparr>sdk_state := b\<rparr>"] that(2) assms(2) by simp
    also have "eth_keeps S L (ctx\<lparr>sdk_state := b2\<rparr>) (ctx\<lparr>sdk_state := b3\<rparr>)" using k(5) [of "ctx\<lparr>sdk_state := b2\<rparr>"] that(3) by simp
    finally show ?thesis .
  qed
  show "ProcessLock S ctx a lm = Inr ctx' \<Longrightarrow> eth_keeps S L ctx ctx'"
    by (auto simp: ProcessLock_def split: if_splits intro: chain)
  show "ProcessBurn S ctx a bm = Inr ctx' \<Longrightarrow> eth_keeps S L ctx ctx'"
    by (auto simp: ProcessBurn_def split: if_splits intro: chain)
qed

text \<open>The account a bridge message takes coins from.\<close>

fun eth_payer :: "eth_msg \<Rightarrow> string option" where
  "eth_payer (MsgLock m) = Some (lk_CosmosSender m)"
| "eth_payer (MsgBurn m) = Some (bn_CosmosSender m)"
| "eth_payer _ = None"

lemma eth_Handler_keeps:
  assumes "bank_laws S" and "eth_Handler S G K ctx m = Inr ctx'"
    and "\<And>s. eth_payer m = Some s \<Longrightarrow> signed_in S L s"
  shows "eth_keeps S L ctx ctx'"
proof -
  note k = eth_bank_keeps [OF assms(1)] eth_store_keeps sending_keeps [OF assms(1)] ProcessSuccessfulClaim_framed [OF assms(1)]
  have "eth_keeps S L (ctx\<lparr>Events := []\<rparr>) ctx'"
  proof (cases m)
    case (MsgCreateEthBridgeClaim c)
    with assms(2) obtain oc ctx1 st ctx2 es where s: "oracle_ProcessClaim S K (ctx\<lparr>Events := []\<rparr>) oc = Inr (ctx1, st)"
      "ctx2 = ctx1 \<or> ProcessSuccessfulClaim S G ctx1 (st_FinalClaim st) = Inr ctx2" "ctx' = EmitEvents es ctx2"
      by (auto simp: CreateEthBridgeClaim_def eth_ProcessClaim_def split: if_splits) blast+
    have "eth_keeps S L ctx1 ctx2" using s(2) by (auto intro: k)
    with k(7) [OF s(1)] show ?thesis unfolding s(3) keeps_EmitEvents by (rule keeps_trans)
  next
    case (MsgLock l)
    with assms(2,3) obtain a ctx1 es where s: "a \<in> L" "ProcessLock S (ctx\<lparr>Events := []\<rparr>) a l = Inr ctx1" "ctx' = EmitEvents es ctx1"
      by (auto simp: Lock_def signed_in_def split: if_splits option.splits)
    from sending_keeps(1) [OF assms(1) s(1,2)] show ?thesis by (simp add: s(3) del: keeps_own_events)
  next
    case (MsgBurn l)
    with assms(2,3) obtain a ctx1 es where s: "a \<in> L" "ProcessBurn S (ctx\<lparr>Events := []\<rparr>) a l = Inr ctx1" "ctx' = EmitEvents es ctx1"
      by (auto simp: Burn_def signed_in_def split: if_splits option.splits)
    from sending_keeps(2) [OF assms(1) s(1,2)] show ?thesis by (simp add: s(3) del: keeps_own_events)
  next
    case (MsgUpdateWhiteListValidator l)
    with assms(2) show ?thesis
      by (auto simp: UpdateWhiteListValidator_def eth_ProcessUpdateWhiteListValidator_def split: option.splits simp del: keeps_own_events intro: k)
  next
    case (MsgUpdateCethReceiverAccount l)
    with assms(2) show ?thesis
      by (auto simp: UpdateCethReceiverAccount_def split: option.splits simp del: keeps_own_events intro: k)
  next
    case (MsgRescueCeth l)
    with assms(2) obtain b r cs where "SendCoinsFromModuleToAccount S (sdk_state ctx) eth_ModuleName r cs = Inr b"
      "ctx' = ctx\<lparr>Events := [], sdk_state := b\<rparr>"
      by (auto simp: RescueCeth_def ProcessRescueCeth_def split: option.splits if_splits)
    then show ?thesis using k(3) [of "ctx\<lparr>Events := []\<rparr>"] by simp
  next
    case (MsgSetBlacklist l)
    with assms(2) show ?thesis by (auto simp: srv_SetBlacklist_def simp del: keeps_own_events intro: k)
  qed
  then show ?thesis by simp
qed

section \<open>Token registry\<close>

lemma tr_Handler_keeps: "tr_Handler S ctx m = Inr ctx' \<Longrightarrow> keeps S outside_tr {} ctx ctx'"
  by (cases m) (auto simp: tr_Register_def tr_Deregister_def tr_msg_SetRegistry_def SetToken_def RemoveToken_def tr_SetRegistry_def Let_def
      split: if_splits option.splits simp del: keeps_own_events intro!: keeps_store)

section \<open>Inter-chain transfers\<close>

text \<open>
  The transfer module, a parameter, takes coins only from its own accounts \<open>T\<close> (the escrow accounts of its channels)
  and, for an outgoing transfer, from the sender.
\<close>

definition transfer_laws :: "'b sdk \<Rightarrow> 'b ibc \<Rightarrow> address set \<Rightarrow> bool" where
  "transfer_laws S I T \<longleftrightarrow>
     (\<forall>b m b' a d. sdk_Transfer I b m = Inr b' \<longrightarrow> a \<notin> T \<longrightarrow> AccAddressFromBech32 S (tf_Sender m) \<noteq> Inr a \<longrightarrow> bal S b a d \<le> bal S b' a d) \<and>
     (\<forall>b p data b' a d. sdk_OnRecvPacket I b p data = Inr b' \<longrightarrow> a \<notin> T \<longrightarrow> bal S b a d \<le> bal S b' a d)"

lemma ibc_Transfer_keeps:
  assumes "transfer_laws S I T" and "ibc_Transfer I ctx m = Inr ctx'" and "signed_in S L (tf_Sender m)"
  shows "keeps S outside_ibc (T \<union> L) ctx ctx'"
proof -
  from assms(2) obtain b where "sdk_Transfer I (sdk_state ctx) m = Inr b" "ctx' = ctx\<lparr>sdk_state := b\<rparr>"
    by (auto simp: ibc_Transfer_def split: if_splits)
  with assms(1,3) show ?thesis unfolding keeps_def transfer_laws_def signed_in_def by simp blast
qed

lemma ExecConv_keeps:
  assumes "bank_laws S" and "ExecConvForIncomingCoins S I ctx e u packet data = Inr ctx'" and "signed_in S L (pd_Receiver data)"
    and "NewModuleAddress S ibc_ModuleName \<in> L" and "GetEscrowAddress I (DestPort packet) (DestChannel packet) \<in> L"
  shows "keeps S outside_ibc L ctx ctx'"
proof -
  let ?x = "GetEscrowAddress I (DestPort packet) (DestChannel packet)"
  from assms(2,3) obtain r cs b1 b2 cs2 b3 where r: "r \<in> L"
    and s: "SendCoinsFromAccountToModule S (sdk_state ctx) r ibc_ModuleName cs = Inr b1" "BurnCoins S b1 ibc_ModuleName cs = Inr b2"
      "SendCoins S b2 ?x r cs2 = Inr b3" "outside_ibc ctx' = outside_ibc ctx" "sdk_state ctx' = b3"
    by (auto simp: ExecConvForIncomingCoins_def signed_in_def Let_def split: option.splits)
  have "keeps S outside_ibc L ctx (ctx\<lparr>sdk_state := b1\<rparr>)"
    by (rule keeps_bank [OF _ bank_laws_to_module [OF assms(1) s(1)] r]) simp
  also have "keeps S outside_ibc L (ctx\<lparr>sdk_state := b1\<rparr>) (ctx\<lparr>sdk_state := b2\<rparr>)"
    using bank_laws_burn [OF assms(1) s(2)] assms(4) by (auto simp: keeps_def)
  also have "keeps S outside_ibc L (ctx\<lparr>sdk_state := b2\<rparr>) ctx'"
    using bank_laws_send [OF assms(1) s(3)] assms(5) by (auto simp: keeps_def moves_def s(4,5))
  finally show ?thesis .
qed

lemma convert_received_keeps:
  assumes "bank_laws S" and "convert_received S I ctx packet data wl minted = Inr (ctx', ack)" and "signed_in S L (pd_Receiver data)"
    and "NewModuleAddress S ibc_ModuleName \<in> L" and "GetEscrowAddress I (DestPort packet) (DestChannel packet) \<in> L"
  shows "keeps S outside_ibc L ctx ctx'"
proof (cases "\<exists>e u ctx1. ExecConvForIncomingCoins S I ctx e u packet data = Inr ctx1 \<and> ctx' = EmitEvents [packet_event data True] ctx1")
  case True
  then show ?thesis using ExecConv_keeps [OF assms(1) _ assms(3-5)] by fastforce
next
  case False
  have "ctx' = ctx \<or> (\<exists>es. ctx' = EmitEvents es ctx)"
  proof (cases "GetEntry wl minted")
    case (Inr e)
    show ?thesis using assms(2) False Inr
      by (cases "GetEntry wl (UnitDenom e)")
        (auto simp: convert_received_def lift_panic_bind simp del: bind_r_Inr split: if_splits)
  qed (use assms(2) in \<open>auto simp: convert_received_def\<close>)
  then show ?thesis by auto
qed

lemma ibc_OnRecvPacket_keeps:
  assumes "transfer_laws S I T" and "bank_laws S" and "ibc_OnRecvPacket S I ctx packet = Inr (ctx', ResultAcknowledgement)"
    and "\<And>data. UnmarshalPacketData I (Data packet) = Inr data \<Longrightarrow> signed_in S L (pd_Receiver data)"
    and "NewModuleAddress S ibc_ModuleName \<in> L" and "GetEscrowAddress I (DestPort packet) (DestChannel packet) \<in> L"
  shows "keeps S outside_ibc (T \<union> L) ctx ctx'"
proof -
  from assms(3) obtain data b minted wl where
    d: "UnmarshalPacketData I (Data packet) = Inr data" "sdk_OnRecvPacket I (sdk_state ctx) packet data = Inr b"
    "convert_received S I (ctx\<lparr>sdk_state := b\<rparr>) packet data wl minted = Inr (ctx', ResultAcknowledgement)"
    unfolding ibc_OnRecvPacket_def OnRecvPacketWhitelistConvert_def lift_panic_bind by auto
  have "keeps S outside_ibc (T \<union> L) ctx (ctx\<lparr>sdk_state := b\<rparr>)"
    using d(2) assms(1) by (auto simp: keeps_def transfer_laws_def)
  also have "keeps S outside_ibc (T \<union> L) (ctx\<lparr>sdk_state := b\<rparr>) ctx'"
    by (rule keeps_mono [OF convert_received_keeps [OF assms(2) d(3) assms(4) [OF d(1)] assms(5,6)]]) simp
  finally show ?thesis .
qed

end
