(* ===== verification/Ante.thy ===== *)
theory Ante
  imports Dispensation_Types Ctx SDK_Reference
begin

text \<open>
  The checks a transaction passes before its messages run (\<^verbatim>\<open>app/ante/ante.go\<close>): the chain of decorators
  that \<open>NewAnteHandler\<close> builds, and the chain's own decorator, which lowers the gas price of a distribution and
  demands a minimal fee for the messages that are cheap to spam. The decorators of the SDK are parameters.
\<close>

section \<open>Transactions and handlers\<close>

text \<open>
  A message counts here only through its type URL (\<^verbatim>\<open>sdk.MsgTypeURL\<close>); the fee is there when the transaction
  is a \<^verbatim>\<open>sdk.FeeTx\<close>.
\<close>

record tx =
  MsgTypeURLs :: "string list"
  GetFee :: "coins option"

record dec_coin =
  dc_Denom :: string
  dc_Amount :: int

type_synonym 'c ante_handler = "'c \<Rightarrow> tx \<Rightarrow> bool \<Rightarrow> 'c result"
type_synonym 'c ante_decorator = "'c \<Rightarrow> tx \<Rightarrow> bool \<Rightarrow> 'c ante_handler \<Rightarrow> 'c result"

text \<open>
  What the code uses of the SDK: decimal coins, the context's minimal gas prices, the names of the bank's messages,
  the composition of decorators, and the decorators themselves, given which keepers the options hold.
\<close>

record 'c ante_env =
  MustNewDecFromStr :: "string \<Rightarrow> int option"
  DecCoin_IsValid :: "dec_coin \<Rightarrow> bool"
  NewDecCoins :: "dec_coin list \<Rightarrow> dec_coin list option"
  WithMinGasPrices :: "'c \<Rightarrow> dec_coin list \<Rightarrow> 'c"
  TypeMsgSend :: string
  TypeMsgMultiSend :: string
  ChainAnteDecorators :: "'c ante_decorator list \<Rightarrow> 'c ante_handler"
  SetUpContextDecorator :: "'c ante_decorator"
  RejectExtensionOptionsDecorator :: "'c ante_decorator"
  MempoolFeeDecorator :: "'c ante_decorator"
  ValidateBasicDecorator :: "'c ante_decorator"
  TxTimeoutHeightDecorator :: "'c ante_decorator"

record ('c, 'ak, 'bk, 'fk, 'sm, 'sg) handler_options =
  AccountKeeper :: "'ak option"
  BankKeeper :: "'bk option"
  FeegrantKeeper :: "'fk option"
  SignModeHandler :: "'sm option"
  SigGasConsumer :: "'sg option"

record ('c, 'ak, 'bk, 'fk, 'sm, 'sg) keeper_decorators =
  DefaultSigVerificationGasConsumer :: 'sg
  ValidateMemoDecorator :: "'ak \<Rightarrow> 'c ante_decorator"
  ConsumeGasForTxSizeDecorator :: "'ak \<Rightarrow> 'c ante_decorator"
  DeductFeeDecorator :: "'ak \<Rightarrow> 'bk \<Rightarrow> 'fk option \<Rightarrow> 'c ante_decorator"
  SetPubKeyDecorator :: "'ak \<Rightarrow> 'c ante_decorator"
  ValidateSigCountDecorator :: "'ak \<Rightarrow> 'c ante_decorator"
  SigGasConsumeDecorator :: "'ak \<Rightarrow> 'sg \<Rightarrow> 'c ante_decorator"
  SigVerificationDecorator :: "'ak \<Rightarrow> 'sm \<Rightarrow> 'c ante_decorator"
  IncrementSequenceDecorator :: "'ak \<Rightarrow> 'c ante_decorator"

section \<open>The decorator of this chain\<close>

definition MsgTypeRunDistribution :: string where
  "MsgTypeRunDistribution = ''runDistribution''"

definition MsgTypeCreateDistribution :: string where
  "MsgTypeCreateDistribution = ''createDistribution''"

definition is_distribution :: "tx \<Rightarrow> bool" where
  "is_distribution tx \<longleftrightarrow> length (MsgTypeURLs tx) = 1 \<and>
     (Contains (ToLower (MsgTypeURLs tx ! 0)) (ToLower MsgTypeCreateDistribution) \<or>
      Contains (ToLower (MsgTypeURLs tx ! 0)) (ToLower MsgTypeRunDistribution))"

text \<open>One round of the loop over the messages: the minimal fee so far and the type URL of the next message.\<close>

definition raise_min_fee :: "'c ante_env \<Rightarrow> string \<Rightarrow> int \<Rightarrow> int" where
  "raise_min_fee E url minFee =
     (let msgTypeURLLower = ToLower url in
      if Contains msgTypeURLLower (ToLower (TypeMsgSend E)) \<or>
         Contains msgTypeURLLower (ToLower (TypeMsgMultiSend E)) \<or>
         Contains msgTypeURLLower ''createuserclaim'' \<or>
         Contains msgTypeURLLower ''swap'' \<or>
         Contains msgTypeURLLower ''removeliquidity'' \<or>
         Contains msgTypeURLLower ''addliquidity''
      then 100000000000000000
      else if Contains msgTypeURLLower ''transfer'' \<and> minFee \<le> 10000000000000000
      then 10000000000000000
      else minFee)"

definition min_fee :: "'c ante_env \<Rightarrow> string list \<Rightarrow> int" where
  "min_fee E urls = fold (raise_min_fee E) urls 0"

definition aku_fee :: "coins \<Rightarrow> int" where
  "aku_fee fees = fold (\<lambda>c akuFee. if EqualFold ''aku'' (coin_Denom c) then coin_Amount c else akuFee) fees 0"

definition AnteHandle :: "'c ante_env \<Rightarrow> 'c ante_decorator" where
  "AnteHandle E ctx tx simulate nxt =
     (if is_distribution tx
      then
        bind_r (panics (MustNewDecFromStr E ''0.00000005'')) (\<lambda>amount.
        let minGasPrice = \<lparr>dc_Denom = ''aku'', dc_Amount = amount\<rparr> in
        if \<not> DecCoin_IsValid E minGasPrice then Inl (ErrSdk ''ErrLogic: invalid gas price'')
        else bind_r (panics (NewDecCoins E [minGasPrice])) (\<lambda>prices. nxt (WithMinGasPrices E ctx prices) tx simulate))
      else
        let minFee = min_fee E (MsgTypeURLs tx) in
        if minFee = 0 then nxt ctx tx simulate
        else
          (case GetFee tx of
             None \<Rightarrow> Inl (ErrSdk ''ErrTxDecode: tx must be a FeeTx'')
           | Some fees \<Rightarrow>
               if aku_fee fees \<le> 0 then Inl (ErrSdk ''ErrLogic: unsupported fee asset'')
               else if aku_fee fees < minFee then Inl (ErrSdk ''ErrLogic: tx fee is too low'')
               else nxt ctx tx simulate))"

definition NewAnteHandler ::
    "'c ante_env \<Rightarrow> ('c, 'ak, 'bk, 'fk, 'sm, 'sg) keeper_decorators \<Rightarrow> ('c, 'ak, 'bk, 'fk, 'sm, 'sg) handler_options \<Rightarrow> 'c ante_handler result" where
  "NewAnteHandler E D options =
     (case AccountKeeper options of None \<Rightarrow> Inl (ErrSdk ''ErrLogic: account keeper is required for ante builder'') | Some ak \<Rightarrow>
     (case BankKeeper options of None \<Rightarrow> Inl (ErrSdk ''ErrLogic: bank keeper is required for ante builder'') | Some bk \<Rightarrow>
     (case SignModeHandler options of None \<Rightarrow> Inl (ErrSdk ''ErrLogic: sign mode handler is required for ante builder'') | Some sm \<Rightarrow>
      let sigGasConsumer = (case SigGasConsumer options of None \<Rightarrow> DefaultSigVerificationGasConsumer D | Some g \<Rightarrow> g) in
      Inr (ChainAnteDecorators E
        [SetUpContextDecorator E,
         AnteHandle E,
         RejectExtensionOptionsDecorator E,
         MempoolFeeDecorator E,
         ValidateBasicDecorator E,
         TxTimeoutHeightDecorator E,
         ValidateMemoDecorator D ak,
         ConsumeGasForTxSizeDecorator D ak,
         DeductFeeDecorator D ak bk (FeegrantKeeper options),
         SetPubKeyDecorator D ak,
         ValidateSigCountDecorator D ak,
         SigGasConsumeDecorator D ak sigGasConsumer,
         SigVerificationDecorator D ak sm,
         IncrementSequenceDecorator D ak]))))"

section \<open>The fee a transaction must pay\<close>

definition msg_fee :: "'c ante_env \<Rightarrow> string \<Rightarrow> int" where
  "msg_fee E url = raise_min_fee E url 0"

lemma raise_min_fee_max: "minFee \<in> {0, 10 ^ 16, 10 ^ 17} \<Longrightarrow>
    raise_min_fee E url minFee = max (msg_fee E url) minFee \<and> raise_min_fee E url minFee \<in> {0, 10 ^ 16, 10 ^ 17}"
  by (auto simp: msg_fee_def raise_min_fee_def Let_def)

lemma fold_raise_min_fee: "m \<in> {0, 10 ^ 16, 10 ^ 17} \<Longrightarrow>
    fold (raise_min_fee E) urls m = Max (insert m (msg_fee E ` set urls))"
proof (induction urls arbitrary: m)
  case (Cons u us)
  let ?m = "raise_min_fee E u m"
  have m: "?m = max (msg_fee E u) m" "?m \<in> {0, 10 ^ 16, 10 ^ 17}" using raise_min_fee_max [OF Cons.prems] by blast+
  have "fold (raise_min_fee E) (u # us) m = Max (insert ?m (msg_fee E ` set us))" using Cons.IH [OF m(2)] by simp
  also have "\<dots> = Max (insert (msg_fee E u) (insert m (msg_fee E ` set us)))"
    unfolding m(1) by (cases "us = []") (simp_all add: max.assoc)
  finally show ?case by (simp add: insert_commute)
qed simp

text \<open>The loop computes the largest fee that one of the messages asks for.\<close>

lemma min_fee_Max: "min_fee E urls = Max (insert 0 (msg_fee E ` set urls))"
  unfolding min_fee_def by (rule fold_raise_min_fee) simp

lemma msg_fee_le: "url \<in> set urls \<Longrightarrow> msg_fee E url \<le> min_fee E urls"
  by (simp add: min_fee_Max)

lemma fold_aku_fee: "fold (\<lambda>c akuFee. if EqualFold ''aku'' (coin_Denom c) then coin_Amount c else akuFee) fees a = n \<Longrightarrow>
    n = a \<or> (\<exists>c\<in>set fees. EqualFold ''aku'' (coin_Denom c) \<and> coin_Amount c = n)"
proof (induction fees arbitrary: a)
  case (Cons f fees)
  from Cons.IH [of "if EqualFold ''aku'' (coin_Denom f) then coin_Amount f else a"] Cons.prems show ?case
    by (auto split: if_splits)
qed simp

lemma aku_fee_coin: "aku_fee fees \<noteq> 0 \<Longrightarrow> \<exists>c\<in>set fees. EqualFold ''aku'' (coin_Denom c) \<and> coin_Amount c = aku_fee fees"
  using fold_aku_fee [OF aku_fee_def [symmetric]] by auto

lemma AnteHandle_pays:
  assumes "AnteHandle E ctx tx simulate nxt = Inr ctx'" and "\<not> is_distribution tx" and "url \<in> set (MsgTypeURLs tx)"
    and "0 < msg_fee E url"
  shows "\<exists>fees. GetFee tx = Some fees \<and> (\<exists>c\<in>set fees. EqualFold ''aku'' (coin_Denom c) \<and> msg_fee E url \<le> coin_Amount c)"
proof -
  have f: "msg_fee E url \<le> min_fee E (MsgTypeURLs tx)" "min_fee E (MsgTypeURLs tx) \<noteq> 0"
    using msg_fee_le [OF assms(3), of E] assms(4) by linarith+
  obtain fees where g: "GetFee tx = Some fees" using assms(1,2) f(2) by (cases "GetFee tx") (simp_all add: AnteHandle_def)
  have "\<not> aku_fee fees \<le> 0" "\<not> aku_fee fees < min_fee E (MsgTypeURLs tx)"
    using assms(1,2) f(2) by (simp_all add: AnteHandle_def g Let_def split: if_split_asm)
  with f(1) aku_fee_coin [of fees] have "\<exists>c\<in>set fees. EqualFold ''aku'' (coin_Denom c) \<and> msg_fee E url \<le> coin_Amount c" by force
  with g show ?thesis by blast
qed

section \<open>The handler\<close>

text \<open>
  What the SDK documents of the composition: the decorators run from the first to the last, each given the rest of the
  chain, and the outermost decorator, which sets the context up, only gives a context that the rest of the chain gave.
\<close>

definition chain_laws :: "'c ante_env \<Rightarrow> bool" where
  "chain_laws E \<longleftrightarrow>
     (\<forall>d ds ctx tx s. ChainAnteDecorators E (d # ds) ctx tx s = d ctx tx s (ChainAnteDecorators E ds)) \<and>
     (\<forall>ctx tx s nxt ctx'. SetUpContextDecorator E ctx tx s nxt = Inr ctx' \<longrightarrow> (\<exists>ctx1. nxt ctx1 tx s = Inr ctx'))"

text \<open>
  C17: A transaction that the handler of the application lets through, and that is not a single message creating or
  running a distribution, carries a fee in the chain's token of at least what each of its messages asks for: 0.1 for
  sends, user claims, swaps and liquidity changes and 0.01 for transfers, whatever the order of the messages.
\<close>

theorem accepted_tx_pays:
  assumes "chain_laws E" and "NewAnteHandler E D options = Inr h" and "h ctx tx simulate = Inr ctx'"
    and "\<not> is_distribution tx" and "url \<in> set (MsgTypeURLs tx)" and "0 < msg_fee E url"
  shows "\<exists>fees. GetFee tx = Some fees \<and> (\<exists>c\<in>set fees. EqualFold ''aku'' (coin_Denom c) \<and> msg_fee E url \<le> coin_Amount c)"
proof -
  from assms(2) obtain d ds where "h = ChainAnteDecorators E (SetUpContextDecorator E # AnteHandle E # ds)"
    by (auto simp: NewAnteHandler_def Let_def split: option.splits)
  with assms(1,3) obtain ctx1 where "AnteHandle E ctx1 tx simulate (ChainAnteDecorators E ds) = Inr ctx'"
    unfolding chain_laws_def by metis
  then show ?thesis by (rule AnteHandle_pays) fact+
qed

section \<open>An example\<close>

definition skip_decorator :: "'c ante_decorator" where
  "skip_decorator ctx tx s nxt = nxt ctx tx s"

fun chain_decorators :: "'c ante_decorator list \<Rightarrow> 'c ante_handler" where
  "chain_decorators [] ctx tx s = Inr ctx"
| "chain_decorators (d # ds) ctx tx s = d ctx tx s (chain_decorators ds)"

definition ref_ante :: "dec_coin list ante_env" where
  "ref_ante = \<lparr>MustNewDecFromStr = (\<lambda>s. case ref_DecFromStr s of Inl _ \<Rightarrow> None | Inr d \<Rightarrow> Some d), DecCoin_IsValid = (\<lambda>c. 0 \<le> dc_Amount c),
     NewDecCoins = Some, WithMinGasPrices = (\<lambda>ctx cs. cs), TypeMsgSend = ''send'', TypeMsgMultiSend = ''multisend'',
     ChainAnteDecorators = chain_decorators, SetUpContextDecorator = skip_decorator, RejectExtensionOptionsDecorator = skip_decorator,
     MempoolFeeDecorator = skip_decorator, ValidateBasicDecorator = skip_decorator, TxTimeoutHeightDecorator = skip_decorator\<rparr>"

definition ref_decorators :: "(dec_coin list, unit, unit, unit, unit, unit) keeper_decorators" where
  "ref_decorators = \<lparr>DefaultSigVerificationGasConsumer = (), ValidateMemoDecorator = (\<lambda>_. skip_decorator),
     ConsumeGasForTxSizeDecorator = (\<lambda>_. skip_decorator), DeductFeeDecorator = (\<lambda>_ _ _. skip_decorator),
     SetPubKeyDecorator = (\<lambda>_. skip_decorator), ValidateSigCountDecorator = (\<lambda>_. skip_decorator),
     SigGasConsumeDecorator = (\<lambda>_ _. skip_decorator), SigVerificationDecorator = (\<lambda>_ _. skip_decorator),
     IncrementSequenceDecorator = (\<lambda>_. skip_decorator)\<rparr>"

definition ex_options :: "(dec_coin list, unit, unit, unit, unit, unit) handler_options" where
  "ex_options = \<lparr>AccountKeeper = Some (), BankKeeper = Some (), FeegrantKeeper = None, SignModeHandler = Some (), SigGasConsumer = None\<rparr>"

definition ex_tx :: tx where
  "ex_tx = \<lparr>MsgTypeURLs = [''/sifnode.clp.v1.MsgSwap'', ''/ibc.applications.transfer.v1.MsgTransfer''],
     GetFee = Some [\<lparr>coin_Denom = ''aku'', coin_Amount = 200000000000000000\<rparr>]\<rparr>"

lemma ref_chain_laws: "chain_laws ref_ante"
  by (auto simp: chain_laws_def ref_ante_def skip_decorator_def)

lemma ex_tx_codes:
  "\<not> is_distribution ex_tx" "min_fee ref_ante (MsgTypeURLs ex_tx) = 100000000000000000"
  "msg_fee ref_ante ''/sifnode.clp.v1.MsgSwap'' = 100000000000000000"
  "aku_fee [\<lparr>coin_Denom = ''aku'', coin_Amount = 200000000000000000\<rparr>] = 200000000000000000"
  by code_simp+

lemma ref_ante_decorators:
  "SetUpContextDecorator ref_ante = skip_decorator" "RejectExtensionOptionsDecorator ref_ante = skip_decorator"
  "MempoolFeeDecorator ref_ante = skip_decorator" "ValidateBasicDecorator ref_ante = skip_decorator"
  "TxTimeoutHeightDecorator ref_ante = skip_decorator"
  by (simp_all add: ref_ante_def)

lemma ex_tx_accepted: "\<exists>h. NewAnteHandler ref_ante ref_decorators ex_options = Inr h \<and> h [] ex_tx False = Inr []"
proof -
  have "GetFee ex_tx = Some [\<lparr>coin_Denom = ''aku'', coin_Amount = 200000000000000000\<rparr>]" by (simp add: ex_tx_def)
  moreover have "ChainAnteDecorators ref_ante = chain_decorators" by (simp add: ref_ante_def)
  ultimately show ?thesis
    by (simp add: NewAnteHandler_def ex_options_def Let_def ref_ante_decorators ref_decorators_def skip_decorator_def)
      (simp add: AnteHandle_def ex_tx_codes Let_def skip_decorator_def)
qed

theorem accepted_tx_pays_witness:
  "\<exists>fees. GetFee ex_tx = Some fees \<and>
     (\<exists>c\<in>set fees. EqualFold ''aku'' (coin_Denom c) \<and> msg_fee ref_ante ''/sifnode.clp.v1.MsgSwap'' \<le> coin_Amount c)"
proof -
  obtain h where h: "NewAnteHandler ref_ante ref_decorators ex_options = Inr h" "h [] ex_tx False = Inr []"
    using ex_tx_accepted by blast
  have "''/sifnode.clp.v1.MsgSwap'' \<in> set (MsgTypeURLs ex_tx)" by (simp add: ex_tx_def)
  then show ?thesis by (rule accepted_tx_pays [OF ref_chain_laws h ex_tx_codes(1)]) (simp add: ex_tx_codes)
qed

end
