(* ===== verification/CLP_Props.thy ===== *)
theory CLP_Props
  imports CLP_Genesis
begin

text \<open>
  The properties of the liquidity-pool module's messages, each with an example on which its hypotheses hold.
\<close>

section \<open>Solvency\<close>

lemma ex_swap_admissible: "clp_admissible ref_sdk (MsgSwap ex_swap)"
  by (simp add: clp_admissible_def MsgSwap_ValidateBasic_def valid_asset_def ex_Asset_Validate ref_FromBech32_String
      GetCLPModuleAddress_def ref_ModuleAddress_def) (simp add: ref_String_def)

text \<open>
  C3: whatever sequence of messages the liquidity-pool module receives (creating and decommissioning pools,
  adding and removing liquidity, swapping; failing ones included), as long as they pass their stateless checks, are
  not signed by the module's own account and withdraw symmetrically, the module account keeps holding at least
  the balances that the pools record, for every denomination.
\<close>

theorem clp_run_solvent:
  assumes "clp_laws S" and "clp_wf (clp_kv ctx)" and "solvent S ctx" and "list_all (clp_admissible S) ms"
  shows "solvent S (run (clp_Handler S) ctx ms)"
proof -
  have "clp_inv S (run (clp_Handler S) ctx ms)"
    using assms by (intro clpm.run_invar) (simp_all add: clp_inv_def)
  then show ?thesis by (simp add: clp_inv_def)
qed

theorem clp_run_solvent_witness: "solvent ref_sdk (run (clp_Handler ref_sdk) ex_ctx [MsgSwap ex_swap, MsgSwap ex_swap])"
  by (rule clp_run_solvent) (simp_all add: ex_laws ex_wf ex_solvent ex_swap_admissible del: ex_chain_sel)

text \<open>
  C20: a withdrawal, symmetric or not, can make the recorded balances exceed what the module holds by at most the
  amount its inner swap takes from one side of the withdrawal, and only on that side.
\<close>

theorem withdrawal_deficit_bound:
  assumes "clp_laws S" and "clp_wf (clp_kv ctx)" and "clp_RemoveLiquidity S ctx msg = Inr ctx'"
    and "rl_ExternalAsset msg = Some ext" and "GetPool ctx (Symbol ext) = Inr pool"
    and "GetLiquidityProvider ctx (Symbol ext) (rl_Signer msg) = Inr lp"
    and "CalculateWithdrawal S (PoolUnits pool) (itoa (NativeAssetBalance pool)) (itoa (ExternalAssetBalance pool))
           (itoa (LiquidityProviderUnits lp)) (itoa (rl_WBasisPoints msg)) (rl_Asymmetry msg) = Some (wN, wE, left, swapAmount)"
  shows "owed (clp_kv ctx') d - held S ctx' d
           \<le> owed (clp_kv ctx) d - held S ctx d + asym_slack (rl_Asymmetry msg) (Symbol ext) swapAmount d"
  using assms by (rule clp_RemoveLiquidity_deficit)

theorem withdrawal_deficit_bound_witness:
  "\<exists>ctx'. clp_RemoveLiquidity ref_sdk (ex_chain 4000000 4 4000000) ex_withdraw = Inr ctx' \<and>
     owed (clp_kv ctx') ''aku'' - held ref_sdk ctx' ''aku'' = 2000 \<and>
     owed (clp_kv ctx') ''aku'' - held ref_sdk ctx' ''aku''
       \<le> owed (clp_kv (ex_chain 4000000 4 4000000)) ''aku'' - held ref_sdk (ex_chain 4000000 4 4000000) ''aku''
         + asym_slack 10 ''ceth'' 2000 ''aku''"
proof -
  obtain ctx' where ctx': "clp_RemoveLiquidity ref_sdk (ex_chain 4000000 4 4000000) ex_withdraw = Inr ctx'"
    "held ref_sdk ctx' ''aku'' = 2000000" "owed (clp_kv ctx') ''aku'' = 2002000"
    using ex_withdraw_ok by blast
  have "owed (clp_kv ctx') ''aku'' - held ref_sdk ctx' ''aku''
       \<le> owed (clp_kv (ex_chain 4000000 4 4000000)) ''aku'' - held ref_sdk (ex_chain 4000000 4 4000000) ''aku''
         + asym_slack (rl_Asymmetry ex_withdraw) (Symbol ex_ceth) 2000 ''aku''"
    by (rule withdrawal_deficit_bound [OF ex_laws _ ctx'(1), where wN = 2000000 and wE = 2 and left = 2000000 and
          pool = "ex_pool_of 4000000 4 4000000" and lp = "ex_lp_of 4000000"])
      (simp_all add: ex_CalculateWithdrawal ex_wf del: ex_chain_sel)
  then show ?thesis using ctx' by auto
qed

text \<open>
  C32: what an asymmetric withdrawal does to the difference between the recorded balances and what the module holds. When its
  inner swap yields something the difference stays the same for every denomination. When the inner swap yields nothing, the coins are
  paid out in full, but the swapped amount is credited to the pool all the same: the difference grows by exactly that amount in the
  denomination of the reduced side. So where the pools recorded exactly what the module held of that denomination and
  the swapped amount is not zero, the module is insolvent afterwards.
\<close>

theorem asymmetric_withdrawal_breaks_solvency:
  assumes "clp_laws S" and "clp_wf (clp_kv ctx)" and "clp_RemoveLiquidity S ctx msg = Inr ctx'" and "rl_Asymmetry msg \<noteq> 0"
    and "rl_ExternalAsset msg = Some ext" and "GetRegistry ctx = Inr registry" and "clp_entry_of registry (Symbol ext) = Inr entry"
    and "GetPool ctx (Symbol ext) = Inr pool" and "GetLiquidityProvider ctx (Symbol ext) (rl_Signer msg) = Inr lp"
    and "AccAddressFromBech32 S (LiquidityProviderAddress lp) \<noteq> Inr (GetCLPModuleAddress S)"
    and "CalculateWithdrawal S (PoolUnits pool) (itoa (NativeAssetBalance pool)) (itoa (ExternalAssetBalance pool))
           (itoa (LiquidityProviderUnits lp)) (itoa (rl_WBasisPoints msg)) (rl_Asymmetry msg) = Some (wN, wE, left, swapAmount)"
    and "inner_swap S (rl_Asymmetry msg) ext (Decimals entry) swapAmount (withdrawn pool (LiquidityProviderUnits lp - left) wN wE)
           = Inr (swapResult, fee, impact, swapped)"
  shows "let reduced = (if 0 < rl_Asymmetry msg then NativeSymbol else Symbol ext) in
    (\<forall>d. owed (clp_kv ctx') d - held S ctx' d
       = owed (clp_kv ctx) d - held S ctx d + (if swapResult = 0 \<and> d = reduced then swapAmount else 0)) \<and>
    (swapResult = 0 \<and> 0 < swapAmount \<and> owed (clp_kv ctx) reduced = held S ctx reduced \<longrightarrow> \<not> solvent S ctx')"
proof -
  let ?reduced = "if 0 < rl_Asymmetry msg then NativeSymbol else Symbol ext"
  obtain registry' entry' r f i p' where e: "GetRegistry ctx = Inr registry'" "clp_entry_of registry' (Symbol ext) = Inr entry'"
    "rl_Asymmetry msg \<noteq> 0 \<longrightarrow> inner_swap S (rl_Asymmetry msg) ext (Decimals entry') swapAmount
       (withdrawn pool (LiquidityProviderUnits lp - left) wN wE) = Inr (r, f, i, p')"
    "\<And>d. owed (clp_kv ctx') d - held S ctx' d
       = owed (clp_kv ctx) d - held S ctx d + (if r = 0 then asym_slack (rl_Asymmetry msg) (Symbol ext) swapAmount d else 0)"
    by (rule clp_RemoveLiquidity_deficit [OF assms(1-3,5,8,9,11)]) (use assms(10) in blast)
  have "r = swapResult" using e(1-3) assms(4,6,7,12) by simp
  then have eq: "owed (clp_kv ctx') d - held S ctx' d
      = owed (clp_kv ctx) d - held S ctx d + (if swapResult = 0 \<and> d = ?reduced then swapAmount else 0)" for d
    using e(4) [of d] assms(4) by (auto simp: asym_slack_def in_denom_def)
  have "\<not> solvent S ctx'" if "swapResult = 0 \<and> 0 < swapAmount \<and> owed (clp_kv ctx) ?reduced = held S ctx ?reduced"
  proof -
    have "held S ctx' ?reduced < owed (clp_kv ctx') ?reduced" using eq [of ?reduced] that by simp
    then show ?thesis unfolding solvent_def by (meson linorder_not_le)
  qed
  then show ?thesis using eq unfolding Let_def by blast
qed

lemma ex_withdraw_swap:
  "\<exists>registry entry. GetRegistry (ex_chain 4000000 4 4000000) = Inr registry \<and> clp_entry_of registry ''ceth'' = Inr entry \<and>
     inner_swap ref_sdk 10 ex_ceth (Decimals entry) 2000 (withdrawn (ex_pool_of 4000000 4 4000000) 2000000 2000000 2)
       = Inr (0, 0, 0, ex_pool_of 2002000 2 2000000)"
  using ex_withdraw_SwapOne by (auto simp: inner_swap_def withdrawn_def msg_eval ex_pool_update)

theorem asymmetric_withdrawal_breaks_solvency_witness:
  "\<exists>ctx'. clp_ValidateBasic ref_sdk (MsgRemoveLiquidity ex_withdraw) = Inr () \<and> solvent ref_sdk (ex_chain 4000000 4 4000000) \<and>
     clp_RemoveLiquidity ref_sdk (ex_chain 4000000 4 4000000) ex_withdraw = Inr ctx' \<and> \<not> solvent ref_sdk ctx' \<and>
     owed (clp_kv ctx') ''aku'' - held ref_sdk ctx' ''aku'' = 2000"
proof -
  let ?ctx = "ex_chain 4000000 4 4000000"
  obtain ctx' where ctx': "clp_RemoveLiquidity ref_sdk ?ctx ex_withdraw = Inr ctx'" using ex_withdraw_ok by blast
  obtain registry entry where r: "GetRegistry ?ctx = Inr registry" "clp_entry_of registry ''ceth'' = Inr entry"
    "inner_swap ref_sdk 10 ex_ceth (Decimals entry) 2000 (withdrawn (ex_pool_of 4000000 4 4000000) 2000000 2000000 2)
       = Inr (0, 0, 0, ex_pool_of 2002000 2 2000000)" using ex_withdraw_swap by blast
  have v: "clp_ValidateBasic ref_sdk (MsgRemoveLiquidity ex_withdraw) = Inr ()"
    by (simp add: MsgRemoveLiquidity_ValidateBasic_def valid_asset_def ex_Asset_Validate MaxWbasis_def) (simp add: ref_String_def)
  have o: "owed (clp_kv ?ctx) NativeSymbol = held ref_sdk ?ctx NativeSymbol"
    by (simp add: owed_def held_def pool_owes.simps ref_bal bank_eval)
  have a: "AccAddressFromBech32 ref_sdk (LiquidityProviderAddress (ex_lp_of 4000000)) \<noteq> Inr (GetCLPModuleAddress ref_sdk)"
    by (simp add: ref_FromBech32_String GetCLPModuleAddress_def ref_ModuleAddress_def)
  note t = asymmetric_withdrawal_breaks_solvency [OF ex_laws _ ctx' _ _ r(1), where ext = ex_ceth and pool = "ex_pool_of 4000000 4 4000000"
      and lp = "ex_lp_of 4000000" and wN = 2000000 and wE = 2 and left = 2000000 and swapAmount = 2000]
  have "\<not> solvent ref_sdk ctx'" "owed (clp_kv ctx') NativeSymbol - held ref_sdk ctx' NativeSymbol = 2000"
    using t r(2,3) a o by (simp_all add: ex_CalculateWithdrawal ex_wf Let_def del: ex_chain_sel)
  then show ?thesis using v ctx' ex_solvent [of 4000000 4 4000000] by (auto simp: ex_denoms)
qed

section \<open>Swaps\<close>

lemma InitiateSwap_balances:
  assumes "clp_laws S" and "exec_InitiateSwap S ctx \<lparr>coin_Denom = s, coin_Amount = x\<rparr> a = Inr ctx'"
  shows "bal S (sdk_state ctx') a' d = bal S (sdk_state ctx) a' d
           - (if a' = a then in_denom s x d else 0) + (if a' = GetCLPModuleAddress S then in_denom s x d else 0)"
proof -
  have laws: "coin_laws S" "bank_laws S" using assms(1) by (simp_all add: clp_laws_def)
  from assms(2) obtain cs where cs: "NewCoins S [\<lparr>coin_Denom = s, coin_Amount = x\<rparr>] = Some cs"
    and "SendCoinsFromAccountToModule S (sdk_state ctx) a clp_ModuleName cs = Inr (sdk_state ctx')"
    by (auto simp: exec_InitiateSwap_def)
  then have "moves S (sdk_state ctx) (sdk_state ctx') a (GetCLPModuleAddress S) cs"
    using bank_laws_to_module [OF laws(2)] by (simp add: GetCLPModuleAddress_def)
  moreover have "amt cs d = in_denom s x d" using coin_laws_NewCoins [OF laws(1) cs, of d] by (simp add: in_denom_def)
  ultimately show ?thesis by (simp add: moves_def)
qed

lemma FinalizeSwap_balances:
  assumes "clp_laws S" and "exec_FinalizeSwap S ctx (itoa r) p msg = Inr ctx'" and "sw_ReceivedAsset msg = Some received"
    and "AccAddressFromBech32 S (sw_Signer msg) = Inr a"
  shows "bal S (sdk_state ctx') a' d = bal S (sdk_state ctx) a' d
           - (if a' = GetCLPModuleAddress S then in_denom (Symbol received) r d else 0)
           + (if a' = a then in_denom (Symbol received) r d else 0)"
proof -
  have laws: "int_laws S" "coin_laws S" "bank_laws S" using assms(1) by (simp_all add: clp_laws_def)
  from assms(2-4) obtain ctx1 r' c cs where ctx1: "SetPool S ctx p = Inr ctx1" and r': "ParseToInt S (itoa r) = Inr r'"
    and c: "NewCoin S (Symbol received) r' = Some c" and cs: "NewCoins S [c] = Some cs"
    and b: "SendCoinsFromModuleToAccount S (sdk_state ctx1) clp_ModuleName a cs = Inr (sdk_state ctx')"
    by (auto simp: exec_FinalizeSwap_def)
  have "sdk_state ctx1 = sdk_state ctx" using ctx1 by (auto simp: SetPool_def)
  then have "moves S (sdk_state ctx) (sdk_state ctx') (GetCLPModuleAddress S) a cs"
    using bank_laws_from_module [OF laws(3) b] by (simp add: GetCLPModuleAddress_def)
  moreover have "amt cs d = in_denom (Symbol received) r d"
    using coin_laws_NewCoins [OF laws(2) cs, of d] NewCoin_Some [OF laws(2) c] ParseToInt_itoa [OF laws(1) r']
    by (simp add: in_denom_def)
  ultimately show ?thesis by (simp add: moves_def)
qed

text \<open>
  C7: a swap that succeeds takes exactly the sent amount from the trader, pays the trader some amount of the
  received token that is at least the requested minimum, does the opposite to the module account and touches no
  other balance. This holds for direct swaps and for swaps through two pools.
\<close>

theorem swap_settles:
  assumes "clp_laws S" and "clp_Swap S ctx msg = Inr ctx'" and "AccAddressFromBech32 S (sw_Signer msg) = Inr trader"
    and "sw_SentAsset msg = Some sent" and "sw_ReceivedAsset msg = Some received"
  shows "\<exists>r. sw_MinReceivingAmount msg \<le> r \<and>
           (\<forall>a d. bal S (sdk_state ctx') a d = bal S (sdk_state ctx) a d
              + (if a = trader then in_denom (Symbol received) r d - in_denom (Symbol sent) (sw_SentAmount msg) d else 0)
              + (if a = GetCLPModuleAddress S then in_denom (Symbol sent) (sw_SentAmount msg) d - in_denom (Symbol received) r d else 0))"
proof -
  have laws: "int_laws S" "coin_laws S" using assms(1) by (simp_all add: clp_laws_def)
  from assms(2) show ?thesis
  proof (rule clp_Swap_Inr)
    fix sent1 received1 inPool n addr c ctx1 ctx2 x' sent' imp fee outPool nf adj r f i p' ctx3 es
    assume sr: "sw_SentAsset msg = Some sent1" "sw_ReceivedAsset msg = Some received1"
      and n: "ParseToInt S (itoa (sw_SentAmount msg)) = Inr n" and addr: "AccAddressFromBech32 S (sw_Signer msg) = Inr addr"
      and c: "NewCoin S (Symbol sent1) n = Some c" and ctx1: "exec_InitiateSwap S ctx c addr = Inr ctx1"
      and leg: "swap_first_leg S ctx1 sent1 received1 (sw_SentAmount msg) imp inPool = Inr (ctx2, x', sent', fee)"
      and r: "sw_MinReceivingAmount msg \<le> r"
      and fin: "exec_FinalizeSwap S ctx2 (itoa r) p' msg = Inr ctx3" and ctx': "ctx' = EmitEvents es ctx3"
    have eq: "sent1 = sent" "received1 = received" "addr = trader" using sr addr assms(3-5) by simp_all
    have c': "c = \<lparr>coin_Denom = Symbol sent, coin_Amount = sw_SentAmount msg\<rparr>"
      using NewCoin_Some [OF laws(2) c] ParseToInt_itoa [OF laws(1) n] eq by simp
    have "sdk_state ctx2 = sdk_state ctx1"
      using leg by (auto simp: swap_first_leg_def SetPool_def split: if_splits)
    with r InitiateSwap_balances [OF assms(1) ctx1 [unfolded c' eq]] FinalizeSwap_balances [OF assms(1) fin assms(5,3)]
    show ?thesis by (intro exI [of _ r]) (auto simp: ctx')
  qed
qed

theorem swap_settles_witness:
  "\<exists>ctx' r. clp_Swap ref_sdk ex_ctx ex_swap = Inr ctx' \<and> 300000 \<le> r \<and>
     (\<forall>a d. bal ref_sdk (sdk_state ctx') a d = bal ref_sdk (sdk_state ex_ctx) a d
        + (if a = ''bob'' then in_denom ''ceth'' r d - in_denom NativeSymbol 1000000 d else 0)
        + (if a = GetCLPModuleAddress ref_sdk then in_denom NativeSymbol 1000000 d - in_denom ''ceth'' r d else 0))"
proof -
  obtain ctx' where "clp_Swap ref_sdk ex_ctx ex_swap = Inr ctx'" using ex_swap_ok by blast
  with swap_settles [OF ex_laws this, of "''bob''" GetSettlementAsset ex_ceth] show ?thesis
    by (simp add: ref_FromBech32_String cong: if_cong)
qed

text \<open>
  C35: the price impact that a swap reports is an integer quotient of the sent amount by something larger, so it is
  zero for every swap into a pool that has any of the sent token, and a swap never reports another value.
\<close>

theorem price_impact_is_zero:
  assumes "uint_laws S" and "SwapOne S from x to pool nf adj = Inr (r, fee, impact, pool')" and "0 \<le> x"
    and "0 < (if to = GetSettlementAsset then ExternalAssetBalance pool else NativeAssetBalance pool)"
  shows "impact = 0"
proof -
  define X where "X = (if to = GetSettlementAsset then ExternalAssetBalance pool else NativeAssetBalance pool)"
  have imp: "calcPriceImpact S X x = Some impact" and add: "\<exists>y. Uint_Add S X x = Some y"
    using assms(2) by (auto simp: SwapOne_def SetInputs_def X_def split: if_splits prod.splits)
  show ?thesis
  proof (cases "x = 0")
    case True
    then show ?thesis using imp by (simp add: calcPriceImpact_def)
  next
    case False
    then have "is_uint (x + X)" using add assms(1) by (auto simp: uint_lawsD add.commute)
    then show ?thesis using calcPriceImpact_value [OF assms(1), of X x] imp assms(3,4) False by (auto simp: X_def)
  qed
qed

theorem price_impact_is_zero_witness:
  "\<exists>impact. SwapOne ref_sdk GetSettlementAsset 1000000 ex_ceth (ex_pool_of 4000000 2000000 4000000) one_dec False =
     Inr (320000, 80000, impact, ex_pool_of 5000000 1680000 4000000) \<and> impact = 0"
  using price_impact_is_zero [OF ref_uint_laws ex_SwapOne] ex_SwapOne by simp

section \<open>Withdrawals\<close>

text \<open>
  C19: for a pool and a provider whose numbers are below $2^{160}$, the withdrawal computation does not panic
  and never pays out more than the pool has of either asset, never leaves the provider with more units than before, and never
  swaps more than the pool has of the side the asymmetry names. This covers every withdrawal that passes its
  stateless checks.
\<close>

theorem withdrawal_within_pool:
  assumes "dec_laws S" and "uint_laws S" and "0 < lpUnits" and "lpUnits \<le> poolUnits" and "poolUnits < 2 ^ 160"
    and "0 \<le> native" and "native < 2 ^ 160" and "0 \<le> external" and "external < 2 ^ 160"
    and "0 < wBasisPoints" and "wBasisPoints \<le> MaxWbasis" and "\<bar>asymmetry\<bar> \<le> 10000"
  shows "\<exists>n e l s. CalculateWithdrawal S poolUnits (itoa native) (itoa external) (itoa lpUnits) (itoa wBasisPoints) asymmetry =
             Some (n, e, l, s) \<and>
           0 \<le> n \<and> n \<le> native \<and> 0 \<le> e \<and> e \<le> external \<and> 0 \<le> l \<and> l \<le> lpUnits \<and>
           0 \<le> s \<and> s \<le> (if 0 < asymmetry then native else if asymmetry < 0 then external else 0)"
  using CalculateWithdrawal_bounded [OF assms(1-10)] assms(11,12) by (simp add: MaxWbasis_def)

theorem withdrawal_within_pool_witness:
  "\<exists>n e l s. CalculateWithdrawal ref_sdk 4000000 (itoa 4000000) (itoa 4) (itoa 1000000) (itoa 2500) (- 7) = Some (n, e, l, s) \<and>
     0 \<le> n \<and> n \<le> 4000000 \<and> 0 \<le> e \<and> e \<le> 4 \<and> 0 \<le> l \<and> l \<le> 1000000 \<and> 0 \<le> s \<and> s \<le> 4"
  using withdrawal_within_pool [OF ref_dec_laws ref_uint_laws, of 1000000 4000000 4000000 4 2500 "- 7"]
  by (simp add: MaxWbasis_def)

text \<open>
  C34: the only provider of a pool cannot withdraw everything: a symmetric withdrawal of all of its units always
  fails, since the check that the pool stays above what is paid out applies to symmetric withdrawals too.
\<close>

theorem sole_provider_cannot_exit:
  assumes "dec_laws S" and "uint_laws S" and "int_laws S" and "coin_laws S" and "rl_ExternalAsset msg = Some ext"
    and "rl_WBasisPoints msg = 10000" and "rl_Asymmetry msg = 0" and "GetPool ctx (Symbol ext) = Inr pool"
    and "GetLiquidityProvider ctx (Symbol ext) (rl_Signer msg) = Inr lp" and "LiquidityProviderUnits lp = PoolUnits pool"
    and "0 < PoolUnits pool" and "PoolUnits pool < 2 ^ 160" and "0 \<le> NativeAssetBalance pool"
    and "NativeAssetBalance pool < 2 ^ 160" and "0 \<le> ExternalAssetBalance pool" and "ExternalAssetBalance pool < 2 ^ 160"
  shows "\<exists>e. clp_RemoveLiquidity S ctx msg = Inl e"
proof (rule ccontr)
  assume "\<nexists>e. clp_RemoveLiquidity S ctx msg = Inl e"
  then obtain ctx' where "clp_RemoveLiquidity S ctx msg = Inr ctx'" by (cases "clp_RemoveLiquidity S ctx msg") auto
  then show False
  proof (rule clp_RemoveLiquidity_Inr)
    fix registry ext1 entry pool1 lp1 wN wE left x wE' wN' ce cn u0 u nb eb p' ce' cn' ctx1 es
    assume a: "rl_ExternalAsset msg = Some ext1" "GetPool ctx (Symbol ext1) = Inr pool1"
      "GetLiquidityProvider ctx (Symbol ext1) (rl_Signer msg) = Inr lp1"
      and w: "CalculateWithdrawal S (PoolUnits pool1) (itoa (NativeAssetBalance pool1)) (itoa (ExternalAssetBalance pool1))
       (itoa (LiquidityProviderUnits lp1)) (itoa (rl_WBasisPoints msg)) (rl_Asymmetry msg) = Some (wN, wE, left, x)"
      and wE': "ParseToInt S (itoa wE) = Inr wE'" and ce: "NewCoin S (Symbol ext1) wE' = Some ce"
      and adj: "adjust_asymmetry S (rl_Asymmetry msg) ext1 (Decimals entry) x
       (pool1\<lparr>PoolUnits := u, NativeAssetBalance := nb, ExternalAssetBalance := eb\<rparr>) ce cn = Inr (p', ce', cn')"
      and ex: "exec_RemoveLiquidity S ctx p' ce' cn' lp1 left (ExternalAssetBalance pool1) (NativeAssetBalance pool1) = Inr ctx1"
    have eq: "ext1 = ext" "pool1 = pool" "lp1 = lp" using a assms(5,8,9) by auto
    have "wE = ExternalAssetBalance pool"
      using w CalculateWithdrawal_all [OF assms(1,2,11-16)] by (simp add: eq assms(6,7,10))
    moreover have "coin_Amount ce = wE" using NewCoin_Some [OF assms(4) ce] ParseToInt_itoa [OF assms(3) wE'] by simp
    moreover have "ce' = ce" using adj by (simp add: adjust_asymmetry_def assms(7))
    ultimately show False using ex by (auto simp: exec_RemoveLiquidity_def eq)
  qed
qed

definition ex_exit :: msg_remove_liquidity where
  "ex_exit = \<lparr>rl_Signer = ref_String ''alice'', rl_ExternalAsset = Some ex_ceth, rl_WBasisPoints = 10000, rl_Asymmetry = 0\<rparr>"

theorem sole_provider_cannot_exit_witness: "\<exists>e. clp_RemoveLiquidity ref_sdk ex_ctx ex_exit = Inl e"
  by (rule sole_provider_cannot_exit [OF ref_dec_laws ref_uint_laws ref_int_laws ref_coin_laws,
        where ext = ex_ceth and pool = "ex_pool_of 4000000 2000000 4000000" and lp = "ex_lp_of 4000000"])
    (simp_all add: ex_exit_def)

section \<open>Creating and decommissioning pools\<close>

lemma PoolThrehold_value: "uint_laws S \<Longrightarrow> NewUintFromString S PoolThrehold = Some (10 ^ 18)"
proof -
  have "PoolThrehold = itoa (10 ^ 18)" by code_simp
  then show "uint_laws S \<Longrightarrow> NewUintFromString S PoolThrehold = Some (10 ^ 18)"
    using uint_lawsD(6) [of S "10 ^ 18"] by (simp add: check_uint_def is_uint_def)
qed

lemma CalculatePoolUnits_new:
  assumes "uint_laws S" and "CalculatePoolUnits S 0 0 0 n e nf adj = Inr (p, l)"
  shows "p = l"
  using assms by (auto simp: CalculatePoolUnits_def uint_lawsD Let_def bind_eq_Some_conv split: if_splits)

text \<open>
  C26: a pool is created only for a token that has none, with at least $10^{18}$ of the native token, and then the
  pool records exactly the two amounts of the message, and its creator is a provider with all of the pool's units. The
  minimum is a constant of the code; the parameter \<^verbatim>\<open>MinCreatePoolThreshold\<close> of the genesis has no influence on it.
\<close>

theorem create_pool_effect:
  assumes "uint_laws S" and "clp_CreatePool S ctx msg = Inr ctx'" and "AccAddressFromBech32 S (cp_Signer msg) = Inr creator"
    and "cp_ExternalAsset msg = Some ext"
  shows "\<not> ExistsPool ctx (Symbol ext) \<and> 10 ^ 18 \<le> cp_NativeAssetAmount msg \<and>
         (\<exists>units. GetPool ctx' (Symbol ext) =
             Inr (NewPool (Some ext) (cp_NativeAssetAmount msg) (cp_ExternalAssetAmount msg) units) \<and>
           GetLiquidityProvider ctx' (Symbol ext) (AccAddress_String S creator) =
             Inr (NewLiquidityProvider S (Some ext) units creator))"
proof -
  from assms(2-4) obtain nf adj p l ctx1 pool ctx2 lp es where no: "\<not> ExistsPool ctx (Symbol ext)"
    and thr: "\<not> cp_NativeAssetAmount msg < 10 ^ 18"
    and u: "CalculatePoolUnits S 0 0 0 (cp_NativeAssetAmount msg) (cp_ExternalAssetAmount msg) nf adj = Inr (p, l)"
    and cp: "exec_CreatePool S ctx p msg = Inr (ctx1, pool)"
    and lp: "exec_CreateLiquidityProvider S ctx1 (cp_ExternalAsset msg) l creator = Inr (ctx2, lp)"
    and ctx': "ctx' = EmitEvents es ctx2"
    by (auto simp: clp_CreatePool_def PoolThrehold_value [OF assms(1)] split: if_splits prod.splits)
  have pl: "p = l" by (rule CalculatePoolUnits_new [OF assms(1) u])
  from cp assms(4) obtain b where pool: "pool = NewPool (Some ext) (cp_NativeAssetAmount msg) (cp_ExternalAssetAmount msg) p"
    and set: "SetPool S (ctx\<lparr>sdk_state := b\<rparr>) pool = Inr ctx1"
    by (auto simp: exec_CreatePool_def Let_def split: if_splits)
  have "Pool_Validate S pool = Some True" using set by (auto simp: SetPool_def split: if_splits)
  then have v: "Asset_Validate S ext = Some True" by (simp add: pool NewPool_def Pool_Validate_def)
  have c1: "clp_kv ctx1 = kv_set (clp_kv ctx) (pool_key (Symbol ext)) (PoolV pool)"
    using set v by (auto simp: SetPool_def pool NewPool_def)
  have c2: "clp_kv ctx2 = kv_set (clp_kv ctx1) (GetLiquidityProviderKey (Symbol ext) (AccAddress_String S creator))
      (LpV (NewLiquidityProvider S (Some ext) l creator))"
    using lp v assms(4)
    by (auto simp: exec_CreateLiquidityProvider_def Let_def SetLiquidityProvider_def LiquidityProvider_Validate_def NewLiquidityProvider_def)
  show ?thesis using no thr pl by (auto simp: ctx' GetPool_get GetLiquidityProvider_get c1 c2 pool)
qed

definition ex_create :: msg_create_pool where
  "ex_create = \<lparr>cp_Signer = ref_String ''bob'', cp_ExternalAsset = Some ex_ceth,
     cp_NativeAssetAmount = 1000000000000000000, cp_ExternalAssetAmount = 7\<rparr>"

abbreviation "ex_empty \<equiv> ex_ctx\<lparr>clp_kv := []\<rparr>"

lemma ex_create_ok: "\<exists>ctx'. clp_CreatePool ref_sdk ex_empty ex_create = Inr ctx'"
proof -
  have thr: "NewUintFromString ref_sdk PoolThrehold = Some 1000000000000000000"
    using PoolThrehold_value [OF ref_uint_laws] by simp
  have reg: "GetRegistry ex_empty = GetRegistry ex_ctx" by (simp add: GetRegistry_def)
  have ex: "\<not> ExistsPool ex_empty ''ceth''" by (simp add: ExistsPool_def kv_has_def)
  have np: "NewPool (Some ex_ceth) n e u = ex_pool_of n e u" for n e u by (simp add: NewPool_def ex_pool_of_def)
  have u: "CalculatePoolUnits ref_sdk 0 0 0 1000000000000000000 7 one_dec False = Inr (1000000000000000000, 1000000000000000000)"
    by (simp add: CalculatePoolUnits_def check_255_code check_uint_def is_uint_code one_dec_code ex_swap_rounding Let_def cong: lazy)
  have nl: "SetLiquidityProvider ref_sdk c (NewLiquidityProvider ref_sdk (Some ex_ceth) n a) =
      Inr (c\<lparr>clp_kv := kv_set (clp_kv c) (GetLiquidityProviderKey ''ceth'' (ref_String a)) (LpV (NewLiquidityProvider ref_sdk (Some ex_ceth) n a))\<rparr>)"
    for c n a by (simp add: SetLiquidityProvider_def LiquidityProvider_Validate_def NewLiquidityProvider_def ex_Asset_Validate)
  show ?thesis
    by (simp add: clp_CreatePool_def thr reg ex u np nl ex_create_def exec_CreatePool_def exec_CreateLiquidityProvider_def Let_def
        msg_eval bank_eval del: bind_r_Inr ref_sdk_sel(11) cong: lazy)
qed

theorem create_pool_effect_witness:
  "\<exists>ctx' units. clp_CreatePool ref_sdk ex_empty ex_create = Inr ctx' \<and>
     GetPool ctx' ''ceth'' = Inr (NewPool (Some ex_ceth) 1000000000000000000 7 units) \<and>
     GetLiquidityProvider ctx' ''ceth'' (ref_String ''bob'') = Inr (NewLiquidityProvider ref_sdk (Some ex_ceth) units ''bob'')"
proof -
  obtain ctx' where c: "clp_CreatePool ref_sdk ex_empty ex_create = Inr ctx'" using ex_create_ok by blast
  have m: "AccAddressFromBech32 ref_sdk (cp_Signer ex_create) = Inr ''bob''" "cp_ExternalAsset ex_create = Some ex_ceth"
    by (simp_all add: ex_create_def ref_FromBech32_String)
  show ?thesis using c create_pool_effect [OF ref_uint_laws c m] by (auto simp: ex_create_def)
qed

text \<open>
  C27: a pool is decommissioned only by a signer on the admin list, only when it holds less than $10^{18}$ of the native
  token, and it is gone afterwards. Anyone else's attempt fails.
\<close>

theorem decommission_by_admin_only:
  assumes "uint_laws S" and "clp_wf (clp_kv ctx)" and "clp_DecommissionPool S ctx msg = Inr ctx'"
  shows "\<exists>admin admins pool. AccAddressFromBech32 S (dp_Signer msg) = Inr admin \<and> GetClpWhiteList S ctx = Inr admins \<and>
           admin \<in> set admins \<and> GetPool ctx (dp_Symbol msg) = Inr pool \<and> NativeAssetBalance pool < 10 ^ 18 \<and>
           \<not> ExistsPool ctx' (dp_Symbol msg)"
proof -
  from assms(3) obtain pool admin ctx1 ext es where pool: "GetPool ctx (dp_Symbol msg) = Inr pool"
    and admin: "AccAddressFromBech32 S (dp_Signer msg) = Inr admin" "ValidateAddress S ctx admin = Inr True"
    and low: "NativeAssetBalance pool < 10 ^ 18" and dec: "exec_DecommissionPool ctx1 pool = Inr ext" and ctx': "ctx' = EmitEvents es ext"
    by (auto simp: clp_DecommissionPool_def PoolThrehold_value [OF assms(1)] split: if_splits option.splits)
  obtain a where a: "ExternalAsset pool = Some a" "Symbol a = dp_Symbol msg" using GetPool_wf [OF assms(2) pool] by blast
  have "\<not> ExistsPool ctx' (dp_Symbol msg)"
    using dec a by (auto simp: ctx' exec_DecommissionPool_def DestroyPool_def ExistsPool_def split: if_splits)
  then show ?thesis using pool admin low by (auto simp: ValidateAddress_def split: if_splits)
qed

definition ex_decommission :: msg_decommission_pool where
  "ex_decommission = \<lparr>dp_Signer = ref_String ''admin'', dp_Symbol = ''ceth''\<rparr>"

lemma ex_providers:
  "\<exists>resp. GetLiquidityProvidersForAssetPaginated ref_sdk ex_ctx ex_ceth (Some max_page) = Inr ([ex_lp_of 4000000], resp)"
  by (simp add: GetLiquidityProvidersForAssetPaginated_def filter_lps_def lp_hit_def unmarshal_lp_def kv_prefix_def on_page_def
      LiquidityProviderPrefix_def GetLiquidityProviderKey_def pool_key_def GetPoolKey_def PoolPrefix_def WhiteListValidatorPrefix_def
      ref_FilteredPaginate_def max_page_def Let_def map_filter_simps)

lemma ex_decommission_ok: "\<exists>ctx'. clp_DecommissionPool ref_sdk ex_ctx ex_decommission = Inr ctx'"
proof -
  have thr: "NewUintFromString ref_sdk PoolThrehold = Some 1000000000000000000"
    using PoolThrehold_value [OF ref_uint_laws] by simp
  have adm: "ValidateAddress ref_sdk ex_ctx ''admin'' = Inr True"
    by (simp add: ValidateAddress_def ExistsClpWhiteList_def GetClpWhiteList_def kv_has_def kv_get_def parse_addr_def ref_FromBech32_String)
  obtain resp where lps: "GetLiquidityProvidersForAssetPaginated ref_sdk ex_ctx ex_ceth (Some max_page) = Inr ([ex_lp_of 4000000], resp)"
    using ex_providers by blast
  have all: "CalculateAllAssetsForLP ref_sdk (ex_pool_of 4000000 2000000 4000000) (ex_lp_of 4000000) = Some (4000000, 2000000, 0, 0)"
    using CalculateWithdrawal_all [OF ref_dec_laws ref_uint_laws, of 4000000 4000000 2000000]
    by (simp add: CalculateAllAssetsForLP_def MaxWbasis_def)
  show ?thesis
    by (simp add: clp_DecommissionPool_def ex_decommission_def thr adm lps refund_lp_def all exec_RemoveLiquidityProvider_def
        DestroyLiquidityProvider_def exec_DecommissionPool_def DestroyPool_def kv_has_def kv_get_def kv_delete_def
        msg_eval bank_eval del: bind_r_Inr ref_sdk_sel(11) cong: lazy)
qed

theorem decommission_by_admin_only_witness:
  "\<exists>ctx' admin admins pool. clp_DecommissionPool ref_sdk ex_ctx ex_decommission = Inr ctx' \<and>
     AccAddressFromBech32 ref_sdk (ref_String ''admin'') = Inr admin \<and> GetClpWhiteList ref_sdk ex_ctx = Inr admins \<and>
     admin \<in> set admins \<and> GetPool ex_ctx ''ceth'' = Inr pool \<and> NativeAssetBalance pool < 10 ^ 18 \<and> \<not> ExistsPool ctx' ''ceth''"
proof -
  obtain ctx' where c: "clp_DecommissionPool ref_sdk ex_ctx ex_decommission = Inr ctx'" using ex_decommission_ok by blast
  have wf: "clp_wf (clp_kv ex_ctx)" by (rule ex_wf) simp_all
  show ?thesis using c decommission_by_admin_only [OF ref_uint_laws wf c] by (auto simp: ex_decommission_def)
qed

section \<open>Adding liquidity\<close>

text \<open>
  C33: the provider record is looked up under the signer as spelled in the message but written under the canonical
  spelling of its address. When there is no record under the spelling used, the record under the canonical
  address is replaced by one with the newly minted units alone: units the same account had before are lost,
  while the pool's total still counts them.
\<close>

theorem add_liquidity_overwrites_provider:
  assumes "uint_laws S" and "clp_ValidateBasic S (MsgAddLiquidity msg) = Inr ()" and "clp_AddLiquidity S ctx msg = Inr ctx'"
    and "al_ExternalAsset msg = Some ext" and "AccAddressFromBech32 S (al_Signer msg) = Inr provider"
    and "GetPool ctx (Symbol ext) = Inr pool"
    and "GetLiquidityProvider ctx (Symbol ext) (al_Signer msg) = Inl clp_ErrLiquidityProviderDoesNotExist"
  shows "\<exists>nf adj newPoolUnits minted.
           CalculatePoolUnits S (PoolUnits pool) (NativeAssetBalance pool) (ExternalAssetBalance pool)
             (al_NativeAssetAmount msg) (al_ExternalAssetAmount msg) nf adj = Inr (newPoolUnits, minted) \<and>
           GetLiquidityProvider ctx' (Symbol ext) (AccAddress_String S provider) =
             Inr (NewLiquidityProvider S (Some ext) minted provider)"
proof -
  from assms(3,4,6) obtain nf adj p u ctx1 lp es where u: "CalculatePoolUnits S (PoolUnits pool) (NativeAssetBalance pool)
      (ExternalAssetBalance pool) (al_NativeAssetAmount msg) (al_ExternalAssetAmount msg) nf adj = Inr (p, u)"
    and add: "exec_AddLiquidity S ctx msg pool p u = Inr (ctx1, lp)" and ctx': "ctx' = EmitEvents es ctx1"
    by (auto simp: clp_AddLiquidity_def split: if_splits prod.splits)
  from add assms(4,5) obtain b c lp1 u1 u2 c' where find: "find_or_create_lp S (ctx\<lparr>sdk_state := b\<rparr>) msg ext provider u = Inr (c, lp1, u1)"
    and units: "Uint_Add S (LiquidityProviderUnits lp1) u1 = Some u2" and lp: "lp = lp1\<lparr>LiquidityProviderUnits := u2\<rparr>"
    and set: "SetLiquidityProvider S c' lp = Inr ctx1"
    by (auto simp: exec_AddLiquidity_def Let_def split: if_splits prod.splits)
  have "GetLiquidityProvider (ctx\<lparr>sdk_state := b\<rparr>) (Symbol ext) (al_Signer msg) = Inl clp_ErrLiquidityProviderDoesNotExist"
    using assms(7) by simp
  then have "lp1 = NewLiquidityProvider S (Some ext) u provider" "u1 = 0"
    using find assms(4) by (auto simp: find_or_create_lp_def exec_CreateLiquidityProvider_def Let_def split: prod.splits)
  then have lp': "lp = NewLiquidityProvider S (Some ext) u provider"
    using units assms(1) by (auto simp: lp uint_lawsD NewLiquidityProvider_def)
  have "Asset_Validate S ext = Some True"
    using assms(2,4) by (auto simp: MsgAddLiquidity_ValidateBasic_def valid_asset_def split: if_splits)
  then have "GetLiquidityProvider ctx1 (Symbol ext) (AccAddress_String S provider) = Inr lp"
    using set by (auto simp: lp' SetLiquidityProvider_def LiquidityProvider_Validate_def NewLiquidityProvider_def GetLiquidityProvider_get)
  with u show ?thesis by (auto simp: ctx' lp' GetLiquidityProvider_def)
qed

definition ex_add :: msg_add_liquidity where
  "ex_add = \<lparr>al_Signer = ''AKH1'' @ hex_encode ''alice'', al_ExternalAsset = Some ex_ceth,
     al_NativeAssetAmount = 1000000, al_ExternalAssetAmount = 500000\<rparr>"

lemma ex_add_sel [simp]:
  "al_ExternalAsset ex_add = Some ex_ceth" "al_NativeAssetAmount ex_add = 1000000" "al_ExternalAssetAmount ex_add = 500000"
  "AccAddressFromBech32 ref_sdk (al_Signer ex_add) = Inr ''alice''"
  "GetLiquidityProvider ex_ctx ''ceth'' (al_Signer ex_add) = Inl clp_ErrLiquidityProviderDoesNotExist"
  by (simp_all add: ex_add_def GetLiquidityProvider_def kv_has_def kv_get_def GetLiquidityProviderKey_def ref_String_def
      ref_FromBech32_def valid_address_def HasPrefix_def LiquidityProviderPrefix_def WhiteListValidatorPrefix_def pool_key_def GetPoolKey_def PoolPrefix_def)

lemma ex_add_rounding:
  "round_div 1000000000000000000 1000000000000000000 = 1"
  "round_div 4000000000000000000000000000000000000000000 1000000000000000000000000 = 4000000000000000000"
  "round_div 2000000000000000000000000000000000000000000 1000000000000000000000000 = 2000000000000000000"
  "round_div 500000000000000000000000000000000000000000 1000000000000000000000000 = 500000000000000000"
  "round_div 1000000000000000000000000000000000000000000 1000000000000000000000000 = 1000000000000000000"
  "round_div 12500000000000000000000000000000000000 1000000000000000000 = 12500000000000000000"
  "round_div 2000000000000000000000000000000000000 1000000000000000000 = 2000000000000000000"
  "round_div 0 12500000000000000000 = 0"
  "round_div 16000000000000000000000000000000000000 1000000000000000000 = 16000000000000000000"
  "round_div 4000000000000000000000000000000000000 1000000000000000000 = 4000000000000000000"
  "round_div 16000000000000000000000000000000000000 16000000000000000000 = 1000000000000000000"
  "round_div 1000000000000000000000000000000000000 1000000000000000000 = 1000000000000000000"
  "round_div 5000000000000000000000000000000000000000000 1000000000000000000 = 5000000000000000000000000"
  "round_div 5000000000000000000000000 1000000000000000000 = 5000000"
  "round_div 1000000000000000000000000000000000000000000 1000000000000000000 = 1000000000000000000000000"
  "round_div 1000000000000000000000000 1000000000000000000 = 1000000"
  "round_div 8000000000000000000000000000000000000 1000000000000000000 = 8000000000000000000"
  by (rule round_div_eqI; simp)+

lemma ex_add_units: "CalculatePoolUnits ref_sdk 4000000 4000000 2000000 1000000 500000 one_dec False = Inr (5000000, 1000000)"
  by (simp add: CalculatePoolUnits_def stake_units_def ex_must_dec dec_eval ex_add_rounding cong: lazy)

lemma ex_NewLiquidityProvider:
  "NewLiquidityProvider ref_sdk (Some ex_ceth) n ''alice'' = ex_lp_of n"
  by (simp add: NewLiquidityProvider_def ex_lp_of_def)

lemma ex_add_ok: "\<exists>ctx'. clp_AddLiquidity ref_sdk ex_ctx ex_add = Inr ctx'"
  by (simp add: clp_AddLiquidity_def exec_AddLiquidity_def find_or_create_lp_def exec_CreateLiquidityProvider_def Let_def
      ex_add_units ex_NewLiquidityProvider msg_eval bank_eval del: bind_r_Inr ref_sdk_sel(1) cong: lazy)

theorem add_liquidity_overwrites_provider_witness:
  "\<exists>ctx' minted. GetLiquidityProvider ex_ctx ''ceth'' (ref_String ''alice'') = Inr (ex_lp_of 4000000) \<and>
     clp_AddLiquidity ref_sdk ex_ctx ex_add = Inr ctx' \<and>
     GetLiquidityProvider ctx' ''ceth'' (ref_String ''alice'') = Inr (NewLiquidityProvider ref_sdk (Some ex_ceth) minted ''alice'')"
proof -
  obtain ctx' where c: "clp_AddLiquidity ref_sdk ex_ctx ex_add = Inr ctx'" using ex_add_ok by blast
  have v: "clp_ValidateBasic ref_sdk (MsgAddLiquidity ex_add) = Inr ()"
    by (simp add: MsgAddLiquidity_ValidateBasic_def valid_asset_def ex_Asset_Validate) (simp add: ex_add_def)
  have "\<exists>nf adj newPoolUnits minted.
       CalculatePoolUnits ref_sdk (PoolUnits (ex_pool_of 4000000 2000000 4000000)) (NativeAssetBalance (ex_pool_of 4000000 2000000 4000000))
         (ExternalAssetBalance (ex_pool_of 4000000 2000000 4000000)) (al_NativeAssetAmount ex_add) (al_ExternalAssetAmount ex_add) nf adj =
         Inr (newPoolUnits, minted) \<and>
       GetLiquidityProvider ctx' (Symbol ex_ceth) (AccAddress_String ref_sdk ''alice'') =
         Inr (NewLiquidityProvider ref_sdk (Some ex_ceth) minted ''alice'')"
    by (rule add_liquidity_overwrites_provider [OF ref_uint_laws v c]) (simp_all del: ref_sdk_sel(1))
  then show ?thesis using c by auto
qed

end
