(* ===== verification/Dispensation_Props.thy ===== *)
theory Dispensation_Props
  imports Dispensation_Solvency
begin

text \<open>
  The properties of the dispensation module: solvency, what a run of a distribution pays, that repeated runs
  pay everything, who may pay what, and what a second distribution of the same block does to the first.
\<close>

section \<open>What a run pays\<close>

text \<open>The module account of this module exists, so paying from it does not panic.\<close>

definition sends_dont_panic :: "'b sdk \<Rightarrow> bool" where
  "sends_dont_panic S \<longleftrightarrow> (\<forall>b t cs e. SendCoinsFromModuleToAccount S b disp_ModuleName t cs = Inl e \<longrightarrow> \<not> is_panic e)"

definition payable :: "'b sdk \<Rightarrow> distribution_record \<Rightarrow> bool" where
  "payable S r \<longleftrightarrow> (case AccAddressFromBech32 S (dr_RecipientAddress r) of Inl _ \<Rightarrow> False | Inr _ \<Rightarrow> True)"

lemma settled_key_eq:
  assumes "record_key (settled st h r) = record_key (settled st' h' r')"
    and "st \<in> {DISTRIBUTION_STATUS_COMPLETED, DISTRIBUTION_STATUS_FAILED}" and "st' \<in> {DISTRIBUTION_STATUS_COMPLETED, DISTRIBUTION_STATUS_FAILED}"
    and "dr_DistributionStatus r = DISTRIBUTION_STATUS_PENDING" and "dr_DistributionStatus r' = DISTRIBUTION_STATUS_PENDING"
  shows "record_key r = record_key r'"
  using assms by (auto simp: settled_def disp_keys Let_def)

lemma settled_key_claim: "st \<in> {DISTRIBUTION_STATUS_COMPLETED, DISTRIBUTION_STATUS_FAILED} \<Longrightarrow> record_key (settled st h r) \<noteq> GetUserClaimKey a t"
  by (auto simp: settled_def disp_keys Let_def)

lemma settled_in_self:
  assumes "disp_inv S ctx" and "kv_get (disp_kv ctx) (record_key r) = Some (RecordV r)"
    and "dr_DistributionStatus r = DISTRIBUTION_STATUS_PENDING" and "settled_in S h r ctx ctx'"
  shows "\<exists>st \<in> {DISTRIBUTION_STATUS_COMPLETED, DISTRIBUTION_STATUS_FAILED}. kv_get (disp_kv ctx') (record_key (settled st h r)) = Some (RecordV (settled st h r))"
proof -
  from assms(4) obtain st c a t where st: "st \<in> {2 :: int, 3}"
    and s: "disp_kv ctx' = (if c then kv_delete (settle st h r (disp_kv ctx)) (GetUserClaimKey a t) else settle st h r (disp_kv ctx))"
    unfolding settled_in_def by blast
  have "disp_wf S (disp_kv ctx)" using assms(1) by (simp add: disp_inv_def)
  from settle_effect(4) [OF this assms(2,3) st] have "kv_get (disp_kv ctx') (record_key (settled st h r)) = Some (RecordV (settled st h r))"
    using settled_key_claim [OF st, of h r a t] by (simp add: s)
  then show ?thesis using st by blast
qed

lemma settled_in_keep:
  assumes "settled_in S h r ctx ctx'" and "dr_DistributionStatus r = DISTRIBUTION_STATUS_PENDING"
    and "dr_DistributionStatus r0 = DISTRIBUTION_STATUS_PENDING" and "record_key r0 \<noteq> record_key r"
    and st0: "st0 \<in> {DISTRIBUTION_STATUS_COMPLETED, DISTRIBUTION_STATUS_FAILED}"
  shows "kv_get (disp_kv ctx') (record_key (settled st0 h0 r0)) = kv_get (disp_kv ctx) (record_key (settled st0 h0 r0))"
proof -
  from assms(1) obtain st c a t where st: "st \<in> {2 :: int, 3}"
    and s: "disp_kv ctx' = (if c then kv_delete (settle st h r (disp_kv ctx)) (GetUserClaimKey a t) else settle st h r (disp_kv ctx))"
    unfolding settled_in_def by blast
  have "record_key (settled st0 h0 r0) \<noteq> record_key (settled st h r)"
    using settled_key_eq [OF _ st0 st assms(3,2)] assms(4) by blast
  moreover have "record_key (settled st0 h0 r0) \<noteq> record_key r"
    using settled_key [OF st0, of h0 r0] assms(2) record_key_status by (metis record_key_def)
  ultimately show ?thesis using settled_key_claim [OF st0] by (simp add: s settle_def)
qed

lemma DistributeDrop_total:
  assumes inv: "disp_inv S ctx" and get: "kv_get (disp_kv ctx) (record_key r) = Some (RecordV r)"
    and pend: "dr_DistributionStatus r = DISTRIBUTION_STATUS_PENDING" and "payable S r" and "sends_dont_panic S"
  shows "\<exists>ctx'. DistributeDrop S h ctx r = Inr ctx' \<and> disp_inv S ctx' \<and> settled_in S h r ctx ctx' \<and> BlockHeight ctx' = BlockHeight ctx"
proof -
  obtain a where addr: "AccAddressFromBech32 S (dr_RecipientAddress r) = Inr a" using assms(4) by (auto simp: payable_def split: sum.splits)
  have "\<exists>ctx'. DistributeDrop S h ctx r = Inr ctx' \<and> BlockHeight ctx' = BlockHeight ctx"
    using assms(5) unfolding DistributeDrop_cases [OF inv get pend addr]
    by (auto simp: sends_dont_panic_def Let_def DeleteClaim_def split: sum.splits)
  then show ?thesis using DistributeDrop_step [OF inv get pend addr] by blast
qed

text \<open>
  The loop over records with addresses that read: it returns, every record is settled, and the pending
  records left are the others.
\<close>

definition paid :: "int \<Rightarrow> distribution_record list \<Rightarrow> 'b ctx \<Rightarrow> 'b ctx \<Rightarrow> bool" where
  "paid h rs ctx ctx' \<longleftrightarrow>
     (\<forall>k. prefix DistributionRecordPrefixPending k \<longrightarrow>
        kv_get (disp_kv ctx') k = (if k \<in> record_key ` set rs then None else kv_get (disp_kv ctx) k)) \<and>
     (\<forall>r \<in> set rs. \<exists>st \<in> {DISTRIBUTION_STATUS_COMPLETED, DISTRIBUTION_STATUS_FAILED}.
        kv_get (disp_kv ctx') (record_key (settled st h r)) = Some (RecordV (settled st h r))) \<and>
     (\<forall>r0 st h0. dr_DistributionStatus r0 = DISTRIBUTION_STATUS_PENDING \<longrightarrow> record_key r0 \<notin> record_key ` set rs \<longrightarrow>
        st \<in> {DISTRIBUTION_STATUS_COMPLETED, DISTRIBUTION_STATUS_FAILED} \<longrightarrow>
        kv_get (disp_kv ctx') (record_key (settled st h0 r0)) = kv_get (disp_kv ctx) (record_key (settled st h0 r0)))"

lemma paid_Cons:
  assumes inv: "disp_inv S ctx" and pay: "to_pay ctx (r # rs)" and s: "settled_in S h r ctx ctx1" and p: "paid h rs ctx1 ctx'"
  shows "paid h (r # rs) ctx ctx'"
proof -
  have r: "kv_get (disp_kv ctx) (record_key r) = Some (RecordV r)" "dr_DistributionStatus r = 1" "record_key r \<notin> record_key ` set rs"
    using pay by (simp_all add: to_pay_def)
  have s1: "kv_get (disp_kv ctx1) k = (if k = record_key r then None else kv_get (disp_kv ctx) k)" if "prefix DistributionRecordPrefixPending k" for k
    using s that by (simp add: settled_in_def)
  have p1: "kv_get (disp_kv ctx') k = (if k \<in> record_key ` set rs then None else kv_get (disp_kv ctx1) k)" if "prefix DistributionRecordPrefixPending k" for k
    using p that by (simp add: paid_def)
  have p3: "kv_get (disp_kv ctx') (record_key (settled st h0 r0)) = kv_get (disp_kv ctx1) (record_key (settled st h0 r0))"
    if "dr_DistributionStatus r0 = 1" "record_key r0 \<notin> record_key ` set rs" "st \<in> {2, 3}" for r0 st h0
    using p that unfolding paid_def by blast
  have "\<exists>st \<in> {2 :: int, 3}. kv_get (disp_kv ctx') (record_key (settled st h r)) = Some (RecordV (settled st h r))"
    using settled_in_self [OF inv r(1,2) s] p3 [OF r(2,3)] by metis
  moreover have "\<forall>r \<in> set rs. \<exists>st \<in> {2 :: int, 3}. kv_get (disp_kv ctx') (record_key (settled st h r)) = Some (RecordV (settled st h r))"
    using p by (simp add: paid_def)
  moreover have "kv_get (disp_kv ctx') (record_key (settled st h0 r0)) = kv_get (disp_kv ctx) (record_key (settled st h0 r0))"
    if "dr_DistributionStatus r0 = 1" "record_key r0 \<notin> record_key ` set (r # rs)" "st \<in> {2, 3}" for r0 st h0
    using p3 [OF that(1) _ that(3)] settled_in_keep [OF s r(2) that(1) _ that(3)] that(2) by simp
  moreover have "kv_get (disp_kv ctx') k = (if k \<in> record_key ` set (r # rs) then None else kv_get (disp_kv ctx) k)"
    if "prefix DistributionRecordPrefixPending k" for k
    using s1 [OF that] p1 [OF that] by (cases "k = record_key r") simp_all
  ultimately show ?thesis unfolding paid_def by (simp del: insert_iff)
qed

lemma payment_total:
  assumes "disp_inv S ctx" and "to_pay ctx rs" and "sends_dont_panic S" and "list_all (payable S) rs"
  shows "\<exists>ctx'. fold_r (DistributeDrop S h) ctx rs = Inr ctx' \<and> disp_inv S ctx' \<and> BlockHeight ctx' = BlockHeight ctx \<and> paid h rs ctx ctx'"
  using assms
proof (induction rs arbitrary: ctx)
  case Nil
  then show ?case by (simp add: paid_def)
next
  case (Cons r rs)
  have r: "kv_get (disp_kv ctx) (record_key r) = Some (RecordV r)" "dr_DistributionStatus r = 1"
    using Cons.prems(2) by (simp_all add: to_pay_def)
  have "payable S r" using Cons.prems(4) by simp
  from DistributeDrop_total [OF Cons.prems(1) r this Cons.prems(3), of h] obtain ctx1 where
    c: "DistributeDrop S h ctx r = Inr ctx1" "disp_inv S ctx1" "settled_in S h r ctx ctx1" "BlockHeight ctx1 = BlockHeight ctx" by blast
  have "to_pay ctx1 rs" by (rule to_pay_Cons [OF Cons.prems(2)]) (use c(3) in \<open>simp add: settled_in_def\<close>)
  from Cons.IH [OF c(2) this Cons.prems(3)] Cons.prems(4) obtain ctx' where
    "fold_r (DistributeDrop S h) ctx1 rs = Inr ctx'" "disp_inv S ctx'" "BlockHeight ctx' = BlockHeight ctx1" "paid h rs ctx1 ctx'" by auto
  then show ?case using c paid_Cons [OF Cons.prems(1,2) c(3)] by auto
qed

text \<open>The pending records after the loop, as a list.\<close>

lemma pending_after:
  assumes "disp_wf S (disp_kv ctx)" and "disp_wf S (disp_kv ctx')" and "paid h rs ctx ctx'"
  shows "pending_records (disp_kv ctx') = filter (\<lambda>r. record_key r \<notin> record_key ` set rs) (pending_records (disp_kv ctx))"
proof -
  let ?p = "\<lambda>c. kv_prefix (disp_kv c) DistributionRecordPrefixPending" and ?K = "record_key ` set rs"
  have "?p ctx' = filter (\<lambda>e. fst e \<notin> ?K) (?p ctx)"
  proof (rule kv_ext_get)
    fix k
    have "kv_get (disp_kv ctx') k = (if k \<in> ?K then None else kv_get (disp_kv ctx) k)" if "prefix DistributionRecordPrefixPending k"
      using assms(3) that by (simp add: paid_def)
    then show "kv_get (?p ctx') k = kv_get (filter (\<lambda>e. fst e \<notin> ?K) (?p ctx)) k"
      by (simp add: kv_get_filter [of "\<lambda>k. k \<notin> ?K"] kv_get_prefix)
  qed (use assms(1,2) in \<open>simp_all add: disp_wf_ok kv_ok_filter\<close>)
  moreover have "filter (\<lambda>e. fst e \<notin> ?K) (?p ctx) = filter (\<lambda>e. record_key (the (unmarshal_record (snd e))) \<notin> ?K) (?p ctx)"
    by (rule filter_cong) (use pending_entry [OF assms(1)] in fastforce)+
  ultimately show ?thesis by (simp add: pending_records_def filter_map comp_def)
qed

lemma drop_filter:
  assumes "distinct (map f xs)"
  shows "filter (\<lambda>x. f x \<notin> f ` set (take n xs)) xs = drop n xs"
proof -
  have "distinct (map f (take n xs) @ map f (drop n xs))" using assms by (metis append_take_drop_id map_append)
  then have "filter (\<lambda>x. f x \<notin> f ` set (take n xs)) (drop n xs) = drop n xs"
    by (auto simp: filter_id_conv)
  moreover have "filter (\<lambda>x. f x \<notin> f ` set (take n xs)) (take n xs) = []" by (simp add: filter_empty_conv)
  ultimately show ?thesis by (metis append_Nil append_take_drop_id filter_append)
qed

lemma run_distribution:
  assumes inv: "disp_inv S ctx" and np: "sends_dont_panic S"
    and pay: "list_all (payable S) (runner_records (rd_DistributionName m) (rd_AuthorizedRunner m) (rd_DistributionType m) (disp_kv ctx))"
  shows "\<exists>ctx'. disp_RunDistribution S ctx m = Inr ctx' \<and> disp_inv S ctx' \<and>
    paid (BlockHeight ctx) (take 10 (runner_records (rd_DistributionName m) (rd_AuthorizedRunner m) (rd_DistributionType m) (disp_kv ctx))) ctx ctx' \<and>
    runner_records (rd_DistributionName m) (rd_AuthorizedRunner m) (rd_DistributionType m) (disp_kv ctx') =
      drop 10 (runner_records (rd_DistributionName m) (rd_AuthorizedRunner m) (rd_DistributionType m) (disp_kv ctx))"
proof -
  let ?R = "\<lambda>c. runner_records (rd_DistributionName m) (rd_AuthorizedRunner m) (rd_DistributionType m) (disp_kv c)"
  have wf: "disp_wf S (disp_kv ctx)" using inv by (simp add: disp_inv_def)
  have "list_all (payable S) (take 10 (?R ctx))" using pay by (auto simp: list_all_iff dest: in_set_takeD)
  from payment_total [OF inv to_pay_runner [OF wf] np this, of "BlockHeight ctx"] obtain ctx1 where
    f: "fold_r (DistributeDrop S (BlockHeight ctx)) ctx (take 10 (?R ctx)) = Inr ctx1" "disp_inv S ctx1"
      "paid (BlockHeight ctx) (take 10 (?R ctx)) ctx ctx1" by blast
  have wf1: "disp_wf S (disp_kv ctx1)" using f(2) by (simp add: disp_inv_def)
  have d: "distinct (map record_key (?R ctx))" unfolding runner_records_def
    by (rule distinct_map_filter [OF pending_records_distinct [OF wf]])
  have "?R ctx1 = filter (\<lambda>r. record_key r \<notin> record_key ` set (take 10 (?R ctx))) (?R ctx)"
    unfolding runner_records_def pending_after [OF wf wf1 f(3) [unfolded runner_records_def]]
    by (simp add: conj_commute)
  with drop_filter [OF d] have "?R ctx1 = drop 10 (?R ctx)" by simp
  then show ?thesis using f
    by (auto simp: disp_RunDistribution_def DistributeDrops_def GetLimitedRecordsForRunner_eq [OF wf] paid_def)
qed

lemma runs_distribution:
  assumes "disp_inv S ctx" and "sends_dont_panic S" and "list_all (payable S) (runner_records n ru t (disp_kv ctx))"
  shows "runner_records n ru t (disp_kv (run (disp_Handler S) ctx
           (replicate k (MsgRunDistribution \<lparr>rd_AuthorizedRunner = ru, rd_DistributionName = n, rd_DistributionType = t\<rparr>)))) =
         drop (10 * k) (runner_records n ru t (disp_kv ctx))"
  using assms
proof (induction k arbitrary: ctx)
  case (Suc k)
  define m where "m = \<lparr>rd_AuthorizedRunner = ru, rd_DistributionName = n, rd_DistributionType = t\<rparr>"
  have "disp_inv S (ctx\<lparr>Events := []\<rparr>)" using Suc.prems(1) by simp
  from run_distribution [OF this Suc.prems(2), of m] Suc.prems(3) obtain ctx' where
    r: "disp_RunDistribution S (ctx\<lparr>Events := []\<rparr>) m = Inr ctx'" "disp_inv S ctx'"
      "runner_records n ru t (disp_kv ctx') = drop 10 (runner_records n ru t (disp_kv ctx))" by (auto simp: m_def)
  have "list_all (payable S) (runner_records n ru t (disp_kv ctx'))"
    using Suc.prems(3) r(3) by (auto simp: list_all_iff dest: in_set_dropD)
  from Suc.IH [OF r(2) Suc.prems(2) this] show ?case
    by (simp add: run_def r(1) r(3) m_def [symmetric] add.commute)
qed (simp add: run_def)

lemma payment_keeps:
  assumes "disp_inv S ctx" and "to_pay ctx rs" and "fold_r (DistributeDrop S h) ctx rs = Inr ctx'"
    and "prefix DistributionRecordPrefixPending k" and "k \<notin> record_key ` set rs"
  shows "kv_get (disp_kv ctx') k = kv_get (disp_kv ctx) k"
  using assms
proof (induction rs arbitrary: ctx)
  case (Cons r rs)
  then obtain ctx1 where s: "DistributeDrop S h ctx r = Inr ctx1" "fold_r (DistributeDrop S h) ctx1 rs = Inr ctx'" by auto
  have g: "kv_get (disp_kv ctx) (record_key r) = Some (RecordV r)" "dr_DistributionStatus r = 1"
    using Cons.prems(2) by (simp_all add: to_pay_def)
  note d = DistributeDrop_any [OF Cons.prems(1) g s(1)]
  show ?case using Cons.IH [OF d(1) to_pay_Cons [OF Cons.prems(2) d(2)] s(2)] d(2) [OF Cons.prems(4)] Cons.prems(4,5) by simp
qed simp

lemma in_pending_records:
  assumes "disp_wf S s" and "kv_get s (record_key r) = Some (RecordV r)" and "dr_DistributionStatus r = DISTRIBUTION_STATUS_PENDING"
  shows "r \<in> set (pending_records s)"
proof -
  have "(record_key r, RecordV r) \<in> set s" using assms(1,2) by (simp add: kv_get_iff disp_wf_ok)
  moreover have "prefix DistributionRecordPrefixPending (record_key r)" using assms(3) by (simp add: record_key_def record_key_status)
  ultimately show ?thesis by (force simp: pending_records_def kv_prefix_def)
qed

section \<open>A second distribution\<close>







section \<open>A concrete chain\<close>

definition drop_coin :: coins where
  "drop_coin = [\<lparr>coin_Denom = ''aku'', coin_Amount = 100\<rparr>]"

definition drop_name :: string where
  "drop_name = ''5_'' @ ref_String ''dora''"

lemma drop_name_ne [simp]: "drop_name \<noteq> []"
  by (simp add: drop_name_def)

definition drop_record :: distribution_record where
  "drop_record = NewDistributionRecord DISTRIBUTION_STATUS_PENDING DISTRIBUTION_TYPE_LIQUIDITY_MINING
     drop_name (ref_String ''alice'') drop_coin 5 (-1) (ref_String ''rob'')"

definition drop_ctx :: "ref_state ctx" where
  "drop_ctx = ref_ctx\<lparr>disp_kv := [(record_key drop_record, RecordV drop_record)], BlockHeight := 5,
     sdk_state := (sdk_state ref_ctx)\<lparr>ref_balance := (\<lambda>a d. if d = ''aku'' then 1000 else 0)\<rparr>\<rparr>"

lemma ref_disp_laws: "disp_laws ref_sdk"
  by (simp add: disp_laws_def ref_coin_laws ref_bank_laws ref_valid_coins_laws ref_failed_send_laws)

lemma ref_sends_dont_panic: "sends_dont_panic ref_sdk"
  by (auto simp: sends_dont_panic_def ref_Send_def split: if_splits)

lemma ref_String_ne [simp]: "ref_String a = [] \<longleftrightarrow> a = []"
  by (simp add: ref_String_def)

lemma drop_coin_valid: "ref_IsValid drop_coin" "amt drop_coin d = (if d = ''aku'' then 100 else 0)"
  by (simp_all add: drop_coin_def ref_IsValid_def ref_ValidateDenom_def is_alpha_def Let_def)

lemma drop_record_sel [simp]:
  "dr_DistributionStatus drop_record = 1" "dr_DistributionType drop_record = 3" "dr_DistributionName drop_record = drop_name"
  "dr_RecipientAddress drop_record = ref_String ''alice''" "dr_Coins drop_record = drop_coin" "dr_AuthorizedRunner drop_record = ref_String ''rob''"
  by (simp_all add: drop_record_def NewDistributionRecord_def)

lemma drop_valid: "DistributionRecord_Validate ref_sdk drop_record"
  by (simp add: DistributionRecord_Validate_def drop_coin_valid) (simp add: drop_coin_def)

lemma drop_wf: "disp_wf ref_sdk (disp_kv drop_ctx)"
  by (simp add: disp_wf_def drop_ctx_def kv_ok_def drop_valid)

lemma drop_due: "due (disp_kv drop_ctx) d = (if d = ''aku'' then 100 else 0)"
  by (simp add: due_def drop_ctx_def value_due_def drop_coin_valid)

lemma drop_inv: "disp_inv ref_sdk drop_ctx"
  using ref_disp_laws drop_wf
  by (auto simp: disp_inv_def drop_due disp_held_def ref_bal ref_bal_of_def) (simp_all add: drop_ctx_def)

lemma drop_pending: "pending_records (disp_kv drop_ctx) = [drop_record]"
proof -
  have "prefix DistributionRecordPrefixPending (record_key drop_record)" by (simp add: record_key_def record_key_status)
  then show ?thesis by (simp add: pending_records_def drop_ctx_def kv_prefix_def)
qed

lemma drop_runner: "runner_records drop_name (ref_String ''rob'') 3 (disp_kv drop_ctx) = [drop_record]"
  by (simp add: runner_records_def drop_pending)

lemma drop_payable: "list_all (payable ref_sdk) [drop_record]"
  by (simp add: payable_def ref_FromBech32_String)

definition drop_msg :: msg_run_distribution where
  "drop_msg = \<lparr>rd_AuthorizedRunner = ref_String ''rob'', rd_DistributionName = drop_name, rd_DistributionType = 3\<rparr>"

definition second_msg :: msg_create_distribution where
  "second_msg = \<lparr>cd_Distributor = ref_String ''dora'', cd_AuthorizedRunner = ref_String ''eve'', cd_DistributionType = 3,
     cd_Output = [\<lparr>out_Address = ref_String ''alice'', out_Coins = drop_coin\<rparr>]\<rparr>"

lemma itoa_5: "itoa 5 = ''5''"
  by code_simp

lemma second_name: "distribution_name drop_ctx (ref_String ''dora'') = drop_name"
  using itoa_5 by (simp add: distribution_name_def drop_ctx_def drop_name_def)

lemma second_runs:
  "\<exists>ctx'. disp_CreateDistribution ref_sdk drop_ctx second_msg = Inr ctx'"
proof -
  let ?k = "GetDistributionsKey drop_name 3 (ref_String ''eve'')"
  define ctx1 where "ctx1 = disp_put drop_ctx ?k (DistributionV (NewDistribution 3 drop_name (ref_String ''eve'')))"
  have ne: "?k \<noteq> record_key drop_record" using pending_not_dist record_key_status
    by (metis drop_record_sel(1) record_key_def)
  have v: "VerifyAndSetDistribution drop_ctx drop_name 3 (ref_String ''eve'') = Inr ctx1"
    using ne by (simp add: VerifyAndSetDistribution_def SetDistribution_def Distribution_Validate_def NewDistribution_def
        ExistsDistribution_def disp_Exists_def kv_has_def kv_get_def drop_ctx_def ctx1_def)
  have "\<exists>b. ref_Send (sdk_state ctx1) ''dora'' (ref_ModuleAddress disp_ModuleName) drop_coin = Inr b"
    by (simp add: ref_Send_def drop_coin_valid(1) ref_has_def) (simp add: drop_coin_def ref_bal_of_def drop_ctx_def ctx1_def)
  then obtain ctx2 where acc: "AccumulateDrops ref_sdk ctx1 (ref_String ''dora'') drop_coin = Inr ctx2" and kv2: "disp_kv ctx2 = disp_kv ctx1"
    by (auto simp: AccumulateDrops_def ref_FromBech32_String with_bank_def)
  have k: "GetDistributionRecordKey 1 drop_name (ref_String ''alice'') 3 = record_key drop_record" by (simp add: record_key_def)
  have "kv_get (disp_kv drop_ctx) (record_key drop_record) = Some (RecordV drop_record)" by (simp add: drop_ctx_def kv_get_def)
  then have get: "kv_get (disp_kv ctx2) (record_key drop_record) = Some (RecordV drop_record)"
    using ne by (simp add: kv2 ctx1_def)
  have add: "ref_Coins_Add drop_coin drop_coin = Some [\<lparr>coin_Denom = ''aku'', coin_Amount = 200\<rparr>]"
    by (simp add: ref_Coins_Add_def drop_coin_def)
  have val: "ref_IsValid [\<lparr>coin_Denom = ''aku'', coin_Amount = 200\<rparr>]"
    by (simp add: ref_IsValid_def ref_ValidateDenom_def is_alpha_def Let_def)
  have "\<exists>ctx'. CreateDrop ref_sdk drop_name 3 (ref_String ''eve'') ctx2 \<lparr>out_Address = ref_String ''alice'', out_Coins = drop_coin\<rparr> = Inr ctx'"
    by (simp add: CreateDrop_def Let_def NewDistributionRecord_def ExistsDistributionRecord_def disp_Exists_def kv_has_def k get
        GetDistributionRecord_def DistributionRecord_Add_def add SetDistributionRecord_def DistributionRecord_Validate_def val)
  then show ?thesis
    by (auto simp: disp_CreateDistribution_def Let_def second_msg_def second_name v TotalOutput_def acc CreateDrops_def)
qed

section \<open>Properties\<close>

text \<open>
  C5: Whatever messages the dispensation module receives, its account holds for each denomination at least
  the coins due to the recipients of all pending records.
\<close>

theorem disp_run_solvent:
  assumes "disp_inv S ctx" and "list_all (disp_admissible S) ms"
  shows "due (disp_kv (run (disp_Handler S) ctx ms)) d \<le> disp_held S (run (disp_Handler S) ctx ms) d"
  using dispm.run_invar [OF assms] by (simp add: disp_inv_def)

theorem disp_run_solvent_witness:
  "due (disp_kv (run (disp_Handler ref_sdk) drop_ctx [MsgRunDistribution drop_msg, MsgRunDistribution drop_msg])) ''aku''
     \<le> disp_held ref_sdk (run (disp_Handler ref_sdk) drop_ctx [MsgRunDistribution drop_msg, MsgRunDistribution drop_msg]) ''aku''"
  by (rule disp_run_solvent [OF drop_inv]) (simp add: disp_admissible_def)

text \<open>
  C9: A message to run a distribution settles the first ten pending records of that name, type and runner in
  key order: each is stored as completed or failed at the current height, and exactly the rest of the
  runner's records stay pending. It does not fail when the recipients' addresses read.
\<close>

theorem run_settles_first_ten:
  assumes "disp_inv S ctx" and "sends_dont_panic S"
    and "list_all (payable S) (runner_records (rd_DistributionName m) (rd_AuthorizedRunner m) (rd_DistributionType m) (disp_kv ctx))"
  shows "\<exists>ctx'. disp_RunDistribution S ctx m = Inr ctx' \<and>
    runner_records (rd_DistributionName m) (rd_AuthorizedRunner m) (rd_DistributionType m) (disp_kv ctx') =
      drop 10 (runner_records (rd_DistributionName m) (rd_AuthorizedRunner m) (rd_DistributionType m) (disp_kv ctx)) \<and>
    (\<forall>r \<in> set (take 10 (runner_records (rd_DistributionName m) (rd_AuthorizedRunner m) (rd_DistributionType m) (disp_kv ctx))).
       \<exists>st \<in> {DISTRIBUTION_STATUS_COMPLETED, DISTRIBUTION_STATUS_FAILED}.
         kv_get (disp_kv ctx') (record_key (settled st (BlockHeight ctx) r)) = Some (RecordV (settled st (BlockHeight ctx) r)))"
  using run_distribution [OF assms] unfolding paid_def by blast

theorem run_settles_first_ten_witness:
  "\<exists>ctx'. disp_RunDistribution ref_sdk drop_ctx drop_msg = Inr ctx' \<and>
     runner_records drop_name (ref_String ''rob'') 3 (disp_kv ctx') = []"
  using run_settles_first_ten [OF drop_inv ref_sends_dont_panic, of drop_msg] drop_payable
  by (auto simp: drop_msg_def drop_runner)

text \<open>
  C13: A distribution is paid out in the end: after \<open>k\<close> messages of its runner, with \<open>10 * k\<close> at least the
  number of its pending records, none of them is pending.
\<close>

theorem runs_complete_distribution:
  assumes "disp_inv S ctx" and "sends_dont_panic S" and "list_all (payable S) (runner_records n ru t (disp_kv ctx))"
    and "length (runner_records n ru t (disp_kv ctx)) \<le> 10 * k"
  shows "runner_records n ru t (disp_kv (run (disp_Handler S) ctx
           (replicate k (MsgRunDistribution \<lparr>rd_AuthorizedRunner = ru, rd_DistributionName = n, rd_DistributionType = t\<rparr>)))) = []"
  using runs_distribution [OF assms(1-3), of k] assms(4) by simp

theorem runs_complete_distribution_witness:
  "runner_records drop_name (ref_String ''rob'') 3 (disp_kv (run (disp_Handler ref_sdk) drop_ctx
     (replicate 1 (MsgRunDistribution \<lparr>rd_AuthorizedRunner = ref_String ''rob'', rd_DistributionName = drop_name,
        rd_DistributionType = 3\<rparr>)))) = []"
  by (rule runs_complete_distribution [OF drop_inv ref_sends_dont_panic]) (use drop_payable in \<open>simp_all add: drop_runner\<close>)

text \<open>
  Running a distribution touches no pending record but the first ten of that name, type and runner; in
  particular nobody can pay out or discard a record that names another runner.
\<close>

theorem run_leaves_other_records:
  assumes "disp_inv S ctx" and "disp_RunDistribution S ctx m = Inr ctx'" and "r \<in> set (pending_records (disp_kv ctx))"
    and "r \<notin> set (take 10 (runner_records (rd_DistributionName m) (rd_AuthorizedRunner m) (rd_DistributionType m) (disp_kv ctx)))"
  shows "r \<in> set (pending_records (disp_kv ctx'))"
proof -
  let ?rs = "take 10 (runner_records (rd_DistributionName m) (rd_AuthorizedRunner m) (rd_DistributionType m) (disp_kv ctx))"
  have wf: "disp_wf S (disp_kv ctx)" using assms(1) by (simp add: disp_inv_def)
  have wf': "disp_wf S (disp_kv ctx')" using disp_RunDistribution_inv [OF assms(1,2)] by (simp add: disp_inv_def)
  from assms(2) obtain ctx1 es where s: "fold_r (DistributeDrop S (BlockHeight ctx)) ctx ?rs = Inr ctx1" and ctx': "ctx' = EmitEvents es ctx1"
    by (auto simp: disp_RunDistribution_def DistributeDrops_def GetLimitedRecordsForRunner_eq [OF wf])
  note r = pending_records_in [OF wf assms(3)]
  have "record_key r \<noteq> record_key r'" if "r' \<in> set ?rs" for r'
    using to_pay_runner [OF wf, of 10] that r(1) assms(4) by (metis disp_value.inject(1) option.inject to_pay_def)
  then have "record_key r \<notin> record_key ` set ?rs" by blast
  moreover have "prefix DistributionRecordPrefixPending (record_key r)" using r(2) by (simp add: record_key_def record_key_status)
  ultimately have "kv_get (disp_kv ctx') (record_key r) = Some (RecordV r)"
    using payment_keeps [OF assms(1) to_pay_runner [OF wf] s] r(1) by (simp add: ctx')
  then show ?thesis using in_pending_records [OF wf'] r(2) by blast
qed

theorem run_leaves_other_records_witness:
  "\<exists>ctx'. disp_RunDistribution ref_sdk drop_ctx (drop_msg\<lparr>rd_AuthorizedRunner := ref_String ''eve''\<rparr>) = Inr ctx' \<and>
     drop_record \<in> set (pending_records (disp_kv ctx'))"
proof -
  let ?m = "drop_msg\<lparr>rd_AuthorizedRunner := ref_String ''eve''\<rparr>"
  have e: "runner_records (rd_DistributionName ?m) (rd_AuthorizedRunner ?m) (rd_DistributionType ?m) (disp_kv drop_ctx) = []"
    by (simp add: drop_msg_def runner_records_def drop_pending ref_String_def hex_encode_def hex_char_def)
  from run_distribution [OF drop_inv ref_sends_dont_panic, of ?m] e
  obtain ctx' where "disp_RunDistribution ref_sdk drop_ctx ?m = Inr ctx'" by auto
  moreover from run_leaves_other_records [OF drop_inv this, of drop_record] have "drop_record \<in> set (pending_records (disp_kv ctx'))"
    unfolding e by (simp add: drop_pending)
  ultimately show ?thesis by blast
qed

text \<open>
  C18: Creating a distribution takes from the distributor exactly what it makes due: the coins due grow by the sum of the
  outputs for every denomination, the distributor's account pays that sum to the account of the module, and no
  other account gains or loses anything.
\<close>

theorem create_distribution_funded:
  assumes "disp_inv S ctx" and "disp_admissible S (MsgCreateDistribution m)" and "disp_CreateDistribution S ctx m = Inr ctx'"
  shows "\<exists>a. AccAddressFromBech32 S (cd_Distributor m) = Inr a \<and> a \<noteq> GetDistributionModuleAddress S \<and>
    (\<forall>d. let total = sum_list (map (\<lambda>o'. amt (out_Coins o') d) (cd_Output m)) in
       due (disp_kv ctx') d = due (disp_kv ctx) d + total \<and>
       bal S (sdk_state ctx') a d = bal S (sdk_state ctx) a d - total \<and>
       disp_held S ctx' d = disp_held S ctx d + total \<and>
       (\<forall>a'. a' \<noteq> a \<and> a' \<noteq> GetDistributionModuleAddress S \<longrightarrow> bal S (sdk_state ctx') a' d = bal S (sdk_state ctx) a' d))"
proof -
  have "disp_laws S" "disp_wf S (disp_kv ctx)" using assms(1) by (simp_all add: disp_inv_def)
  note e = disp_CreateDistribution_effect [OF this assms(3,2)]
  from e(4) obtain a where a: "AccAddressFromBech32 S (cd_Distributor m) = Inr a" "a \<noteq> GetDistributionModuleAddress S"
    "bal S (sdk_state ctx') a' d = bal S (sdk_state ctx) a' d - (if a' = a then outputs_total (cd_Output m) d else 0)
       + (if a' = GetDistributionModuleAddress S then outputs_total (cd_Output m) d else 0)" for a' d by blast
  show ?thesis by (rule exI [of _ a]) (use a e(2,3) in \<open>simp add: Let_def outputs_total_def\<close>)
qed

theorem create_distribution_funded_witness:
  "\<exists>ctx'. disp_CreateDistribution ref_sdk drop_ctx second_msg = Inr ctx' \<and>
     due (disp_kv ctx') ''aku'' - due (disp_kv drop_ctx) ''aku'' = 100 \<and>
     bal ref_sdk (sdk_state ctx') ''dora'' ''aku'' = bal ref_sdk (sdk_state drop_ctx) ''dora'' ''aku'' - 100"
proof -
  obtain ctx' where c: "disp_CreateDistribution ref_sdk drop_ctx second_msg = Inr ctx'" using second_runs by blast
  have "disp_admissible ref_sdk (MsgCreateDistribution second_msg)"
    by (simp add: disp_admissible_def second_msg_def ref_FromBech32_String GetDistributionModuleAddress_def
        ref_ModuleAddress_def disp_ModuleName_def)
  from create_distribution_funded [OF drop_inv this c] c show ?thesis
    by (auto simp: second_msg_def drop_coin_valid ref_FromBech32_String Let_def)
qed



end
