(* ===== verification/App.thy ===== *)
theory App
  imports Frames Ante CLP_Props Dispensation_Props
begin

text \<open>
  The application: the modules of this chain behind one router (\<^verbatim>\<open>app/app.go\<close>). Each module runs on the state that
  the others leave, and all share the accounts of the bank.
\<close>

section \<open>The router\<close>

text \<open>The modules of this chain that have an account, out of \<^verbatim>\<open>maccPerms\<close>.\<close>

definition module_accounts :: "string list" where
  "module_accounts = [ibc_ModuleName, eth_ModuleName, clp_ModuleName, disp_ModuleName]"

datatype app_msg =
    TransferMsg msg_transfer
  | RecvPacket packet
  | ClpMsg clp_msg
  | EthbridgeMsg eth_msg
  | DispensationMsg disp_msg
  | TokenregistryMsg tr_msg

text \<open>
  Messages and packets go to the module they belong to. The channel module keeps the changes of a packet only when
  its acknowledgement is a success.
\<close>

fun app_Handler :: "'b sdk \<Rightarrow> geth \<Rightarrow> oracle_env \<Rightarrow> 'b ibc \<Rightarrow> 'b ctx \<Rightarrow> app_msg \<Rightarrow> 'b ctx result" where
  "app_Handler S G K I ctx (TransferMsg m) = ibc_Transfer I ctx m"
| "app_Handler S G K I ctx (RecvPacket p) =
     bind_r (ibc_OnRecvPacket S I ctx p) (\<lambda>(ctx', ack).
     case ack of ResultAcknowledgement \<Rightarrow> Inr ctx' | ErrorAcknowledgement _ \<Rightarrow> Inr (ctx\<lparr>Events := Events ctx'\<rparr>))"
| "app_Handler S G K I ctx (ClpMsg m) = clp_Handler S ctx m"
| "app_Handler S G K I ctx (EthbridgeMsg m) = eth_Handler S G K ctx m"
| "app_Handler S G K I ctx (DispensationMsg m) = disp_Handler S ctx m"
| "app_Handler S G K I ctx (TokenregistryMsg m) = tr_Handler S ctx m"

section \<open>The invariant of the application\<close>

definition app_inv :: "'b sdk \<Rightarrow> geth \<Rightarrow> 'b ctx \<Rightarrow> bool" where
  "app_inv S G ctx \<longleftrightarrow> tr_inv ctx \<and> clp_inv S ctx \<and> disp_inv S ctx \<and> eth_inv S G ctx"

text \<open>
  The accounts of the modules are different from each other, and from the accounts that hold coins of other chains in
  escrow: all of them are hashes of different names.
\<close>

definition accounts_apart :: "'b sdk \<Rightarrow> 'b ibc \<Rightarrow> address set \<Rightarrow> bool" where
  "accounts_apart S I T \<longleftrightarrow> distinct (map (NewModuleAddress S) module_accounts) \<and>
     (\<forall>a \<in> NewModuleAddress S ` {clp_ModuleName, disp_ModuleName}. a \<notin> T \<and> (\<forall>p c. GetEscrowAddress I p c \<noteq> a))"

abbreviation outsiders :: "'b sdk \<Rightarrow> address set" where
  "outsiders S \<equiv> - {GetCLPModuleAddress S, GetDistributionModuleAddress S}"

text \<open>
  What a transaction can carry: no message is signed by the account of the pools or of the distributions, which have no
  key; nor does a packet name one of them as its receiver.
\<close>

fun app_signed :: "'b sdk \<Rightarrow> 'b ibc \<Rightarrow> app_msg \<Rightarrow> bool" where
  "app_signed S I (TransferMsg m) \<longleftrightarrow> signed_in S (outsiders S) (tf_Sender m)"
| "app_signed S I (RecvPacket p) \<longleftrightarrow>
     (\<forall>data. UnmarshalPacketData I (Data p) = Inr data \<longrightarrow> signed_in S (outsiders S) (pd_Receiver data))"
| "app_signed S I (ClpMsg m) \<longleftrightarrow> signed_in S (outsiders S) (clp_Signer m)"
| "app_signed S I (EthbridgeMsg m) \<longleftrightarrow> (\<forall>s. eth_payer m = Some s \<longrightarrow> signed_in S (outsiders S) s)"
| "app_signed S I (DispensationMsg m) \<longleftrightarrow>
     (\<forall>cd. m = MsgCreateDistribution cd \<longrightarrow> signed_in S (outsiders S) (cd_Distributor cd))"
| "app_signed S I (TokenregistryMsg m) \<longleftrightarrow> True"

text \<open>
  What the invariants of two modules need besides: the messages to the pools pass their stateless checks and withdraw
  symmetrically, and a list that replaces the registry has no name twice. The other invariants do not need it.
\<close>

fun pools_admissible :: "'b sdk \<Rightarrow> app_msg \<Rightarrow> bool" where
  "pools_admissible S (ClpMsg m) \<longleftrightarrow> clp_admissible S m"
| "pools_admissible S _ \<longleftrightarrow> True"

fun registry_admissible :: "app_msg \<Rightarrow> bool" where
  "registry_admissible (TokenregistryMsg m) \<longleftrightarrow> tr_admissible m"
| "registry_admissible _ \<longleftrightarrow> True"

definition app_inv_if :: "bool \<Rightarrow> bool \<Rightarrow> 'b sdk \<Rightarrow> geth \<Rightarrow> 'b ctx \<Rightarrow> bool" where
  "app_inv_if P R S G ctx \<longleftrightarrow> (R \<longrightarrow> tr_inv ctx) \<and> (P \<longrightarrow> clp_inv S ctx) \<and> disp_inv S ctx \<and> eth_inv S G ctx"

lemma apart:
  assumes "accounts_apart S I T"
  shows "GetCLPModuleAddress S \<noteq> GetDistributionModuleAddress S" "NewModuleAddress S eth_ModuleName \<in> outsiders S"
    "NewModuleAddress S ibc_ModuleName \<in> outsiders S" "GetEscrowAddress I p c \<in> outsiders S"
    "GetCLPModuleAddress S \<notin> T" "GetDistributionModuleAddress S \<notin> T"
  using assms by (auto simp: accounts_apart_def module_accounts_def GetCLPModuleAddress_def GetDistributionModuleAddress_def)

text \<open>A module's invariant holds as long as its stores stay and its account does not lose.\<close>

lemma inv_by_frame:
  "tr_inv ctx \<Longrightarrow> tr_kv ctx' = tr_kv ctx \<Longrightarrow> tr_inv ctx'"
  "clp_inv S ctx \<Longrightarrow> clp_kv ctx' = clp_kv ctx \<Longrightarrow> (\<And>d. held S ctx d \<le> held S ctx' d) \<Longrightarrow> clp_inv S ctx'"
  "disp_inv S ctx \<Longrightarrow> disp_kv ctx' = disp_kv ctx \<Longrightarrow> (\<And>d. disp_held S ctx d \<le> disp_held S ctx' d) \<Longrightarrow> disp_inv S ctx'"
  "eth_inv S G ctx \<Longrightarrow> oracle_kv ctx' = oracle_kv ctx \<Longrightarrow> eth_kv ctx' = eth_kv ctx \<Longrightarrow> eth_inv S G ctx'"
  "finalised S ctx i p \<Longrightarrow> oracle_kv ctx' = oracle_kv ctx \<Longrightarrow> finalised S ctx' i p"
  by (auto simp: tr_inv_def GetRegistry_def clp_inv_def solvent_def disp_inv_def eth_inv_def oracle_inv_def finalised_def GetProphecy_def
      intro: order.trans)

lemma keeps_held:
  "keeps S V L ctx ctx' \<Longrightarrow> GetCLPModuleAddress S \<notin> L \<Longrightarrow> held S ctx d \<le> held S ctx' d"
  "keeps S V L ctx ctx' \<Longrightarrow> GetDistributionModuleAddress S \<notin> L \<Longrightarrow> disp_held S ctx d \<le> disp_held S ctx' d"
  by (simp_all add: keeps_def held_def disp_held_def)

lemma keeps_outside:
  "keeps S outside_clp L ctx ctx' \<Longrightarrow> tr_kv ctx' = tr_kv ctx \<and> disp_kv ctx' = disp_kv ctx \<and> oracle_kv ctx' = oracle_kv ctx \<and> eth_kv ctx' = eth_kv ctx"
  "keeps S outside_disp L ctx ctx' \<Longrightarrow> tr_kv ctx' = tr_kv ctx \<and> clp_kv ctx' = clp_kv ctx \<and> oracle_kv ctx' = oracle_kv ctx \<and> eth_kv ctx' = eth_kv ctx"
  "keeps S outside_eth L ctx ctx' \<Longrightarrow> tr_kv ctx' = tr_kv ctx \<and> clp_kv ctx' = clp_kv ctx \<and> disp_kv ctx' = disp_kv ctx"
  "keeps S outside_tr L ctx ctx' \<Longrightarrow> clp_kv ctx' = clp_kv ctx \<and> disp_kv ctx' = disp_kv ctx \<and> oracle_kv ctx' = oracle_kv ctx \<and> eth_kv ctx' = eth_kv ctx"
  "keeps S outside_ibc L ctx ctx' \<Longrightarrow> tr_kv ctx' = tr_kv ctx \<and> clp_kv ctx' = clp_kv ctx \<and> disp_kv ctx' = disp_kv ctx \<and>
     oracle_kv ctx' = oracle_kv ctx \<and> eth_kv ctx' = eth_kv ctx"
  by (simp_all add: keeps_def outside_clp_def outside_disp_def outside_eth_def outside_tr_def outside_ibc_def)

text \<open>A packet changes the state only when it is acknowledged as received.\<close>

lemma app_RecvPacket_cases:
  assumes "app_Handler S G K I ctx (RecvPacket p) = Inr ctx'"
  obtains "ibc_OnRecvPacket S I ctx p = Inr (ctx', ResultAcknowledgement)" | es where "ctx' = ctx\<lparr>Events := es\<rparr>"
proof -
  from assms obtain c a where r: "ibc_OnRecvPacket S I ctx p = Inr (c, a)" by auto
  show thesis by (cases a) (use assms r in \<open>auto intro: that\<close>)
qed

lemma app_ibc_keeps:
  assumes "transfer_laws S I T" and "accounts_apart S I T" and "bank_laws S" and "app_signed S I m"
    and "app_Handler S G K I ctx m = Inr ctx'" and "m = TransferMsg tm \<or> m = RecvPacket p"
  shows "keeps S outside_ibc (T \<union> outsiders S) ctx ctx'"
  using assms(6)
proof
  assume "m = TransferMsg tm"
  with assms(4,5) show ?thesis by (auto intro: ibc_Transfer_keeps [OF assms(1)])
next
  assume m: "m = RecvPacket p"
  from assms(5) [unfolded m] show ?thesis
  proof (cases rule: app_RecvPacket_cases)
    case 1
    show ?thesis
      by (rule ibc_OnRecvPacket_keeps [OF assms(1,3) 1])
        (use assms(4) m apart [OF assms(2)] in \<open>auto simp del: Compl_iff insert_iff\<close>)
  next
    case (2 es)
    then show ?thesis by (intro keeps_store) (simp_all add: outside_ibc_def)
  qed
qed

text \<open>Each step keeps the invariants of all modules, and no decided prophecy is undone.\<close>

lemma app_step:
  assumes laws: "transfer_laws S I T" "accounts_apart S I T"
    and inv: "app_inv_if P R S G ctx" and ok: "app_signed S I m" and pm: "P \<longrightarrow> pools_admissible S m" and rm: "R \<longrightarrow> registry_admissible m"
    and step: "app_Handler S G K I ctx m = Inr ctx'"
  shows "app_inv_if P R S G ctx' \<and> (finalised S ctx i p \<longrightarrow> finalised S ctx' i p)"
proof -
  note a = apart [OF laws(2)]
  have i: "R \<Longrightarrow> tr_inv ctx" "P \<Longrightarrow> clp_inv S ctx" "disp_inv S ctx" "eth_inv S G ctx" and bl: "bank_laws S"
    using inv by (simp_all add: app_inv_if_def disp_inv_def disp_laws_def)
  note fr = inv_by_frame(1) [OF i(1)] inv_by_frame(2) [OF i(2)] inv_by_frame(3) [OF i(3)] inv_by_frame(4) [OF i(4)] inv_by_frame(5)
  show ?thesis
  proof (cases m)
    case (ClpMsg c)
    have k: "clp_keeps S (outsiders S) ctx ctx'" using clp_Handler_keeps [OF bl] step ok ClpMsg by simp
    have "P \<Longrightarrow> clp_inv S ctx'" by (rule clp_Handler_inv [OF i(2)]) (use step pm ClpMsg in simp_all)
    then show ?thesis using keeps_outside(1) [OF k] keeps_held(2) [OF k] a(1) by (auto simp: app_inv_if_def intro: fr)
  next
    case (DispensationMsg d)
    have k: "disp_keeps S (outsiders S) ctx ctx'" using disp_Handler_keeps [OF i(3)] step ok DispensationMsg by simp
    have "disp_admissible S d" using ok DispensationMsg by (auto simp: disp_admissible_def signed_in_def split: disp_msg.splits)
    then have "disp_inv S ctx'" by (rule disp_Handler_inv [OF i(3)]) (use step DispensationMsg in simp)
    then show ?thesis using keeps_outside(2) [OF k] keeps_held(1) [OF k] a(1) by (auto simp: app_inv_if_def intro: fr)
  next
    case (EthbridgeMsg e)
    have k: "eth_keeps S (outsiders S) ctx ctx'" using eth_Handler_keeps [OF bl] step ok EthbridgeMsg by simp
    have "eth_inv S G ctx' \<and> (finalised S ctx i p \<longrightarrow> finalised S ctx' i p)" by (rule eth_step [OF i(4)]) (use step EthbridgeMsg in simp)
    then show ?thesis using keeps_outside(3) [OF k] keeps_held [OF k] a(2) by (auto simp: app_inv_if_def intro: fr)
  next
    case (TokenregistryMsg t)
    have k: "keeps S outside_tr {} ctx ctx'" using tr_Handler_keeps step TokenregistryMsg by fastforce
    have "R \<Longrightarrow> tr_inv ctx'" by (rule tr_Handler_inv [OF i(1)]) (use step rm TokenregistryMsg in simp_all)
    then show ?thesis using keeps_outside(4) [OF k] keeps_held [OF k] by (auto simp: app_inv_if_def intro: fr)
  next
    case (TransferMsg t)
    note k = app_ibc_keeps [OF laws bl ok step disjI1, OF TransferMsg]
    show ?thesis using keeps_outside(5) [OF k] keeps_held [OF k] a(5,6) by (auto simp: app_inv_if_def intro: fr)
  next
    case (RecvPacket q)
    note k = app_ibc_keeps [OF laws bl ok step disjI2, OF RecvPacket]
    show ?thesis using keeps_outside(5) [OF k] keeps_held [OF k] a(5,6) by (auto simp: app_inv_if_def intro: fr)
  qed
qed

interpretation appm: machine "app_Handler S G K I"
  "\<lambda>ctx. transfer_laws S I T \<and> accounts_apart S I T \<and> app_inv_if P R S G ctx \<and> (F \<longrightarrow> finalised S ctx i p)"
  "\<lambda>m. app_signed S I m \<and> (P \<longrightarrow> pools_admissible S m) \<and> (R \<longrightarrow> registry_admissible m)"
  by unfold_locales (use app_step in blast)

lemma app_run_inv:
  assumes "transfer_laws S I T" and "accounts_apart S I T" and "app_inv S G ctx" and "list_all (app_signed S I) ms"
  shows "app_inv_if (list_all (pools_admissible S) ms) (list_all registry_admissible ms) S G (run (app_Handler S G K I) ctx ms) \<and>
    (finalised S ctx i p \<longrightarrow> finalised S (run (app_Handler S G K I) ctx ms) i p)"
proof -
  let ?P = "list_all (pools_admissible S) ms" and ?R = "list_all registry_admissible ms"
  have "list_all (\<lambda>m. app_signed S I m \<and> (?P \<longrightarrow> pools_admissible S m) \<and> (?R \<longrightarrow> registry_admissible m)) ms"
    using assms(4) by (auto simp: list_all_iff)
  moreover have "app_inv_if ?P ?R S G ctx" using assms(3) by (simp add: app_inv_if_def app_inv_def)
  ultimately show ?thesis using appm.run_invar [of S I T ?P ?R G ctx "finalised S ctx i p" i p ms K] assms(1,2) by blast
qed

section \<open>Any sequence of messages and packets\<close>

text \<open>
  C1: Messages and packets to the modules of the chain, interleaved in any order, none of them signed by the account of the pools
  or of the distributions or paying to it. From a state with the invariants of all modules: the account of the dispensation
  module holds what is due to all pending records, every stored prophecy is readable with one vote per validator, and a
  prophecy that is decided stays as it was decided. If the messages to the pools pass their stateless checks and withdraw
  symmetrically, the pools never record more than the account of their module holds; if no list that replaces the registry has
  a name twice, no name occurs twice in it. No module spends what another one owes.
\<close>

theorem app_run_sound:
  assumes "transfer_laws S I T" and "accounts_apart S I T" and "app_inv S G ctx" and "list_all (app_signed S I) ms"
  shows "let ctx' = run (app_Handler S G K I) ctx ms in
    (\<forall>d. due (disp_kv ctx') d \<le> disp_held S ctx' d) \<and> oracle_inv S ctx' \<and> (\<forall>i p. finalised S ctx i p \<longrightarrow> finalised S ctx' i p) \<and>
    (list_all (pools_admissible S) ms \<longrightarrow> solvent S ctx') \<and> (list_all registry_admissible ms \<longrightarrow> tr_inv ctx')"
  using app_run_inv [OF assms] by (auto simp: app_inv_if_def clp_inv_def disp_inv_def eth_inv_def Let_def)

text \<open>A chain with a pool, a pending distribution and a bridge.\<close>

definition ex_app :: "ref_state ctx" where
  "ex_app = ex_ctx\<lparr>disp_kv := disp_kv drop_ctx, oracle_kv := oracle_kv ex_bridge, eth_kv := eth_kv ex_bridge,
     sdk_state := (sdk_state ex_ctx)\<lparr>ref_balance := (\<lambda>a d. if a = ref_ModuleAddress disp_ModuleName \<and> d = ''aku'' then 1000
       else ref_balance (sdk_state ex_ctx) a d)\<rparr>\<rparr>"

definition ex_app_msgs :: "app_msg list" where
  "ex_app_msgs = [ClpMsg (MsgSwap ex_swap), DispensationMsg (MsgRunDistribution drop_msg), EthbridgeMsg (MsgBurn ex_burn),
     RecvPacket ex_packet, ClpMsg (MsgSwap ex_swap)]"

lemma ex_app_inv: "app_inv ref_sdk ref_geth ex_app"
proof -
  have "clp_inv ref_sdk ex_app"
    by (rule inv_by_frame(2) [OF ex_inv [of 4000000 2000000 4000000]])
      (simp_all add: ex_app_def held_def ref_bal ref_bal_of_def GetCLPModuleAddress_def clp_ModuleName_def disp_ModuleName_def ref_ModuleAddress_def)
  moreover have "disp_inv ref_sdk ex_app"
    by (rule inv_by_frame(3) [OF drop_inv])
      (auto simp: ex_app_def drop_ctx_def disp_held_def ref_bal ref_bal_of_def GetDistributionModuleAddress_def ex_bank_def)
  moreover have "eth_inv ref_sdk ref_geth ex_app" by (rule inv_by_frame(4) [OF ex_bridge_inv]) (simp_all add: ex_app_def)
  moreover have "tr_inv ex_app"
  proof -
    have "GetRegistry ex_app = Inr [Some (clp_entry (''aku'', 18)), Some (clp_entry (''ceth'', 18))]"
      by (simp add: ex_app_def ex_chain_def GetRegistry_def kv_get_def)
    moreover have "unique_names [Some (clp_entry (''aku'', 18)), Some (clp_entry (''ceth'', 18))]" by code_simp
    ultimately show ?thesis by (auto simp: tr_inv_def)
  qed
  ultimately show ?thesis by (simp add: app_inv_def)
qed

lemma ex_app_apart: "accounts_apart ref_sdk ref_ibc {}"
  by (simp add: accounts_apart_def module_accounts_def ref_ModuleAddress_def ibc_ModuleName_def eth_ModuleName_def clp_ModuleName_def
      disp_ModuleName_def GetEscrowAddress_def ref_ibc_def ibc_Version_def)

lemma ex_app_transfer: "transfer_laws ref_sdk ref_ibc {}"
  by (auto simp: transfer_laws_def ref_ibc_def ref_bal ref_bal_of_def ref_add_def)

lemma ex_app_signed: "list_all (app_signed ref_sdk ref_ibc) ex_app_msgs"
  by (simp add: ex_app_msgs_def signed_in_def ref_FromBech32_String ex_burn_def ex_data_def GetCLPModuleAddress_def
      GetDistributionModuleAddress_def ref_ModuleAddress_def)

lemma ex_app_admissible: "list_all (pools_admissible ref_sdk) ex_app_msgs" "list_all registry_admissible ex_app_msgs"
  using ex_swap_admissible by (simp_all add: ex_app_msgs_def)

theorem app_run_sound_witness:
  "let ctx' = run (app_Handler ref_sdk ref_geth (ex_keeper True) ref_ibc) ex_app ex_app_msgs in
    (\<forall>d. due (disp_kv ctx') d \<le> disp_held ref_sdk ctx' d) \<and> oracle_inv ref_sdk ctx' \<and>
    (\<forall>i p. finalised ref_sdk ex_app i p \<longrightarrow> finalised ref_sdk ctx' i p) \<and> solvent ref_sdk ctx' \<and> tr_inv ctx'"
  using app_run_sound [OF ex_app_transfer ex_app_apart ex_app_inv ex_app_signed, of "ex_keeper True"] ex_app_admissible by (simp add: Let_def)

end
