(* ===== verification/Dispensation_Genesis.thy ===== *)
theory Dispensation_Genesis
  imports Dispensation_Props
begin

text \<open>
  Genesis of the dispensation module (\<^verbatim>\<open>x/dispensation/genesis.go\<close>), the migration of the genesis of version
  0.39 (\<^verbatim>\<open>legacy\<close>) and the queries (\<^verbatim>\<open>keeper/grpc_querier.go\<close>, \<^verbatim>\<open>querier.go\<close>). Exporting a store and importing
  it again gives the same store.
\<close>

section \<open>Genesis\<close>

text \<open>The three lists sit behind pointers that may be nil.\<close>

record disp_genesis =
  g_DistributionRecords :: "distribution_record list option"
  g_Distributions :: "distribution list option"
  g_Claims :: "user_claim list option"

definition disp_DefaultGenesisState :: disp_genesis where
  "disp_DefaultGenesisState = \<lparr>g_DistributionRecords = None, g_Distributions = None, g_Claims = None\<rparr>"

definition disp_InitGenesis :: "'b sdk \<Rightarrow> 'b ctx \<Rightarrow> disp_genesis \<Rightarrow> 'b ctx result" where
  "disp_InitGenesis S ctx data =
     bind_r (case g_DistributionRecords data of None \<Rightarrow> Inr ctx
             | Some rs \<Rightarrow> fold_r (\<lambda>ctx r. must_r (SetDistributionRecord S ctx r)) ctx rs) (\<lambda>ctx.
     bind_r (case g_Distributions data of None \<Rightarrow> Inr ctx
             | Some ds \<Rightarrow> fold_r (\<lambda>ctx d. must_r (SetDistribution ctx d)) ctx ds) (\<lambda>ctx.
     case g_Claims data of None \<Rightarrow> Inr ctx
     | Some cs \<Rightarrow> fold_r (\<lambda>ctx c. must_r (SetClaim ctx c)) ctx cs))"

definition disp_ExportGenesis :: "'b ctx \<Rightarrow> disp_genesis result" where
  "disp_ExportGenesis ctx =
     bind_r (GetRecords ctx) (\<lambda>rs.
     Inr \<lparr>g_DistributionRecords = Some rs, g_Distributions = Some (GetDistributions ctx), g_Claims = Some (GetClaims ctx)\<rparr>)"

definition disp_ValidateGenesis :: "'b sdk \<Rightarrow> disp_genesis \<Rightarrow> unit result" where
  "disp_ValidateGenesis S data =
     bind_r (case g_DistributionRecords data of None \<Rightarrow> Inr ()
             | Some rs \<Rightarrow> fold_r (\<lambda>_ r. if \<not> DistributionRecord_Validate S r then Inl disp_ErrInvalid else Inr ()) () rs) (\<lambda>_.
     bind_r (case g_Distributions data of None \<Rightarrow> Inr ()
             | Some ds \<Rightarrow> fold_r (\<lambda>_ d. if \<not> Distribution_Validate d then Inl disp_ErrInvalid else Inr ()) () ds) (\<lambda>_.
     case g_Claims data of None \<Rightarrow> Inr ()
     | Some cs \<Rightarrow> fold_r (\<lambda>_ c. if \<not> UserClaim_Validate c then Inl disp_ErrInvalid else Inr ()) () cs))"

section \<open>Migration from version 0.39\<close>

record v39_distribution_record =
  v39r_DistributionStatus :: int
  v39r_DistributionName :: string
  v39r_DistributionType :: int
  v39r_RecipientAddress :: address
  v39r_Coins :: coins
  v39r_DistributionStartHeight :: int
  v39r_DistributionCompletedHeight :: int
  v39r_AuthorizedRunner :: address

record v39_distribution =
  v39d_DistributionType :: int
  v39d_DistributionName :: string
  v39d_Runner :: address

record v39_user_claim =
  v39c_UserAddress :: address
  v39c_UserClaimType :: int
  v39c_UserClaimTime :: int

record v39_disp_genesis =
  v39_DistributionRecords :: "v39_distribution_record list"
  v39_Distributions :: "v39_distribution list"
  v39_Claims :: "v39_user_claim list"

abbreviation (input) "v39_Pending \<equiv> 1 :: int"
abbreviation (input) "v39_Completed \<equiv> 2 :: int"
abbreviation (input) "v39_Airdrop \<equiv> 1 :: int"
abbreviation (input) "v39_LiquidityMining \<equiv> 2 :: int"
abbreviation (input) "v39_ValidatorSubsidy \<equiv> 3 :: int"

definition migrateDistributionRecordStatus :: "int \<Rightarrow> int" where
  "migrateDistributionRecordStatus status =
     (if status = v39_Pending then DISTRIBUTION_STATUS_PENDING
      else if status = v39_Completed then DISTRIBUTION_STATUS_COMPLETED
      else DISTRIBUTION_STATUS_UNSPECIFIED)"

definition migrateDistributionType :: "int \<Rightarrow> int" where
  "migrateDistributionType t =
     (if t = v39_Airdrop then DISTRIBUTION_TYPE_AIRDROP
      else if t = v39_LiquidityMining then DISTRIBUTION_TYPE_LIQUIDITY_MINING
      else if t = v39_ValidatorSubsidy then DISTRIBUTION_TYPE_VALIDATOR_SUBSIDY
      else DISTRIBUTION_TYPE_UNSPECIFIED)"

definition migrate_record :: "'b sdk \<Rightarrow> v39_distribution_record \<Rightarrow> distribution_record" where
  "migrate_record S d =
     \<lparr>dr_DistributionStatus = migrateDistributionRecordStatus (v39r_DistributionStatus d),
      dr_DistributionType = migrateDistributionType (v39r_DistributionType d),
      dr_DistributionName = v39r_DistributionName d,
      dr_RecipientAddress = AccAddress_String S (v39r_RecipientAddress d),
      dr_Coins = v39r_Coins d,
      dr_DistributionStartHeight = v39r_DistributionStartHeight d,
      dr_DistributionCompletedHeight = v39r_DistributionCompletedHeight d,
      dr_AuthorizedRunner = AccAddress_String S (v39r_AuthorizedRunner d)\<rparr>"

definition migrate_claim :: "'b sdk \<Rightarrow> v39_user_claim \<Rightarrow> user_claim result" where
  "migrate_claim S c =
     bind_r (must_r (TimestampProto S (v39c_UserClaimTime c))) (\<lambda>t.
     Inr \<lparr>uc_UserAddress = AccAddress_String S (v39c_UserAddress c),
          uc_UserClaimType = migrateDistributionType (v39c_UserClaimType c), uc_UserClaimTime = Some t\<rparr>)"

definition disp_Migrate :: "'b sdk \<Rightarrow> v39_disp_genesis \<Rightarrow> disp_genesis result" where
  "disp_Migrate S state =
     bind_r (map_r (migrate_claim S) (v39_Claims state)) (\<lambda>claims.
     Inr \<lparr>g_DistributionRecords = Some (map (migrate_record S) (v39_DistributionRecords state)),
          g_Distributions = Some (map (\<lambda>d. \<lparr>d_DistributionType = migrateDistributionType (v39d_DistributionType d),
            d_DistributionName = v39d_DistributionName d, d_Runner = AccAddress_String S (v39d_Runner d)\<rparr>) (v39_Distributions state)),
          g_Claims = Some claims\<rparr>)"

section \<open>Queries\<close>

definition q_AllDistributions :: "'b ctx \<Rightarrow> distribution list result" where
  "q_AllDistributions ctx = Inr (GetDistributions ctx)"

definition q_ClaimsByType :: "'b ctx \<Rightarrow> int option \<Rightarrow> user_claim list result" where
  "q_ClaimsByType ctx request = bind_r (deref request) (GetClaimsByType ctx)"

definition q_RecordsByDistributionName :: "'b ctx \<Rightarrow> (string \<times> int) option \<Rightarrow> distribution_record list result" where
  "q_RecordsByDistributionName ctx request =
     bind_r (deref request) (\<lambda>(name, status).
     bind_r (GetRecordsForNameAndStatus ctx name status) (\<lambda>records.
     if status = DISTRIBUTION_STATUS_UNSPECIFIED
     then bind_r (GetRecordsForNameAndStatus ctx name DISTRIBUTION_STATUS_PENDING) (\<lambda>ps. Inr (records @ ps))
     else Inr records))"

definition q_RecordsByRecipient :: "'b ctx \<Rightarrow> string option \<Rightarrow> distribution_record list result" where
  "q_RecordsByRecipient ctx request = bind_r (deref request) (GetRecordsForRecipient ctx)"

text \<open>The JSON codec of the older interface.\<close>

record disp_cdc =
  cdc_claims_request :: "string \<Rightarrow> int result"
  cdc_name_request :: "string \<Rightarrow> (string \<times> int) result"
  cdc_recipient_request :: "string \<Rightarrow> string result"
  cdc_claims :: "user_claim list \<Rightarrow> string result"
  cdc_records :: "distribution_record list \<Rightarrow> string result"
  cdc_distributions :: "distribution list \<Rightarrow> string result"

abbreviation "disp_JSONUnmarshal \<equiv> ErrSdk ''ErrJSONUnmarshal''"
abbreviation "disp_JSONMarshal \<equiv> ErrSdk ''ErrJSONMarshal''"

definition queryClaimsByType :: "disp_cdc \<Rightarrow> 'b ctx \<Rightarrow> string \<Rightarrow> string result" where
  "queryClaimsByType J ctx data =
     bind_r (wrap_err disp_JSONUnmarshal (cdc_claims_request J data)) (\<lambda>params.
     bind_r (q_ClaimsByType ctx (Some params)) (\<lambda>queryResponse.
     wrap_err disp_JSONMarshal (cdc_claims J queryResponse)))"

definition queryDistributionRecordsForName :: "disp_cdc \<Rightarrow> 'b ctx \<Rightarrow> string \<Rightarrow> string result" where
  "queryDistributionRecordsForName J ctx data =
     bind_r (wrap_err disp_JSONUnmarshal (cdc_name_request J data)) (\<lambda>params.
     bind_r (q_RecordsByDistributionName ctx (Some params)) (\<lambda>res.
     wrap_err disp_JSONMarshal (cdc_records J res)))"

definition queryDistributionRecordsForRecipient :: "disp_cdc \<Rightarrow> 'b ctx \<Rightarrow> string \<Rightarrow> string result" where
  "queryDistributionRecordsForRecipient J ctx data =
     bind_r (wrap_err disp_JSONUnmarshal (cdc_recipient_request J data)) (\<lambda>params.
     bind_r (q_RecordsByRecipient ctx (Some params)) (\<lambda>res.
     wrap_err disp_JSONMarshal (cdc_records J res)))"

definition queryAllDistributions :: "disp_cdc \<Rightarrow> 'b ctx \<Rightarrow> string result" where
  "queryAllDistributions J ctx = bind_r (q_AllDistributions ctx) (cdc_distributions J)"

definition disp_NewLegacyQuerier :: "disp_cdc \<Rightarrow> 'b ctx \<Rightarrow> string list \<Rightarrow> string \<Rightarrow> string result" where
  "disp_NewLegacyQuerier J ctx path data =
     (case path of
        [] \<Rightarrow> Inl (Panic ''index out of range'')
      | p # _ \<Rightarrow>
          if p = ''distributions'' then queryAllDistributions J ctx
          else if p = ''records_by_name'' then queryDistributionRecordsForName J ctx data
          else if p = ''records_by_recipient'' then queryDistributionRecordsForRecipient J ctx data
          else if p = ''claims_by_type'' then queryClaimsByType J ctx data
          else Inl (ErrSdk ''ErrUnknownRequest''))"

section \<open>Exporting and importing\<close>

text \<open>Loading entities is writing the entries they make.\<close>

definition load :: "disp_value list \<Rightarrow> 'b ctx \<Rightarrow> 'b ctx" where
  "load vs ctx = ctx\<lparr>disp_kv := foldl (\<lambda>t e. kv_set t (fst e) (snd e)) (disp_kv ctx) (map (\<lambda>v. (disp_key v, v)) vs)\<rparr>"

lemma fold_r_load:
  assumes "\<And>ctx x. x \<in> set xs \<Longrightarrow> f ctx x = Inr (disp_put ctx (disp_key (V x)) (V x))"
  shows "fold_r f ctx xs = Inr (load (map V xs) ctx)"
  using assms by (induction xs arbitrary: ctx) (auto simp: load_def disp_put_def)

lemma check_all: "(\<And>x. x \<in> set xs \<Longrightarrow> P x) \<Longrightarrow> fold_r (\<lambda>_ x. if \<not> P x then Inl e else Inr ()) () xs = Inr ()"
  by (induction xs) auto

lemma load_append: "load ws (load vs ctx) = load (vs @ ws) ctx"
  by (simp add: load_def)

text \<open>Each kind of value has its prefix, so the listings together are the whole store.\<close>

lemma disp_prefix:
  assumes "disp_wf S s" and "(k, v) \<in> set s"
  shows "prefix DistributionsPrefix k \<longleftrightarrow> unmarshal_distribution v \<noteq> None"
    and "prefix UserClaimPrefix k \<longleftrightarrow> unmarshal_claim v \<noteq> None"
    and "prefix DistributionRecordPrefixPending k \<or> prefix DistributionRecordPrefixCompleted k \<or> prefix DistributionRecordPrefixFailed k
           \<longleftrightarrow> unmarshal_record v \<noteq> None"
proof -
  have "k = disp_key v" using assms by (auto simp: disp_wf_def list_all_iff)
  then show "prefix DistributionsPrefix k \<longleftrightarrow> unmarshal_distribution v \<noteq> None"
    and "prefix UserClaimPrefix k \<longleftrightarrow> unmarshal_claim v \<noteq> None"
    and "prefix DistributionRecordPrefixPending k \<or> prefix DistributionRecordPrefixCompleted k \<or> prefix DistributionRecordPrefixFailed k
           \<longleftrightarrow> unmarshal_record v \<noteq> None"
    by (cases v; auto simp: disp_keys Let_def)+
qed

lemma unmarshal_disp [simp]:
  "unmarshal_record v = Some r \<longleftrightarrow> v = RecordV r" "unmarshal_distribution v = Some d \<longleftrightarrow> v = DistributionV d"
  "unmarshal_claim v = Some c \<longleftrightarrow> v = ClaimV c"
  by (cases v; auto)+

lemma set_map_filter: "set (List.map_filter f xs) = {y. \<exists>x \<in> set xs. f x = Some y}"
  by (force simp: List.map_filter_def)

definition records_of :: "disp_value kv \<Rightarrow> distribution_record list" where
  "records_of s = concat (map (\<lambda>p. map (\<lambda>e. the (unmarshal_record (snd e))) (kv_prefix s p))
     [DistributionRecordPrefixPending, DistributionRecordPrefixCompleted, DistributionRecordPrefixFailed])"

lemma map_filter_all: "(\<And>e. e \<in> set es \<Longrightarrow> f e \<noteq> None) \<Longrightarrow> List.map_filter f es = map (\<lambda>e. the (f e)) es"
  by (induction es) (auto simp: List.map_filter_def)

lemma GetRecords_eq:
  assumes "disp_wf S (disp_kv ctx)"
  shows "GetRecords ctx = Inr (records_of (disp_kv ctx))"
proof -
  have "unmarshal_record (snd e) \<noteq> None"
    if "e \<in> set (kv_prefix (disp_kv ctx) p)" "p \<in> {DistributionRecordPrefixPending, DistributionRecordPrefixCompleted, DistributionRecordPrefixFailed}" for e p
    using disp_prefix(3) [OF assms, of "fst e" "snd e"] that by (auto simp: kv_prefix_def)
  then show ?thesis
    by (simp add: GetRecords_def GetDistributionRecordsIterator_def records_where_def collect_records(1) map_filter_all records_of_def)
qed

lemma set_records_of:
  assumes "disp_wf S s"
  shows "set (records_of s) = {r. (record_key r, RecordV r) \<in> set s}"
proof -
  have "r \<in> set (records_of s) \<longleftrightarrow> (record_key r, RecordV r) \<in> set s" for r
  proof
    assume "r \<in> set (records_of s)"
    then obtain e p where e: "e \<in> set s" "prefix p (fst e)" "r = the (unmarshal_record (snd e))"
      "p \<in> {DistributionRecordPrefixPending, DistributionRecordPrefixCompleted, DistributionRecordPrefixFailed}"
      by (auto simp: records_of_def kv_prefix_def)
    have "unmarshal_record (snd e) \<noteq> None" using disp_prefix(3) [OF assms, of "fst e" "snd e"] e by auto
    then have "snd e = RecordV r" using e(3) by auto
    moreover have "fst e = disp_key (snd e)" using assms e(1) by (auto simp: disp_wf_def list_all_iff)
    ultimately show "(record_key r, RecordV r) \<in> set s" using e(1) by (metis disp_key.simps(1) prod.collapse)
  next
    assume r: "(record_key r, RecordV r) \<in> set s"
    from disp_prefix(3) [OF assms this] obtain p where p: "prefix p (record_key r)"
      "p \<in> {DistributionRecordPrefixPending, DistributionRecordPrefixCompleted, DistributionRecordPrefixFailed}" by auto
    have "r \<in> set (map (\<lambda>e. the (unmarshal_record (snd e))) (kv_prefix s p))" using r p(1) by (force simp: kv_prefix_def)
    then show "r \<in> set (records_of s)" using p(2) by (auto simp: records_of_def)
  qed
  then show ?thesis by blast
qed

lemma set_GetDistributions:
  assumes "disp_wf S (disp_kv ctx)"
  shows "set (GetDistributions ctx) = {d. (dist_key d, DistributionV d) \<in> set (disp_kv ctx)}"
proof -
  have "d \<in> set (GetDistributions ctx) \<longleftrightarrow> (\<exists>k. (k, DistributionV d) \<in> set (disp_kv ctx))" for d
    using disp_prefix(1) [OF assms] by (auto simp: GetDistributions_def GetDistributionIterator_def set_map_filter kv_prefix_def)
  moreover have "k = dist_key d" if "(k, DistributionV d) \<in> set (disp_kv ctx)" for k d
    using assms that by (auto simp: disp_wf_def list_all_iff)
  ultimately show ?thesis by blast
qed

lemma set_GetClaims:
  assumes "disp_wf S (disp_kv ctx)"
  shows "set (GetClaims ctx) = {c. (claim_key c, ClaimV c) \<in> set (disp_kv ctx)}"
proof -
  have wf: "k = claim_key c \<and> UserClaim_Validate c" if "(k, ClaimV c) \<in> set (disp_kv ctx)" for k c
    using assms that by (auto simp: disp_wf_def list_all_iff)
  have "c \<in> set (GetClaims ctx) \<longleftrightarrow> (\<exists>k. (k, ClaimV c) \<in> set (disp_kv ctx))" for c
  proof
    assume "c \<in> set (GetClaims ctx)"
    then show "\<exists>k. (k, ClaimV c) \<in> set (disp_kv ctx)"
      by (auto simp: GetClaims_def GetUserClaimsIterator_def set_map_filter kv_prefix_def split: if_splits)
  next
    assume "\<exists>k. (k, ClaimV c) \<in> set (disp_kv ctx)"
    then obtain k where k: "(k, ClaimV c) \<in> set (disp_kv ctx)" by blast
    have "\<not> no_bytes (ClaimV c)" using wf [OF k] by (auto simp: no_bytes_def UserClaim_Validate_def)
    moreover have "prefix UserClaimPrefix k" using disp_prefix(2) [OF assms k] by simp
    ultimately show "c \<in> set (GetClaims ctx)" using k
      by (force simp: GetClaims_def GetUserClaimsIterator_def set_map_filter kv_prefix_def)
  qed
  then show ?thesis using wf by blast
qed

text \<open>
  C31: Exporting the genesis of a well-formed store and importing it into an empty store gives the same store:
  no record, distribution or claim is lost, changed or moved.
\<close>

theorem disp_genesis_roundtrip:
  assumes wf: "disp_wf S (disp_kv ctx)" and empty: "disp_kv ctx0 = []"
  shows "\<exists>g ctx'. disp_ExportGenesis ctx = Inr g \<and> disp_ValidateGenesis S g = Inr () \<and> disp_InitGenesis S ctx0 g = Inr ctx' \<and>
           disp_kv ctx' = disp_kv ctx"
proof -
  let ?rs = "records_of (disp_kv ctx)" and ?ds = "GetDistributions ctx" and ?cs = "GetClaims ctx"
  let ?vs = "map RecordV ?rs @ map DistributionV ?ds @ map ClaimV ?cs"
  have val: "disp_valid S v" "k = disp_key v" if "(k, v) \<in> set (disp_kv ctx)" for k v
    using wf that by (auto simp: disp_wf_def list_all_iff)
  have v: "\<And>r. r \<in> set ?rs \<Longrightarrow> DistributionRecord_Validate S r" "\<And>d. d \<in> set ?ds \<Longrightarrow> Distribution_Validate d"
    "\<And>c. c \<in> set ?cs \<Longrightarrow> UserClaim_Validate c"
    using val(1) by (force simp: set_records_of [OF wf] set_GetDistributions [OF wf] set_GetClaims [OF wf])+
  have l: "fold_r (\<lambda>ctx r. must_r (SetDistributionRecord S ctx r)) c ?rs = Inr (load (map RecordV ?rs) c)"
    "fold_r (\<lambda>ctx d. must_r (SetDistribution ctx d)) c ?ds = Inr (load (map DistributionV ?ds) c)"
    "fold_r (\<lambda>ctx cl. must_r (SetClaim ctx cl)) c ?cs = Inr (load (map ClaimV ?cs) c)" for c
    using v by (auto intro!: fold_r_load simp: SetDistributionRecord_def SetDistribution_def SetClaim_def record_key_def dist_key_def claim_key_def)
  have "set (map (\<lambda>v. (disp_key v, v)) ?vs) = set (disp_kv ctx)"
  proof -
    have "(k, v) \<in> set (map (\<lambda>v. (disp_key v, v)) ?vs) \<longleftrightarrow> (k, v) \<in> set (disp_kv ctx)" for k v
      using val(2) [of k v] by (cases v) (auto simp: set_records_of [OF wf] set_GetDistributions [OF wf] set_GetClaims [OF wf])
    then show ?thesis by (auto simp del: set_map)
  qed
  from kv_reload [OF disp_wf_ok [OF wf] this] have "disp_kv (load ?vs ctx0) = disp_kv ctx" by (simp add: load_def empty)
  then show ?thesis using l check_all [of ?rs "DistributionRecord_Validate S", OF v(1)] check_all [of ?ds Distribution_Validate, OF v(2)]
      check_all [of ?cs UserClaim_Validate, OF v(3)]
    by (simp add: disp_ExportGenesis_def GetRecords_eq [OF wf] disp_InitGenesis_def disp_ValidateGenesis_def load_append)
qed

theorem disp_genesis_roundtrip_witness:
  "\<exists>g ctx'. disp_ExportGenesis drop_ctx = Inr g \<and> disp_ValidateGenesis ref_sdk g = Inr () \<and> disp_InitGenesis ref_sdk ref_ctx g = Inr ctx' \<and>
     disp_kv ctx' = disp_kv drop_ctx"
  by (rule disp_genesis_roundtrip [OF drop_wf]) (simp add: ref_ctx_def)

text \<open>
  C37: Asking for the records of a distribution without naming a status panics on every state: the iterator of
  the unspecified status is nil, and the lines meant to answer such a request are never reached.
\<close>

theorem unspecified_status_query_panics:
  "\<exists>e. q_RecordsByDistributionName ctx (Some (name, DISTRIBUTION_STATUS_UNSPECIFIED)) = Inl e \<and> is_panic e"
  by (simp add: q_RecordsByDistributionName_def GetRecordsForNameAndStatus_def records_where_def GetDistributionRecordsIterator_def)

end
