(* ===== verification/AppGenesis.thy ===== *)
theory AppGenesis
  imports App CLP_Genesis Dispensation_Genesis
begin

text \<open>
  How the chain starts: \<^verbatim>\<open>InitChainer\<close> of \<^verbatim>\<open>app/app.go\<close> with the genesis functions of the modules
  (\<^verbatim>\<open>module.go\<close> of each), and the commands of \<^verbatim>\<open>cmd/akhiranoded/cmd\<close> that write the genesis file. The lemmas show
  that a chain whose genesis is covered by the coins of the module accounts starts in a state that satisfies the invariant
  of the application, and that the accounts set by the commands are the admins of the chain that starts.
\<close>

section \<open>What the start relies on\<close>

text \<open>
  The genesis of the application maps the name of a module to the JSON value of its genesis (type \<open>'j\<close>); a missing value is
  nil. A genesis document is that JSON value and other fields of type \<open>'d\<close> that the commands leave as they are.
\<close>

type_synonym 'j app_state = "string \<rightharpoonup> 'j"

record ('j, 'd) gen_doc =
  AppState :: 'j
  doc_Rest :: 'd

text \<open>
  The codec, the genesis of the modules of the SDK, the account keeper, the key ring and the files are not part of the
  repository. A file has type \<open>'f\<close>. \<open>SDK_InitGenesis\<close> stands for the modules of the SDK and of ibc-go, which come before
  the modules of this chain in the order of initialisation, and \<open>mm_InitGenesis\<close> for the module manager.
\<close>

record ('b, 'j, 'd, 'f) genesis_env =
  UnmarshalJSON_app :: "'j \<Rightarrow> 'j app_state result"
  UnmarshalJSON_clp :: "'j \<Rightarrow> clp_genesis result"
  UnmarshalJSON_oracle :: "'j \<Rightarrow> oracle_genesis result"
  UnmarshalJSON_eth :: "'j \<Rightarrow> eth_genesis result"
  UnmarshalJSON_disp :: "'j \<Rightarrow> disp_genesis result"
  UnmarshalJSON_tr :: "'j \<Rightarrow> tr_genesis result"
  UnmarshalJSON_Registry :: "'j \<Rightarrow> registry result"
  Marshal_app :: "'j app_state \<Rightarrow> 'j result"
  Marshal_clp :: "clp_genesis \<Rightarrow> 'j result"
  Marshal_oracle :: "oracle_genesis \<Rightarrow> 'j result"
  Marshal_tr :: "tr_genesis \<Rightarrow> 'j result"
  SetModuleVersionMap :: "'b \<Rightarrow> 'b"
  SDK_InitGenesis :: "'j app_state \<Rightarrow> 'b \<Rightarrow> 'b result"
  mm_InitGenesis :: "'j app_state \<Rightarrow> 'b ctx \<Rightarrow> (string \<times> ('b ctx \<Rightarrow> 'j \<Rightarrow> 'b ctx result)) list \<Rightarrow> 'b ctx result"
  SetModuleAccount :: "'b \<Rightarrow> string \<Rightarrow> string list \<Rightarrow> 'b"
  keyring_New :: "unit result"
  keyring_Key :: "string \<Rightarrow> address result"
  filepath_Abs :: "string \<Rightarrow> string result"
  genesis_ReadFile :: "string \<Rightarrow> 'j result"
  GenesisStateFromGenFile :: "'f \<Rightarrow> ('j app_state \<times> ('j, 'd) gen_doc) result"
  ExportGenesisFile :: "('j, 'd) gen_doc \<Rightarrow> 'f result"

section \<open>Initialising the chain\<close>

definition oracle_ModuleName :: string where "oracle_ModuleName = ''oracle''"

definition tr_ModuleName :: string where "tr_ModuleName = ''tokenregistry''"

definition clp_module_InitGenesis :: "'b sdk \<Rightarrow> ('b, 'j, 'd, 'f) genesis_env \<Rightarrow> 'b ctx \<Rightarrow> 'j \<Rightarrow> 'b ctx result" where
  "clp_module_InitGenesis S E ctx data =
     bind_r (must_r (UnmarshalJSON_clp E data)) (\<lambda>genesisState. clp_InitGenesis S ctx genesisState)"

definition oracle_module_InitGenesis :: "'b sdk \<Rightarrow> ('b, 'j, 'd, 'f) genesis_env \<Rightarrow> 'b ctx \<Rightarrow> 'j \<Rightarrow> 'b ctx result" where
  "oracle_module_InitGenesis S E ctx data =
     bind_r (must_r (UnmarshalJSON_oracle E data)) (\<lambda>genesisState. oracle_InitGenesis S ctx genesisState)"

definition eth_module_InitGenesis :: "'b sdk \<Rightarrow> ('b, 'j, 'd, 'f) genesis_env \<Rightarrow> 'b ctx \<Rightarrow> 'j \<Rightarrow> 'b ctx result" where
  "eth_module_InitGenesis S E ctx data =
     (let ctx = ctx\<lparr>sdk_state := SetModuleAccount E (sdk_state ctx) eth_ModuleName [''burner'', ''minter'']\<rparr> in
     bind_r (must_r (UnmarshalJSON_eth E data)) (\<lambda>genesisState. eth_InitGenesis S ctx genesisState))"

definition disp_module_InitGenesis :: "'b sdk \<Rightarrow> ('b, 'j, 'd, 'f) genesis_env \<Rightarrow> 'b ctx \<Rightarrow> 'j \<Rightarrow> 'b ctx result" where
  "disp_module_InitGenesis S E ctx data =
     bind_r (must_r (UnmarshalJSON_disp E data)) (\<lambda>genesisState. disp_InitGenesis S ctx genesisState)"

definition tr_module_InitGenesis :: "'b sdk \<Rightarrow> ('b, 'j, 'd, 'f) genesis_env \<Rightarrow> 'b ctx \<Rightarrow> 'j \<Rightarrow> 'b ctx result" where
  "tr_module_InitGenesis S E ctx data =
     bind_r (must_r (UnmarshalJSON_tr E data)) (\<lambda>genesisState. tr_InitGenesis S ctx genesisState)"

text \<open>The modules of this chain in the order that the application sets.\<close>

definition init_order :: "'b sdk \<Rightarrow> ('b, 'j, 'd, 'f) genesis_env \<Rightarrow> (string \<times> ('b ctx \<Rightarrow> 'j \<Rightarrow> 'b ctx result)) list" where
  "init_order S E =
     [(clp_ModuleName, clp_module_InitGenesis S E), (oracle_ModuleName, oracle_module_InitGenesis S E),
      (eth_ModuleName, eth_module_InitGenesis S E), (disp_ModuleName, disp_module_InitGenesis S E),
      (tr_ModuleName, tr_module_InitGenesis S E)]"

definition InitChainer :: "'b sdk \<Rightarrow> ('b, 'j, 'd, 'f) genesis_env \<Rightarrow> 'b ctx \<Rightarrow> 'j \<Rightarrow> 'b ctx result" where
  "InitChainer S E ctx AppStateBytes =
     bind_r (must_r (UnmarshalJSON_app E AppStateBytes)) (\<lambda>genesisState.
     let b = SetModuleVersionMap E (sdk_state ctx) in
     bind_r (SDK_InitGenesis E genesisState b) (\<lambda>b.
     mm_InitGenesis E genesisState (ctx\<lparr>sdk_state := b\<rparr>) (init_order S E)))"

section \<open>Commands that write the genesis file\<close>

text \<open>An argument that is not an address is the name of a key in the key ring.\<close>

definition account_arg :: "'b sdk \<Rightarrow> ('b, 'j, 'd, 'f) genesis_env \<Rightarrow> string \<Rightarrow> address result" where
  "account_arg S E arg =
     (case AccAddressFromBech32 S arg of
        Inr addr \<Rightarrow> Inr addr
      | Inl _ \<Rightarrow> bind_r (keyring_New E) (\<lambda>_. wrap_err (ErrNew ''failed to get address from Keybase'') (keyring_Key E arg)))"

definition clp_GetGenesisStateFromAppState :: "('b, 'j, 'd, 'f) genesis_env \<Rightarrow> 'j app_state \<Rightarrow> clp_genesis result" where
  "clp_GetGenesisStateFromAppState E appState =
     (case appState clp_ModuleName of
        None \<Rightarrow> Inr \<lparr>MinCreatePoolThreshold = 0, AddressWhitelist = [], PoolList = [], LiquidityProviders = []\<rparr>
      | Some data \<Rightarrow> must_r (UnmarshalJSON_clp E data))"

definition oracle_GetGenesisStateFromAppState :: "('b, 'j, 'd, 'f) genesis_env \<Rightarrow> 'j app_state \<Rightarrow> oracle_genesis result" where
  "oracle_GetGenesisStateFromAppState E appState =
     (case appState oracle_ModuleName of
        None \<Rightarrow> Inr \<lparr>og_AddressWhitelist = None, og_AdminAddress = [], og_Prophecies = []\<rparr>
      | Some data \<Rightarrow> must_r (UnmarshalJSON_oracle E data))"

definition tr_UnmarshalGenesis :: "('b, 'j, 'd, 'f) genesis_env \<Rightarrow> 'j option \<Rightarrow> tr_genesis result" where
  "tr_UnmarshalGenesis E state =
     (case state of
        None \<Rightarrow> Inr \<lparr>trg_AdminAccount = [], trg_Registry = None\<rparr>
      | Some data \<Rightarrow> must_r (UnmarshalJSON_tr E data))"

definition tr_GetGenesisStateFromAppState :: "('b, 'j, 'd, 'f) genesis_env \<Rightarrow> 'j app_state \<Rightarrow> tr_genesis result" where
  "tr_GetGenesisStateFromAppState E appState =
     (case appState tr_ModuleName of
        None \<Rightarrow> Inr \<lparr>trg_AdminAccount = [], trg_Registry = None\<rparr>
      | Some data \<Rightarrow> must_r (UnmarshalJSON_tr E data))"

text \<open>The last steps of every command: the genesis of the module goes into the application's, and that into the file.\<close>

definition write_genesis :: "('b, 'j, 'd, 'f) genesis_env \<Rightarrow> 'j app_state \<Rightarrow> ('j, 'd) gen_doc \<Rightarrow> string \<Rightarrow> 'j result \<Rightarrow> 'f result" where
  "write_genesis E appState genDoc name genStateBz =
     bind_r (wrap_err (ErrNew ''failed to marshal auth genesis state'') genStateBz) (\<lambda>bz.
     bind_r (wrap_err (ErrNew ''failed to marshal application genesis state'') (Marshal_app E (appState(name \<mapsto> bz)))) (\<lambda>appStateJSON.
     ExportGenesisFile E (genDoc\<lparr>AppState := appStateJSON\<rparr>)))"

definition AddGenesisCLPAdminCmd :: "'b sdk \<Rightarrow> ('b, 'j, 'd, 'f) genesis_env \<Rightarrow> 'f \<Rightarrow> string \<Rightarrow> 'f result" where
  "AddGenesisCLPAdminCmd S E genFile arg =
     bind_r (account_arg S E arg) (\<lambda>addr.
     bind_r (wrap_err (ErrNew ''failed to unmarshal genesis state'') (GenesisStateFromGenFile E genFile)) (\<lambda>(appState, genDoc).
     bind_r (clp_GetGenesisStateFromAppState E appState) (\<lambda>clpGenState.
     write_genesis E appState genDoc clp_ModuleName
       (Marshal_clp E (clpGenState\<lparr>AddressWhitelist := AddressWhitelist clpGenState @ [AccAddress_String S addr]\<rparr>)))))"

definition AddGenesisValidatorCmd :: "'b sdk \<Rightarrow> ('b, 'j, 'd, 'f) genesis_env \<Rightarrow> 'f \<Rightarrow> string \<Rightarrow> 'f result" where
  "AddGenesisValidatorCmd S E genFile arg =
     bind_r (wrap_err (ErrNew ''failed to get validator address'') (ValAddressFromBech32 S arg)) (\<lambda>addr.
     bind_r (wrap_err (ErrNew ''failed to unmarshal genesis state'') (GenesisStateFromGenFile E genFile)) (\<lambda>(appState, genDoc).
     bind_r (oracle_GetGenesisStateFromAppState E appState) (\<lambda>oracleGenState.
     let whitelist = (case og_AddressWhitelist oracleGenState of None \<Rightarrow> [] | Some as \<Rightarrow> as) in
     if list_ex (\<lambda>item. item = ValAddress_String S addr) whitelist then Inl (ErrNew ''address already in white list'')
     else
     write_genesis E appState genDoc oracle_ModuleName
       (Marshal_oracle E (oracleGenState\<lparr>og_AddressWhitelist := Some (whitelist @ [ValAddress_String S addr])\<rparr>)))))"

definition SetGenesisOracleAdminCmd :: "'b sdk \<Rightarrow> ('b, 'j, 'd, 'f) genesis_env \<Rightarrow> 'f \<Rightarrow> string \<Rightarrow> 'f result" where
  "SetGenesisOracleAdminCmd S E genFile arg =
     bind_r (account_arg S E arg) (\<lambda>addr.
     bind_r (wrap_err (ErrNew ''failed to unmarshal genesis state'') (GenesisStateFromGenFile E genFile)) (\<lambda>(appState, genDoc).
     bind_r (oracle_GetGenesisStateFromAppState E appState) (\<lambda>oracleGenState.
     write_genesis E appState genDoc oracle_ModuleName
       (Marshal_oracle E (oracleGenState\<lparr>og_AdminAddress := AccAddress_String S addr\<rparr>)))))"

definition SetGenesisWhitelisterAdminCmd :: "'b sdk \<Rightarrow> ('b, 'j, 'd, 'f) genesis_env \<Rightarrow> 'f \<Rightarrow> string \<Rightarrow> 'f result" where
  "SetGenesisWhitelisterAdminCmd S E genFile arg =
     bind_r (account_arg S E arg) (\<lambda>addr.
     bind_r (wrap_err (ErrNew ''failed to unmarshal genesis state'') (GenesisStateFromGenFile E genFile)) (\<lambda>(appState, genDoc).
     bind_r (tr_UnmarshalGenesis E (appState tr_ModuleName)) (\<lambda>state.
     write_genesis E appState genDoc tr_ModuleName
       (Marshal_tr E (state\<lparr>trg_AdminAccount := AccAddress_String S addr\<rparr>)))))"

definition ParseDenoms :: "('b, 'j, 'd, 'f) genesis_env \<Rightarrow> string \<Rightarrow> registry result" where
  "ParseDenoms E dir =
     bind_r (filepath_Abs E dir) (\<lambda>file.
     bind_r (genesis_ReadFile E file) (\<lambda>o'.
     UnmarshalJSON_Registry E o'))"

definition SetGenesisDenomWhitelist :: "('b, 'j, 'd, 'f) genesis_env \<Rightarrow> 'f \<Rightarrow> string \<Rightarrow> 'f result" where
  "SetGenesisDenomWhitelist E genFile arg =
     bind_r (ParseDenoms E arg) (\<lambda>whitelist.
     bind_r (wrap_err (ErrNew ''failed to unmarshal genesis state'') (GenesisStateFromGenFile E genFile)) (\<lambda>(appState, genDoc).
     bind_r (tr_GetGenesisStateFromAppState E appState) (\<lambda>whitelistGenState.
     write_genesis E appState genDoc tr_ModuleName (Marshal_tr E (whitelistGenState\<lparr>trg_Registry := Some whitelist\<rparr>)))))"

section \<open>A genesis that the module accounts cover\<close>

text \<open>The module manager goes through the modules in the given order and skips one that has no genesis.\<close>

definition init_module :: "'j app_state \<Rightarrow> 'b ctx \<Rightarrow> string \<times> ('b ctx \<Rightarrow> 'j \<Rightarrow> 'b ctx result) \<Rightarrow> 'b ctx result" where
  "init_module genesisData ctx m = (case genesisData (fst m) of None \<Rightarrow> Inr ctx | Some data \<Rightarrow> snd m ctx data)"

definition manager_laws :: "('b, 'j, 'd, 'f) genesis_env \<Rightarrow> bool" where
  "manager_laws E \<longleftrightarrow> (\<forall>gs ctx ms. mm_InitGenesis E gs ctx ms = fold_r (init_module gs) ctx ms)"

text \<open>Setting a parameter and creating the account of a module move no coins.\<close>

definition genesis_laws :: "'b sdk \<Rightarrow> ('b, 'j, 'd, 'f) genesis_env \<Rightarrow> bool" where
  "genesis_laws S E \<longleftrightarrow>
     (\<forall>b s k n a d. bal S (ParamSet S b s k n) a d = bal S b a d) \<and>
     (\<forall>b m ps a d. bal S (SetModuleAccount E b m ps) a d = bal S b a d)"

text \<open>
  The conditions on the genesis of each module. The pools of the genesis record no more than the account of their module holds
  after the genesis of the bank, and none of them is a pool of the native token; the pending records are covered by the account of
  the dispensation module; every prophecy is readable under its own name; the registry has no name twice.
\<close>

definition clp_genesis_ok :: "'b sdk \<Rightarrow> 'b \<Rightarrow> clp_genesis \<Rightarrow> bool" where
  "clp_genesis_ok S b g \<longleftrightarrow>
     (\<forall>p \<in> set (PoolList g). pool_nonneg p \<and> (\<forall>a. ExternalAsset p = Some a \<longrightarrow> Symbol a \<noteq> NativeSymbol)) \<and>
     (\<forall>d. sum_list (map (\<lambda>p. pool_owes p d) (PoolList g)) \<le> bal S b (GetCLPModuleAddress S) d)"

definition disp_genesis_ok :: "'b sdk \<Rightarrow> 'b \<Rightarrow> disp_genesis \<Rightarrow> bool" where
  "disp_genesis_ok S b g \<longleftrightarrow>
     (\<forall>d. sum_list (map (\<lambda>r. value_due d (RecordV r)) (case g_DistributionRecords g of None \<Rightarrow> [] | Some rs \<Rightarrow> rs))
            \<le> bal S b (GetDistributionModuleAddress S) d)"

definition oracle_genesis_ok :: "'b sdk \<Rightarrow> oracle_genesis \<Rightarrow> bool" where
  "oracle_genesis_ok S g \<longleftrightarrow>
     (\<forall>db. Some db \<in> set (og_Prophecies g) \<longrightarrow> (\<exists>p. DeserializeFromDB S db = Inr p \<and> p_ID p = db_Id db \<and> votes_ok S p))"

definition tr_genesis_ok :: "tr_genesis \<Rightarrow> bool" where
  "tr_genesis_ok g \<longleftrightarrow> (\<forall>wl \<in> set_option (trg_Registry g). unique_names wl)"

definition genesis_ok :: "'b sdk \<Rightarrow> ('b, 'j, 'd, 'f) genesis_env \<Rightarrow> 'b \<Rightarrow> 'j app_state \<Rightarrow> bool" where
  "genesis_ok S E b gs \<longleftrightarrow>
     (\<forall>j g. gs clp_ModuleName = Some j \<and> UnmarshalJSON_clp E j = Inr g \<longrightarrow> clp_genesis_ok S b g) \<and>
     (\<forall>j g. gs oracle_ModuleName = Some j \<and> UnmarshalJSON_oracle E j = Inr g \<longrightarrow> oracle_genesis_ok S g) \<and>
     (\<forall>j g. gs disp_ModuleName = Some j \<and> UnmarshalJSON_disp E j = Inr g \<longrightarrow> disp_genesis_ok S b g) \<and>
     (\<forall>j g. gs tr_ModuleName = Some j \<and> UnmarshalJSON_tr E j = Inr g \<longrightarrow> tr_genesis_ok g) \<and>
     (\<forall>d. 0 \<le> bal S b (GetCLPModuleAddress S) d \<and> 0 \<le> bal S b (GetDistributionModuleAddress S) d)"

definition fresh :: "'b ctx \<Rightarrow> bool" where
  "fresh ctx \<longleftrightarrow> tr_kv ctx = [] \<and> clp_kv ctx = [] \<and> disp_kv ctx = [] \<and> oracle_kv ctx = [] \<and> eth_kv ctx = []"

section \<open>The genesis of each module\<close>

text \<open>Loading a list: a quantity grows by no more than the entries add to it.\<close>

lemma fold_r_sum:
  fixes w :: "'s \<Rightarrow> int"
  assumes "P s" and "fold_r f s xs = Inr s'"
    and "\<And>s s' x. P s \<Longrightarrow> x \<in> set xs \<Longrightarrow> f s x = Inr s' \<Longrightarrow> P s' \<and> w s' \<le> w s + g x"
  shows "P s' \<and> w s' \<le> w s + sum_list (map g xs)"
  using assms
proof (induction xs arbitrary: s)
  case (Cons x xs)
  from Cons.prems(2) obtain s1 where s1: "f s x = Inr s1" "fold_r f s1 xs = Inr s'" by auto
  have 1: "P s1" "w s1 \<le> w s + g x" using Cons.prems(3) [OF Cons.prems(1) _ s1(1)] by auto
  have "P s' \<and> w s' \<le> w s1 + sum_list (map g xs)"
    by (rule Cons.IH [OF 1(1) s1(2)]) (use Cons.prems(3) in auto)
  then show ?case using 1(2) by auto
qed auto

lemma owed_by_nonneg:
  assumes "clp_wf (clp_kv ctx)"
  shows "0 \<le> owed_by ctx s d"
proof -
  have "0 \<le> value_owes d v" if "kv_get (clp_kv ctx) (pool_key s) = Some v" for v
    using clp_wf_get [OF assms that] by (cases v) (auto simp: pool_owes.simps pool_nonneg_def)
  then show ?thesis by (auto simp: owed_by_def kv_at_def split: option.splits)
qed

text \<open>Balances are compared through \<open>same_bal\<close>.\<close>

definition same_bal :: "'b sdk \<Rightarrow> 'b ctx \<Rightarrow> 'b ctx \<Rightarrow> bool" where
  "same_bal S ctx ctx' \<longleftrightarrow> (\<forall>a d. bal S (sdk_state ctx') a d = bal S (sdk_state ctx) a d)"

lemma same_bal_trans: "same_bal S ctx ctx1 \<Longrightarrow> same_bal S ctx1 ctx2 \<Longrightarrow> same_bal S ctx ctx2"
  by (simp add: same_bal_def)

lemma same_bal_held: "same_bal S ctx ctx' \<Longrightarrow> held S ctx' d = held S ctx d" "same_bal S ctx ctx' \<Longrightarrow> disp_held S ctx' d = disp_held S ctx d"
  by (simp_all add: same_bal_def held_def disp_held_def)

lemma clp_InitGenesis_starts:
  fixes ctx :: "'b ctx"
  assumes laws: "clp_laws S" "genesis_laws S E" and ok: "clp_genesis_ok S (sdk_state ctx) g" and "clp_kv ctx = []"
    and run: "clp_InitGenesis S ctx g = Inr ctx'"
  shows "clp_inv S ctx'" and "outside_clp ctx' = outside_clp ctx" and "same_bal S ctx ctx'"
proof -
  from run obtain c0 wl c2 where c0: "clp_SetParams S ctx (MinCreatePoolThreshold g) = Inr c0"
    and c2: "fold_r (\<lambda>ctx p. must_r (SetPool S ctx p)) (SetClpWhiteList S (SetClpWhiteList S c0 wl) wl) (PoolList g) = Inr c2"
    and c3: "fold_r (SetLiquidityProvider S) c2 (LiquidityProviders g) = Inr ctx'"
    by (auto simp: clp_InitGenesis_def Let_def split: if_splits)
  define c1 where "c1 = SetClpWhiteList S (SetClpWhiteList S c0 wl) wl"
  have c0': "same_bal S ctx c0" "clp_kv c0 = []" "outside_clp c0 = outside_clp ctx"
    using c0 assms(4) laws(2) by (auto simp: clp_SetParams_def same_bal_def genesis_laws_def split: sum.splits)
  define P where "P c \<longleftrightarrow> clp_wf (clp_kv c) \<and> outside_clp c = outside_clp ctx \<and> sdk_state c = sdk_state c1" for c :: "'b ctx"
  have 1: "P c1" "owed (clp_kv c1) d = 0" for d
    using c0'(2,3) by (simp_all add: P_def c1_def SetClpWhiteList_def clp_wf_def owed_def kv_ok_def)
  have 2: "P c2 \<and> owed (clp_kv c2) d \<le> owed (clp_kv c1) d + sum_list (map (\<lambda>p. pool_owes p d) (PoolList g))" for d
  proof (rule fold_r_sum [where P = P, OF 1(1) c2 [folded c1_def]])
    fix c c' p assume a: "P c" "p \<in> set (PoolList g)" "must_r (SetPool S c p) = Inr c'"
    then have set: "SetPool S c p = Inr c'" by simp
    then obtain x where x: "ExternalAsset p = Some x" by (auto simp: SetPool_def)
    have nn: "pool_nonneg p" "Symbol x \<noteq> NativeSymbol" using ok a(2) x by (auto simp: clp_genesis_ok_def)
    note eff = SetPool_effect [OF _ set x nn(2,1)]
    have "owed (clp_kv c') d \<le> owed (clp_kv c) d + pool_owes p d"
      using eff(2) [of d] owed_by_nonneg [of c "Symbol x" d] a(1) by (auto simp: P_def)
    then show "P c' \<and> owed (clp_kv c') d \<le> owed (clp_kv c) d + pool_owes p d"
      using a(1) eff clp_store_keeps(1) [OF set, of "{}"] by (simp add: P_def keeps_def)
  qed
  have 3: "P ctx' \<and> owed (clp_kv ctx') d \<le> owed (clp_kv c2) d + sum_list (map (\<lambda>l. 0) (LiquidityProviders g))" for d
  proof (rule fold_r_sum [where P = P, OF _ c3])
    show "P c2" using 2 by blast
    fix c c' l assume a: "P c" "SetLiquidityProvider S c l = Inr c'"
    then show "P c' \<and> owed (clp_kv c') d \<le> owed (clp_kv c) d + 0"
      using SetLiquidityProvider_effect [OF _ a(2)] clp_store_keeps(3) [OF a(2), of "{}"] by (simp add: P_def keeps_def)
  qed
  have "same_bal S ctx c1" using c0'(1) by (simp add: same_bal_def c1_def SetClpWhiteList_def)
  then show sb: "same_bal S ctx ctx'" using 3 by (simp add: same_bal_def P_def)
  show "outside_clp ctx' = outside_clp ctx" using 3 by (simp add: P_def)
  have "owed (clp_kv ctx') d \<le> held S ctx' d" for d
  proof -
    have "owed (clp_kv ctx') d \<le> sum_list (map (\<lambda>p. pool_owes p d) (PoolList g))" using 1(2) [of d] 2 [of d] 3 [of d] by simp
    also have "\<dots> \<le> held S ctx d" using ok by (simp add: clp_genesis_ok_def held_def)
    finally show ?thesis by (simp add: same_bal_held(1) [OF sb])
  qed
  then show "clp_inv S ctx'" using laws(1) 3 by (simp add: clp_inv_def solvent_def P_def)
qed

lemma oracle_InitGenesis_starts:
  fixes ctx :: "'b ctx"
  assumes ok: "oracle_genesis_ok S g" and "oracle_kv ctx = []" and run: "oracle_InitGenesis S ctx g = Inr ctx'"
  shows "oracle_inv S ctx'" and "outside_eth ctx' = outside_eth ctx" and "eth_kv ctx' = eth_kv ctx" and "sdk_state ctx' = sdk_state ctx"
proof -
  define P where "P c \<longleftrightarrow> oracle_inv S c \<and> outside_eth c = outside_eth ctx \<and> eth_kv c = eth_kv ctx \<and> sdk_state c = sdk_state ctx"
    for c :: "'b ctx"
  have wl: "P (SetOracleWhiteList S c vs) \<longleftrightarrow> P c" for c vs
    by (simp add: P_def whitelist_keeps(1)) (simp add: SetOracleWhiteList_def)
  have ad: "P (oracle_SetAdminAccount c a) \<longleftrightarrow> P c" for c a
    by (simp add: P_def oracle_inv_def oracle_SetAdminAccount_def)
  have 0: "P ctx" using assms(2) by (simp add: P_def oracle_inv_def)
  from run 0 obtain c1 where c1: "P c1" and f: "fold_r (\<lambda>ctx p. bind_r (deref p) (\<lambda>db. Inr (SetDBProphecy ctx db))) c1 (og_Prophecies g) = Inr ctx'"
    unfolding oracle_InitGenesis_def by (auto intro: wl [THEN iffD2] ad [THEN iffD2] split: option.splits if_splits)
  have "P ctx'"
  proof (rule fold_r_inv [where P = P, OF c1 f])
    fix c c' p assume a: "P c" "p \<in> set (og_Prophecies g)" "bind_r (deref p) (\<lambda>db. Inr (SetDBProphecy c db)) = Inr c'"
    then obtain db where db: "p = Some db" "c' = SetDBProphecy c db" by (cases p) auto
    then obtain q where "DeserializeFromDB S db = Inr q" "p_ID q = db_Id db" "votes_ok S q"
      using ok a(2) by (auto simp: oracle_genesis_ok_def)
    then show "P c'" using a(1) by (simp add: db(2) P_def SetDBProphecy_def oracle_inv_def)
  qed
  then show "oracle_inv S ctx'" "outside_eth ctx' = outside_eth ctx" "eth_kv ctx' = eth_kv ctx" "sdk_state ctx' = sdk_state ctx"
    by (simp_all add: P_def)
qed

lemma eth_InitGenesis_starts:
  fixes ctx :: "'b ctx"
  assumes "eth_kv ctx = []" and run: "eth_InitGenesis S ctx g = Inr ctx'"
  shows "eth_wf (eth_kv ctx')" and "outside_eth ctx' = outside_eth ctx" and "oracle_kv ctx' = oracle_kv ctx" and "sdk_state ctx' = sdk_state ctx"
proof -
  define P where "P c \<longleftrightarrow> eth_wf (eth_kv c) \<and> outside_eth c = outside_eth ctx \<and> oracle_kv c = oracle_kv ctx \<and> sdk_state c = sdk_state ctx"
    for c :: "'b ctx"
  have 0: "P ctx" using assms(1) by (simp add: P_def eth_wf_def)
  then have rc: "P (SetCethReceiverAccount S ctx a)" for a by (simp add: P_def SetCethReceiverAccount_def eth_wf_set)
  from run 0 obtain c1 where c1: "P c1" and f: "fold_r AddPeggyToken c1 (eg_PeggyTokens g) = Inr ctx'"
    unfolding eth_InitGenesis_def by (auto intro: rc split: if_splits)
  have "P ctx'"
    by (rule fold_r_inv [where P = P, OF c1 f]) (auto simp: P_def eth_wf_set dest!: AddPeggyToken_keeps)
  then show "eth_wf (eth_kv ctx')" "outside_eth ctx' = outside_eth ctx" "oracle_kv ctx' = oracle_kv ctx" "sdk_state ctx' = sdk_state ctx"
    by (simp_all add: P_def)
qed

lemma disp_put_starts:
  assumes "disp_laws S" and "disp_wf S (disp_kv c)" and "disp_valid S v"
  shows "disp_wf S (disp_kv (disp_put c (disp_key v) v))"
    and "due (disp_kv (disp_put c (disp_key v) v)) d \<le> due (disp_kv c) d + value_due d v"
proof -
  show "disp_wf S (disp_kv (disp_put c (disp_key v) v))" using disp_wf_set [OF assms(2,3)] by (simp add: disp_put_def)
  have "0 \<le> kv_at (value_due d) (disp_kv c) (disp_key v)"
    using value_due_nonneg [OF assms(1)] disp_wf_get [OF assms(2)] by (auto simp: kv_at_def split: option.splits)
  then show "due (disp_kv (disp_put c (disp_key v) v)) d \<le> due (disp_kv c) d + value_due d v"
    by (simp add: disp_put_def due_set [OF assms(2)])
qed

lemma disp_InitGenesis_starts:
  fixes ctx :: "'b ctx"
  assumes laws: "disp_laws S" and ok: "disp_genesis_ok S (sdk_state ctx) g" and "disp_kv ctx = []"
    and run: "disp_InitGenesis S ctx g = Inr ctx'"
  shows "disp_inv S ctx'" and "outside_disp ctx' = outside_disp ctx" and "sdk_state ctx' = sdk_state ctx"
proof -
  define rs ds cs where "rs = (case g_DistributionRecords g of None \<Rightarrow> [] | Some rs \<Rightarrow> rs)"
    and "ds = (case g_Distributions g of None \<Rightarrow> [] | Some ds \<Rightarrow> ds)" and "cs = (case g_Claims g of None \<Rightarrow> [] | Some cs \<Rightarrow> cs)"
  from run obtain c1 c2 where c1: "fold_r (\<lambda>ctx r. must_r (SetDistributionRecord S ctx r)) ctx rs = Inr c1"
    and c2: "fold_r (\<lambda>ctx d. must_r (SetDistribution ctx d)) c1 ds = Inr c2"
    and c3: "fold_r (\<lambda>ctx c. must_r (SetClaim ctx c)) c2 cs = Inr ctx'"
    by (cases "g_DistributionRecords g"; cases "g_Distributions g"; cases "g_Claims g")
      (auto simp: disp_InitGenesis_def rs_def ds_def cs_def)
  define P where "P c \<longleftrightarrow> disp_wf S (disp_kv c) \<and> outside_disp c = outside_disp ctx \<and> sdk_state c = sdk_state ctx" for c :: "'b ctx"
  have put: "P (disp_put c (disp_key v) v) \<and> due (disp_kv (disp_put c (disp_key v) v)) d \<le> due (disp_kv c) d + value_due d v"
    if "P c" "disp_valid S v" for c v d
    using disp_put_starts [OF laws, of c v] that by (simp add: P_def disp_put_def)
  have 0: "P ctx" "due (disp_kv ctx) d = 0" for d using assms(3) by (simp_all add: P_def disp_wf_def due_def)
  have 1: "P c1 \<and> due (disp_kv c1) d \<le> due (disp_kv ctx) d + sum_list (map (\<lambda>r. value_due d (RecordV r)) rs)" for d
    by (rule fold_r_sum [where P = P, OF 0(1) c1]) (use put [of _ "RecordV _"] in \<open>auto simp: SetDistributionRecord_Inr\<close>)
  have 2: "P c2 \<and> due (disp_kv c2) d \<le> due (disp_kv c1) d + sum_list (map (\<lambda>_. 0) ds)" for d
    by (rule fold_r_sum [where P = P, OF _ c2])
      (use 1 put [of _ "DistributionV _" d] in \<open>auto simp: SetDistribution_def dist_key_def value_due_def split: if_splits\<close>)
  have 3: "P ctx' \<and> due (disp_kv ctx') d \<le> due (disp_kv c2) d + sum_list (map (\<lambda>_. 0) cs)" for d
    by (rule fold_r_sum [where P = P, OF _ c3])
      (use 2 put [of _ "ClaimV _" d] in \<open>auto simp: SetClaim_def claim_key_def value_due_def split: if_splits\<close>)
  show "outside_disp ctx' = outside_disp ctx" "sdk_state ctx' = sdk_state ctx" using 3 by (simp_all add: P_def)
  have "due (disp_kv ctx') d \<le> disp_held S ctx' d" for d
  proof -
    have "due (disp_kv ctx') d \<le> sum_list (map (\<lambda>r. value_due d (RecordV r)) rs)" using 0(2) [of d] 1 [of d] 2 [of d] 3 [of d] by simp
    also have "\<dots> \<le> disp_held S ctx d" using ok by (simp add: disp_genesis_ok_def disp_held_def rs_def)
    finally show ?thesis using 3 by (simp add: disp_held_def P_def)
  qed
  then show "disp_inv S ctx'" using laws 3 by (simp add: disp_inv_def P_def)
qed

lemma tr_InitGenesis_starts:
  assumes "tr_genesis_ok g" and "tr_kv ctx = []" and "tr_InitGenesis S ctx g = Inr ctx'"
  shows "tr_inv ctx'" and "outside_tr ctx' = outside_tr ctx" and "sdk_state ctx' = sdk_state ctx"
  using assms
  by (auto simp: tr_InitGenesis_def tr_genesis_ok_def tr_inv_def SetAdminAccount_def tr_SetRegistry_def GetRegistry_def unique_names_def
      tr_AdminAccountStorePrefix_def tr_WhitelistStorePrefix_def kv_get_def split: if_splits option.splits sum.splits)

section \<open>The chain starts\<close>

lemma genesis_ok_bal:
  assumes "genesis_ok S E (sdk_state ctx) gs" and "same_bal S ctx ctx'"
  shows "genesis_ok S E (sdk_state ctx') gs"
proof -
  have eq1: "clp_genesis_ok S (sdk_state ctx') g = clp_genesis_ok S (sdk_state ctx) g" for g
    using assms(2) by (simp add: clp_genesis_ok_def same_bal_def)
  have eq2: "disp_genesis_ok S (sdk_state ctx') g = disp_genesis_ok S (sdk_state ctx) g" for g
    using assms(2) by (simp add: disp_genesis_ok_def same_bal_def)
  have eq3: "bal S (sdk_state ctx') a d = bal S (sdk_state ctx) a d" for a d using assms(2) by (simp add: same_bal_def)
  show ?thesis using assms(1) unfolding genesis_ok_def eq1 eq2 eq3 .
qed

lemma genesis_okD:
  assumes "genesis_ok S E b gs"
  shows "gs clp_ModuleName = Some j \<Longrightarrow> UnmarshalJSON_clp E j = Inr g1 \<Longrightarrow> clp_genesis_ok S b g1"
    and "gs oracle_ModuleName = Some j \<Longrightarrow> UnmarshalJSON_oracle E j = Inr g2 \<Longrightarrow> oracle_genesis_ok S g2"
    and "gs disp_ModuleName = Some j \<Longrightarrow> UnmarshalJSON_disp E j = Inr g3 \<Longrightarrow> disp_genesis_ok S b g3"
    and "gs tr_ModuleName = Some j \<Longrightarrow> UnmarshalJSON_tr E j = Inr g4 \<Longrightarrow> tr_genesis_ok g4"
    and "0 \<le> bal S b (GetCLPModuleAddress S) d" and "0 \<le> bal S b (GetDistributionModuleAddress S) d"
  using assms unfolding genesis_ok_def by blast+

lemma same_bal_eq: "sdk_state ctx' = sdk_state ctx \<Longrightarrow> same_bal S ctx ctx'"
  by (simp add: same_bal_def)

lemma init_clp:
  assumes "clp_laws S" "genesis_laws S E" and ok: "genesis_ok S E (sdk_state ctx) gs" and e: "clp_kv ctx = []"
    and i: "init_module gs ctx (clp_ModuleName, clp_module_InitGenesis S E) = Inr ctx'"
  shows "clp_inv S ctx' \<and> outside_clp ctx' = outside_clp ctx \<and> same_bal S ctx ctx'"
proof (cases "gs clp_ModuleName")
  case None
  then show ?thesis using i genesis_okD(5) [OF ok] e assms(1)
    by (simp add: init_module_def clp_inv_def clp_wf_def solvent_def owed_def held_def genesis_ok_def same_bal_def kv_ok_def)
next
  case (Some j)
  then obtain g where g: "UnmarshalJSON_clp E j = Inr g" "clp_InitGenesis S ctx g = Inr ctx'"
    using i by (auto simp: init_module_def clp_module_InitGenesis_def)
  show ?thesis using clp_InitGenesis_starts [OF assms(1,2) genesis_okD(1) [OF ok Some g(1)] e g(2)] by (simp add: same_bal_eq)
qed

lemma init_oracle:
  assumes ok: "genesis_ok S E b gs" and e: "oracle_kv ctx = []"
    and i: "init_module gs ctx (oracle_ModuleName, oracle_module_InitGenesis S E) = Inr ctx'"
  shows "oracle_inv S ctx' \<and> outside_eth ctx' = outside_eth ctx \<and> eth_kv ctx' = eth_kv ctx \<and> same_bal S ctx ctx'"
proof (cases "gs oracle_ModuleName")
  case None
  then show ?thesis using i e by (simp add: init_module_def oracle_inv_def same_bal_eq)
next
  case (Some j)
  then obtain g where g: "UnmarshalJSON_oracle E j = Inr g" "oracle_InitGenesis S ctx g = Inr ctx'"
    using i by (auto simp: init_module_def oracle_module_InitGenesis_def)
  show ?thesis using oracle_InitGenesis_starts [OF genesis_okD(2) [OF ok Some g(1)] e g(2)] by (simp add: same_bal_eq)
qed

lemma init_eth:
  assumes "genesis_laws S E" and e: "eth_kv ctx = []"
    and i: "init_module gs ctx (eth_ModuleName, eth_module_InitGenesis S E) = Inr ctx'"
  shows "eth_wf (eth_kv ctx') \<and> outside_eth ctx' = outside_eth ctx \<and> oracle_kv ctx' = oracle_kv ctx \<and> same_bal S ctx ctx'"
proof (cases "gs eth_ModuleName")
  case None
  then show ?thesis using i e by (simp add: init_module_def eth_wf_def same_bal_eq kv_ok_def)
next
  case (Some j)
  let ?c = "ctx\<lparr>sdk_state := SetModuleAccount E (sdk_state ctx) eth_ModuleName [''burner'', ''minter'']\<rparr>"
  from Some obtain g where "eth_InitGenesis S ?c g = Inr ctx'" using i by (auto simp: init_module_def eth_module_InitGenesis_def Let_def)
  moreover have "same_bal S ctx ?c" using assms(1) by (simp add: same_bal_def genesis_laws_def)
  ultimately show ?thesis using eth_InitGenesis_starts [of ?c S g ctx'] e by (simp add: same_bal_def)
qed

lemma init_disp:
  assumes "disp_laws S" and ok: "genesis_ok S E (sdk_state ctx) gs" and e: "disp_kv ctx = []"
    and i: "init_module gs ctx (disp_ModuleName, disp_module_InitGenesis S E) = Inr ctx'"
  shows "disp_inv S ctx' \<and> outside_disp ctx' = outside_disp ctx \<and> same_bal S ctx ctx'"
proof (cases "gs disp_ModuleName")
  case None
  then show ?thesis using i genesis_okD(6) [OF ok] e assms(1)
    by (simp add: init_module_def disp_inv_def disp_wf_def due_def disp_held_def genesis_ok_def same_bal_def kv_ok_def)
next
  case (Some j)
  then obtain g where g: "UnmarshalJSON_disp E j = Inr g" "disp_InitGenesis S ctx g = Inr ctx'"
    using i by (auto simp: init_module_def disp_module_InitGenesis_def)
  show ?thesis using disp_InitGenesis_starts [OF assms(1) genesis_okD(3) [OF ok Some g(1)] e g(2)] by (simp add: same_bal_eq)
qed

lemma init_tr:
  assumes ok: "genesis_ok S E b gs" and e: "tr_kv ctx = []"
    and i: "init_module gs ctx (tr_ModuleName, tr_module_InitGenesis S E) = Inr ctx'"
  shows "tr_inv ctx' \<and> outside_tr ctx' = outside_tr ctx \<and> same_bal S ctx ctx'"
proof (cases "gs tr_ModuleName")
  case None
  then show ?thesis using i e by (simp add: init_module_def tr_inv_def GetRegistry_def unique_names_def same_bal_eq)
next
  case (Some j)
  then obtain g where g: "UnmarshalJSON_tr E j = Inr g" "tr_InitGenesis S ctx g = Inr ctx'"
    using i by (auto simp: init_module_def tr_module_InitGenesis_def)
  show ?thesis using tr_InitGenesis_starts [OF genesis_okD(4) [OF ok Some g(1)] e g(2)] by (simp add: same_bal_eq)
qed

lemma InitChainer_steps:
  assumes "manager_laws E" and "InitChainer S E ctx bz = Inr ctx'"
  obtains gs b c1 c2 c3 c4 where "UnmarshalJSON_app E bz = Inr gs"
    "SDK_InitGenesis E gs (SetModuleVersionMap E (sdk_state ctx)) = Inr b"
    "init_module gs (ctx\<lparr>sdk_state := b\<rparr>) (clp_ModuleName, clp_module_InitGenesis S E) = Inr c1"
    "init_module gs c1 (oracle_ModuleName, oracle_module_InitGenesis S E) = Inr c2"
    "init_module gs c2 (eth_ModuleName, eth_module_InitGenesis S E) = Inr c3"
    "init_module gs c3 (disp_ModuleName, disp_module_InitGenesis S E) = Inr c4"
    "init_module gs c4 (tr_ModuleName, tr_module_InitGenesis S E) = Inr ctx'"
  using assms by (auto simp: InitChainer_def init_order_def manager_laws_def Let_def)

lemmas outside_defs = outside_clp_def outside_eth_def outside_disp_def outside_tr_def

lemma InitChainer_inv:
  assumes laws: "clp_laws S" "disp_laws S" "eth_laws S G" "genesis_laws S E" and "fresh ctx" and mm: "manager_laws E"
    and gs: "UnmarshalJSON_app E bz = Inr gs" "SDK_InitGenesis E gs (SetModuleVersionMap E (sdk_state ctx)) = Inr b"
    and ok: "genesis_ok S E b gs" and run: "InitChainer S E ctx bz = Inr ctx'"
  shows "app_inv S G ctx'"
proof -
  from mm run obtain c1 c2 c3 c4 where c:
    "init_module gs (ctx\<lparr>sdk_state := b\<rparr>) (clp_ModuleName, clp_module_InitGenesis S E) = Inr c1"
    "init_module gs c1 (oracle_ModuleName, oracle_module_InitGenesis S E) = Inr c2"
    "init_module gs c2 (eth_ModuleName, eth_module_InitGenesis S E) = Inr c3"
    "init_module gs c3 (disp_ModuleName, disp_module_InitGenesis S E) = Inr c4"
    "init_module gs c4 (tr_ModuleName, tr_module_InitGenesis S E) = Inr ctx'"
    by (rule InitChainer_steps) (use gs in auto)
  have 1: "clp_inv S c1 \<and> outside_clp c1 = outside_clp (ctx\<lparr>sdk_state := b\<rparr>) \<and> same_bal S (ctx\<lparr>sdk_state := b\<rparr>) c1"
    by (rule init_clp [OF laws(1,4) _ _ c(1)]) (use ok assms(5) in \<open>simp_all add: fresh_def\<close>)
  have 2: "oracle_inv S c2 \<and> outside_eth c2 = outside_eth c1 \<and> eth_kv c2 = eth_kv c1 \<and> same_bal S c1 c2"
    by (rule init_oracle [OF ok _ c(2)]) (use 1 assms(5) in \<open>simp add: fresh_def outside_defs\<close>)
  have 3: "eth_wf (eth_kv c3) \<and> outside_eth c3 = outside_eth c2 \<and> oracle_kv c3 = oracle_kv c2 \<and> same_bal S c2 c3"
    by (rule init_eth [OF laws(4) _ c(3)]) (use 1 2 assms(5) in \<open>simp add: fresh_def outside_defs\<close>)
  have b3: "same_bal S (ctx\<lparr>sdk_state := b\<rparr>) c3" "same_bal S c1 c3" using 1 2 3 by (blast intro: same_bal_trans)+
  have 4: "disp_inv S c4 \<and> outside_disp c4 = outside_disp c3 \<and> same_bal S c3 c4"
    by (rule init_disp [OF laws(2) genesis_ok_bal [OF _ b3(1)] _ c(4)]) (use ok 1 2 3 assms(5) in \<open>simp_all add: fresh_def outside_defs\<close>)
  have 5: "tr_inv ctx' \<and> outside_tr ctx' = outside_tr c4 \<and> same_bal S c4 ctx'"
    by (rule init_tr [OF ok _ c(5)]) (use 1 2 3 4 assms(5) in \<open>simp add: fresh_def outside_defs\<close>)
  have b5: "same_bal S c1 ctx'" "same_bal S c4 ctx'" using b3 4 5 by (blast intro: same_bal_trans)+
  have "clp_inv S ctx'"
    by (rule inv_by_frame(2) [of S c1]) (use 1 2 3 4 5 in \<open>simp_all add: outside_defs same_bal_held(1) [OF b5(1)]\<close>)
  moreover have "disp_inv S ctx'"
    by (rule inv_by_frame(3) [of S c4]) (use 4 5 in \<open>simp_all add: outside_defs same_bal_held(2) [OF b5(2)]\<close>)
  moreover have "eth_inv S G ctx'"
    using laws(3) 2 3 4 5 by (simp add: eth_inv_def oracle_inv_def outside_defs)
  ultimately show ?thesis using 5 by (simp add: app_inv_def)
qed

text \<open>
  C2: A chain starts from a genesis that is sound: the coins of the module accounts cover the pools and the pending records,
  no pool is one of the native token or negative, every prophecy is readable under its own name with one vote per validator, and
  the registry has no name twice. After the genesis of all modules and any messages and packets, none of them signed by the account
  of the pools or of the distributions or paying to it, the pending records are covered, every prophecy is readable, and what was
  decided stays decided; if the messages to the pools pass their stateless checks and withdraw symmetrically, the pools are
  covered; if no list that replaces the registry has a name twice, no name occurs twice in it.
\<close>

theorem chain_sound_from_genesis:
  assumes "clp_laws S" and "disp_laws S" and "eth_laws S G" and "genesis_laws S E" and "fresh ctx" and "manager_laws E"
    and "UnmarshalJSON_app E bz = Inr gs" and "SDK_InitGenesis E gs (SetModuleVersionMap E (sdk_state ctx)) = Inr b"
    and "genesis_ok S E b gs" and "InitChainer S E ctx bz = Inr ctx0"
    and "transfer_laws S I T" and "accounts_apart S I T" and "list_all (app_signed S I) ms"
  shows "let ctx' = run (app_Handler S G K I) ctx0 ms in
    (\<forall>d. due (disp_kv ctx') d \<le> disp_held S ctx' d) \<and> oracle_inv S ctx' \<and> (\<forall>i p. finalised S ctx0 i p \<longrightarrow> finalised S ctx' i p) \<and>
    (list_all (pools_admissible S) ms \<longrightarrow> solvent S ctx') \<and> (list_all registry_admissible ms \<longrightarrow> tr_inv ctx')"
  using app_run_inv [OF assms(11,12) InitChainer_inv [OF assms(1-10)] assms(13)]
  by (auto simp: app_inv_if_def clp_inv_def disp_inv_def eth_inv_def Let_def)

section \<open>The commands set the admins\<close>

text \<open>
  What is written reads back. Empty lists are left out of the JSON of a struct, so the empty list of validators reads back as
  nil. Saving a genesis document may complete its other fields. The string of an address is not blank, and the key ring
  has addresses only.
\<close>

definition omit_empty :: "oracle_genesis \<Rightarrow> oracle_genesis" where
  "omit_empty g = g\<lparr>og_AddressWhitelist := (if og_AddressWhitelist g = Some [] then None else og_AddressWhitelist g)\<rparr>"

definition file_laws :: "'b sdk \<Rightarrow> ('b, 'j, 'd, 'f) genesis_env \<Rightarrow> bool" where
  "file_laws S E \<longleftrightarrow>
     (\<forall>gs j. Marshal_app E gs = Inr j \<longrightarrow> UnmarshalJSON_app E j = Inr gs) \<and>
     (\<forall>g j. Marshal_clp E g = Inr j \<longrightarrow> UnmarshalJSON_clp E j = Inr g) \<and>
     (\<forall>g j. Marshal_oracle E g = Inr j \<longrightarrow> UnmarshalJSON_oracle E j = Inr (omit_empty g)) \<and>
     (\<forall>g j. Marshal_tr E g = Inr j \<longrightarrow> UnmarshalJSON_tr E j = Inr g) \<and>
     (\<forall>doc f. ExportGenesisFile E doc = Inr f \<longrightarrow>
        (\<exists>gs doc'. GenesisStateFromGenFile E f = Inr (gs, doc') \<and> AppState doc' = AppState doc)) \<and>
     (\<forall>f gs doc. GenesisStateFromGenFile E f = Inr (gs, doc) \<longrightarrow> UnmarshalJSON_app E (AppState doc) = Inr gs) \<and>
     (\<forall>s a. AccAddressFromBech32 S s = Inr a \<longrightarrow> TrimSpace s \<noteq> []) \<and>
     (\<forall>s a. ValAddressFromBech32 S s = Inr a \<longrightarrow> TrimSpace s \<noteq> []) \<and>
     (\<forall>n a. keyring_Key E n = Inr a \<longrightarrow> valid_address a)"

lemma file_lawsD:
  assumes "file_laws S E"
  shows "Marshal_app E gs = Inr j \<Longrightarrow> UnmarshalJSON_app E j = Inr gs"
    and "Marshal_clp E g1 = Inr j \<Longrightarrow> UnmarshalJSON_clp E j = Inr g1"
    and "Marshal_oracle E g2 = Inr j \<Longrightarrow> UnmarshalJSON_oracle E j = Inr (omit_empty g2)"
    and "Marshal_tr E g3 = Inr j \<Longrightarrow> UnmarshalJSON_tr E j = Inr g3"
    and "ExportGenesisFile E doc = Inr f \<Longrightarrow> \<exists>gs doc'. GenesisStateFromGenFile E f = Inr (gs, doc') \<and> AppState doc' = AppState doc"
    and "GenesisStateFromGenFile E f = Inr (gs, doc) \<Longrightarrow> UnmarshalJSON_app E (AppState doc) = Inr gs"
    and "AccAddressFromBech32 S s = Inr a \<Longrightarrow> TrimSpace s \<noteq> []"
    and "ValAddressFromBech32 S s = Inr a \<Longrightarrow> TrimSpace s \<noteq> []"
    and "keyring_Key E n = Inr a \<Longrightarrow> valid_address a"
  using assms unfolding file_laws_def by (simp_all del: split_paired_All)

lemma write_genesis_reads:
  assumes laws: "file_laws S E" and w: "write_genesis E gs doc name r = Inr f"
  shows "\<exists>bz doc'. r = Inr bz \<and> GenesisStateFromGenFile E f = Inr (gs(name \<mapsto> bz), doc')"
proof -
  from w obtain bz j where bz: "r = Inr bz" and j: "Marshal_app E (gs(name \<mapsto> bz)) = Inr j"
    and f: "ExportGenesisFile E (doc\<lparr>AppState := j\<rparr>) = Inr f" by (auto simp: write_genesis_def)
  obtain gs' doc' where d: "GenesisStateFromGenFile E f = Inr (gs', doc')" "AppState doc' = j"
    using file_lawsD(5) [OF laws f] by auto
  have "gs' = gs(name \<mapsto> bz)" using file_lawsD(6) [OF laws d(1)] file_lawsD(1) [OF laws j] d(2) by simp
  then show ?thesis using bz d(1) by blast
qed

lemma account_arg_valid:
  assumes "addr_laws S" and "file_laws S E" and "account_arg S E x = Inr a"
  shows "AccAddressFromBech32 S (AccAddress_String S a) = Inr a" and "valid_address a" and "TrimSpace (AccAddress_String S a) \<noteq> []"
    and "AccAddress_String S a \<noteq> []"
proof -
  have "AccAddressFromBech32 S x = Inr a \<or> keyring_Key E x = Inr a" using assms(3) by (auto simp: account_arg_def split: sum.splits)
  then show v: "valid_address a" using file_lawsD(9) [OF assms(2)] assms(1) unfolding addr_laws_def by blast
  then show r: "AccAddressFromBech32 S (AccAddress_String S a) = Inr a" using assms(1) by (simp add: addr_laws_def)
  then show "TrimSpace (AccAddress_String S a) \<noteq> []" by (rule file_lawsD(7) [OF assms(2)])
  then show "AccAddress_String S a \<noteq> []" by (auto simp: TrimSpace_def)
qed

subsection \<open>What a module's genesis sets\<close>

lemma oracle_InitGenesis_frame: "oracle_InitGenesis S ctx g = Inr ctx' \<Longrightarrow> \<exists>s. ctx' = ctx\<lparr>oracle_kv := s\<rparr>"
proof -
  define P where "P c \<longleftrightarrow> (\<exists>s. c = ctx\<lparr>oracle_kv := s\<rparr>)" for c
  have 0: "P ctx" unfolding P_def by (rule exI [of _ "oracle_kv ctx"]) simp
  have up: "P c \<Longrightarrow> P (c\<lparr>oracle_kv := s\<rparr>)" for c s by (auto simp: P_def)
  have st: "P c \<Longrightarrow> P (SetOracleWhiteList S c vs)" "P c \<Longrightarrow> P (oracle_SetAdminAccount c a)" "P c \<Longrightarrow> P (SetDBProphecy c db)" for c vs a db
    by (simp_all add: SetOracleWhiteList_def oracle_SetAdminAccount_def SetDBProphecy_def up)
  assume "oracle_InitGenesis S ctx g = Inr ctx'"
  with 0 obtain c1 where c1: "P c1" and f: "fold_r (\<lambda>ctx p. bind_r (deref p) (\<lambda>db. Inr (SetDBProphecy ctx db))) c1 (og_Prophecies g) = Inr ctx'"
    unfolding oracle_InitGenesis_def by (auto intro: st split: option.splits if_splits)
  have "P ctx'" by (rule fold_r_inv [where P = P, OF c1 f]) (auto intro: st)
  then show ?thesis by (simp add: P_def)
qed

lemma eth_InitGenesis_frame: "eth_InitGenesis S ctx g = Inr ctx' \<Longrightarrow> \<exists>s. ctx' = ctx\<lparr>eth_kv := s\<rparr>"
proof -
  define P where "P c \<longleftrightarrow> (\<exists>s. c = ctx\<lparr>eth_kv := s\<rparr>)" for c
  have 0: "P ctx" unfolding P_def by (rule exI [of _ "eth_kv ctx"]) simp
  have rc: "P (SetCethReceiverAccount S ctx a)" for a by (auto simp: P_def SetCethReceiverAccount_def)
  assume "eth_InitGenesis S ctx g = Inr ctx'"
  with 0 obtain c1 where c1: "P c1" and f: "fold_r AddPeggyToken c1 (eg_PeggyTokens g) = Inr ctx'"
    unfolding eth_InitGenesis_def by (auto intro: rc split: if_splits)
  have "P ctx'" by (rule fold_r_inv [where P = P, OF c1 f]) (auto simp: P_def dest!: AddPeggyToken_keeps)
  then show ?thesis by (simp add: P_def)
qed

lemma disp_InitGenesis_frame: "disp_InitGenesis S ctx g = Inr ctx' \<Longrightarrow> \<exists>s. ctx' = ctx\<lparr>disp_kv := s\<rparr>"
proof -
  define P where "P c \<longleftrightarrow> (\<exists>s. c = ctx\<lparr>disp_kv := s\<rparr>)" for c
  have 0: "P ctx" unfolding P_def by (rule exI [of _ "disp_kv ctx"]) simp
  have st: "P c \<Longrightarrow> SetDistributionRecord S c r = Inr c' \<Longrightarrow> P c'" "P c \<Longrightarrow> SetDistribution c d = Inr c' \<Longrightarrow> P c'"
    "P c \<Longrightarrow> SetClaim c u = Inr c' \<Longrightarrow> P c'" for c c' r d u
    by (auto simp: P_def SetDistributionRecord_def SetDistribution_def SetClaim_def disp_put_def split: if_splits)
  assume "disp_InitGenesis S ctx g = Inr ctx'"
  then obtain c1 c2 where c1: "(case g_DistributionRecords g of None \<Rightarrow> Inr ctx
      | Some rs \<Rightarrow> fold_r (\<lambda>ctx r. must_r (SetDistributionRecord S ctx r)) ctx rs) = Inr c1"
    and c2: "(case g_Distributions g of None \<Rightarrow> Inr c1 | Some ds \<Rightarrow> fold_r (\<lambda>ctx d. must_r (SetDistribution ctx d)) c1 ds) = Inr c2"
    and c3: "(case g_Claims g of None \<Rightarrow> Inr c2 | Some cs \<Rightarrow> fold_r (\<lambda>ctx c. must_r (SetClaim ctx c)) c2 cs) = Inr ctx'"
    unfolding disp_InitGenesis_def bind_r_Inr by blast
  have "P c1" using c1 0 by (cases "g_DistributionRecords g") (auto elim!: fold_r_inv [where P = P, rotated] dest: st(1))
  then have "P c2" using c2 \<open>P c1\<close> by (cases "g_Distributions g") (auto elim!: fold_r_inv [where P = P, rotated] dest: st(2))
  then have "P ctx'" using c3 \<open>P c2\<close> by (cases "g_Claims g") (auto elim!: fold_r_inv [where P = P, rotated] dest: st(3))
  then show ?thesis by (simp add: P_def)
qed

lemma clp_InitGenesis_admins:
  fixes ctx :: "'b ctx"
  assumes "addr_laws S" and run: "clp_InitGenesis S ctx g = Inr ctx'" and s: "s \<in> set (AddressWhitelist g)" "AccAddressFromBech32 S s = Inr a"
  shows "ValidateAddress S ctx' a = Inr True"
proof -
  from run obtain c0 wl c2 where wl: "map_r (parse_addr S) (AddressWhitelist g) = Inr wl"
    and c2: "fold_r (\<lambda>ctx p. must_r (SetPool S ctx p)) (SetClpWhiteList S (SetClpWhiteList S c0 wl) wl) (PoolList g) = Inr c2"
    and c3: "fold_r (SetLiquidityProvider S) c2 (LiquidityProviders g) = Inr ctx'"
    by (auto simp: clp_InitGenesis_def Let_def split: if_splits)
  define P where "P c \<longleftrightarrow> kv_get (clp_kv c) WhiteListValidatorPrefix = Some (WhitelistV (map (AccAddress_String S) wl))" for c :: "'b ctx"
  have "P (SetClpWhiteList S (SetClpWhiteList S c0 wl) wl)" by (simp add: P_def SetClpWhiteList_def)
  then have "P c2" by (rule fold_r_inv [where P = P, OF _ c2]) (auto simp: P_def SetPool_def split: if_splits)
  then have get: "P ctx'"
    by (rule fold_r_inv [where P = P, OF _ c3]) (auto simp: P_def SetLiquidityProvider_def WhiteListValidatorPrefix_def
        GetLiquidityProviderKey_def LiquidityProviderPrefix_def split: if_splits)
  have parsed: "map (parse_addr S) (AddressWhitelist g) = map Inr wl" using wl by (simp add: map_r_Inr)
  have "valid_address x" if "x \<in> set wl" for x
  proof -
    have "Inr x \<in> parse_addr S ` set (AddressWhitelist g)" using that parsed by (metis image_eqI set_map)
    then show ?thesis using assms(1) by (auto simp: parse_addr_def addr_laws_def split: sum.splits)
  qed
  then have "map_r (parse_addr S) (map (AccAddress_String S) wl) = Inr wl"
    using assms(1) by (auto simp: map_r_Inr parse_addr_def addr_laws_def)
  moreover have "a \<in> set wl"
  proof -
    have "Inr a \<in> set (map (parse_addr S) (AddressWhitelist g))" using s by (auto simp: parse_addr_def intro!: image_eqI [of _ _ s])
    then show ?thesis using parsed by auto
  qed
  ultimately show ?thesis using get by (simp add: ValidateAddress_def ExistsClpWhiteList_def kv_has_def GetClpWhiteList_def P_def)
qed

lemma oracle_InitGenesis_admin:
  fixes ctx :: "'b ctx"
  assumes "oracle_InitGenesis S ctx g = Inr ctx'" and a: "AccAddressFromBech32 S (og_AdminAddress g) = Inr a" "TrimSpace (og_AdminAddress g) \<noteq> []"
  shows "oracle_GetAdminAccount ctx' = Inr a"
proof -
  define P where "P c \<longleftrightarrow> oracle_GetAdminAccount c = Inr a" for c :: "'b ctx"
  have set: "P (oracle_SetAdminAccount c a)" for c by (simp add: P_def oracle_GetAdminAccount_def oracle_SetAdminAccount_def)
  from assms(1) a obtain c1 where c1: "P c1"
    and f: "fold_r (\<lambda>ctx p. bind_r (deref p) (\<lambda>db. Inr (SetDBProphecy ctx db))) c1 (og_Prophecies g) = Inr ctx'"
    unfolding oracle_InitGenesis_def by (auto intro: set split: option.splits if_splits)
  have "P ctx'" by (rule fold_r_inv [where P = P, OF c1 f]) (auto simp: P_def oracle_GetAdminAccount_def SetDBProphecy_def)
  then show ?thesis by (simp add: P_def)
qed

lemma oracle_InitGenesis_validators:
  fixes ctx :: "'b ctx"
  assumes addr: "addr_laws S" and run: "oracle_InitGenesis S ctx g = Inr ctx'"
    and v: "og_AddressWhitelist g = Some vs" "s \<in> set vs" "ValAddressFromBech32 S s = Inr a" "TrimSpace s \<noteq> []"
  shows "oracle_ValidateAddress S ctx' a = Inr True"
proof -
  let ?parse = "\<lambda>entry. must_r (ValAddressFromBech32 S entry)"
  from run v(1) obtain wl where wl: "map_r ?parse (filter (\<lambda>entry. TrimSpace entry \<noteq> []) vs) = Inr wl"
    by (auto simp: oracle_InitGenesis_def)
  define P where "P c \<longleftrightarrow> kv_get (oracle_kv c) oracle_WhiteListValidatorPrefix = Some (OWhiteListV (map (ValAddress_String S) wl))" for c :: "'b ctx"
  have set: "P (SetOracleWhiteList S c wl)" "P c \<Longrightarrow> P (oracle_SetAdminAccount c x)" for c x
    by (simp_all add: P_def SetOracleWhiteList_def oracle_SetAdminAccount_def)
  from run wl v(1) obtain c1 where c1: "P c1"
    and f: "fold_r (\<lambda>ctx p. bind_r (deref p) (\<lambda>db. Inr (SetDBProphecy ctx db))) c1 (og_Prophecies g) = Inr ctx'"
    unfolding oracle_InitGenesis_def by (auto intro: set split: if_splits)
  have get: "P ctx'" by (rule fold_r_inv [where P = P, OF c1 f]) (auto simp: P_def SetDBProphecy_def)
  have parsed: "map ?parse (filter (\<lambda>entry. TrimSpace entry \<noteq> []) vs) = map Inr wl" using wl by (simp add: map_r_Inr)
  have "valid_address x" if "x \<in> set wl" for x
  proof -
    have "Inr x \<in> set (map ?parse (filter (\<lambda>entry. TrimSpace entry \<noteq> []) vs))" using that unfolding parsed by simp
    then obtain e where "ValAddressFromBech32 S e = Inr x" by (auto dest: sym)
    then show ?thesis using addr unfolding addr_laws_def by blast
  qed
  then have "map_r ?parse (map (ValAddress_String S) wl) = Inr wl" using addr by (auto simp: map_r_Inr addr_laws_def)
  moreover have "a \<in> set wl"
  proof -
    have "Inr a \<in> set (map ?parse (filter (\<lambda>entry. TrimSpace entry \<noteq> []) vs))" using v by (auto intro!: image_eqI [of _ _ s])
    then show ?thesis unfolding parsed by auto
  qed
  ultimately show ?thesis
    using get by (simp add: oracle_ValidateAddress_def ExistsOracleWhiteList_def oracle_Exists_def kv_has_def GetOracleWhiteList_def P_def list_ex_iff)
qed

lemma tr_InitGenesis_sets:
  assumes "tr_InitGenesis S ctx g = Inr ctx'" and "AccAddressFromBech32 S (trg_AdminAccount g) = Inr a" and "trg_AdminAccount g \<noteq> []"
    and "trg_Registry g = Some wl"
  shows "GetAdminAccount ctx' = Inr a" and "GetRegistry ctx' = Inr wl" and "\<exists>s. ctx' = ctx\<lparr>tr_kv := s\<rparr>"
  using assms
  by (auto simp: tr_InitGenesis_def SetAdminAccount_def tr_SetRegistry_def GetRegistry_def GetAdminAccount_def
      tr_AdminAccountStorePrefix_def tr_WhitelistStorePrefix_def split: if_splits)

lemma init_frames:
  "init_module gs c (oracle_ModuleName, oracle_module_InitGenesis S E) = Inr c' \<Longrightarrow> clp_kv c' = clp_kv c"
  "init_module gs c (eth_ModuleName, eth_module_InitGenesis S E) = Inr c' \<Longrightarrow> clp_kv c' = clp_kv c \<and> oracle_kv c' = oracle_kv c"
  "init_module gs c (disp_ModuleName, disp_module_InitGenesis S E) = Inr c' \<Longrightarrow> clp_kv c' = clp_kv c \<and> oracle_kv c' = oracle_kv c"
  by (auto simp: init_module_def oracle_module_InitGenesis_def eth_module_InitGenesis_def disp_module_InitGenesis_def Let_def
      split: option.splits dest!: oracle_InitGenesis_frame eth_InitGenesis_frame disp_InitGenesis_frame)

lemma admins_by_store:
  "clp_kv c' = clp_kv c \<Longrightarrow> ValidateAddress S c' a = ValidateAddress S c a"
  "oracle_kv c' = oracle_kv c \<Longrightarrow> oracle_GetAdminAccount c' = oracle_GetAdminAccount c"
  "oracle_kv c' = oracle_kv c \<Longrightarrow> oracle_ValidateAddress S c' a = oracle_ValidateAddress S c a"
  by (simp_all add: ValidateAddress_def ExistsClpWhiteList_def GetClpWhiteList_def oracle_GetAdminAccount_def
      oracle_ValidateAddress_def ExistsOracleWhiteList_def oracle_Exists_def GetOracleWhiteList_def)

text \<open>What each command leaves in the file.\<close>

lemma commands_read:
  assumes laws: "file_laws S E"
  shows "AddGenesisCLPAdminCmd S E f x = Inr f' \<Longrightarrow> \<exists>a gs doc g j doc'. account_arg S E x = Inr a \<and>
      GenesisStateFromGenFile E f = Inr (gs, doc) \<and> GenesisStateFromGenFile E f' = Inr (gs(clp_ModuleName \<mapsto> j), doc') \<and>
      UnmarshalJSON_clp E j = Inr (g\<lparr>AddressWhitelist := AddressWhitelist g @ [AccAddress_String S a]\<rparr>)" (is "?P1 \<Longrightarrow> ?Q1")
    and "AddGenesisValidatorCmd S E f x = Inr f' \<Longrightarrow> \<exists>a gs doc g vs j doc'. ValAddressFromBech32 S x = Inr a \<and>
      GenesisStateFromGenFile E f = Inr (gs, doc) \<and> GenesisStateFromGenFile E f' = Inr (gs(oracle_ModuleName \<mapsto> j), doc') \<and>
      UnmarshalJSON_oracle E j = Inr (g\<lparr>og_AddressWhitelist := Some (vs @ [ValAddress_String S a])\<rparr>)" (is "?P2 \<Longrightarrow> ?Q2")
    and "SetGenesisOracleAdminCmd S E f x = Inr f' \<Longrightarrow> \<exists>a gs doc g j doc'. account_arg S E x = Inr a \<and>
      GenesisStateFromGenFile E f = Inr (gs, doc) \<and> oracle_GetGenesisStateFromAppState E gs = Inr g \<and>
      GenesisStateFromGenFile E f' = Inr (gs(oracle_ModuleName \<mapsto> j), doc') \<and>
      UnmarshalJSON_oracle E j = Inr (omit_empty (g\<lparr>og_AdminAddress := AccAddress_String S a\<rparr>))" (is "?P3 \<Longrightarrow> ?Q3")
    and "SetGenesisWhitelisterAdminCmd S E f x = Inr f' \<Longrightarrow> \<exists>a gs doc g j doc'. account_arg S E x = Inr a \<and>
      GenesisStateFromGenFile E f = Inr (gs, doc) \<and> GenesisStateFromGenFile E f' = Inr (gs(tr_ModuleName \<mapsto> j), doc') \<and>
      UnmarshalJSON_tr E j = Inr (g\<lparr>trg_AdminAccount := AccAddress_String S a\<rparr>)" (is "?P4 \<Longrightarrow> ?Q4")
    and "SetGenesisDenomWhitelist E f x = Inr f' \<Longrightarrow> \<exists>wl gs doc g j doc'. ParseDenoms E x = Inr wl \<and>
      GenesisStateFromGenFile E f = Inr (gs, doc) \<and> tr_GetGenesisStateFromAppState E gs = Inr g \<and>
      GenesisStateFromGenFile E f' = Inr (gs(tr_ModuleName \<mapsto> j), doc') \<and>
      UnmarshalJSON_tr E j = Inr (g\<lparr>trg_Registry := Some wl\<rparr>)" (is "?P5 \<Longrightarrow> ?Q5")
proof -
  note wr = write_genesis_reads [OF laws]
  show "?P1 \<Longrightarrow> ?Q1" by (auto simp: AddGenesisCLPAdminCmd_def dest!: wr file_lawsD(2) [OF laws]) blast
  show "?P2 \<Longrightarrow> ?Q2"
    by (auto simp: AddGenesisValidatorCmd_def Let_def omit_empty_def split: if_splits dest!: wr file_lawsD(3) [OF laws]) blast
  show "?P3 \<Longrightarrow> ?Q3" by (auto simp: SetGenesisOracleAdminCmd_def dest!: wr file_lawsD(3) [OF laws])
  show "?P4 \<Longrightarrow> ?Q4" by (auto simp: SetGenesisWhitelisterAdminCmd_def dest!: wr file_lawsD(4) [OF laws]) blast
  show "?P5 \<Longrightarrow> ?Q5" by (auto simp: SetGenesisDenomWhitelist_def dest!: wr file_lawsD(4) [OF laws])
qed

text \<open>The five commands one after the other: what the modules find in the genesis file.\<close>

lemma commands_write:
  assumes laws: "file_laws S E"
    and 1: "AddGenesisCLPAdminCmd S E f0 x = Inr f1" and 2: "AddGenesisValidatorCmd S E f1 v = Inr f2"
    and 3: "SetGenesisOracleAdminCmd S E f2 y = Inr f3" and 4: "SetGenesisWhitelisterAdminCmd S E f3 z = Inr f4"
    and 5: "SetGenesisDenomWhitelist E f4 path = Inr f5" and rd: "GenesisStateFromGenFile E f5 = Inr (gs, doc)"
  obtains a val b c wl clp j1 ora vs j2 tr j3 where "account_arg S E x = Inr a" "ValAddressFromBech32 S v = Inr val"
    "account_arg S E y = Inr b" "account_arg S E z = Inr c" "ParseDenoms E path = Inr wl"
    "gs clp_ModuleName = Some j1" "UnmarshalJSON_clp E j1 = Inr clp" "AccAddress_String S a \<in> set (AddressWhitelist clp)"
    "gs oracle_ModuleName = Some j2" "UnmarshalJSON_oracle E j2 = Inr ora" "og_AdminAddress ora = AccAddress_String S b"
    "og_AddressWhitelist ora = Some vs" "ValAddress_String S val \<in> set vs"
    "gs tr_ModuleName = Some j3" "UnmarshalJSON_tr E j3 = Inr tr" "trg_AdminAccount tr = AccAddress_String S c" "trg_Registry tr = Some wl"
proof -
  have ne: "clp_ModuleName \<noteq> oracle_ModuleName" "clp_ModuleName \<noteq> tr_ModuleName" "oracle_ModuleName \<noteq> tr_ModuleName"
    by (simp_all add: clp_ModuleName_def oracle_ModuleName_def tr_ModuleName_def)
  obtain a gs0 g1 j1 d1 where a: "account_arg S E x = Inr a" and r1: "GenesisStateFromGenFile E f1 = Inr (gs0(clp_ModuleName \<mapsto> j1), d1)"
    and u1: "UnmarshalJSON_clp E j1 = Inr (g1\<lparr>AddressWhitelist := AddressWhitelist g1 @ [AccAddress_String S a]\<rparr>)"
    using commands_read(1) [OF laws 1] by blast
  obtain val g2 vs j2 d2 where val: "ValAddressFromBech32 S v = Inr val"
    and r2: "GenesisStateFromGenFile E f2 = Inr (gs0(clp_ModuleName \<mapsto> j1, oracle_ModuleName \<mapsto> j2), d2)"
    and u2: "UnmarshalJSON_oracle E j2 = Inr (g2\<lparr>og_AddressWhitelist := Some (vs @ [ValAddress_String S val])\<rparr>)"
    using commands_read(2) [OF laws 2] r1 by auto
  obtain b j3 d3 where b: "account_arg S E y = Inr b"
    and r3: "GenesisStateFromGenFile E f3 = Inr (gs0(clp_ModuleName \<mapsto> j1, oracle_ModuleName \<mapsto> j3), d3)"
    and u3: "UnmarshalJSON_oracle E j3 = Inr (g2\<lparr>og_AddressWhitelist := Some (vs @ [ValAddress_String S val]), og_AdminAddress := AccAddress_String S b\<rparr>)"
    using commands_read(3) [OF laws 3] r2 u2 by (auto simp: oracle_GetGenesisStateFromAppState_def omit_empty_def)
  obtain c g4 j4 d4 where c: "account_arg S E z = Inr c"
    and r4: "GenesisStateFromGenFile E f4 = Inr (gs0(clp_ModuleName \<mapsto> j1, oracle_ModuleName \<mapsto> j3, tr_ModuleName \<mapsto> j4), d4)"
    and u4: "UnmarshalJSON_tr E j4 = Inr (g4\<lparr>trg_AdminAccount := AccAddress_String S c\<rparr>)"
    using commands_read(4) [OF laws 4] r3 by auto
  obtain wl j5 where wl: "ParseDenoms E path = Inr wl"
    and gs: "gs = gs0(clp_ModuleName \<mapsto> j1, oracle_ModuleName \<mapsto> j3, tr_ModuleName \<mapsto> j5)"
    and u5: "UnmarshalJSON_tr E j5 = Inr (g4\<lparr>trg_AdminAccount := AccAddress_String S c, trg_Registry := Some wl\<rparr>)"
    using commands_read(5) [OF laws 5] r4 u4 rd by (auto simp: tr_GetGenesisStateFromAppState_def)
  show ?thesis
    by (rule that [where vs = "vs @ [ValAddress_String S val]", OF a val b c wl _ u1 _ _ u3 _ _ _ _ u5]) (use ne in \<open>simp_all add: gs\<close>)
qed

text \<open>
  C28: The commands that prepare the genesis file do what they say. If an admin of the liquidity pools, a validator of the bridge, the
  admin of the oracle, the admin of the token registry and the list of tokens are set one after the other and a chain starts from the
  file, then the first account may decommission pools, the validator may vote, the oracle's admin and no other account manages the
  validators, the registry's admin and no other account the registry, and the registry is the list: no command undoes another
  one, and no module's genesis does.
\<close>

theorem commands_set_admins:
  assumes addr: "addr_laws S" and laws: "file_laws S E" and mm: "manager_laws E"
    and cmds: "AddGenesisCLPAdminCmd S E f0 x = Inr f1" "AddGenesisValidatorCmd S E f1 v = Inr f2"
      "SetGenesisOracleAdminCmd S E f2 y = Inr f3" "SetGenesisWhitelisterAdminCmd S E f3 z = Inr f4" "SetGenesisDenomWhitelist E f4 path = Inr f5"
    and rd: "GenesisStateFromGenFile E f5 = Inr (gs, doc)" and run: "InitChainer S E ctx (AppState doc) = Inr ctx'"
  shows "\<exists>a val b c wl. account_arg S E x = Inr a \<and> ValidateAddress S ctx' a = Inr True \<and>
    ValAddressFromBech32 S v = Inr val \<and> oracle_ValidateAddress S ctx' val = Inr True \<and>
    account_arg S E y = Inr b \<and> (\<forall>u. oracle_IsAdminAccount ctx' u = Inr (u = b)) \<and>
    account_arg S E z = Inr c \<and> (\<forall>u. IsAdminAccount ctx' u = Inr (u = c)) \<and>
    ParseDenoms E path = Inr wl \<and> GetRegistry ctx' = Inr wl"
proof -
  obtain a val b c wl clp j1 ora vs j2 tr j3 where arg: "account_arg S E x = Inr a" "account_arg S E y = Inr b" "account_arg S E z = Inr c"
    and val: "ValAddressFromBech32 S v = Inr val" and wl: "ParseDenoms E path = Inr wl"
    and clp: "gs clp_ModuleName = Some j1" "UnmarshalJSON_clp E j1 = Inr clp" "AccAddress_String S a \<in> set (AddressWhitelist clp)"
    and ora: "gs oracle_ModuleName = Some j2" "UnmarshalJSON_oracle E j2 = Inr ora" "og_AdminAddress ora = AccAddress_String S b"
      "og_AddressWhitelist ora = Some vs" "ValAddress_String S val \<in> set vs"
    and tr: "gs tr_ModuleName = Some j3" "UnmarshalJSON_tr E j3 = Inr tr" "trg_AdminAccount tr = AccAddress_String S c" "trg_Registry tr = Some wl"
    by (rule commands_write [OF laws cmds rd])
  note va = account_arg_valid [OF addr laws arg(1)] and vb = account_arg_valid [OF addr laws arg(2)] and vc = account_arg_valid [OF addr laws arg(3)]
  have vv: "ValAddressFromBech32 S (ValAddress_String S val) = Inr val" using addr val unfolding addr_laws_def by blast
  from run file_lawsD(6) [OF laws rd] obtain s c1 c2 c3 c4 where
    i: "init_module gs (ctx\<lparr>sdk_state := s\<rparr>) (clp_ModuleName, clp_module_InitGenesis S E) = Inr c1"
      "init_module gs c1 (oracle_ModuleName, oracle_module_InitGenesis S E) = Inr c2"
      "init_module gs c2 (eth_ModuleName, eth_module_InitGenesis S E) = Inr c3"
      "init_module gs c3 (disp_ModuleName, disp_module_InitGenesis S E) = Inr c4"
      "init_module gs c4 (tr_ModuleName, tr_module_InitGenesis S E) = Inr ctx'"
    by (auto elim: InitChainer_steps [OF mm])
  have "clp_InitGenesis S (ctx\<lparr>sdk_state := s\<rparr>) clp = Inr c1" using i(1) clp by (simp add: init_module_def clp_module_InitGenesis_def)
  then have 1: "ValidateAddress S c1 a = Inr True" by (rule clp_InitGenesis_admins [OF addr _ clp(3) va(1)])
  have o: "oracle_InitGenesis S c1 ora = Inr c2" using i(2) ora by (simp add: init_module_def oracle_module_InitGenesis_def)
  then have 2: "oracle_GetAdminAccount c2 = Inr b" by (rule oracle_InitGenesis_admin) (use vb ora(3) in simp_all)
  have v2: "oracle_ValidateAddress S c2 val = Inr True" by (rule oracle_InitGenesis_validators [OF addr o ora(4,5) vv file_lawsD(8) [OF laws vv]])
  have "tr_InitGenesis S c4 tr = Inr ctx'" using i(5) tr by (simp add: init_module_def tr_module_InitGenesis_def)
  from tr_InitGenesis_sets [OF this _ _ tr(4), of c] vc tr(3)
  have 3: "GetAdminAccount ctx' = Inr c" "GetRegistry ctx' = Inr wl" "\<exists>s. ctx' = c4\<lparr>tr_kv := s\<rparr>" by simp_all
  have kv: "clp_kv ctx' = clp_kv c1" "oracle_kv ctx' = oracle_kv c2"
    using 3(3) init_frames(1) [OF i(2)] init_frames(2) [OF i(3)] init_frames(3) [OF i(4)] by auto
  have "ValidateAddress S ctx' a = Inr True" "oracle_GetAdminAccount ctx' = Inr b" "oracle_ValidateAddress S ctx' val = Inr True"
    using 1 2 v2 admins_by_store(1) [OF kv(1)] admins_by_store(2,3) [OF kv(2)] by simp_all
  then show ?thesis using arg wl val 3(1,2) vb(2) vc(2) by (auto simp: oracle_IsAdminAccount_def IsAdminAccount_def valid_address_def)
qed

section \<open>An example\<close>

text \<open>
  A codec that keeps the values as they are, a key ring with one key, and a bank whose genesis gives the modules the coins of the
  example of theory \<open>App\<close>.
\<close>

datatype ex_json = JApp "string \<rightharpoonup> ex_json" | JClp clp_genesis | JOracle oracle_genesis | JEth eth_genesis | JDisp disp_genesis
  | JTr tr_genesis | JRegistry registry

definition bad_json :: "'a result" where "bad_json = Inl (ErrNew ''json'')"

definition ref_genesis :: "(ref_state, ex_json, unit, (ex_json, unit) gen_doc) genesis_env" where
  "ref_genesis = \<lparr>
     UnmarshalJSON_app = (\<lambda>j. case j of JApp f \<Rightarrow> Inr f | _ \<Rightarrow> bad_json),
     UnmarshalJSON_clp = (\<lambda>j. case j of JClp g \<Rightarrow> Inr g | _ \<Rightarrow> bad_json),
     UnmarshalJSON_oracle = (\<lambda>j. case j of JOracle g \<Rightarrow> Inr g | _ \<Rightarrow> bad_json),
     UnmarshalJSON_eth = (\<lambda>j. case j of JEth g \<Rightarrow> Inr g | _ \<Rightarrow> bad_json),
     UnmarshalJSON_disp = (\<lambda>j. case j of JDisp g \<Rightarrow> Inr g | _ \<Rightarrow> bad_json),
     UnmarshalJSON_tr = (\<lambda>j. case j of JTr g \<Rightarrow> Inr g | _ \<Rightarrow> bad_json),
     UnmarshalJSON_Registry = (\<lambda>j. case j of JRegistry r \<Rightarrow> Inr r | _ \<Rightarrow> bad_json),
     Marshal_app = (\<lambda>f. Inr (JApp f)), Marshal_clp = (\<lambda>g. Inr (JClp g)), Marshal_oracle = (\<lambda>g. Inr (JOracle (omit_empty g))),
     Marshal_tr = (\<lambda>g. Inr (JTr g)),
     SetModuleVersionMap = id, SDK_InitGenesis = (\<lambda>_ _. Inr (sdk_state ex_app)), mm_InitGenesis = (\<lambda>gs. fold_r (init_module gs)), SetModuleAccount = (\<lambda>b _ _. b),
     keyring_New = Inr (), keyring_Key = (\<lambda>n. if n = ''operator'' then Inr ''bob'' else Inl (ErrNew ''key not found'')),
     filepath_Abs = Inr, genesis_ReadFile = (\<lambda>_. Inr (JRegistry [Some (clp_entry (''aku'', 18)), Some (clp_entry (''ceth'', 18))])),
     GenesisStateFromGenFile = (\<lambda>doc. case AppState doc of JApp f \<Rightarrow> Inr (f, doc) | _ \<Rightarrow> bad_json),
     ExportGenesisFile = (\<lambda>doc. case AppState doc of JApp _ \<Rightarrow> Inr doc | _ \<Rightarrow> bad_json)\<rparr>"

definition ex_clp_genesis :: clp_genesis where
  "ex_clp_genesis = \<lparr>MinCreatePoolThreshold = 100, AddressWhitelist = [ref_String ''admin''], PoolList = [ex_pool_of 4000000 2000000 4000000],
     LiquidityProviders = [ex_lp_of 4000000]\<rparr>"

definition ex_oracle_genesis :: oracle_genesis where
  "ex_oracle_genesis = \<lparr>og_AddressWhitelist = Some [ref_String ''v1''], og_AdminAddress = ref_String ''bob'', og_Prophecies = []\<rparr>"

definition ex_disp_genesis :: disp_genesis where
  "ex_disp_genesis = \<lparr>g_DistributionRecords = Some [drop_record], g_Distributions = None, g_Claims = None\<rparr>"

definition ex_tr_genesis :: tr_genesis where
  "ex_tr_genesis = \<lparr>trg_AdminAccount = ref_String ''admin'', trg_Registry = Some [Some (clp_entry (''aku'', 18)), Some (clp_entry (''ceth'', 18))]\<rparr>"

definition ex_gs :: "ex_json app_state" where
  "ex_gs = [clp_ModuleName \<mapsto> JClp ex_clp_genesis, oracle_ModuleName \<mapsto> JOracle ex_oracle_genesis,
     eth_ModuleName \<mapsto> JEth \<lparr>eg_CethReceiveAccount = [], eg_PeggyTokens = [''ceth'']\<rparr>, disp_ModuleName \<mapsto> JDisp ex_disp_genesis,
     tr_ModuleName \<mapsto> JTr ex_tr_genesis]"

lemma ref_genesis_sel [simp]:
  "UnmarshalJSON_app ref_genesis (JApp gs) = Inr gs" "UnmarshalJSON_clp ref_genesis (JClp g1) = Inr g1"
  "UnmarshalJSON_oracle ref_genesis (JOracle g2) = Inr g2" "UnmarshalJSON_eth ref_genesis (JEth g3) = Inr g3"
  "UnmarshalJSON_disp ref_genesis (JDisp g4) = Inr g4" "UnmarshalJSON_tr ref_genesis (JTr g5) = Inr g5"
  "SetModuleVersionMap ref_genesis b = b" "SDK_InitGenesis ref_genesis gs b = Inr (sdk_state ex_app)"
  "SetModuleAccount ref_genesis b m ps = b"
  by (simp_all add: ref_genesis_def)

lemma module_names [simp]:
  "clp_ModuleName \<noteq> oracle_ModuleName" "clp_ModuleName \<noteq> eth_ModuleName" "clp_ModuleName \<noteq> disp_ModuleName" "clp_ModuleName \<noteq> tr_ModuleName"
  "oracle_ModuleName \<noteq> eth_ModuleName" "oracle_ModuleName \<noteq> disp_ModuleName" "oracle_ModuleName \<noteq> tr_ModuleName"
  "eth_ModuleName \<noteq> disp_ModuleName" "eth_ModuleName \<noteq> tr_ModuleName" "disp_ModuleName \<noteq> tr_ModuleName"
  by (simp_all add: clp_ModuleName_def oracle_ModuleName_def eth_ModuleName_def disp_ModuleName_def tr_ModuleName_def)

lemmas module_names_sym [simp] = module_names [symmetric]

lemma ex_gs_sel [simp]:
  "ex_gs clp_ModuleName = Some (JClp ex_clp_genesis)" "ex_gs oracle_ModuleName = Some (JOracle ex_oracle_genesis)"
  "ex_gs eth_ModuleName = Some (JEth \<lparr>eg_CethReceiveAccount = [], eg_PeggyTokens = [''ceth'']\<rparr>)"
  "ex_gs disp_ModuleName = Some (JDisp ex_disp_genesis)" "ex_gs tr_ModuleName = Some (JTr ex_tr_genesis)"
  using module_names by (simp_all add: ex_gs_def)

lemma ref_genesis_laws: "genesis_laws ref_sdk ref_genesis"
  by (simp add: genesis_laws_def ref_bal ref_bal_of_def)

lemma ref_manager_laws: "manager_laws ref_genesis"
  by (simp add: manager_laws_def ref_genesis_def)

lemma ex_genesis_ok: "genesis_ok ref_sdk ref_genesis (sdk_state ex_app) ex_gs"
proof -
  have "clp_genesis_ok ref_sdk (sdk_state ex_app) ex_clp_genesis"
    by (simp add: clp_genesis_ok_def ex_clp_genesis_def pool_nonneg_def pool_owes.simps ex_denoms ref_bal ref_bal_of_def ex_app_def ex_bank_def
        GetCLPModuleAddress_def clp_ModuleName_def disp_ModuleName_def ref_ModuleAddress_def)
  moreover have "disp_genesis_ok ref_sdk (sdk_state ex_app) ex_disp_genesis"
    using ex_app_inv by (simp add: disp_genesis_ok_def ex_disp_genesis_def app_inv_def disp_inv_def due_def ex_app_def drop_ctx_def disp_held_def)
  moreover have "oracle_genesis_ok ref_sdk ex_oracle_genesis" by (simp add: oracle_genesis_ok_def ex_oracle_genesis_def)
  moreover have "tr_genesis_ok ex_tr_genesis"
  proof -
    have "unique_names [Some (clp_entry (''aku'', 18)), Some (clp_entry (''ceth'', 18))]" by code_simp
    then show ?thesis by (simp add: tr_genesis_ok_def ex_tr_genesis_def)
  qed
  moreover have "0 \<le> bal ref_sdk (sdk_state ex_app) a d" for a d
    by (simp add: ref_bal ref_bal_of_def ex_app_def ex_bank_def)
  ultimately show ?thesis by (simp add: genesis_ok_def)
qed

lemma ex_chain_starts: "\<exists>ctx. InitChainer ref_sdk ref_genesis ref_ctx (JApp ex_gs) = Inr ctx"
proof -
  have clp: "\<exists>c'. clp_InitGenesis ref_sdk c ex_clp_genesis = Inr c'" for c :: "ref_state ctx"
    by (simp add: clp_InitGenesis_def ex_clp_genesis_def clp_SetParams_def validateMinCreatePoolThreshold_def parse_addr_def
        ref_FromBech32_String ex_SetPool ex_SetLiquidityProvider Let_def)
  have orc: "\<exists>c'. oracle_InitGenesis ref_sdk c ex_oracle_genesis = Inr c'" for c :: "ref_state ctx"
    by (simp add: oracle_InitGenesis_def ex_oracle_genesis_def ref_FromBech32_String)
  have disp: "\<exists>c'. disp_InitGenesis ref_sdk c ex_disp_genesis = Inr c'" for c :: "ref_state ctx"
    using drop_wf by (simp add: disp_InitGenesis_def ex_disp_genesis_def SetDistributionRecord_def disp_wf_def drop_ctx_def)
  have tr: "\<exists>c'. tr_InitGenesis ref_sdk c ex_tr_genesis = Inr c'" for c :: "ref_state ctx"
    by (simp add: tr_InitGenesis_def ex_tr_genesis_def tr_SetRegistry_def ref_FromBech32_String)
  obtain c1 where c1: "clp_InitGenesis ref_sdk (ref_ctx\<lparr>sdk_state := sdk_state ex_app\<rparr>) ex_clp_genesis = Inr c1" using clp by blast
  obtain c2 where c2: "oracle_InitGenesis ref_sdk c1 ex_oracle_genesis = Inr c2" using orc by blast
  have e2: "kv_get (eth_kv c2) PeggyTokenKeyPrefix = None"
    using clp_InitGenesis_starts(2) [OF ex_laws ref_genesis_laws _ _ c1] oracle_InitGenesis_frame [OF c2] ex_genesis_ok
    by (auto simp: genesis_ok_def outside_clp_def ref_ctx_def)
  obtain c3 where c3: "eth_InitGenesis ref_sdk c2 \<lparr>eg_CethReceiveAccount = [], eg_PeggyTokens = [''ceth'']\<rparr> = Inr c3"
    using e2 by (auto simp: eth_InitGenesis_def AddPeggyToken_def ExistsPeggyToken_def GetPeggyToken_def eth_Exists_def kv_has_def)
  obtain c4 where c4: "disp_InitGenesis ref_sdk c3 ex_disp_genesis = Inr c4" using disp by blast
  obtain c5 where c5: "tr_InitGenesis ref_sdk c4 ex_tr_genesis = Inr c5" using tr by blast
  show ?thesis
    using ref_manager_laws
    by (simp add: manager_laws_def InitChainer_def init_order_def init_module_def Let_def clp_module_InitGenesis_def oracle_module_InitGenesis_def
        eth_module_InitGenesis_def disp_module_InitGenesis_def tr_module_InitGenesis_def c1 c2 c3 c4 c5)
qed

theorem chain_sound_from_genesis_witness:
  "\<exists>ctx. InitChainer ref_sdk ref_genesis ref_ctx (JApp ex_gs) = Inr ctx \<and>
     (let ctx' = run (app_Handler ref_sdk ref_geth (ex_keeper True) ref_ibc) ctx ex_app_msgs in
       (\<forall>d. due (disp_kv ctx') d \<le> disp_held ref_sdk ctx' d) \<and> oracle_inv ref_sdk ctx' \<and> solvent ref_sdk ctx' \<and> tr_inv ctx')"
proof -
  obtain ctx where ctx: "InitChainer ref_sdk ref_genesis ref_ctx (JApp ex_gs) = Inr ctx" using ex_chain_starts by blast
  have l: "eth_laws ref_sdk ref_geth" using ex_app_inv by (simp add: app_inv_def eth_inv_def)
  have g: "fresh ref_ctx" "UnmarshalJSON_app ref_genesis (JApp ex_gs) = Inr ex_gs"
    "SDK_InitGenesis ref_genesis ex_gs (SetModuleVersionMap ref_genesis (sdk_state ref_ctx)) = Inr (sdk_state ex_app)"
    by (simp_all add: fresh_def ref_ctx_def)
  from chain_sound_from_genesis [OF ex_laws ref_disp_laws l ref_genesis_laws g(1) ref_manager_laws g(2,3) ex_genesis_ok ctx
      ex_app_transfer ex_app_apart ex_app_signed, of "ex_keeper True"]
  show ?thesis using ctx ex_app_admissible by (simp add: Let_def)
qed

text \<open>The same genesis, written by the commands into a file that has no admins, validators and tokens yet.\<close>

definition ex_gs0 :: "ex_json app_state" where
  "ex_gs0 = ex_gs(clp_ModuleName \<mapsto> JClp (ex_clp_genesis\<lparr>AddressWhitelist := []\<rparr>),
     oracle_ModuleName \<mapsto> JOracle (ex_oracle_genesis\<lparr>og_AddressWhitelist := None, og_AdminAddress := []\<rparr>), tr_ModuleName := None)"

abbreviation "ex_doc gs \<equiv> \<lparr>AppState = JApp gs, doc_Rest = ()\<rparr>"

lemma ref_file_laws: "file_laws ref_sdk ref_genesis"
proof -
  have blank: "TrimSpace s \<noteq> []" if "ref_FromBech32 s = Inr a" for s a
  proof -
    have "s \<noteq> [] \<and> (hd s = CHR ''a'' \<or> hd s = CHR ''A'')"
      using that by (cases s) (auto simp: ref_FromBech32_def HasPrefix_def Let_def valid_address_def split: if_splits)
    then show ?thesis by (cases s) (auto simp: TrimSpace_def is_space_def dropWhile_append)
  qed
  show ?thesis
    by (auto simp: file_laws_def ref_genesis_def bad_json_def valid_address_def blank split: ex_json.splits if_splits)
qed

definition ex_gs_steps :: "nat \<Rightarrow> ex_json app_state" where
  "ex_gs_steps n =
     (let gs1 = ex_gs0(clp_ModuleName \<mapsto> JClp ex_clp_genesis); 
          gs2 = gs1(oracle_ModuleName \<mapsto> JOracle (ex_oracle_genesis\<lparr>og_AdminAddress := []\<rparr>));
          gs3 = gs2(oracle_ModuleName \<mapsto> JOracle ex_oracle_genesis);
          gs4 = gs3(tr_ModuleName \<mapsto> JTr (ex_tr_genesis\<lparr>trg_Registry := None\<rparr>))
      in [gs1, gs2, gs3, gs4, gs4(tr_ModuleName \<mapsto> JTr ex_tr_genesis)] ! n)"

lemma ex_commands:
  "AddGenesisCLPAdminCmd ref_sdk ref_genesis (ex_doc ex_gs0) (ref_String ''admin'') = Inr (ex_doc (ex_gs_steps 0))"
  "AddGenesisValidatorCmd ref_sdk ref_genesis (ex_doc (ex_gs_steps 0)) (ref_String ''v1'') = Inr (ex_doc (ex_gs_steps 1))"
  "SetGenesisOracleAdminCmd ref_sdk ref_genesis (ex_doc (ex_gs_steps 1)) ''operator'' = Inr (ex_doc (ex_gs_steps 2))"
  "SetGenesisWhitelisterAdminCmd ref_sdk ref_genesis (ex_doc (ex_gs_steps 2)) (ref_String ''admin'') = Inr (ex_doc (ex_gs_steps 3))"
  "SetGenesisDenomWhitelist ref_genesis (ex_doc (ex_gs_steps 3)) ''denoms.json'' = Inr (ex_doc (ex_gs_steps 4))"
proof -
  have op: "ref_FromBech32 ''operator'' \<noteq> Inr a" for a by (simp add: ref_FromBech32_def HasPrefix_def)
  have args: "account_arg ref_sdk ref_genesis (ref_String ''admin'') = Inr ''admin''" "account_arg ref_sdk ref_genesis ''operator'' = Inr ''bob''"
    using op by (auto simp: account_arg_def ref_FromBech32_String ref_genesis_def split: sum.splits)
  note d = ex_gs_steps_def write_genesis_def Let_def ref_genesis_def ex_gs0_def
  show "AddGenesisCLPAdminCmd ref_sdk ref_genesis (ex_doc ex_gs0) (ref_String ''admin'') = Inr (ex_doc (ex_gs_steps 0))"
    unfolding AddGenesisCLPAdminCmd_def args by (simp add: d clp_GetGenesisStateFromAppState_def ex_clp_genesis_def)
  show "AddGenesisValidatorCmd ref_sdk ref_genesis (ex_doc (ex_gs_steps 0)) (ref_String ''v1'') = Inr (ex_doc (ex_gs_steps 1))"
    unfolding AddGenesisValidatorCmd_def by (simp add: d oracle_GetGenesisStateFromAppState_def ex_oracle_genesis_def omit_empty_def ref_FromBech32_String)
  show "SetGenesisOracleAdminCmd ref_sdk ref_genesis (ex_doc (ex_gs_steps 1)) ''operator'' = Inr (ex_doc (ex_gs_steps 2))"
    unfolding SetGenesisOracleAdminCmd_def args by (simp add: d oracle_GetGenesisStateFromAppState_def ex_oracle_genesis_def omit_empty_def)
  show "SetGenesisWhitelisterAdminCmd ref_sdk ref_genesis (ex_doc (ex_gs_steps 2)) (ref_String ''admin'') = Inr (ex_doc (ex_gs_steps 3))"
    unfolding SetGenesisWhitelisterAdminCmd_def args by (simp add: d tr_UnmarshalGenesis_def ex_tr_genesis_def)
  show "SetGenesisDenomWhitelist ref_genesis (ex_doc (ex_gs_steps 3)) ''denoms.json'' = Inr (ex_doc (ex_gs_steps 4))"
    unfolding SetGenesisDenomWhitelist_def by (simp add: d tr_GetGenesisStateFromAppState_def ParseDenoms_def ex_tr_genesis_def)
qed

lemma ex_commands_end: "ex_gs_steps 4 = ex_gs"
  by (simp add: ex_gs_steps_def ex_gs0_def ex_gs_def Let_def fun_eq_iff)

theorem commands_set_admins_witness:
  "\<exists>ctx. InitChainer ref_sdk ref_genesis ref_ctx (JApp (ex_gs_steps 4)) = Inr ctx \<and> ValidateAddress ref_sdk ctx ''admin'' = Inr True \<and>
     oracle_ValidateAddress ref_sdk ctx ''v1'' = Inr True \<and>
     (\<forall>u. oracle_IsAdminAccount ctx u = Inr (u = ''bob'')) \<and> (\<forall>u. IsAdminAccount ctx u = Inr (u = ''admin'')) \<and>
     GetRegistry ctx = Inr [Some (clp_entry (''aku'', 18)), Some (clp_entry (''ceth'', 18))]"
proof -
  obtain ctx where ctx: "InitChainer ref_sdk ref_genesis ref_ctx (JApp (ex_gs_steps 4)) = Inr ctx"
    using ex_chain_starts unfolding ex_commands_end by blast
  have rd: "GenesisStateFromGenFile ref_genesis (ex_doc (ex_gs_steps 4)) = Inr (ex_gs_steps 4, ex_doc (ex_gs_steps 4))"
    by (simp add: ref_genesis_def)
  have "ref_FromBech32 ''operator'' \<noteq> Inr a" for a by (simp add: ref_FromBech32_def HasPrefix_def)
  then have args: "account_arg ref_sdk ref_genesis (ref_String ''admin'') = Inr ''admin''" "account_arg ref_sdk ref_genesis ''operator'' = Inr ''bob''"
    "ParseDenoms ref_genesis ''denoms.json'' = Inr [Some (clp_entry (''aku'', 18)), Some (clp_entry (''ceth'', 18))]"
    by (auto simp: account_arg_def ref_FromBech32_String ref_genesis_def ParseDenoms_def split: sum.splits)
  have "InitChainer ref_sdk ref_genesis ref_ctx (AppState (ex_doc (ex_gs_steps 4))) = Inr ctx" using ctx by simp
  from commands_set_admins [OF ref_addr_laws ref_file_laws ref_manager_laws ex_commands rd this] show ?thesis using ctx args by (auto simp: ref_FromBech32_String)
qed

end
