(* ===== verification/Relayer_Parser.thy ===== *)
theory Relayer_Parser
  imports EthBridge "HOL-Library.Word"
begin

text \<open>
  The events of the relayer and how it reads them (\<^verbatim>\<open>cmd/ebrelayer/types\<close>, \<^verbatim>\<open>cmd/ebrelayer/txs/parser.go\<close> and
  \<^verbatim>\<open>cmd/ebrelayer/internal\<close>): the attributes of the events that the bridge of this chain emits become messages for Ethereum,
  and the events of the contracts on Ethereum become claims for this chain.
\<close>

section \<open>Types\<close>

datatype relay_event =
    Ev_Unsupported
  | Ev_MsgBurn
  | Ev_MsgLock
  | Ev_LogLock
  | Ev_LogBurn
  | Ev_LogNewProphecyClaim
  | Ev_NewProphecyClaim
  | Ev_CreateEthBridgeClaim

fun Event_String :: "relay_event \<Rightarrow> string" where
  "Event_String Ev_Unsupported = ''unsupported''"
| "Event_String Ev_MsgBurn = ''burn''"
| "Event_String Ev_MsgLock = ''lock''"
| "Event_String Ev_LogLock = ''LogLock''"
| "Event_String Ev_LogBurn = ''LogBurn''"
| "Event_String Ev_LogNewProphecyClaim = ''LogNewProphecyClaim''"
| "Event_String Ev_NewProphecyClaim = ''newProphecyClaim''"
| "Event_String Ev_CreateEthBridgeClaim = ''create_claim''"

record ethereum_event =
  ev_To :: string
  ev_Symbol :: string
  ev_EthereumChainID :: int
  ev_Value :: int
  ev_Nonce :: int
  ev_ClaimType :: int
  ev_ID :: string
  ev_BridgeContractAddress :: eth_address
  ev_From :: eth_address
  ev_Token :: eth_address

text \<open>\<open>None\<close> is the nil pointer of a sequence, or an amount, that no attribute gave.\<close>

record cosmos_msg =
  cm_CosmosSender :: string
  cm_CosmosSenderSequence :: "int option"
  cm_Symbol :: string
  cm_Amount :: "int option"
  cm_EthereumReceiver :: eth_address
  cm_ClaimType :: relay_event

definition NewCosmosMsg :: "relay_event \<Rightarrow> string \<Rightarrow> int option \<Rightarrow> eth_address \<Rightarrow> string \<Rightarrow> int option \<Rightarrow> cosmos_msg" where
  "NewCosmosMsg claimType cosmosSender cosmosSenderSequence ethereumReceiver symbol amount =
     \<lparr>cm_CosmosSender = cosmosSender, cm_CosmosSenderSequence = cosmosSenderSequence, cm_Symbol = symbol, cm_Amount = amount,
      cm_EthereumReceiver = ethereumReceiver, cm_ClaimType = claimType\<rparr>"

datatype attribute_key =
    UnsupportedAttributeKey
  | CosmosSender
  | CosmosSenderSequence
  | EthereumReceiver
  | AmountKey
  | SymbolKey
  | EthereumSender
  | EthereumSenderNonce

fun AttributeKey_String :: "attribute_key \<Rightarrow> string" where
  "AttributeKey_String UnsupportedAttributeKey = ''unsupported''"
| "AttributeKey_String CosmosSender = ''cosmos_sender''"
| "AttributeKey_String CosmosSenderSequence = ''cosmos_sender_sequence''"
| "AttributeKey_String EthereumReceiver = ''ethereum_receiver''"
| "AttributeKey_String AmountKey = ''amount''"
| "AttributeKey_String SymbolKey = ''symbol''"
| "AttributeKey_String EthereumSender = ''ethereum_sender''"
| "AttributeKey_String EthereumSenderNonce = ''ethereum_sender_nonce''"

record ethereum_bridge_claim =
  bc_EthereumSender :: eth_address
  bc_CosmosSender :: address
  bc_Nonce :: "int option"

record prophecy_claim_unique =
  pu_CosmosSenderSequence :: int
  pu_CosmosSender :: string

section \<open>Symbols\<close>

text \<open>
  The table of symbols is a two-way map of a third-party package; its keys and values are those of a JSON object, so
  that a value need not be a string.
\<close>

datatype json = JString string | JOther string

record 'm bimap =
  NewBiMap :: 'm
  BiMap_Insert :: "'m \<Rightarrow> json \<Rightarrow> json \<Rightarrow> 'm"
  BiMap_Get :: "'m \<Rightarrow> json \<Rightarrow> json option"
  BiMap_GetInverse :: "'m \<Rightarrow> json \<Rightarrow> json option"
  MakeImmutable :: "'m \<Rightarrow> 'm"

definition GetWithDefault :: "'m bimap \<Rightarrow> 'm \<Rightarrow> json \<Rightarrow> json \<Rightarrow> json" where
  "GetWithDefault B m k defaultValue = (case BiMap_Get B m k of Some result \<Rightarrow> result | None \<Rightarrow> defaultValue)"

definition GetInverseWithDefault :: "'m bimap \<Rightarrow> 'm \<Rightarrow> json \<Rightarrow> json \<Rightarrow> json" where
  "GetInverseWithDefault B m k defaultValue = (case BiMap_GetInverse B m k of Some result \<Rightarrow> result | None \<Rightarrow> defaultValue)"

text \<open>The type assertion \<^verbatim>\<open>.(string)\<close>.\<close>

fun assert_string :: "json \<Rightarrow> string result" where
  "assert_string (JString s) = Inr s"
| "assert_string (JOther s) = Inl (Panic ''interface conversion'')"

definition SifchainToEthereum :: "'m bimap \<Rightarrow> 'm \<Rightarrow> string \<Rightarrow> string result" where
  "SifchainToEthereum B symbolTable denom = assert_string (GetWithDefault B symbolTable (JString denom) (JString denom))"

definition EthereumToSifchain :: "'m bimap \<Rightarrow> 'm \<Rightarrow> string \<Rightarrow> string result" where
  "EthereumToSifchain B symbolTable symbol = assert_string (GetInverseWithDefault B symbolTable (JString symbol) (JString symbol))"

definition NewSymbolTranslator :: "'m bimap \<Rightarrow> 'm" where
  "NewSymbolTranslator B = NewBiMap B"

text \<open>The object of the file comes as the list of its entries in the order in which Go ranges over the map.\<close>

definition NewSymbolTranslatorFromJSONBytes :: "'m bimap \<Rightarrow> (string \<Rightarrow> (string \<times> json) list result) \<Rightarrow> string \<Rightarrow> 'm result" where
  "NewSymbolTranslatorFromJSONBytes B unmarshal jsonContents =
     bind_r (unmarshal jsonContents) (\<lambda>symbolMap.
     let symbolBiMap = foldl (\<lambda>m (k, v). BiMap_Insert B m (JString k) v) (NewBiMap B) symbolMap
     in Inr (MakeImmutable B symbolBiMap))"

definition NewSymbolTranslatorFromJSONFile ::
    "'m bimap \<Rightarrow> (string \<Rightarrow> (string \<times> json) list result) \<Rightarrow> (string \<Rightarrow> string result) \<Rightarrow> string \<Rightarrow> 'm result" where
  "NewSymbolTranslatorFromJSONFile B unmarshal ReadFile filename =
     bind_r (ReadFile filename) (\<lambda>contents. NewSymbolTranslatorFromJSONBytes B unmarshal contents)"

definition buildSymbolTranslator ::
    "'m bimap \<Rightarrow> (string \<Rightarrow> (string \<times> json) list result) \<Rightarrow> (string \<Rightarrow> string result) \<Rightarrow> string result \<Rightarrow> 'm result" where
  "buildSymbolTranslator B unmarshal ReadFile flag =
     (case flag of
        Inl _ \<Rightarrow> Inr (NewSymbolTranslator B)
      | Inr filename \<Rightarrow>
          if filename = [] then Inr (NewSymbolTranslator B) else NewSymbolTranslatorFromJSONFile B unmarshal ReadFile filename)"

section \<open>From Ethereum to this chain\<close>

abbreviation (input) nullAddress :: string where "nullAddress \<equiv> ''0x0000000000000000000000000000000000000000''"
abbreviation (input) defaultSifchainPrefix :: char where "defaultSifchainPrefix \<equiv> CHR ''c''"

definition isZeroAddress :: "geth \<Rightarrow> eth_address \<Rightarrow> bool" where
  "isZeroAddress G address \<longleftrightarrow> address = HexToAddress G nullAddress"

text \<open>\<^verbatim>\<open>big.Int.Int64\<close> keeps the low 64 bits.\<close>

definition big_Int64 :: "int \<Rightarrow> int" where
  "big_Int64 n = sint (word_of_int n :: 64 word)"

definition EthereumEventToEthBridgeClaim ::
    "'b sdk \<Rightarrow> geth \<Rightarrow> 'm bimap \<Rightarrow> 'm \<Rightarrow> address \<Rightarrow> ethereum_event \<Rightarrow> eth_bridge_claim result" where
  "EthereumEventToEthBridgeClaim S G B symbolTable valAddr event =
     (let chainID = big_Int64 (ev_EthereumChainID event);
          bridgeContractAddress = NewEthereumAddress G (Address_String G (ev_BridgeContractAddress event));
          sender = NewEthereumAddress G (Address_String G (ev_From event)) in
     bind_r (AccAddressFromBech32 S (ev_To event)) (\<lambda>recipient.
     if recipient = [] then Inl (ErrNew ''empty recipient address'')
     else
     let tokenContractAddress = NewEthereumAddress G (Address_String G (ev_Token event)) in
     bind_r
       (if ev_ClaimType event = CLAIM_TYPE_LOCK
        then
          let symbol = ToLower (ev_Symbol event) in
          if symbol = ''eth'' \<and> \<not> isZeroAddress G (ev_Token event)
          then Inl (ErrNew ''symbol eth must have null address set as token address'')
          else Inr symbol
        else if ev_ClaimType event = CLAIM_TYPE_BURN
        then EthereumToSifchain B symbolTable (ev_Symbol event)
        else Inr (ev_Symbol event)) (\<lambda>symbol.
     bind_r (panics (NewIntFromBigInt S (ev_Value event))) (\<lambda>amount.
     let nonce = big_Int64 (ev_Nonce event) in
     Inr \<lparr>ec_EthereumChainId = chainID,
          ec_BridgeContractAddress = EthereumAddress_String G bridgeContractAddress,
          ec_Nonce = nonce,
          ec_Symbol = symbol,
          ec_TokenContractAddress = EthereumAddress_String G tokenContractAddress,
          ec_EthereumSender = EthereumAddress_String G sender,
          ec_CosmosReceiver = AccAddress_String S recipient,
          ec_ValidatorAddress = ValAddress_String S valAddr,
          ec_Amount = amount,
          ec_ClaimType = ev_ClaimType event\<rparr>))))"

section \<open>From this chain to Ethereum\<close>

text \<open>\<^verbatim>\<open>big.Int.SetString\<close> in base 10: an optional sign and digits.\<close>

definition big_SetString :: "string \<Rightarrow> int option" where
  "big_SetString s =
     (case s of
        [] \<Rightarrow> None
      | c # cs \<Rightarrow> if c = CHR ''+'' then (if cs \<noteq> [] \<and> list_all is_digit cs then Some (int (digits_val cs)) else None) else atoi s)"

text \<open>\<^verbatim>\<open>strings.SplitAfter\<close> with a separator of one character, and \<^verbatim>\<open>strings.Join\<close> with none.\<close>

fun SplitAfter :: "string \<Rightarrow> char \<Rightarrow> string list" where
  "SplitAfter [] sep = [[]]"
| "SplitAfter (x # xs) sep =
     (if x = sep then [x] # SplitAfter xs sep
      else case SplitAfter xs sep of [] \<Rightarrow> [[x]] | p # ps \<Rightarrow> (x # p) # ps)"

text \<open>The variables of the loop over the attributes.\<close>

record burn_lock_vars =
  v_cosmosSender :: string
  v_cosmosSenderSequence :: "int option"
  v_ethereumReceiver :: eth_address
  v_symbol :: string
  v_amount :: "int option"
  v_attributeNumber :: nat

definition burn_lock_zero :: burn_lock_vars where
  "burn_lock_zero = \<lparr>v_cosmosSender = [], v_cosmosSenderSequence = None, v_ethereumReceiver = replicate 20 (CHR 0x00),
     v_symbol = [], v_amount = None, v_attributeNumber = 0\<rparr>"

definition burn_lock_attribute ::
    "'b sdk \<Rightarrow> geth \<Rightarrow> 'm bimap \<Rightarrow> 'm \<Rightarrow> relay_event \<Rightarrow> burn_lock_vars \<Rightarrow> string \<times> string \<Rightarrow> burn_lock_vars result" where
  "burn_lock_attribute S G B symbolTable claimType v attribute =
     (let key = fst attribute; val = snd attribute; counted = v\<lparr>v_attributeNumber := v_attributeNumber v + 1\<rparr> in
      if key = AttributeKey_String CosmosSender then Inr (counted\<lparr>v_cosmosSender := val\<rparr>)
      else if key = AttributeKey_String CosmosSenderSequence then
        (case big_SetString val of
           None \<Rightarrow> Inl (ErrNew (''invalid account sequence: '' @ val))
         | Some tempSequence \<Rightarrow> Inr (counted\<lparr>v_cosmosSenderSequence := Some tempSequence\<rparr>))
      else if key = AttributeKey_String EthereumReceiver then
        (if \<not> IsHexAddress G val then Inl (ErrNew (''invalid recipient address: '' @ val))
         else Inr (counted\<lparr>v_ethereumReceiver := HexToAddress G val\<rparr>))
      else if key = AttributeKey_String SymbolKey then
        (if claimType = Ev_MsgLock
         then bind_r (SifchainToEthereum B symbolTable val) (\<lambda>symbol. Inr (counted\<lparr>v_symbol := symbol\<rparr>))
         else if claimType = Ev_MsgBurn
         then
           if \<not> Contains val [defaultSifchainPrefix]
           then Inl (ErrNew ''can only relay burns of '%v' prefixed coinsc'')
           else let res = SplitAfter val defaultSifchainPrefix in Inr (counted\<lparr>v_symbol := concat (tl res)\<rparr>)
         else Inr counted)
      else if key = AttributeKey_String AmountKey then
        (case NewIntFromString S val of
           None \<Rightarrow> Inl (ErrNew (''invalid amount:'' @ val))
         | Some tempAmount \<Rightarrow> Inr (counted\<lparr>v_amount := Some tempAmount\<rparr>))
      else Inr v)"

definition BurnLockEventToCosmosMsg ::
    "'b sdk \<Rightarrow> geth \<Rightarrow> 'm bimap \<Rightarrow> 'm \<Rightarrow> relay_event \<Rightarrow> (string \<times> string) list \<Rightarrow> cosmos_msg result" where
  "BurnLockEventToCosmosMsg S G B symbolTable claimType attributes =
     bind_r (fold_r (burn_lock_attribute S G B symbolTable claimType) burn_lock_zero attributes) (\<lambda>v.
     if v_attributeNumber v < 5 then Inl (ErrNew ''message not complete'')
     else Inr (NewCosmosMsg claimType (v_cosmosSender v) (v_cosmosSenderSequence v) (v_ethereumReceiver v) (v_symbol v) (v_amount v)))"

definition bridge_claim_attribute ::
    "'b sdk \<Rightarrow> geth \<Rightarrow> ethereum_bridge_claim \<Rightarrow> string \<times> string \<Rightarrow> ethereum_bridge_claim result" where
  "bridge_claim_attribute S G c attribute =
     (let key = fst attribute; val = snd attribute in
      if key = AttributeKey_String CosmosSender then
        bind_r (ValAddressFromBech32 S val) (\<lambda>cosmosSender. Inr (c\<lparr>bc_CosmosSender := cosmosSender\<rparr>))
      else if key = AttributeKey_String EthereumSender then
        (if \<not> IsHexAddress G val then Inl (ErrNew (''invalid recipient address: '' @ val))
         else Inr (c\<lparr>bc_EthereumSender := HexToAddress G val\<rparr>))
      else if key = AttributeKey_String EthereumSenderNonce then
        (case NewIntFromString S val of
           None \<Rightarrow> Inl (ErrNew (''invalid nonce:'' @ val))
         | Some tempNonce \<Rightarrow> Inr (c\<lparr>bc_Nonce := Some tempNonce\<rparr>))
      else Inr c)"

definition AttributesToEthereumBridgeClaim ::
    "'b sdk \<Rightarrow> geth \<Rightarrow> (string \<times> string) list \<Rightarrow> ethereum_bridge_claim result" where
  "AttributesToEthereumBridgeClaim S G attributes =
     fold_r (bridge_claim_attribute S G)
       \<lparr>bc_EthereumSender = replicate 20 (CHR 0x00), bc_CosmosSender = [], bc_Nonce = None\<rparr> attributes"

definition getOracleClaimType :: "string \<Rightarrow> relay_event" where
  "getOracleClaimType eventType =
     (if eventType = Event_String Ev_MsgBurn then Ev_MsgBurn
      else if eventType = Event_String Ev_MsgLock then Ev_MsgLock
      else Ev_Unsupported)"

section \<open>Claims that were sent before\<close>

text \<open>\<^verbatim>\<open>strconv.ParseUint\<close> in base 16.\<close>

definition hex_digit_val :: "char \<Rightarrow> nat option" where
  "hex_digit_val c =
     (let n = (of_char c :: nat) in
      if 48 \<le> n \<and> n \<le> 57 then Some (n - 48)
      else if 97 \<le> n \<and> n \<le> 102 then Some (n - 87)
      else if 65 \<le> n \<and> n \<le> 70 then Some (n - 55)
      else None)"

fun parse_hex :: "nat \<Rightarrow> nat \<Rightarrow> string \<Rightarrow> nat result" where
  "parse_hex width n [] = Inr n"
| "parse_hex width n (c # cs) =
     (case hex_digit_val c of
        None \<Rightarrow> Inl (ErrNew ''invalid syntax'')
      | Some d \<Rightarrow> if 2 ^ width \<le> n * 16 + d then Inl (ErrNew ''value out of range'') else parse_hex width (n * 16 + d) cs)"

definition ParseUint_hex :: "nat \<Rightarrow> string \<Rightarrow> nat result" where
  "ParseUint_hex width s = (if s = [] then Inl (ErrNew ''invalid syntax'') else parse_hex width 0 s)"

definition slice :: "nat \<Rightarrow> nat \<Rightarrow> 'a list \<Rightarrow> 'a list" where
  "slice i j xs = take (j - i) (drop i xs)"

definition MyDecode :: "string \<Rightarrow> prophecy_claim_unique result" where
  "MyDecode data =
     (if length data < 32 * 7 + 42 then Inl (ErrNew ''tx data length not enough'')
      else
      let src = slice 64 96 data; dst = hex_encode src in
      bind_r (ParseUint_hex 32 dst) (\<lambda>sequence.
      Inr \<lparr>pu_CosmosSenderSequence = int sequence, pu_CosmosSender = slice (32 * 7) (32 * 7 + 42) data\<rparr>))"

text \<open>Comparing with a sequence that is nil panics.\<close>

fun MessageProcessed :: "cosmos_msg \<Rightarrow> prophecy_claim_unique list \<Rightarrow> bool result" where
  "MessageProcessed message [] = Inr False"
| "MessageProcessed message (p # ps) =
     (if cm_CosmosSender message = pu_CosmosSender p
      then bind_r (deref (cm_CosmosSenderSequence message)) (\<lambda>n.
        if n = pu_CosmosSenderSequence p then Inr True else MessageProcessed message ps)
      else MessageProcessed message ps)"

fun EventProcessed :: "ethereum_bridge_claim list \<Rightarrow> ethereum_event \<Rightarrow> bool result" where
  "EventProcessed [] event = Inr False"
| "EventProcessed (c # cs) event =
     (if ev_From event = bc_EthereumSender c
      then bind_r (deref (bc_Nonce c)) (\<lambda>n. if ev_Nonce event = n then Inr True else EventProcessed cs event)
      else EventProcessed cs event)"

end
