(* ===== verification/Relayer.thy ===== *)
theory Relayer
  imports Relayer_Parser
begin

text \<open>
  The relayer (\<^verbatim>\<open>cmd/ebrelayer/txs\<close> and \<^verbatim>\<open>cmd/ebrelayer/relayer\<close>): it listens to both chains, sends what it reads on one to the
  other, remembers the last block it has processed, and can replay the events it missed. The nodes, the contracts, the key
  ring and the database are services outside: each call takes the state \<open>'w\<close> of the outside world and gives its next
  state, so that a service may answer differently each time. Log lines and pauses are left out.
\<close>

section \<open>The outside world\<close>

datatype contract_registry = Valset | Oracle | BridgeBank | CosmosBridge

fun ContractRegistry_String :: "contract_registry \<Rightarrow> string" where
  "ContractRegistry_String Valset = ''valset''"
| "ContractRegistry_String Oracle = ''oracle''"
| "ContractRegistry_String BridgeBank = ''bridgebank''"
| "ContractRegistry_String CosmosBridge = ''cosmosbridge''"

record transact_opts =
  to_Nonce :: int
  to_Value :: int
  to_GasLimit :: nat
  to_GasPrice :: int

record eth_log =
  lg_Topics :: "string list"
  lg_Data :: string
  lg_TxHash :: string

type_synonym ('w, 'a) io = "'w \<Rightarrow> 'w \<times> 'a result"

record ('w, 'key) services =
  Getenv :: "'w \<Rightarrow> string \<Rightarrow> string"
  HexToECDSA :: "string \<Rightarrow> 'key result"
  PubkeyToAddress :: "'key \<Rightarrow> eth_address"
  NewKeyedTransactor :: "'key \<Rightarrow> int \<Rightarrow> unit result"
  Key :: "string \<Rightarrow> address result"
  DB_Get :: "string \<Rightarrow> ('w, string) io"
  DB_Put :: "string \<Rightarrow> string \<Rightarrow> ('w, unit) io"
  TmNew :: "string \<Rightarrow> ('w, unit) io"
  TmStart :: "('w, unit) io"
  TmSubscribe :: "string \<Rightarrow> ('w, unit) io"
  TmHeight :: "('w, int) io"
  BlockResults :: "int \<Rightarrow> ('w, event list list) io"
  BroadcastTx :: "nat \<Rightarrow> string \<Rightarrow> eth_bridge_claim list \<Rightarrow> ('w, unit) io"
  url_Scheme :: "string \<Rightarrow> string result"
  EthDial :: "string \<Rightarrow> ('w, unit) io"
  NetworkID :: "('w, int) io"
  HeaderNumber :: "('w, int) io"
  PendingNonceAt :: "eth_address \<Rightarrow> ('w, nat) io"
  SuggestGasPrice :: "('w, int) io"
  SubscribeNewHead :: "('w, unit) io"
  NewBridgeRegistry :: "eth_address \<Rightarrow> ('w, unit) io"
  RegistryCall :: "contract_registry \<Rightarrow> eth_address \<Rightarrow> int \<Rightarrow> ('w, eth_address) io"
  NewCosmosBridge :: "eth_address \<Rightarrow> ('w, unit) io"
  NewProphecyClaim :: "transact_opts \<Rightarrow> nat \<Rightarrow> string \<Rightarrow> int option \<Rightarrow> eth_address \<Rightarrow> string \<Rightarrow> int option \<Rightarrow> ('w, string) io"
  TransactionReceipt :: "string \<Rightarrow> ('w, unit) io"
  FilterLogs :: "int \<Rightarrow> int \<Rightarrow> eth_address \<Rightarrow> ('w, eth_log list) io"
  BlockByNumber :: "int \<Rightarrow> ('w, string list) io"
  tx_Sender :: "string \<Rightarrow> eth_address result"
  tx_Data :: "string \<Rightarrow> string"
  EventID :: "string \<Rightarrow> string"
  MethodID :: "string \<Rightarrow> string"
  UnpackEvent :: "string \<Rightarrow> string \<Rightarrow> ethereum_event result"

text \<open>Calls one after the other, up to the first error.\<close>

definition io_bind :: "('w, 'a) io \<Rightarrow> ('a \<Rightarrow> ('w, 'b) io) \<Rightarrow> ('w, 'b) io" where
  "io_bind m f w = (case m w of (w, Inl e) \<Rightarrow> (w, Inl e) | (w, Inr x) \<Rightarrow> f x w)"

definition io_return :: "'a result \<Rightarrow> ('w, 'a) io" where
  "io_return r w = (w, r)"

fun io_each :: "('x \<Rightarrow> ('w, unit) io) \<Rightarrow> 'x list \<Rightarrow> ('w, unit) io" where
  "io_each f [] w = (w, Inr ())"
| "io_each f (x # xs) w = (case f x w of (w, Inl e) \<Rightarrow> (w, Inl e) | (w, Inr _) \<Rightarrow> io_each f xs w)"

text \<open>An error that the caller only logs; a panic is not caught.\<close>

definition logged :: "('w, unit) io \<Rightarrow> ('w, unit) io" where
  "logged m w = (case m w of (w, Inl e) \<Rightarrow> (w, if is_panic e then Inl e else Inr ()) | (w, Inr x) \<Rightarrow> (w, Inr ()))"

text \<open>\<^verbatim>\<open>big.Int.Bytes\<close> and \<^verbatim>\<open>SetBytes\<close>: the absolute value, big-endian without leading zeros.\<close>

fun nat_Bytes :: "nat \<Rightarrow> string" where
  "nat_Bytes n = (if n = 0 then [] else nat_Bytes (n div 256) @ [char_of (n mod 256)])"

declare nat_Bytes.simps [simp del]

definition big_Bytes :: "int \<Rightarrow> string" where
  "big_Bytes n = nat_Bytes (nat \<bar>n\<bar>)"

definition big_SetBytes :: "string \<Rightarrow> int" where
  "big_SetBytes s = foldl (\<lambda>n c. n * 256 + int (of_char c)) 0 s"

section \<open>Keys and contracts\<close>

definition LoadPrivateKey :: "('w, 'key) services \<Rightarrow> ('w, 'key) io" where
  "LoadPrivateKey E w =
     (let rawPrivateKey = Getenv E w ''ETHEREUM_PRIVATE_KEY'' in
      if TrimSpace rawPrivateKey = [] then (w, Inl (ErrNew ''can't load ethereum private key''))
      else (w, HexToECDSA E rawPrivateKey))"

definition LoadSender :: "('w, 'key) services \<Rightarrow> ('w, eth_address) io" where
  "LoadSender E = io_bind (LoadPrivateKey E) (\<lambda>key. io_return (Inr (PubkeyToAddress E key)))"

definition GetAddressFromBridgeRegistry :: "('w, 'key) services \<Rightarrow> eth_address \<Rightarrow> contract_registry \<Rightarrow> ('w, eth_address) io" where
  "GetAddressFromBridgeRegistry E registry target =
     io_bind (LoadSender E) (\<lambda>sender.
     io_bind (HeaderNumber E) (\<lambda>number.
     io_bind (NewBridgeRegistry E registry) (\<lambda>_.
     RegistryCall E target sender number)))"

abbreviation GasLimit :: nat where "GasLimit \<equiv> 1800000"

definition final_gas_price :: "int \<Rightarrow> int" where
  "final_gas_price gasPrice =
     (let gasPrice = gasPrice * 2; quarterGasPrice = gasPrice div 4 in gasPrice - quarterGasPrice)"

definition target_contract :: "relay_event \<Rightarrow> contract_registry result" where
  "target_contract event =
     (case event of
        Ev_MsgBurn \<Rightarrow> Inr CosmosBridge
      | Ev_MsgLock \<Rightarrow> Inr CosmosBridge
      | Ev_LogNewProphecyClaim \<Rightarrow> Inr Oracle
      | _ \<Rightarrow> Inl (Panic ''invalid target contract address''))"

definition InitRelayConfig ::
    "('w, 'key) services \<Rightarrow> string \<Rightarrow> eth_address \<Rightarrow> relay_event \<Rightarrow> 'key \<Rightarrow> ('w, transact_opts \<times> eth_address) io" where
  "InitRelayConfig E provider registry event key =
     io_bind (EthDial E provider) (\<lambda>_.
     io_bind (LoadSender E) (\<lambda>sender.
     io_bind (PendingNonceAt E sender) (\<lambda>nonce.
     io_bind (SuggestGasPrice E) (\<lambda>gasPrice.
     io_bind (NetworkID E) (\<lambda>chainID.
     io_bind (io_return (NewKeyedTransactor E key chainID)) (\<lambda>_.
     let transactOptsAuth = \<lparr>to_Nonce = big_Int64 (int nonce), to_Value = 0, to_GasLimit = GasLimit,
           to_GasPrice = final_gas_price gasPrice\<rparr> in
     io_bind (io_return (target_contract event)) (\<lambda>targetContract.
     io_bind (GetAddressFromBridgeRegistry E registry targetContract) (\<lambda>target.
     io_return (Inr (transactOptsAuth, target))))))))))"

section \<open>Sending to Ethereum\<close>

text \<open>The byte of an event type.\<close>

fun event_code :: "relay_event \<Rightarrow> nat" where
  "event_code Ev_Unsupported = 0"
| "event_code Ev_MsgBurn = 1"
| "event_code Ev_MsgLock = 2"
| "event_code Ev_LogLock = 3"
| "event_code Ev_LogBurn = 4"
| "event_code Ev_LogNewProphecyClaim = 5"
| "event_code Ev_NewProphecyClaim = 6"
| "event_code Ev_CreateEthBridgeClaim = 7"

text \<open>The loop that asks for the receipt, with the number of rounds that are left.\<close>

fun receipt_loop :: "('w, 'key) services \<Rightarrow> string \<Rightarrow> nat \<Rightarrow> ('w, unit) io" where
  "receipt_loop E hash 0 w = (w, Inl (ErrNew ''hit max tx receipt query retries''))"
| "receipt_loop E hash (Suc n) w =
     (case TransactionReceipt E hash w of (w, Inl e) \<Rightarrow> receipt_loop E hash n w | (w, Inr _) \<Rightarrow> (w, Inr ()))"

definition RelayProphecyClaimToEthereum :: "('w, 'key) services \<Rightarrow> cosmos_msg \<Rightarrow> transact_opts \<Rightarrow> ('w, unit) io" where
  "RelayProphecyClaimToEthereum E claim auth =
     io_bind (NewProphecyClaim E auth (event_code (cm_ClaimType claim)) (cm_CosmosSender claim) (cm_CosmosSenderSequence claim)
                (cm_EthereumReceiver claim) (cm_Symbol claim) (cm_Amount claim)) (\<lambda>hash.
     receipt_loop E hash 60)"

record 'key cosmos_sub =
  cs_TmProvider :: string
  cs_EthProvider :: string
  cs_RegistryContractAddress :: eth_address
  cs_PrivateKey :: 'key

definition NewCosmosSub :: "string \<Rightarrow> string \<Rightarrow> eth_address \<Rightarrow> 'key \<Rightarrow> 'key cosmos_sub" where
  "NewCosmosSub tmProvider ethProvider registryContractAddress key =
     \<lparr>cs_TmProvider = tmProvider, cs_EthProvider = ethProvider, cs_RegistryContractAddress = registryContractAddress,
      cs_PrivateKey = key\<rparr>"

fun init_loop :: "('w, 'key) services \<Rightarrow> 'key cosmos_sub \<Rightarrow> relay_event \<Rightarrow> nat \<Rightarrow> ('w, transact_opts \<times> eth_address) io" where
  "init_loop E sub claimType 0 w = (w, Inl (ErrNew ''hit max initRelayConfig retries''))"
| "init_loop E sub claimType (Suc n) w =
     (case InitRelayConfig E (cs_EthProvider sub) (cs_RegistryContractAddress sub) claimType (cs_PrivateKey sub) w of
        (w, Inl e) \<Rightarrow> if is_panic e then (w, Inl e) else init_loop E sub claimType n w
      | (w, Inr r) \<Rightarrow> (w, Inr r))"

definition tryInitRelayConfig :: "('w, 'key) services \<Rightarrow> 'key cosmos_sub \<Rightarrow> relay_event \<Rightarrow> ('w, transact_opts \<times> eth_address) io" where
  "tryInitRelayConfig E sub claimType = init_loop E sub claimType 5"

fun relay_loop :: "('w, 'key) services \<Rightarrow> cosmos_msg \<Rightarrow> transact_opts \<Rightarrow> nat \<Rightarrow> ('w, unit) io" where
  "relay_loop E cosmosMsg auth 0 w = (w, Inr ())"
| "relay_loop E cosmosMsg auth (Suc n) w =
     (case RelayProphecyClaimToEthereum E cosmosMsg auth w of
        (w, Inl e) \<Rightarrow> if is_panic e then (w, Inl e) else relay_loop E cosmosMsg auth n w
      | (w, Inr _) \<Rightarrow> (w, Inr ()))"

definition handleBurnLockMsg :: "('w, 'key) services \<Rightarrow> 'key cosmos_sub \<Rightarrow> cosmos_msg \<Rightarrow> relay_event \<Rightarrow> ('w, unit) io" where
  "handleBurnLockMsg E sub cosmosMsg claimType =
     logged (io_bind (tryInitRelayConfig E sub claimType) (\<lambda>(auth, target).
       io_bind (NewCosmosBridge E target) (\<lambda>_. relay_loop E cosmosMsg auth 5)))"

section \<open>Listening to this chain\<close>

definition cosmosLevelDBKey :: string where "cosmosLevelDBKey = ''cosmosLastProcessedBlock''"

text \<open>
  The events of a block: those of a burn or a lock are read and given to \<open>handle\<close>, one that does not read is only
  logged.
\<close>

definition on_burn_lock ::
    "'b sdk \<Rightarrow> geth \<Rightarrow> 'm bimap \<Rightarrow> 'm \<Rightarrow> (cosmos_msg \<Rightarrow> relay_event \<Rightarrow> ('w, unit) io) \<Rightarrow> event \<Rightarrow> ('w, unit) io" where
  "on_burn_lock S G B symbolTable handle event w =
     (let claimType = getOracleClaimType (fst event) in
      if claimType = Ev_MsgBurn \<or> claimType = Ev_MsgLock
      then
        (case BurnLockEventToCosmosMsg S G B symbolTable claimType (snd event) of
           Inl e \<Rightarrow> (w, if is_panic e then Inl e else Inr ())
         | Inr cosmosMsg \<Rightarrow> handle cosmosMsg claimType w)
      else (w, Inr ()))"

text \<open>
  The loop over the blocks up to the new one. A block that the node does not give is asked for again, without a
  limit.
\<close>

partial_function (option) catch_up ::
    "('w, 'key) services \<Rightarrow> (event \<Rightarrow> ('w, unit) io) \<Rightarrow> 'w \<Rightarrow> int \<Rightarrow> int \<Rightarrow> int \<Rightarrow> ('w \<times> int result) option" where
  "catch_up E relay w lastProcessedBlock blockNumber blockHeight =
     (if blockNumber \<le> blockHeight
      then
        (case BlockResults E blockNumber w of
           (w, Inl e) \<Rightarrow> catch_up E relay w lastProcessedBlock blockNumber blockHeight
         | (w, Inr block) \<Rightarrow>
             (case io_each relay (concat block) w of
                (w, Inl e) \<Rightarrow> Some (w, Inl e)
              | (w, Inr _) \<Rightarrow>
                  (case DB_Put E cosmosLevelDBKey (big_Bytes blockNumber) w of
                     (w, Inl e) \<Rightarrow> Some (w, Inl (Panic ''Error saving lastProcessedBlock to leveldb''))
                   | (w, Inr _) \<Rightarrow> catch_up E relay w blockNumber (blockNumber + 1) blockHeight)))
      else Some (w, Inr lastProcessedBlock))"

text \<open>What the listeners receive, and how they end: starting again after an error, stopping, or ending the program.\<close>

datatype cosmos_input = CosmosQuit | NewBlock "int option"

datatype eth_input = EthQuit | SubscriptionError | NewHead int

datatype outcome = Restart | Return | Exit err | Waiting

text \<open>The data of a new block is its height; \<open>None\<close>: the data is not that of a new block.\<close>

definition on_new_block ::
    "('w, 'key) services \<Rightarrow> (event \<Rightarrow> ('w, unit) io) \<Rightarrow> 'w \<Rightarrow> int \<Rightarrow> int option \<Rightarrow> ('w \<times> int result) option" where
  "on_new_block E relay w lastProcessedBlock data =
     (case data of
        None \<Rightarrow> Some (w, Inl (Panic ''nil pointer''))
      | Some blockHeight \<Rightarrow>
          let lastProcessedBlock = (if lastProcessedBlock = 0 then blockHeight else lastProcessedBlock);
              startBlockHeight = lastProcessedBlock + 1
          in catch_up E relay w lastProcessedBlock startBlockHeight blockHeight)"

fun cosmos_loop ::
    "('w, 'key) services \<Rightarrow> (event \<Rightarrow> ('w, unit) io) \<Rightarrow> 'w \<Rightarrow> int \<Rightarrow> cosmos_input list \<Rightarrow> ('w \<times> outcome) option" where
  "cosmos_loop E relay w lastProcessedBlock [] = Some (w, Waiting)"
| "cosmos_loop E relay w lastProcessedBlock (CosmosQuit # inputs) = Some (w, Return)"
| "cosmos_loop E relay w lastProcessedBlock (NewBlock data # inputs) =
     (case on_new_block E relay w lastProcessedBlock data of
        None \<Rightarrow> None
      | Some (w, Inl e) \<Rightarrow> Some (w, Exit e)
      | Some (w, Inr lastProcessedBlock) \<Rightarrow> cosmos_loop E relay w lastProcessedBlock inputs)"

definition cosmos_last_block :: "('w, 'key) services \<Rightarrow> 'w \<Rightarrow> 'w \<times> int" where
  "cosmos_last_block E w =
     (case DB_Get E cosmosLevelDBKey w of (w, Inl e) \<Rightarrow> (w, 0) | (w, Inr data) \<Rightarrow> (w, big_Int64 (big_SetBytes data)))"

definition new_block_query :: string where
  "new_block_query = ''tm.event = '' @ [CHR 0x27] @ ''NewBlock'' @ [CHR 0x27]"

definition CosmosSub_Start ::
    "'b sdk \<Rightarrow> geth \<Rightarrow> 'm bimap \<Rightarrow> ('w, 'key) services \<Rightarrow> 'key cosmos_sub \<Rightarrow> 'm \<Rightarrow> 'w \<Rightarrow> cosmos_input list
      \<Rightarrow> ('w \<times> outcome) option" where
  "CosmosSub_Start S G B E sub symbolTable w inputs =
     (case io_bind (TmNew E (cs_TmProvider sub)) (\<lambda>_. io_bind (TmStart E) (\<lambda>_. TmSubscribe E new_block_query)) w of
        (w, Inl e) \<Rightarrow> Some (w, Restart)
      | (w, Inr _) \<Rightarrow>
          (case cosmos_last_block E w of (w, lastProcessedBlock) \<Rightarrow>
             cosmos_loop E (on_burn_lock S G B symbolTable (handleBurnLockMsg E sub)) w lastProcessedBlock inputs))"

section \<open>Replaying the events of this chain\<close>

text \<open>The claims a relayer has sent to Ethereum, from the transactions of a range of blocks.\<close>

definition own_claim :: "('w, 'key) services \<Rightarrow> eth_address \<Rightarrow> string \<Rightarrow> prophecy_claim_unique list" where
  "own_claim E ethereumAddress tx =
     (case tx_Sender E tx of
        Inl e \<Rightarrow> []
      | Inr sender \<Rightarrow>
          if sender \<noteq> ethereumAddress then []
          else if length (tx_Data E tx) < 4 then []
          else if slice 0 4 (tx_Data E tx) \<noteq> MethodID E (Event_String Ev_NewProphecyClaim) then []
          else (case MyDecode (drop 4 (tx_Data E tx)) of Inl e \<Rightarrow> [] | Inr prophecyClaim \<Rightarrow> [prophecyClaim]))"

fun claims_in_blocks :: "('w, 'key) services \<Rightarrow> eth_address \<Rightarrow> int list \<Rightarrow> ('w, prophecy_claim_unique list) io" where
  "claims_in_blocks E ethereumAddress [] w = (w, Inr [])"
| "claims_in_blocks E ethereumAddress (blockNumber # ns) w =
     (case BlockByNumber E blockNumber w of
        (w, Inl e) \<Rightarrow> claims_in_blocks E ethereumAddress ns w
      | (w, Inr txs) \<Rightarrow>
          io_bind (claims_in_blocks E ethereumAddress ns) (\<lambda>rest.
            io_return (Inr (concat (map (own_claim E ethereumAddress) txs) @ rest))) w)"

definition GetAllProphecyClaim :: "('w, 'key) services \<Rightarrow> eth_address \<Rightarrow> int \<Rightarrow> int \<Rightarrow> ('w, prophecy_claim_unique list) io" where
  "GetAllProphecyClaim E ethereumAddress ethFromBlock ethToBlock =
     claims_in_blocks E ethereumAddress [ethFromBlock..ethToBlock - 1]"

text \<open>The blocks of a range, each given to \<open>handle\<close>; a block that the node does not give is skipped.\<close>

definition each_block :: "('w, 'key) services \<Rightarrow> (event \<Rightarrow> ('w, unit) io) \<Rightarrow> int \<Rightarrow> int \<Rightarrow> ('w, unit) io" where
  "each_block E handle fromBlock toBlock =
     io_each (\<lambda>blockNumber w.
       case BlockResults E blockNumber w of
         (w, Inl e) \<Rightarrow> (w, Inr ())
       | (w, Inr block) \<Rightarrow> io_each handle (concat block) w) [fromBlock..toBlock - 1]"

text \<open>A message is handled when it is not among the claims that were sent.\<close>

definition unless_processed ::
    "prophecy_claim_unique list \<Rightarrow> (cosmos_msg \<Rightarrow> relay_event \<Rightarrow> ('w, unit) io) \<Rightarrow> cosmos_msg \<Rightarrow> relay_event \<Rightarrow> ('w, unit) io" where
  "unless_processed prophecyClaims handle cosmosMsg claimType w =
     (case MessageProcessed cosmosMsg prophecyClaims of
        Inl e \<Rightarrow> (w, Inl e)
      | Inr processed \<Rightarrow> if \<not> processed then handle cosmosMsg claimType w else (w, Inr ()))"

definition CosmosSub_Replay ::
    "'b sdk \<Rightarrow> geth \<Rightarrow> 'm bimap \<Rightarrow> ('w, 'key) services \<Rightarrow> 'key cosmos_sub \<Rightarrow> 'm \<Rightarrow> int \<Rightarrow> int \<Rightarrow> int \<Rightarrow> int \<Rightarrow> ('w, unit) io" where
  "CosmosSub_Replay S G B E sub symbolTable fromBlock toBlock ethFromBlock ethToBlock =
     logged (io_bind (EthDial E (cs_EthProvider sub)) (\<lambda>_.
       io_bind (NetworkID E) (\<lambda>_.
       io_bind (LoadSender E) (\<lambda>mySender.
       io_bind (GetAllProphecyClaim E mySender ethFromBlock ethToBlock) (\<lambda>prophecyClaims.
       io_bind (TmNew E (cs_TmProvider sub)) (\<lambda>_.
       io_bind (TmStart E) (\<lambda>_.
       each_block E (on_burn_lock S G B symbolTable (unless_processed prophecyClaims (handleBurnLockMsg E sub)))
         fromBlock toBlock)))))))"

text \<open>The messages that a relayer missed in the last days are printed; here they are the result.\<close>

record list_missed =
  lm_TmProvider :: string
  lm_EthProvider :: string
  lm_RegistryContractAddress :: eth_address
  lm_EthereumAddress :: eth_address
  lm_Days :: int

definition NewListMissedCosmosEvent :: "string \<Rightarrow> string \<Rightarrow> eth_address \<Rightarrow> eth_address \<Rightarrow> int \<Rightarrow> list_missed" where
  "NewListMissedCosmosEvent tmProvider ethProvider registryContractAddress ethereumAddress days =
     \<lparr>lm_TmProvider = tmProvider, lm_EthProvider = ethProvider, lm_RegistryContractAddress = registryContractAddress,
      lm_EthereumAddress = ethereumAddress, lm_Days = days\<rparr>"

definition missed_in_event ::
    "'b sdk \<Rightarrow> geth \<Rightarrow> 'm bimap \<Rightarrow> 'm \<Rightarrow> prophecy_claim_unique list \<Rightarrow> event \<Rightarrow> cosmos_msg list result" where
  "missed_in_event S G B symbolTable prophecyClaims event =
     (let claimType = getOracleClaimType (fst event) in
      if claimType = Ev_MsgBurn \<or> claimType = Ev_MsgLock
      then
        (case BurnLockEventToCosmosMsg S G B symbolTable claimType (snd event) of
           Inl e \<Rightarrow> if is_panic e then Inl e else Inr []
         | Inr cosmosMsg \<Rightarrow>
             bind_r (MessageProcessed cosmosMsg prophecyClaims) (\<lambda>processed. Inr (if \<not> processed then [cosmosMsg] else [])))
      else Inr [])"

fun missed_in_blocks ::
    "('w, 'key) services \<Rightarrow> (event \<Rightarrow> cosmos_msg list result) \<Rightarrow> int list \<Rightarrow> ('w, cosmos_msg list) io" where
  "missed_in_blocks E missed [] w = (w, Inr [])"
| "missed_in_blocks E missed (blockNumber # ns) w =
     (case BlockResults E blockNumber w of
        (w, Inl e) \<Rightarrow> missed_in_blocks E missed ns w
      | (w, Inr block) \<Rightarrow>
          (case map_r missed (concat block) of
             Inl e \<Rightarrow> (w, Inl e)
           | Inr ms \<Rightarrow>
               (case missed_in_blocks E missed ns w of
                  (w, Inl e) \<Rightarrow> (w, Inl e)
                | (w, Inr rest) \<Rightarrow> (w, Inr (concat ms @ rest)))))"

definition ListMissedCosmosEvent ::
    "'b sdk \<Rightarrow> geth \<Rightarrow> 'm bimap \<Rightarrow> ('w, 'key) services \<Rightarrow> list_missed \<Rightarrow> 'm \<Rightarrow> ('w, cosmos_msg list) io" where
  "ListMissedCosmosEvent S G B E list symbolTable =
     io_bind (EthDial E (lm_EthProvider list)) (\<lambda>_.
     io_bind (HeaderNumber E) (\<lambda>number.
     let currentEthHeight = big_Int64 number;
         blocks = 4 * 60 * 24 * lm_Days list;
         ethFromHeight = (if currentEthHeight - blocks < 0 then 0 else currentEthHeight - blocks) in
     io_bind (GetAllProphecyClaim E (lm_EthereumAddress list) ethFromHeight currentEthHeight) (\<lambda>prophecyClaims.
     io_bind (TmNew E (lm_TmProvider list)) (\<lambda>_.
     io_bind (TmHeight E) (\<lambda>currentCosmosHeight.
     let blocks = 10 * 60 * 24 * lm_Days list;
         cosmosFromHeight = (if currentCosmosHeight - blocks < 0 then 0 else currentCosmosHeight - blocks) in
     io_bind (TmStart E) (\<lambda>_.
     missed_in_blocks E (missed_in_event S G B symbolTable prophecyClaims) [cosmosFromHeight..currentCosmosHeight - 1]))))))"

section \<open>Sending to this chain\<close>

definition RelayToCosmos :: "geth \<Rightarrow> ('w, 'key) services \<Rightarrow> eth_bridge_claim list \<Rightarrow> ('w, unit) io" where
  "RelayToCosmos G E claims =
     (let messages = filter (\<lambda>claim. MsgCreateEthBridgeClaim_ValidateBasic G (Some claim) = Inr ()) claims
      in BroadcastTx E 1000000000000000000 ''500000000000000000aku'' messages)"

record ethereum_sub =
  es_EthProvider :: string
  es_TmProvider :: string
  es_RegistryContractAddress :: eth_address
  es_ValidatorName :: string
  es_ValidatorAddress :: address

definition NewEthereumSub :: "string \<Rightarrow> string \<Rightarrow> string \<Rightarrow> eth_address \<Rightarrow> address \<Rightarrow> ethereum_sub" where
  "NewEthereumSub nodeURL validatorMoniker ethProvider registryContractAddress validatorAddress =
     \<lparr>es_EthProvider = ethProvider, es_TmProvider = nodeURL, es_RegistryContractAddress = registryContractAddress,
      es_ValidatorName = validatorMoniker, es_ValidatorAddress = validatorAddress\<rparr>"

definition GetValAddressFromKeyring :: "('w, 'key) services \<Rightarrow> string \<Rightarrow> address result" where
  "GetValAddressFromKeyring E keyname = Key E keyname"

text \<open>The claims of the events that read; a panic is not caught.\<close>

fun event_claims :: "(ethereum_event \<Rightarrow> eth_bridge_claim result) \<Rightarrow> ethereum_event list \<Rightarrow> eth_bridge_claim list result" where
  "event_claims f [] = Inr []"
| "event_claims f (event # events) =
     (case f event of
        Inl e \<Rightarrow> if is_panic e then Inl e else event_claims f events
      | Inr prophecyClaim \<Rightarrow> bind_r (event_claims f events) (\<lambda>cs. Inr (prophecyClaim # cs)))"

definition handleEthereumEvent ::
    "'b sdk \<Rightarrow> geth \<Rightarrow> 'm bimap \<Rightarrow> ('w, 'key) services \<Rightarrow> ethereum_sub \<Rightarrow> 'm \<Rightarrow> ethereum_event list \<Rightarrow> ('w, unit) io" where
  "handleEthereumEvent S G B E sub symbolTable events =
     io_bind (io_return (GetValAddressFromKeyring E (es_ValidatorName sub))) (\<lambda>valAddr.
     io_bind (io_return (event_claims (EthereumEventToEthBridgeClaim S G B symbolTable valAddr) events)) (\<lambda>prophecyClaims.
     if events = [] then io_return (Inr ())
     else RelayToCosmos G E prophecyClaims))"

section \<open>Listening to Ethereum\<close>

definition ethLevelDBKey :: string where "ethLevelDBKey = ''ethereumLastProcessedBlock''"

abbreviation trailingBlocks :: int where "trailingBlocks \<equiv> 50"

text \<open>The event of a log, and whether it is a burn or a lock. The record of events that is kept beside is never read.\<close>

definition logToEvent :: "('w, 'key) services \<Rightarrow> int \<Rightarrow> eth_address \<Rightarrow> eth_log \<Rightarrow> ethereum_event option result" where
  "logToEvent E clientChainID contractAddress cLog =
     (case lg_Topics cLog of
        [] \<Rightarrow> Inl (Panic ''index out of range'')
      | topic # _ \<Rightarrow>
          let eventName =
            (if topic = EventID E (Event_String Ev_LogBurn) then Event_String Ev_LogBurn
             else if topic = EventID E (Event_String Ev_LogLock) then Event_String Ev_LogLock
             else []) in
          if eventName = [] then Inr None
          else
          bind_r (UnpackEvent E eventName (lg_Data cLog)) (\<lambda>event.
          Inr (Some (event\<lparr>ev_BridgeContractAddress := contractAddress, ev_EthereumChainID := clientChainID,
            ev_ClaimType := (if eventName = Event_String Ev_LogBurn then CLAIM_TYPE_BURN else CLAIM_TYPE_LOCK)\<rparr>))))"

fun log_events :: "(eth_log \<Rightarrow> ethereum_event option result) \<Rightarrow> eth_log list \<Rightarrow> ethereum_event list result" where
  "log_events f [] = Inr []"
| "log_events f (l # ls) =
     (case f l of
        Inl e \<Rightarrow> if is_panic e then Inl e else log_events f ls
      | Inr None \<Rightarrow> log_events f ls
      | Inr (Some event) \<Rightarrow> bind_r (log_events f ls) (\<lambda>events. Inr (event # events)))"

definition on_new_head ::
    "('w, 'key) services \<Rightarrow> (eth_log \<Rightarrow> ethereum_event option result) \<Rightarrow> (ethereum_event list \<Rightarrow> ('w, unit) io) \<Rightarrow> eth_address
      \<Rightarrow> int \<Rightarrow> int \<Rightarrow> ('w, int) io" where
  "on_new_head E toEvent handle bridgeBankAddress lastProcessedBlock number w =
     (let endingBlock = number - trailingBlocks in
      if endingBlock < 0 then (w, Inr lastProcessedBlock)
      else
      let lastProcessedBlock = (if lastProcessedBlock = 0 then endingBlock else lastProcessedBlock) in
      (case FilterLogs E lastProcessedBlock endingBlock bridgeBankAddress w of
         (w, Inl e) \<Rightarrow> (w, Inr lastProcessedBlock)
       | (w, Inr ethLogs) \<Rightarrow>
           (case log_events toEvent ethLogs of
              Inl e \<Rightarrow> (w, Inl e)
            | Inr events \<Rightarrow>
                (case (if 0 < length events then logged (handle events) w else (w, Inr ())) of
                   (w, Inl e) \<Rightarrow> (w, Inl e)
                 | (w, Inr _) \<Rightarrow>
                     let endingBlock = endingBlock + 1 in
                     (case DB_Put E ethLevelDBKey (big_Bytes endingBlock) w of
                        (w, Inl e) \<Rightarrow> (w, Inl (Panic ''Error saving lastProcessedBlock to leveldb''))
                      | (w, Inr _) \<Rightarrow> (w, Inr endingBlock))))))"

fun eth_loop :: "(int \<Rightarrow> int \<Rightarrow> ('w, int) io) \<Rightarrow> 'w \<Rightarrow> int \<Rightarrow> eth_input list \<Rightarrow> 'w \<times> outcome" where
  "eth_loop head w lastProcessedBlock [] = (w, Waiting)"
| "eth_loop head w lastProcessedBlock (EthQuit # inputs) = (w, Return)"
| "eth_loop head w lastProcessedBlock (SubscriptionError # inputs) = (w, Restart)"
| "eth_loop head w lastProcessedBlock (NewHead number # inputs) =
     (case head lastProcessedBlock number w of
        (w, Inl e) \<Rightarrow> (w, Exit e)
      | (w, Inr lastProcessedBlock) \<Rightarrow> eth_loop head w lastProcessedBlock inputs)"

definition IsWebsocketURL :: "('w, 'key) services \<Rightarrow> string \<Rightarrow> bool" where
  "IsWebsocketURL E rawurl = (case url_Scheme E rawurl of Inl e \<Rightarrow> False | Inr scheme \<Rightarrow> scheme = ''ws'' \<or> scheme = ''wss'')"

text \<open>\<open>False\<close>: the client is nil.\<close>

definition SetupWebsocketEthClient :: "('w, 'key) services \<Rightarrow> string \<Rightarrow> ('w, bool) io" where
  "SetupWebsocketEthClient E ethURL w =
     (if TrimSpace ethURL = [] then (w, Inr False)
      else if \<not> IsWebsocketURL E ethURL then (w, Inl (ErrNew (''invalid websocket eth client URL: '' @ ethURL)))
      else io_bind (EthDial E ethURL) (\<lambda>_. io_return (Inr True)) w)"

definition SetupRPCEthClient :: "('w, 'key) services \<Rightarrow> string \<Rightarrow> ('w, bool) io" where
  "SetupRPCEthClient E ethURL w =
     (if TrimSpace ethURL = [] then (w, Inr False)
      else io_bind (EthDial E ethURL) (\<lambda>_. io_return (Inr True)) w)"

definition eth_last_block :: "('w, 'key) services \<Rightarrow> 'w \<Rightarrow> 'w \<times> int" where
  "eth_last_block E w = (case DB_Get E ethLevelDBKey w of (w, Inl e) \<Rightarrow> (w, 0) | (w, Inr data) \<Rightarrow> (w, big_SetBytes data))"

definition EthereumSub_Start ::
    "'b sdk \<Rightarrow> geth \<Rightarrow> 'm bimap \<Rightarrow> ('w, 'key) services \<Rightarrow> ethereum_sub \<Rightarrow> 'm \<Rightarrow> 'w \<Rightarrow> eth_input list \<Rightarrow> 'w \<times> outcome" where
  "EthereumSub_Start S G B E sub symbolTable w inputs =
     (case SetupWebsocketEthClient E (es_EthProvider sub) w of
        (w, Inl e) \<Rightarrow> (w, Restart)
      | (w, Inr client) \<Rightarrow>
          if \<not> client then (w, Exit (Panic ''nil pointer''))
          else
          (case NetworkID E w of
             (w, Inl e) \<Rightarrow> (w, Restart)
           | (w, Inr clientChainID) \<Rightarrow>
               (case GetAddressFromBridgeRegistry E (es_RegistryContractAddress sub) BridgeBank w of
                  (w, Inl e) \<Rightarrow> (w, Exit (Panic ''Error getting bridgebank address''))
                | (w, Inr bridgeBankAddress) \<Rightarrow>
                    (case SubscribeNewHead E w of
                       (w, Inl e) \<Rightarrow> (w, Return)
                     | (w, Inr _) \<Rightarrow>
                         (case eth_last_block E w of (w, lastProcessedBlock) \<Rightarrow>
                            eth_loop (on_new_head E (logToEvent E clientChainID bridgeBankAddress)
                                (handleEthereumEvent S G B E sub symbolTable) bridgeBankAddress)
                              w lastProcessedBlock inputs)))))"

section \<open>Replaying the events of Ethereum\<close>

text \<open>\<^verbatim>\<open>ValAddress.Equals\<close>: two empty addresses are equal.\<close>

definition claims_of_event :: "'b sdk \<Rightarrow> geth \<Rightarrow> ethereum_sub \<Rightarrow> event \<Rightarrow> ethereum_bridge_claim list" where
  "claims_of_event S G sub event =
     (if fst event = ''create_claim''
      then
        (case AttributesToEthereumBridgeClaim S G (snd event) of
           Inl e \<Rightarrow> []
         | Inr claim \<Rightarrow> if bc_CosmosSender claim = es_ValidatorAddress sub then [claim] else [])
      else [])"

fun claims_from_blocks ::
    "'b sdk \<Rightarrow> geth \<Rightarrow> ('w, 'key) services \<Rightarrow> ethereum_sub \<Rightarrow> int list \<Rightarrow> 'w \<Rightarrow> 'w \<times> ethereum_bridge_claim list" where
  "claims_from_blocks S G E sub [] w = (w, [])"
| "claims_from_blocks S G E sub (blockNumber # ns) w =
     (case BlockResults E blockNumber w of
        (w, Inl e) \<Rightarrow> claims_from_blocks S G E sub ns w
      | (w, Inr block) \<Rightarrow>
          (case claims_from_blocks S G E sub ns w of
             (w, rest) \<Rightarrow> (w, concat (map (claims_of_event S G sub) (concat block)) @ rest)))"

definition getAllClaims ::
    "'b sdk \<Rightarrow> geth \<Rightarrow> ('w, 'key) services \<Rightarrow> ethereum_sub \<Rightarrow> int \<Rightarrow> int \<Rightarrow> 'w \<Rightarrow> 'w \<times> ethereum_bridge_claim list" where
  "getAllClaims S G E sub fromBlock toBlock w =
     (case io_bind (TmNew E (es_TmProvider sub)) (\<lambda>_. TmStart E) w of
        (w, Inl e) \<Rightarrow> (w, [])
      | (w, Inr _) \<Rightarrow> claims_from_blocks S G E sub [fromBlock..toBlock - 1] w)"

definition replay_log ::
    "(eth_log \<Rightarrow> ethereum_event option result) \<Rightarrow> (ethereum_event list \<Rightarrow> ('w, unit) io) \<Rightarrow> ethereum_bridge_claim list \<Rightarrow> eth_log
      \<Rightarrow> ('w, unit) io" where
  "replay_log toEvent handle bridgeClaims ethLog w =
     (case toEvent ethLog of
        Inl e \<Rightarrow> (w, if is_panic e then Inl e else Inr ())
      | Inr None \<Rightarrow> (w, Inr ())
      | Inr (Some event) \<Rightarrow>
          (case EventProcessed bridgeClaims event of
             Inl e \<Rightarrow> (w, Inl e)
           | Inr processed \<Rightarrow> if \<not> processed then logged (handle [event]) w else (w, Inr ())))"

definition EthereumSub_Replay ::
    "'b sdk \<Rightarrow> geth \<Rightarrow> 'm bimap \<Rightarrow> ('w, 'key) services \<Rightarrow> ethereum_sub \<Rightarrow> 'm \<Rightarrow> int \<Rightarrow> int \<Rightarrow> int \<Rightarrow> int \<Rightarrow> ('w, unit) io" where
  "EthereumSub_Replay S G B E sub symbolTable fromBlock toBlock cosmosFromBlock cosmosToBlock w =
     (case getAllClaims S G E sub cosmosFromBlock cosmosToBlock w of (w, bridgeClaims) \<Rightarrow>
      logged (io_bind (SetupRPCEthClient E (es_EthProvider sub)) (\<lambda>client.
        if \<not> client then io_return (Inl (Panic ''nil pointer''))
        else
        io_bind (NetworkID E) (\<lambda>clientChainID.
        io_bind (GetAddressFromBridgeRegistry E (es_RegistryContractAddress sub) BridgeBank) (\<lambda>subContractAddress.
        io_bind (FilterLogs E fromBlock toBlock subContractAddress) (\<lambda>logs.
        io_each (replay_log (logToEvent E clientChainID subContractAddress) (handleEthereumEvent S G B E sub symbolTable) bridgeClaims)
          logs))))) w)"

section \<open>Commands\<close>

text \<open>\<^verbatim>\<open>strconv.ParseInt\<close> in base 10 for 64 bits; \<^verbatim>\<open>strings.Trim\<close> with no characters to trim keeps its argument.\<close>

definition ParseInt64 :: "string \<Rightarrow> int option" where
  "ParseInt64 s = (case big_SetString s of Some n \<Rightarrow> if - (2 ^ 63) \<le> n \<and> n < 2 ^ 63 then Some n else None | None \<Rightarrow> None)"

definition block_arg :: "string \<Rightarrow> string \<Rightarrow> string \<Rightarrow> int result" where
  "block_arg name arg shown = (case ParseInt64 arg of None \<Rightarrow> Inl (ErrNew (''invalid ['' @ name @ '']: '' @ shown)) | Some n \<Rightarrow> Inr n)"

text \<open>The client context and the translator of symbols come from the flags of the command.\<close>

definition RunReplayEthereumCmd ::
    "'b sdk \<Rightarrow> geth \<Rightarrow> 'm bimap \<Rightarrow> ('w, 'key) services \<Rightarrow> unit result \<Rightarrow> 'm result \<Rightarrow> string list \<Rightarrow> ('w, unit) io" where
  "RunReplayEthereumCmd S G B E cliContext translator args =
     (case args of
        [tendermintNode, web3Provider, contract, validatorMoniker, mnemonic, from', to, cosmosFrom, cosmosTo] \<Rightarrow>
          io_bind (io_return cliContext) (\<lambda>_.
          if \<not> IsHexAddress G contract then io_return (Inl (ErrNew (''invalid [bridge-registry-contract-address]: '' @ web3Provider)))
          else if length validatorMoniker = 0 then io_return (Inl (ErrNew (''invalid [validator-moniker]: '' @ contract)))
          else
          io_bind (io_return (block_arg ''from-block'' from' from')) (\<lambda>fromBlock.
          io_bind (io_return (block_arg ''to-block'' to to)) (\<lambda>toBlock.
          io_bind (io_return (block_arg ''from-block'' cosmosFrom cosmosFrom)) (\<lambda>cosmosFromBlock.
          io_bind (io_return (block_arg ''to-block'' cosmosTo cosmosTo)) (\<lambda>cosmosToBlock.
          io_bind (io_return translator) (\<lambda>symbolTranslator.
          let ethSub = NewEthereumSub tendermintNode validatorMoniker web3Provider (HexToAddress G contract) [] in
          EthereumSub_Replay S G B E ethSub symbolTranslator fromBlock toBlock cosmosFromBlock cosmosToBlock))))))
      | _ \<Rightarrow> io_return (Inl (ErrNew ''accepts 9 arg(s)'')))"

definition RunReplayCosmosCmd ::
    "'b sdk \<Rightarrow> geth \<Rightarrow> 'm bimap \<Rightarrow> ('w, 'key) services \<Rightarrow> 'm result \<Rightarrow> string list \<Rightarrow> ('w, unit) io" where
  "RunReplayCosmosCmd S G B E translator args =
     (case args of
        [tendermintNode, web3Provider, contract, from', to, ethFrom, ethTo] \<Rightarrow>
          if length tendermintNode = 0 then io_return (Inl (ErrNew (''invalid [tendermint-node]: '' @ tendermintNode)))
          else if \<not> IsWebsocketURL E web3Provider then io_return (Inl (ErrNew (''invalid [web3-provider]: '' @ web3Provider)))
          else if \<not> IsHexAddress G contract then io_return (Inl (ErrNew (''invalid [bridge-registry-contract-address]: '' @ contract)))
          else
          io_bind (io_return (block_arg ''from-block'' from' from')) (\<lambda>fromBlock.
          io_bind (io_return (block_arg ''to-block'' to to)) (\<lambda>toBlock.
          io_bind (io_return (block_arg ''eth-from-block'' ethFrom from')) (\<lambda>ethFromBlock.
          io_bind (io_return (block_arg ''eth-to-block'' ethTo to)) (\<lambda>ethToBlock.
          io_bind (io_return translator) (\<lambda>symbolTranslator.
          io_bind (\<lambda>w. case LoadPrivateKey E w of (w, Inl e) \<Rightarrow> (w, Inl (Panic ''failed to load ETHEREUM_PRIVATE_KEY'')) | r \<Rightarrow> r) (\<lambda>key.
          let cosmosSub = NewCosmosSub tendermintNode web3Provider (HexToAddress G contract) key in
          CosmosSub_Replay S G B E cosmosSub symbolTranslator fromBlock toBlock ethFromBlock ethToBlock))))))
      | _ \<Rightarrow> io_return (Inl (ErrNew ''accepts 7 arg(s)'')))"

definition RunListMissedCosmosEventCmd ::
    "'b sdk \<Rightarrow> geth \<Rightarrow> 'm bimap \<Rightarrow> ('w, 'key) services \<Rightarrow> 'm result \<Rightarrow> string list \<Rightarrow> ('w, cosmos_msg list) io" where
  "RunListMissedCosmosEventCmd S G B E translator args =
     (case args of
        [tendermintNode, web3Provider, contract, relayer, days'] \<Rightarrow>
          if length tendermintNode = 0 then io_return (Inl (ErrNew (''invalid [tendermint-node]: '' @ tendermintNode)))
          else if \<not> IsWebsocketURL E web3Provider then io_return (Inl (ErrNew (''invalid [web3-provider]: '' @ web3Provider)))
          else if \<not> IsHexAddress G contract then io_return (Inl (ErrNew (''invalid [bridge-registry-contract-address]: '' @ contract)))
          else if \<not> IsHexAddress G relayer then io_return (Inl (ErrNew (''invalid [relayer-ethereum-address]: '' @ relayer)))
          else
          io_bind (io_return (block_arg ''days'' days' relayer)) (\<lambda>days.
          io_bind (io_return translator) (\<lambda>symbolTranslator.
          ListMissedCosmosEvent S G B E
            (NewListMissedCosmosEvent tendermintNode web3Provider (HexToAddress G contract) (HexToAddress G relayer) days)
            symbolTranslator))
      | _ \<Rightarrow> io_return (Inl (ErrNew ''accepts 5 arg(s)'')))"

end
