(* ===== verification/Relayer_Props.thy ===== *)
theory Relayer_Props
  imports Relayer Frames
begin

text \<open>
  What the relayer guarantees: it reads the events of the bridge as the messages that caused them, its listener on this
  chain returns if the node answers in the end, its listener on Ethereum misses no block and repeats none, and its replay
  commands recognise exactly what is stated here of what was sent before.
\<close>

section \<open>Reading the events of the bridge\<close>

lemma SplitAfter_ne: "SplitAfter s c \<noteq> []"
  by (induction s c rule: SplitAfter.induct) (auto split: list.splits)

lemma concat_SplitAfter [simp]: "concat (SplitAfter s c) = s"
  by (induction s c rule: SplitAfter.induct) (auto split: list.splits)

lemma big_SetString_itoa [simp]: "big_SetString (itoa n) = Some n"
proof (cases "itoa n")
  case (Cons c cs)
  then have "c \<noteq> CHR ''+''" using itoa_chars [of c n] by (auto simp: is_digit_def)
  then show ?thesis using Cons atoi_itoa [of n] by (simp add: big_SetString_def)
qed simp

text \<open>The message for Ethereum that a lock or a burn stands for, given the sender's sequence.\<close>

fun relay_of :: "geth \<Rightarrow> 'm bimap \<Rightarrow> 'm \<Rightarrow> nat \<Rightarrow> eth_msg \<Rightarrow> cosmos_msg result" where
  "relay_of G B symbolTable seq (MsgLock m) =
     bind_r (SifchainToEthereum B symbolTable (lk_Symbol m)) (\<lambda>symbol.
     Inr (NewCosmosMsg Ev_MsgLock (lk_CosmosSender m) (Some (int seq)) (HexToAddress G (lk_EthereumReceiver m)) symbol (Some (lk_Amount m))))"
| "relay_of G B symbolTable seq (MsgBurn m) =
     Inr (NewCosmosMsg Ev_MsgBurn (bn_CosmosSender m) (Some (int seq)) (HexToAddress G (bn_EthereumReceiver m))
       (drop (length PeggedCoinPrefix) (bn_Symbol m)) (Some (bn_Amount m)))"
| "relay_of G B symbolTable seq _ = Inl (ErrNew ''not sent to Ethereum'')"

fun sends_out :: "geth \<Rightarrow> eth_msg \<Rightarrow> bool" where
  "sends_out G (MsgLock m) \<longleftrightarrow> MsgLock_ValidateBasic G m = Inr () \<and> \<bar>lk_Amount m\<bar> < 2 ^ 255"
| "sends_out G (MsgBurn m) \<longleftrightarrow> MsgBurn_ValidateBasic G m = Inr () \<and> \<bar>bn_Amount m\<bar> < 2 ^ 255"
| "sends_out G _ \<longleftrightarrow> False"

lemmas attribute_eval = burn_lock_attribute_def burn_lock_zero_def BurnLockEventToCosmosMsg_def NewCosmosMsg_def Let_def

lemma read_amount: "int_laws S \<Longrightarrow> \<bar>n\<bar> < 2 ^ 255 \<Longrightarrow> NewIntFromString S (itoa n) = Some n"
  by (simp add: int_laws_def yields_def)

lemma lock_event_read:
  assumes "int_laws S" and "sends_out G (MsgLock m)" and "Lock S ctx m = Inr ctx'"
  shows "\<exists>a seq attrs. AccAddressFromBech32 S (lk_CosmosSender m) = Inr a \<and> GetAccount S (sdk_state ctx) a = Some seq \<and>
    last (Events ctx') = (''lock'', attrs) \<and>
    BurnLockEventToCosmosMsg S G B symbolTable Ev_MsgLock attrs = relay_of G B symbolTable seq (MsgLock m)"
proof -
  have hex: "IsHexAddress G (lk_EthereumReceiver m)" "\<bar>lk_Amount m\<bar> < 2 ^ 255"
    using assms(2) by (auto simp: MsgLock_ValidateBasic_def split: if_splits)
  have amt: "NewIntFromString S (itoa (lk_Amount m)) = Some (lk_Amount m)" by (rule read_amount [OF assms(1) hex(2)])
  from assms(3) obtain a seq ctx1 where "AccAddressFromBech32 S (lk_CosmosSender m) = Inr a" "GetAccount S (sdk_state ctx) a = Some seq"
    and e: "last (Events ctx') = (''lock'', [(''ethereum_chain_id'', itoa (lk_EthereumChainId m)), (''cosmos_sender'', lk_CosmosSender m),
              (''cosmos_sender_sequence'', itoa (int seq)), (''ethereum_receiver'', lk_EthereumReceiver m),
              (''amount'', itoa (lk_Amount m)), (''symbol'', lk_Symbol m), (''ceth_amount'', itoa (lk_CethAmount m))])"
    by (auto simp: Lock_def EmitEvents_def split: if_splits option.splits)
  moreover have "BurnLockEventToCosmosMsg S G B symbolTable Ev_MsgLock (snd (last (Events ctx'))) = relay_of G B symbolTable seq (MsgLock m)"
    unfolding e by (cases "SifchainToEthereum B symbolTable (lk_Symbol m)") (simp_all add: attribute_eval hex amt)
  ultimately show ?thesis by auto
qed

lemma burn_symbol:
  assumes "MsgBurn_ValidateBasic G m = Inr ()"
  shows "Contains (bn_Symbol m) [defaultSifchainPrefix]"
    and "concat (tl (SplitAfter (bn_Symbol m) defaultSifchainPrefix)) = drop (length PeggedCoinPrefix) (bn_Symbol m)"
proof -
  obtain s where "bn_Symbol m = defaultSifchainPrefix # s"
    using assms by (cases "bn_Symbol m") (auto simp: MsgBurn_ValidateBasic_def PeggedCoinPrefix_def Let_def split: if_splits)
  then show "Contains (bn_Symbol m) [defaultSifchainPrefix]"
    and "concat (tl (SplitAfter (bn_Symbol m) defaultSifchainPrefix)) = drop (length PeggedCoinPrefix) (bn_Symbol m)"
    by (simp_all add: HasPrefix_def PeggedCoinPrefix_def)
qed

lemma burn_event_read:
  assumes "int_laws S" and "sends_out G (MsgBurn m)" and "Burn S ctx m = Inr ctx'"
  shows "\<exists>a seq attrs. AccAddressFromBech32 S (bn_CosmosSender m) = Inr a \<and> GetAccount S (sdk_state ctx) a = Some seq \<and>
    last (Events ctx') = (''burn'', attrs) \<and>
    BurnLockEventToCosmosMsg S G B symbolTable Ev_MsgBurn attrs = relay_of G B symbolTable seq (MsgBurn m)"
proof -
  have ok: "MsgBurn_ValidateBasic G m = Inr ()" and hex: "IsHexAddress G (bn_EthereumReceiver m)" "\<bar>bn_Amount m\<bar> < 2 ^ 255"
    using assms(2) by (auto simp: MsgBurn_ValidateBasic_def Let_def split: if_splits)
  have amt: "NewIntFromString S (itoa (bn_Amount m)) = Some (bn_Amount m)" by (rule read_amount [OF assms(1) hex(2)])
  from assms(3) obtain a seq ctx1 where "AccAddressFromBech32 S (bn_CosmosSender m) = Inr a" "GetAccount S (sdk_state ctx) a = Some seq"
    and e: "last (Events ctx') = (''burn'', [(''ethereum_chain_id'', itoa (bn_EthereumChainId m)), (''cosmos_sender'', bn_CosmosSender m),
              (''cosmos_sender_sequence'', itoa (int seq)), (''ethereum_receiver'', bn_EthereumReceiver m),
              (''amount'', itoa (bn_Amount m)), (''symbol'', bn_Symbol m), (''ceth_amount'', itoa (bn_CethAmount m))])"
    by (auto simp: Burn_def EmitEvents_def split: if_splits option.splits)
  moreover have "BurnLockEventToCosmosMsg S G B symbolTable Ev_MsgBurn (snd (last (Events ctx'))) = relay_of G B symbolTable seq (MsgBurn m)"
    unfolding e by (simp add: attribute_eval hex amt burn_symbol [OF ok])
  ultimately show ?thesis by auto
qed

text \<open>
  C14: When the bridge accepts a lock or a burn, the relayer reads the last event of the message as exactly that
  message: the same sender, its account sequence, the receiver on Ethereum, the amount, and the symbol translated or without
  the prefix of pegged tokens.
\<close>

theorem outgoing_event_relayed:
  assumes "int_laws S" and "sends_out G m" and "eth_Handler S G K ctx m = Inr ctx'"
  shows "\<exists>s a seq. eth_payer m = Some s \<and> AccAddressFromBech32 S s = Inr a \<and> GetAccount S (sdk_state ctx) a = Some seq \<and>
    getOracleClaimType (fst (last (Events ctx'))) \<in> {Ev_MsgLock, Ev_MsgBurn} \<and>
    BurnLockEventToCosmosMsg S G B symbolTable (getOracleClaimType (fst (last (Events ctx')))) (snd (last (Events ctx'))) =
      relay_of G B symbolTable seq m"
proof (cases m)
  case (MsgLock l)
  with lock_event_read [OF assms(1), of G l "ctx\<lparr>Events := []\<rparr>" ctx' B symbolTable] assms(2,3) show ?thesis
    by (auto simp: getOracleClaimType_def)
next
  case (MsgBurn b)
  with burn_event_read [OF assms(1), of G b "ctx\<lparr>Events := []\<rparr>" ctx' B symbolTable] assms(2,3) show ?thesis
    by (auto simp: getOracleClaimType_def)
qed (use assms(2) in auto)

text \<open>An example: \<open>bob\<close> burns 30 \<^verbatim>\<open>ceth\<close>; the table of symbols is a list.\<close>

definition ref_bimap :: "(json \<times> json) list bimap" where
  "ref_bimap = \<lparr>NewBiMap = [], BiMap_Insert = (\<lambda>m k v. (k, v) # filter (\<lambda>(k', v'). k' \<noteq> k \<and> v' \<noteq> v) m), BiMap_Get = map_of,
     BiMap_GetInverse = (\<lambda>m v. map_of (map prod.swap m) v), MakeImmutable = (\<lambda>m. m)\<rparr>"

definition ex_burn_out :: msg_burn where
  "ex_burn_out = \<lparr>bn_CosmosSender = ref_String ''bob'', bn_Amount = 30, bn_Symbol = ''ceth'', bn_EthereumChainId = 1,
     bn_EthereumReceiver = ''0x9'', bn_CethAmount = burnGasCost\<rparr>"

definition ex_rich :: "ref_state ctx" where
  "ex_rich = ex_bridge\<lparr>sdk_state := (sdk_state ex_bridge)\<lparr>ref_balance := (\<lambda>a d. if a = ''bob'' then 10 ^ 30 else 0)\<rparr>\<rparr>"

lemma ex_rich_accepted: "\<exists>ctx'. eth_Handler ref_sdk ref_geth K ex_rich (MsgBurn ex_burn_out) = Inr ctx'"
  by (simp add: Burn_def ProcessBurn_def ExistsPeggyToken_def GetPeggyToken_def eth_Exists_def kv_has_def kv_get_def
      IsBlacklisted_def BlacklistPrefix_def PeggyTokenKeyPrefix_def CethReceiverAccountPrefix_def
      IsCethReceiverAccountSet_def GetCethReceiverAccount_def ref_FromBech32_String CethSymbol_def check_255_def burnGasCost_def
      ex_burn_out_def eth_eval ex_eth_denoms ex_rich_def ex_bridge_bank_def ref_ctx_def del: bind_r_Inr cong: lazy)

lemma ex_burn_out_ok: "sends_out ref_geth (MsgBurn ex_burn_out)"
  by (simp add: MsgBurn_ValidateBasic_def ex_burn_out_def ref_geth_def HasPrefix_def PeggedCoinPrefix_def ref_String_def)

theorem outgoing_event_relayed_witness:
  "\<exists>ctx' seq. eth_Handler ref_sdk ref_geth (ex_keeper True) ex_rich (MsgBurn ex_burn_out) = Inr ctx' \<and>
    BurnLockEventToCosmosMsg ref_sdk ref_geth ref_bimap [] (getOracleClaimType (fst (last (Events ctx')))) (snd (last (Events ctx'))) =
      Inr (NewCosmosMsg Ev_MsgBurn (ref_String ''bob'') (Some seq) ''0x9'' ''eth'' (Some 30))"
proof -
  obtain ctx' where h: "eth_Handler ref_sdk ref_geth (ex_keeper True) ex_rich (MsgBurn ex_burn_out) = Inr ctx'"
    using ex_rich_accepted by blast
  have "relay_of ref_geth ref_bimap [] seq (MsgBurn ex_burn_out) =
      Inr (NewCosmosMsg Ev_MsgBurn (ref_String ''bob'') (Some (int seq)) ''0x9'' ''eth'' (Some 30))" for seq
    by (simp add: ex_burn_out_def PeggedCoinPrefix_def) code_simp
  with outgoing_event_relayed [OF ref_int_laws ex_burn_out_ok h, of ref_bimap "[]"] h show ?thesis by auto
qed

section \<open>The listener on this chain\<close>

text \<open>The node gives every block in the end, if it is asked often enough.\<close>

definition asked :: "('w, 'key) services \<Rightarrow> int \<Rightarrow> 'w \<Rightarrow> 'w" where
  "asked E n w = fst (BlockResults E n w)"

definition node_answers :: "('w, 'key) services \<Rightarrow> bool" where
  "node_answers E \<longleftrightarrow> (\<forall>n w. \<exists>k block. snd (BlockResults E n ((asked E n ^^ k) w)) = Inr block)"

lemma catch_up_done: "blockHeight < n \<Longrightarrow> catch_up E relay w l n blockHeight = Some (w, Inr l)"
  by (subst catch_up.simps) simp

text \<open>Asking again until the block comes.\<close>

lemma catch_up_waits:
  assumes "n \<le> h" and "snd (BlockResults E n ((asked E n ^^ k) w)) = Inr block"
  obtains w' block' where "catch_up E relay w l n h =
     (case io_each relay (concat block') w' of
        (w, Inl e) \<Rightarrow> Some (w, Inl e)
      | (w, Inr _) \<Rightarrow>
          (case DB_Put E cosmosLevelDBKey (big_Bytes n) w of
             (w, Inl e) \<Rightarrow> Some (w, Inl (Panic ''Error saving lastProcessedBlock to leveldb''))
           | (w, Inr _) \<Rightarrow> catch_up E relay w n (n + 1) h))"
  using assms(2)
proof (induction k arbitrary: w thesis)
  case 0
  then obtain w' where "BlockResults E n w = (w', Inr block)" by (cases "BlockResults E n w") simp
  then show ?case using assms(1) by (intro "0.prems"(1) [of block w']) (subst catch_up.simps, simp)
next
  case (Suc k)
  show ?case
  proof (cases "BlockResults E n w")
    case (Pair w' r)
    show ?thesis
    proof (cases r)
      case (Inl e)
      have "asked E n w = w'" using Pair by (simp add: asked_def)
      then have "snd (BlockResults E n ((asked E n ^^ k) w')) = Inr block"
        using Suc.prems(2) by (simp add: funpow_Suc_right del: funpow.simps)
      moreover have "catch_up E relay w l n h = catch_up E relay w' l n h"
        using assms(1) Pair Inl by (subst catch_up.simps) simp
      ultimately show ?thesis using Suc.IH [of w'] Suc.prems(1) by metis
    next
      case (Inr b)
      then show ?thesis using assms(1) Pair by (intro Suc.prems(1) [of b w']) (subst catch_up.simps, simp)
    qed
  qed
qed

lemma io_each_error: "io_each f xs w = (w', Inl e) \<Longrightarrow> \<exists>x w. snd (f x w) = Inl e"
proof (induction xs arbitrary: w)
  case (Cons x xs)
  then show ?case by (cases "f x w") (auto split: sum.splits, metis snd_conv)
qed simp

text \<open>How the loop can end: at the new block, with an error of an event, or because the database fails.\<close>

definition caught_up :: "('w, 'key) services \<Rightarrow> (event \<Rightarrow> ('w, unit) io) \<Rightarrow> int \<Rightarrow> int result \<Rightarrow> bool" where
  "caught_up E relay h r \<longleftrightarrow>
     r = Inr h \<or> (\<exists>ev w e. snd (relay ev w) = Inl e \<and> r = Inl e) \<or>
     (\<exists>k v w e. snd (DB_Put E k v w) = Inl e \<and> r = Inl (Panic ''Error saving lastProcessedBlock to leveldb''))"

lemma caught_up_put: "DB_Put E k v w = (w', Inl e) \<Longrightarrow> caught_up E relay h (Inl (Panic ''Error saving lastProcessedBlock to leveldb''))"
  unfolding caught_up_def by (metis snd_conv)

text \<open>
  C15: If the node gives every block after finitely many requests, the listener's loop up to a new block returns, with the new
  block as the last one processed; only an event that cannot be handled or a failing database ends it earlier.
\<close>

theorem catch_up_returns:
  assumes "node_answers E" and "n \<le> h + 1"
  shows "\<exists>w' r. catch_up E relay w (n - 1) n h = Some (w', r) \<and> caught_up E relay h r"
  using assms(2)
proof (induction "nat (h + 1 - n)" arbitrary: w n)
  case 0
  then show ?case by (simp add: catch_up_done caught_up_def)
next
  case (Suc m)
  then have nh: "n \<le> h" and m: "m = nat (h + 1 - (n + 1))" by linarith+
  from assms(1) obtain k block where k: "snd (BlockResults E n ((asked E n ^^ k) w)) = Inr block" unfolding node_answers_def by blast
  obtain w1 b where eq: "catch_up E relay w (n - 1) n h =
     (case io_each relay (concat b) w1 of
        (w, Inl e) \<Rightarrow> Some (w, Inl e)
      | (w, Inr _) \<Rightarrow>
          (case DB_Put E cosmosLevelDBKey (big_Bytes n) w of
             (w, Inl e) \<Rightarrow> Some (w, Inl (Panic ''Error saving lastProcessedBlock to leveldb''))
           | (w, Inr _) \<Rightarrow> catch_up E relay w n (n + 1) h))"
    by (rule catch_up_waits [OF nh k])
  have IH: "\<exists>w' r. catch_up E relay w2 n (n + 1) h = Some (w', r) \<and> caught_up E relay h r" for w2
    using Suc.hyps(1) [OF m, of w2] nh by simp
  show ?case
  proof (cases "io_each relay (concat b) w1")
    case (Pair w2 r)
    show ?thesis
    proof (cases r)
      case (Inl e)
      then show ?thesis using Pair io_each_error [of relay "concat b" w1 w2 e] by (auto simp: eq caught_up_def)
    next
      case (Inr u)
      show ?thesis
      proof (cases "DB_Put E cosmosLevelDBKey (big_Bytes n) w2")
        case (Pair w3 d)
        then show ?thesis
          by (cases d) (use \<open>io_each relay (concat b) w1 = (w2, r)\<close> Inr IH [of w3] in \<open>simp_all add: eq caught_up_put\<close>)
      qed
    qed
  qed
qed

text \<open>A node that gives no block the first two times it is asked.\<close>

definition ref_node :: "(int \<Rightarrow> ('w, event list list) io) \<Rightarrow> (int \<Rightarrow> int \<Rightarrow> eth_address \<Rightarrow> ('w, eth_log list) io) \<Rightarrow> ('w, unit) services" where
  "ref_node results logs = \<lparr>Getenv = (\<lambda>_ _. ''key''), HexToECDSA = (\<lambda>_. Inr ()), PubkeyToAddress = (\<lambda>_. ''0x7''), NewKeyedTransactor = (\<lambda>_ _. Inr ()),
     Key = (\<lambda>_. Inr ''val''), DB_Get = (\<lambda>_ w. (w, Inl (ErrNew ''not found''))), DB_Put = (\<lambda>_ _ w. (w, Inr ())), TmNew = (\<lambda>_ w. (w, Inr ())),
     TmStart = (\<lambda>w. (w, Inr ())), TmSubscribe = (\<lambda>_ w. (w, Inr ())), TmHeight = (\<lambda>w. (w, Inr 9)),
     BlockResults = results,
     BroadcastTx = (\<lambda>_ _ _ w. (w, Inr ())), url_Scheme = (\<lambda>_. Inr ''ws''), EthDial = (\<lambda>_ w. (w, Inr ())), NetworkID = (\<lambda>w. (w, Inr 1)),
     HeaderNumber = (\<lambda>w. (w, Inr 100)), PendingNonceAt = (\<lambda>_ w. (w, Inr 0)), SuggestGasPrice = (\<lambda>w. (w, Inr 10)),
     SubscribeNewHead = (\<lambda>w. (w, Inr ())), NewBridgeRegistry = (\<lambda>_ w. (w, Inr ())), RegistryCall = (\<lambda>_ _ _ w. (w, Inr ''0x5'')),
     NewCosmosBridge = (\<lambda>_ w. (w, Inr ())), NewProphecyClaim = (\<lambda>_ _ _ _ _ _ _ w. (w, Inr ''hash'')),
     TransactionReceipt = (\<lambda>_ w. (w, Inr ())), FilterLogs = logs, BlockByNumber = (\<lambda>_ w. (w, Inr [])),
     tx_Sender = (\<lambda>_. Inr ''0x7''), tx_Data = (\<lambda>s. s), EventID = (\<lambda>s. s), MethodID = (\<lambda>s. s),
     UnpackEvent = (\<lambda>_ _. Inl (ErrNew ''abi''))\<rparr>"

definition slow_node :: "(nat, unit) services" where
  "slow_node = ref_node (\<lambda>n w. (Suc w, if w < 2 then Inl (ErrNew ''busy'') else Inr [[(''transfer'', [])]])) (\<lambda>_ _ _ w. (w, Inr []))"

lemma slow_node_answers: "node_answers slow_node"
proof -
  have "(asked slow_node n ^^ k) w = w + k" for n k w
    by (induction k) (simp_all add: asked_def slow_node_def ref_node_def)
  then have "snd (BlockResults slow_node n ((asked slow_node n ^^ 2) w)) = Inr [[(''transfer'', [])]]" for n w
    by (simp add: slow_node_def ref_node_def)
  then show ?thesis unfolding node_answers_def by blast
qed

theorem catch_up_returns_witness: "\<exists>w'. catch_up slow_node (\<lambda>ev w. (w, Inr ())) 0 4 5 7 = Some (w', Inr 7)"
proof -
  have "caught_up slow_node (\<lambda>ev w. (w, Inr ())) 7 r \<Longrightarrow> r = Inr 7" for r
    by (auto simp: caught_up_def slow_node_def ref_node_def)
  with catch_up_returns [OF slow_node_answers, of 5 7 "\<lambda>ev w. (w, Inr ())" 0] show ?thesis by fastforce
qed

section \<open>The listener on Ethereum\<close>

text \<open>
  Whoever watches the queries for logs sees those that succeed: \<open>seen\<close> is the list of their ranges. Nothing else the
  listener does asks for logs.
\<close>

definition watches :: "('w, 'key) services \<Rightarrow> (ethereum_event list \<Rightarrow> ('w, unit) io) \<Rightarrow> ('w \<Rightarrow> (int \<times> int) list) \<Rightarrow> bool" where
  "watches E handle seen \<longleftrightarrow>
     (\<forall>f t a w w' ls. FilterLogs E f t a w = (w', Inr ls) \<longrightarrow> seen w' = seen w @ [(f, t)]) \<and>
     (\<forall>f t a w w' e. FilterLogs E f t a w = (w', Inl e) \<longrightarrow> seen w' = seen w) \<and>
     (\<forall>k v w. seen (fst (DB_Put E k v w)) = seen w) \<and> (\<forall>es w. seen (fst (handle es w)) = seen w)"

definition blocks :: "(int \<times> int) list \<Rightarrow> int list" where
  "blocks rs = concat (map (\<lambda>(f, t). [f..t]) rs)"

lemma blocks_append [simp]: "blocks (rs @ [(f, t)]) = blocks rs @ [f..t]"
  by (simp add: blocks_def)

lemma upto_join: "l \<le> m \<Longrightarrow> m \<le> n \<Longrightarrow> [l..m - 1] @ [m..n - 1] = [l..n - 1]"
proof (induction "nat (m - l)" arbitrary: l)
  case (Suc k)
  then have "l < m" "[l + 1..m - 1] @ [m..n - 1] = [l + 1..n - 1]" by simp_all
  with Suc.prems show ?case by (simp add: upto.simps [of l "m - 1"] upto.simps [of l "n - 1"])
qed simp

lemma logged_fst: "fst (logged m w) = fst (m w)"
  by (simp add: logged_def split: prod.splits sum.splits)

text \<open>A new head: the query fails and will be repeated, or its blocks follow on those before.\<close>

lemma on_new_head_step:
  assumes "watches E handle seen" and "0 < l" and "on_new_head E toEvent handle addr l number w = (w', Inr l')"
  shows "seen w' = seen w \<and> l' = l \<or> 49 < number \<and> seen w' = seen w @ [(l, l' - 1)] \<and> l' = number - 49"
proof (cases "49 < number")
  case False
  then show ?thesis using assms(3) by (simp add: on_new_head_def Let_def)
next
  case True
  have h: "seen (fst (logged (handle es) w)) = seen w" for es w using assms(1) by (simp add: logged_fst watches_def)
  have d: "DB_Put E k v w = (w', r) \<Longrightarrow> seen w' = seen w" for k v w w' r using assms(1) unfolding watches_def by (metis fst_conv)
  show ?thesis
  proof (cases "FilterLogs E l (number - 50) addr w")
    case (Pair w1 r)
    show ?thesis
    proof (cases r)
      case (Inl e)
      then have "seen w1 = seen w" using assms(1) Pair unfolding watches_def by blast
      then show ?thesis using True assms(2,3) Pair Inl by (simp add: on_new_head_def Let_def)
    next
      case (Inr ls)
      then have s: "seen w1 = seen w @ [(l, number - 50)]" using assms(1) Pair unfolding watches_def by blast
      have eq: "on_new_head E toEvent handle addr l number w = (case log_events toEvent ls of Inl e \<Rightarrow> (w1, Inl e) | Inr es \<Rightarrow>
        (case (if 0 < length es then logged (handle es) w1 else (w1, Inr ())) of (w, Inl e) \<Rightarrow> (w, Inl e) | (w, Inr _) \<Rightarrow>
        (case DB_Put E ethLevelDBKey (big_Bytes (number - 50 + 1)) w of
           (w, Inl e) \<Rightarrow> (w, Inl (Panic ''Error saving lastProcessedBlock to leveldb'')) | (w, Inr _) \<Rightarrow> (w, Inr (number - 50 + 1)))))"
        using True assms(2) Pair Inr unfolding on_new_head_def Let_def by simp
      obtain es where es: "log_events toEvent ls = Inr es" using assms(3) eq by (cases "log_events toEvent ls") simp_all
      obtain w2 r2 where w2: "(if 0 < length es then logged (handle es) w1 else (w1, Inr ())) = (w2, r2)" by fastforce
      obtain w3 r3 where w3: "DB_Put E ethLevelDBKey (big_Bytes (number - 50 + 1)) w2 = (w3, r3)" by fastforce
      have "w' = w3 \<and> l' = number - 50 + 1"
        using assms(3) w3 unfolding eq es sum.case w2 by (cases r2; cases r3) simp_all
      moreover have "seen w2 = seen w1" using w2 h [of es w1] by (metis fst_conv)
      ultimately show ?thesis using d [OF w3] s True by simp
    qed
  qed
qed

text \<open>
  C16: Whatever heads Ethereum reports and whatever queries fail in between, the listener leaves no block out: with a block
  it reads the logs of every block from the first one on up to it, and it stays 50 blocks behind the highest head. As long as
  the heads do not go back it reads no block twice: the ranges of the successful queries, put together, are an interval. After a
  head that goes back blocks can be read again.
\<close>

theorem eth_blocks_once:
  assumes "watches E handle seen" and "0 < l"
    and "eth_loop (on_new_head E toEvent handle addr) w l (map NewHead numbers) = (w', Waiting)"
  shows "\<exists>rs. seen w' = seen w @ rs \<and> (\<forall>b \<in> set (blocks rs). {l..b} \<subseteq> set (blocks rs)) \<and>
    (\<forall>b \<in> set (blocks rs). \<exists>n \<in> set numbers. b + 50 \<le> n) \<and>
    (sorted ((l + 49) # numbers) \<longrightarrow> (\<exists>l'. blocks rs = [l..l' - 1] \<and> l \<le> l' \<and> l' + 49 \<le> last ((l + 49) # numbers)))"
  using assms(2,3)
proof (induction numbers arbitrary: l w)
  case (Cons number numbers)
  from Cons.prems(2) obtain w1 l1 where s: "on_new_head E toEvent handle addr l number w = (w1, Inr l1)"
    "eth_loop (on_new_head E toEvent handle addr) w1 l1 (map NewHead numbers) = (w', Waiting)"
    by (auto split: prod.splits sum.splits)
  note step = on_new_head_step [OF assms(1) Cons.prems(1) s(1)]
  then have "0 < l1" using Cons.prems(1) by auto
  from Cons.IH [OF this s(2)] obtain rs where r: "seen w' = seen w1 @ rs" "\<forall>b \<in> set (blocks rs). {l1..b} \<subseteq> set (blocks rs)"
    "\<forall>b \<in> set (blocks rs). \<exists>n \<in> set numbers. b + 50 \<le> n"
    "sorted ((l1 + 49) # numbers) \<longrightarrow> (\<exists>l'. blocks rs = [l1..l' - 1] \<and> l1 \<le> l' \<and> l' + 49 \<le> last ((l1 + 49) # numbers))" by blast
  have so: "\<exists>l'. blocks rs = [l1..l' - 1] \<and> l \<le> l1 \<and> l1 \<le> l' \<and> l' + 49 \<le> last ((l + 49) # number # numbers)"
    if "sorted ((l + 49) # number # numbers)"
  proof -
    have l1: "l \<le> l1" "l1 \<le> number - 49" "sorted ((l1 + 49) # numbers)" using that step by auto
    with r(4) obtain l' where "blocks rs = [l1..l' - 1]" "l1 \<le> l'" "l' + 49 \<le> last ((l1 + 49) # numbers)" by blast
    then show ?thesis using l1(1,2) by (intro exI [of _ l']) (cases numbers; simp)
  qed
  from step show ?case
  proof
    assume "seen w1 = seen w \<and> l1 = l"
    then show ?thesis using r so by (intro exI [of _ rs]) auto
  next
    assume n: "49 < number \<and> seen w1 = seen w @ [(l, l1 - 1)] \<and> l1 = number - 49"
    have b: "blocks ((l, l1 - 1) # rs) = [l..l1 - 1] @ blocks rs" by (simp add: blocks_def)
    have "{l..b} \<subseteq> {l..l1 - 1} \<union> {l1..b}" for b by auto
    then have "\<forall>b \<in> set (blocks ((l, l1 - 1) # rs)). {l..b} \<subseteq> set (blocks ((l, l1 - 1) # rs))"
      using r(2) unfolding b by fastforce
    moreover have "\<exists>l'. blocks ((l, l1 - 1) # rs) = [l..l' - 1] \<and> l \<le> l' \<and> l' + 49 \<le> last ((l + 49) # number # numbers)"
      if "sorted ((l + 49) # number # numbers)" using so [OF that] upto_join unfolding b by fastforce
    moreover have "\<forall>b \<in> set (blocks ((l, l1 - 1) # rs)). \<exists>n \<in> set (number # numbers). b + 50 \<le> n"
      using n r(3) unfolding b by auto
    moreover have "seen w' = seen w @ (l, l1 - 1) # rs" using n r(1) by simp
    ultimately show ?thesis by blast
  qed
next
  case Nil
  then show ?case by (intro exI [of _ "[]"]) (auto simp: blocks_def intro: exI [of _ l])
qed

text \<open>An example: the query at the second head fails; the world is the list of queries that succeeded.\<close>

definition flaky_node :: "((int \<times> int) list, unit) services" where
  "flaky_node = ref_node (\<lambda>n w. (w, Inr [])) (\<lambda>f t a w. if t = 11 then (w, Inl (ErrNew ''timeout'')) else (w @ [(f, t)], Inr []))"

lemma flaky_node_watches: "watches flaky_node (\<lambda>_ w. (w, Inr ())) (\<lambda>w. w)"
  by (auto simp: watches_def flaky_node_def ref_node_def split: if_splits)

theorem eth_blocks_once_witness:
  "\<exists>rs l'. fst (eth_loop (on_new_head flaky_node (\<lambda>_. Inr None) (\<lambda>_ w. (w, Inr ())) ''bank'') [] 5 (map NewHead [60, 61, 63])) = rs \<and>
     blocks rs = [5..l' - 1] \<and> 5 \<le> l' \<and> l' + 49 \<le> 63"
proof -
  let ?h = "on_new_head flaky_node (\<lambda>_. Inr None) (\<lambda>_ w. (w, Inr ())) ''bank''"
  have "eth_loop ?h [] 5 (map NewHead [60, 61, 63]) = ([(5, 10), (11, 13)], Waiting)"
    by (simp add: on_new_head_def flaky_node_def ref_node_def Let_def)
  with eth_blocks_once [OF flaky_node_watches, of 5 "\<lambda>_. Inr None" "''bank''" "[]" "[60, 61, 63]"] show ?thesis by auto
qed

text \<open>
  A head that goes back: the query for its blocks has an empty range, and when the node answers it the listener starts again at
  an earlier block. Here it reads block 50 twice.
\<close>

theorem head_back_reads_again:
  "blocks (fst (eth_loop (on_new_head flaky_node (\<lambda>_. Inr None) (\<lambda>_ w. (w, Inr ())) ''bank'') [] 50 (map NewHead [100, 99, 101]))) = [50, 50, 51]"
  by (simp add: on_new_head_def flaky_node_def ref_node_def Let_def blocks_def upto.simps)

section \<open>What the replay commands recognise\<close>

subsection \<open>Claims on this chain\<close>

text \<open>The event by which the bridge reports a claim, and what of it is well formed.\<close>

definition reports :: "event \<Rightarrow> eth_bridge_claim \<Rightarrow> bool" where
  "reports e c \<longleftrightarrow> fst e = ''create_claim'' \<and> (\<exists>st. e \<in> set (claim_events c st))"

definition readable :: "'b sdk \<Rightarrow> geth \<Rightarrow> eth_bridge_claim \<Rightarrow> bool" where
  "readable S G c \<longleftrightarrow> IsHexAddress G (ec_EthereumSender c) \<and> \<bar>ec_Nonce c\<bar> < 2 ^ 255 \<and> (\<exists>v. ValAddressFromBech32 S (ec_ValidatorAddress c) = Inr v)"

lemma reports_attributes:
  assumes "reports e c"
  shows "snd e = [(''cosmos_sender'', ec_ValidatorAddress c), (''ethereum_sender'', ec_EthereumSender c),
    (''ethereum_sender_nonce'', itoa (ec_Nonce c)), (''cosmos_receiver'', ec_CosmosReceiver c), (''amount'', itoa (ec_Amount c)),
    (''symbol'', ec_Symbol c), (''token_contract_address'', ec_TokenContractAddress c), (''claim_type'', ClaimType_String (ec_ClaimType c))]"
proof -
  obtain st where "e \<in> set (claim_events c st)" and "fst e = ''create_claim''" using assms by (auto simp: reports_def)
  then consider "e = claim_events c st ! 1" | "fst e = ''message''" | "fst e = ''prophecy_status''"
    by (auto simp: claim_events_def message_event_def)
  then show ?thesis using \<open>fst e = ''create_claim''\<close> by cases (simp_all add: claim_events_def)
qed

lemma reports_read:
  assumes "int_laws S" and "reports e c" and "readable S G c" and "ValAddressFromBech32 S (ec_ValidatorAddress c) = Inr v"
  shows "AttributesToEthereumBridgeClaim S G (snd e) =
    Inr \<lparr>bc_EthereumSender = HexToAddress G (ec_EthereumSender c), bc_CosmosSender = v, bc_Nonce = Some (ec_Nonce c)\<rparr>"
proof -
  have "NewIntFromString S (itoa (ec_Nonce c)) = Some (ec_Nonce c)" using assms(1,3) by (simp add: readable_def read_amount)
  moreover have "IsHexAddress G (ec_EthereumSender c)" using assms(3) by (simp add: readable_def)
  ultimately show ?thesis using assms(4)
    by (simp add: reports_attributes [OF assms(2)] AttributesToEthereumBridgeClaim_def bridge_claim_attribute_def Let_def)
qed

lemma EventProcessed_iff:
  "\<forall>c \<in> set cs. bc_Nonce c \<noteq> None \<Longrightarrow>
    EventProcessed cs ev = Inr (\<exists>c \<in> set cs. bc_EthereumSender c = ev_From ev \<and> bc_Nonce c = Some (ev_Nonce ev))"
  by (induction cs) auto

lemma claims_from_blocks_all:
  "\<forall>n w. BlockResults E n w = (w, Inr (blk n)) \<Longrightarrow>
    claims_from_blocks S G E sub ns w = (w, concat (map (\<lambda>n. concat (map (claims_of_event S G sub) (concat (blk n)))) ns))"
  by (induction ns) simp_all

definition reports_own :: "'b sdk \<Rightarrow> geth \<Rightarrow> address \<Rightarrow> event \<Rightarrow> eth_bridge_claim \<Rightarrow> bool" where
  "reports_own S G v e c \<longleftrightarrow> reports e c \<and> readable S G c \<and> ValAddressFromBech32 S (ec_ValidatorAddress c) = Inr v"

definition read_claim :: "geth \<Rightarrow> address \<Rightarrow> eth_bridge_claim \<Rightarrow> ethereum_bridge_claim" where
  "read_claim G v c = \<lparr>bc_EthereumSender = HexToAddress G (ec_EthereumSender c), bc_CosmosSender = v, bc_Nonce = Some (ec_Nonce c)\<rparr>"

lemma read_claim_sel: "bc_EthereumSender (read_claim G v c) = HexToAddress G (ec_EthereumSender c)" "bc_Nonce (read_claim G v c) = Some (ec_Nonce c)"
  by (simp_all add: read_claim_def)

lemma claims_of_reported:
  assumes "int_laws S" and "reports e c" and "readable S G c" and "ValAddressFromBech32 S (ec_ValidatorAddress c) = Inr v"
  shows "claims_of_event S G sub e = (if v = es_ValidatorAddress sub then [read_claim G v c] else [])"
proof -
  have "fst e = ''create_claim''" using assms(2) by (simp add: reports_def)
  then show ?thesis by (simp add: claims_of_event_def read_claim_def reports_read [OF assms])
qed

lemma claims_of_event_set:
  assumes "int_laws S" and "fst e = ''create_claim'' \<longrightarrow> (\<exists>c. reports e c \<and> readable S G c)"
  shows "x \<in> set (claims_of_event S G sub e) \<longleftrightarrow> (\<exists>c. reports_own S G (es_ValidatorAddress sub) e c \<and> x = read_claim G (es_ValidatorAddress sub) c)"
proof (cases "fst e = ''create_claim''")
  case True
  then obtain c v where c: "reports e c" "readable S G c" "ValAddressFromBech32 S (ec_ValidatorAddress c) = Inr v"
    using assms(2) unfolding readable_def by blast
  note claims_of_reported [OF assms(1) c, of sub]
  moreover have "claims_of_event S G sub e = [read_claim G (es_ValidatorAddress sub) d]" if "reports_own S G (es_ValidatorAddress sub) e d" for d
    using claims_of_reported [OF assms(1), of e d G "es_ValidatorAddress sub" sub] that by (simp add: reports_own_def)
  moreover have "v = es_ValidatorAddress sub \<Longrightarrow> reports_own S G (es_ValidatorAddress sub) e c" using c by (simp add: reports_own_def)
  ultimately show ?thesis by (metis empty_iff empty_set list.set_intros(1) set_ConsD)
qed (simp add: claims_of_event_def reports_own_def reports_def)

lemma in_concat_map: "x \<in> set (concat (map g ys)) \<longleftrightarrow> (\<exists>y \<in> set ys. x \<in> set (g y))"
  by simp

text \<open>
  The claims of a listener: an event is taken as processed exactly if a block of the range reports a claim of the listener's
  validator for the event's sender and nonce.
\<close>

lemma getAllClaims_recognises:
  assumes "int_laws S" and "\<forall>w. io_bind (TmNew E (es_TmProvider sub)) (\<lambda>_. TmStart E) w = (w, Inr ())"
    and "\<forall>n w. BlockResults E n w = (w, Inr (blk n))"
    and "\<forall>n e. e \<in> set (concat (blk n)) \<longrightarrow> fst e = ''create_claim'' \<longrightarrow> (\<exists>c. reports e c \<and> readable S G c)"
  shows "EventProcessed (snd (getAllClaims S G E sub f t w)) ev =
    Inr (\<exists>n e c. f \<le> n \<and> n < t \<and> e \<in> set (concat (blk n)) \<and> reports_own S G (es_ValidatorAddress sub) e c \<and>
      HexToAddress G (ec_EthereumSender c) = ev_From ev \<and> ec_Nonce c = ev_Nonce ev)"
proof -
  let ?cs = "snd (getAllClaims S G E sub f t w)"
  have cs: "?cs = concat (map (\<lambda>n. concat (map (claims_of_event S G sub) (concat (blk n)))) [f..t - 1])"
    using assms(2) by (simp add: getAllClaims_def claims_from_blocks_all [OF assms(3)])
  have "x \<in> set ?cs \<longleftrightarrow> (\<exists>n e. f \<le> n \<and> n < t \<and> e \<in> set (concat (blk n)) \<and> x \<in> set (claims_of_event S G sub e))" for x
    unfolding cs in_concat_map Bex_def set_upto atLeastAtMost_iff zle_diff1_eq by blast
  moreover have "x \<in> set (claims_of_event S G sub e) \<longleftrightarrow>
      (\<exists>c. reports_own S G (es_ValidatorAddress sub) e c \<and> x = read_claim G (es_ValidatorAddress sub) c)" if "e \<in> set (concat (blk n))" for x e n
    by (rule claims_of_event_set [OF assms(1)]) (use assms(4) that in blast)
  ultimately have mem: "x \<in> set ?cs \<longleftrightarrow> (\<exists>n e c. f \<le> n \<and> n < t \<and> e \<in> set (concat (blk n)) \<and>
      reports_own S G (es_ValidatorAddress sub) e c \<and> x = read_claim G (es_ValidatorAddress sub) c)" for x
    by blast
  have "(\<exists>x \<in> set ?cs. P x) \<longleftrightarrow> (\<exists>n e c. f \<le> n \<and> n < t \<and> e \<in> set (concat (blk n)) \<and>
      reports_own S G (es_ValidatorAddress sub) e c \<and> P (read_claim G (es_ValidatorAddress sub) c))" for P
    unfolding Bex_def mem by metis
  note this [of "\<lambda>x. bc_EthereumSender x = ev_From ev \<and> bc_Nonce x = Some (ev_Nonce ev)"]
  moreover have "\<forall>c \<in> set ?cs. bc_Nonce c \<noteq> None" using mem by (auto simp: read_claim_def)
  ultimately show ?thesis by (simp only: EventProcessed_iff read_claim_sel option.inject)
qed

text \<open>No address that reads is empty: a listener without an address finds no claims.\<close>

lemma no_address_no_claims:
  assumes "int_laws S" and "addr_laws S" and "\<forall>w. io_bind (TmNew E node) (\<lambda>_. TmStart E) w = (w, Inr ())"
    and "\<forall>n w. BlockResults E n w = (w, Inr (blk n))"
    and "\<forall>n e. e \<in> set (concat (blk n)) \<longrightarrow> fst e = ''create_claim'' \<longrightarrow> (\<exists>c. reports e c \<and> readable S G c)"
  shows "snd (getAllClaims S G E (NewEthereumSub node moniker provider contract []) f t w) = []"
proof -
  have "\<not> reports_own S G [] e c" for e c using assms(2) unfolding reports_own_def addr_laws_def valid_address_def by fastforce
  then have "claims_of_event S G (NewEthereumSub node moniker provider contract []) e = []" if "e \<in> set (concat (blk n))" for e n
    using claims_of_event_set [OF assms(1), of e G] assms(5) that unfolding NewEthereumSub_def by (metis ethereum_sub.select_convs(5) last_in_set)
  then show ?thesis using assms(3) by (simp add: getAllClaims_def claims_from_blocks_all [OF assms(4)] NewEthereumSub_def)
qed

text \<open>
  C25: Let the node give every block and let every claim in a block read. A listener that has the address of a validator takes an
  event of Ethereum as processed exactly if a block of the given range reports a claim of that validator for the event's sender
  and nonce. The replay command builds its listener without an address and takes no event as processed,
  whatever the chain reports.
\<close>

theorem replay_recognises:
  assumes "int_laws S" and "addr_laws S" and "\<forall>w. io_bind (TmNew E node) (\<lambda>_. TmStart E) w = (w, Inr ())"
    and "\<forall>n w. BlockResults E n w = (w, Inr (blk n))"
    and "\<forall>n e. e \<in> set (concat (blk n)) \<longrightarrow> fst e = ''create_claim'' \<longrightarrow> (\<exists>c. reports e c \<and> readable S G c)"
  shows "EventProcessed (snd (getAllClaims S G E (NewEthereumSub node moniker provider contract v) f t w)) ev =
      Inr (\<exists>n e c. f \<le> n \<and> n < t \<and> e \<in> set (concat (blk n)) \<and> reports_own S G v e c \<and>
        HexToAddress G (ec_EthereumSender c) = ev_From ev \<and> ec_Nonce c = ev_Nonce ev) \<and>
    EventProcessed (snd (getAllClaims S G E (NewEthereumSub node moniker provider contract []) f t w)) ev = Inr False"
proof
  let ?sub = "NewEthereumSub node moniker provider contract v"
  have "es_TmProvider ?sub = node" "es_ValidatorAddress ?sub = v" by (simp_all add: NewEthereumSub_def)
  then show "EventProcessed (snd (getAllClaims S G E ?sub f t w)) ev = Inr (\<exists>n e c. f \<le> n \<and> n < t \<and> e \<in> set (concat (blk n)) \<and>
      reports_own S G v e c \<and> HexToAddress G (ec_EthereumSender c) = ev_From ev \<and> ec_Nonce c = ev_Nonce ev)"
    using getAllClaims_recognises [OF assms(1) _ assms(4,5), of ?sub] assms(3) by simp
  show "EventProcessed (snd (getAllClaims S G E (NewEthereumSub node moniker provider contract []) f t w)) ev = Inr False"
    using no_address_no_claims [OF assms] by simp
qed

definition claim_node :: "eth_bridge_claim \<Rightarrow> (unit, unit) services" where
  "claim_node c = ref_node (\<lambda>n w. (w, Inr [if n = 3 then claim_events c \<lparr>st_Text = STATUS_TEXT_PENDING, st_FinalClaim = []\<rparr> else []])) (\<lambda>_ _ _ w. (w, Inr []))"

lemma ex_claim_readable: "readable ref_sdk ref_geth ex_claim"
  by (simp add: readable_def ex_claim_def ref_geth_def ref_FromBech32_String HasPrefix_def)

definition ex_eth_event :: ethereum_event where
  "ex_eth_event = \<lparr>ev_To = ref_String ''bob'', ev_Symbol = ''eth'', ev_EthereumChainID = 1, ev_Value = 5, ev_Nonce = 7, ev_ClaimType = 2,
     ev_ID = [], ev_BridgeContractAddress = ''0x1'', ev_From = ''0x9'', ev_Token = ''0x0''\<rparr>"

theorem replay_recognises_witness:
  "EventProcessed (snd (getAllClaims ref_sdk ref_geth (claim_node ex_claim) (NewEthereumSub ''tcp'' ''val'' ''ws'' ''0x5'' ''v1'') 1 5 ()))
     ex_eth_event = Inr True \<and>
   EventProcessed (snd (getAllClaims ref_sdk ref_geth (claim_node ex_claim) (NewEthereumSub ''tcp'' ''val'' ''ws'' ''0x5'' []) 1 5 ()))
     ex_eth_event = Inr False"
proof -
  let ?st = "\<lparr>st_Text = STATUS_TEXT_PENDING, st_FinalClaim = []\<rparr>"
  let ?blk = "\<lambda>n :: int. [if n = 3 then claim_events ex_claim ?st else []]"
  let ?e = "claim_events ex_claim ?st ! 1"
  have n: "\<forall>w. io_bind (TmNew (claim_node ex_claim) ''tcp'') (\<lambda>_. TmStart (claim_node ex_claim)) w = (w, Inr ())"
    "\<forall>n w. BlockResults (claim_node ex_claim) n w = (w, Inr (?blk n))"
    by (simp_all add: claim_node_def ref_node_def io_bind_def)
  have e: "?e \<in> set (claim_events ex_claim ?st)" "reports ?e ex_claim" "ValAddressFromBech32 ref_sdk (ec_ValidatorAddress ex_claim) = Inr ''v1''"
    by (auto simp: reports_def claim_events_def ex_claim_def ref_FromBech32_String)
  have b: "\<forall>n e. e \<in> set (concat (?blk n)) \<longrightarrow> fst e = ''create_claim'' \<longrightarrow> (\<exists>c. reports e c \<and> readable ref_sdk ref_geth c)"
    using ex_claim_readable by (auto simp: reports_def split: if_splits)
  have "reports_own ref_sdk ref_geth ''v1'' ?e ex_claim"
    using e ex_claim_readable by (simp add: reports_own_def)
  moreover have "HexToAddress ref_geth (ec_EthereumSender ex_claim) = ev_From ex_eth_event" "ec_Nonce ex_claim = ev_Nonce ex_eth_event"
    by (simp_all add: ex_claim_def ex_eth_event_def ToLower_def lower_char_def)
  moreover have "?e \<in> set (concat (?blk 3))" using e(1) by simp
  ultimately have "\<exists>n e c. 1 \<le> n \<and> n < 5 \<and> e \<in> set (concat (?blk n)) \<and> reports_own ref_sdk ref_geth ''v1'' e c \<and>
      HexToAddress ref_geth (ec_EthereumSender c) = ev_From ex_eth_event \<and> ec_Nonce c = ev_Nonce ex_eth_event"
    by (intro exI [of _ 3] exI [of _ ?e] exI [of _ ex_claim]) simp
  then show ?thesis using replay_recognises [OF ref_int_laws ref_addr_laws n b, of "''val''" "''ws''" "''0x5''" "''v1''" 1 5 "()" ex_eth_event]
    by (simp only: simp_thms)
qed

subsection \<open>Claims on Ethereum\<close>

text \<open>The number that bytes stand for, printed in base 16 and read again.\<close>

abbreviation be_val :: "nat \<Rightarrow> string \<Rightarrow> nat" where
  "be_val \<equiv> foldl (\<lambda>n c. n * 256 + of_char c)"

lemma be_val_ge: "n \<le> be_val n s"
proof (induction s arbitrary: n)
  case (Cons c s)
  show ?case using Cons [of "n * 256 + of_char c"] by simp
qed simp

lemma hex_digit_val_char: "n < 16 \<Longrightarrow> hex_digit_val (hex_char n) = Some n"
  by (auto simp: hex_digit_val_def hex_char_def Let_def)

lemma parse_hex_byte:
  fixes b :: nat
  assumes "b < 256"
  shows "parse_hex width n (hex_char (b div 16) # hex_char (b mod 16) # s) =
    (if 2 ^ width \<le> n * 256 + b then Inl (ErrNew ''value out of range'') else parse_hex width (n * 256 + b) s)"
proof -
  have d: "hex_digit_val (hex_char (b div 16)) = Some (b div 16)" "hex_digit_val (hex_char (b mod 16)) = Some (b mod 16)"
    using assms by (auto intro!: hex_digit_val_char)
  have v: "(n * 16 + b div 16) * 16 + b mod 16 = n * 256 + b" by simp
  have "n * 16 + b div 16 \<le> n * 256 + b" by simp
  then show ?thesis unfolding parse_hex.simps d option.case v by auto
qed

lemma parse_hex_encode:
  "n < 2 ^ width \<Longrightarrow>
    parse_hex width n (hex_encode s) = (if be_val n s < 2 ^ width then Inr (be_val n s) else Inl (ErrNew ''value out of range''))"
proof (induction s arbitrary: n)
  case (Cons c s)
  have "hex_encode (c # s) = hex_char (of_char c div 16) # hex_char (of_char c mod 16) # hex_encode s" by (simp add: hex_encode_def)
  then show ?case
    using be_val_ge [of "n * 256 + of_char c" s] Cons.IH [of "n * 256 + of_char c"] parse_hex_byte [OF of_char_less, of width n c "hex_encode s"]
    by simp
qed (simp add: hex_encode_def)

lemma nat_Bytes_Suc: "0 < n \<Longrightarrow> nat_Bytes n = nat_Bytes (n div 256) @ [char_of (n mod 256)]"
  by (subst nat_Bytes.simps) simp

lemma nat_Bytes_0 [simp]: "nat_Bytes 0 = []"
  by (simp add: nat_Bytes.simps)

lemma nat_Bytes_val: "be_val 0 (nat_Bytes n) = n"
proof (induction n rule: nat_Bytes.induct)
  case (1 n)
  then show ?case by (cases "n = 0") (simp_all add: nat_Bytes_Suc)
qed

lemma nat_Bytes_length: "n < 256 ^ k \<Longrightarrow> length (nat_Bytes n) \<le> k"
proof (induction k arbitrary: n)
  case (Suc k)
  then have "n div 256 < 256 ^ k" by (simp add: less_mult_imp_div_less)
  with Suc.IH show ?case by (cases "n = 0") (simp_all add: nat_Bytes_Suc)
qed simp

text \<open>
  The data of a call as the ABI of contracts lays it out, after the 4 bytes for the method: a word of 32 bytes for
  each argument, an offset where the argument has variable length, then the lengths and the bytes of these, padded with zeros to
  full words.
\<close>

definition abi_word :: "nat \<Rightarrow> string" where
  "abi_word n = replicate (32 - length (nat_Bytes n)) (CHR 0x00) @ nat_Bytes n"

definition abi_bytes :: "string \<Rightarrow> string" where
  "abi_bytes s = abi_word (length s) @ s @ replicate ((32 - length s mod 32) mod 32) (CHR 0x00)"

definition new_prophecy_claim_call :: "nat \<Rightarrow> string \<Rightarrow> nat \<Rightarrow> nat \<Rightarrow> string \<Rightarrow> nat \<Rightarrow> string" where
  "new_prophecy_claim_call claimType cosmosSender seq receiver symbol amount =
     abi_word claimType @ abi_word (32 * 6) @ abi_word seq @ abi_word receiver @ abi_word (32 * 6 + length (abi_bytes cosmosSender)) @
     abi_word amount @ abi_bytes cosmosSender @ abi_bytes symbol"

lemma abi_word_length: "n < 2 ^ 256 \<Longrightarrow> length (abi_word n) = 32"
  using nat_Bytes_length [of n 32] by (simp add: abi_word_def)

lemma abi_word_val: "be_val 0 (abi_word n) = n"
proof -
  have "be_val 0 (replicate k (CHR 0x00)) = 0" for k by (induction k) simp_all
  then show ?thesis by (simp add: abi_word_def nat_Bytes_val)
qed

lemma abi_bytes_length:
  assumes "0 < length s" and "length s < 2 ^ 256"
  shows "64 \<le> length (abi_bytes s)"
proof -
  have "length s mod 32 < 32" by simp
  then have "32 \<le> length s + (32 - length s mod 32) mod 32" using assms(1) by (cases "length s < 32") simp_all
  then show ?thesis using abi_word_length [OF assms(2)] by (simp add: abi_bytes_def)
qed

lemma call_layout:
  fixes symbol :: string
  assumes "claimType < 2 ^ 256" and "seq < 2 ^ 256" and "receiver < 2 ^ 256" and "amount < 2 ^ 256"
    and "0 < length sender" and "length sender < 2 ^ 200"
  defines "tail \<equiv> sender @ replicate ((32 - length sender mod 32) mod 32) (CHR 0x00) @ abi_bytes symbol"
  shows "slice 64 96 (new_prophecy_claim_call claimType sender seq receiver symbol amount) = abi_word seq"
    and "slice 224 266 (new_prophecy_claim_call claimType sender seq receiver symbol amount) = take 42 tail"
    and "224 + 42 \<le> length (new_prophecy_claim_call claimType sender seq receiver symbol amount)"
proof -
  have off: "32 * 6 + length (abi_bytes sender) < 2 ^ 256" and len: "length sender < 2 ^ 256"
    using assms(6) abi_word_length [of "length sender"] by (auto simp: abi_bytes_def)
  have "32 \<le> length (abi_word n)" for n by (simp add: abi_word_def)
  then have "32 \<le> length (abi_bytes symbol)" by (simp add: abi_bytes_def trans_le_add1)
  note l = abi_word_length [OF assms(1)] abi_word_length [OF assms(2)] abi_word_length [OF assms(3)] abi_word_length [OF assms(4)]
    abi_word_length [OF off] abi_word_length [of "32 * 6", simplified] abi_word_length [OF len] abi_bytes_length [OF assms(5) len] this
  show "slice 64 96 (new_prophecy_claim_call claimType sender seq receiver symbol amount) = abi_word seq"
    and "slice 224 266 (new_prophecy_claim_call claimType sender seq receiver symbol amount) = take 42 tail"
    using l by (simp_all add: slice_def new_prophecy_claim_call_def abi_bytes_def [of sender] tail_def)
  show "224 + 42 \<le> length (new_prophecy_claim_call claimType sender seq receiver symbol amount)"
    using l by (simp add: new_prophecy_claim_call_def)
qed

lemma hex_encode_ne: "s \<noteq> [] \<Longrightarrow> hex_encode s \<noteq> []"
  by (cases s) (simp_all add: hex_encode_def)

text \<open>
  C40: Replaying the events of this chain, the relayer reads its own earlier calls of the contract by position: the
  sequence if it fits 32 bits, and the sender if its address has exactly 42 characters. A shorter or longer address is
  never recognised as processed.
\<close>

theorem earlier_call_recognised:
  assumes "claimType < 2 ^ 256" and "seq < 2 ^ 256" and "receiver < 2 ^ 256" and "amount < 2 ^ 256"
    and "0 < length sender" and "length sender < 2 ^ 200" and "cm_CosmosSender msg = sender" and "cm_CosmosSenderSequence msg = Some (int seq)"
    and data: "data = new_prophecy_claim_call claimType sender seq receiver symbol amount"
  shows "if seq < 2 ^ 32 then \<exists>c. MyDecode data = Inr c \<and> MessageProcessed msg [c] = Inr (length sender = 42)
    else MyDecode data = Inl (ErrNew ''value out of range'')"
proof -
  let ?tail = "sender @ replicate ((32 - length sender mod 32) mod 32) (CHR 0x00) @ abi_bytes symbol"
  have "slice 64 96 data = abi_word seq" and s: "slice 224 266 data = take 42 ?tail" and n: "224 + 42 \<le> length data"
    using call_layout [OF assms(1-6)] by (simp_all add: data)
  then have "MyDecode data = bind_r (ParseUint_hex 32 (hex_encode (abi_word seq)))
      (\<lambda>sequence. Inr \<lparr>pu_CosmosSenderSequence = int sequence, pu_CosmosSender = take 42 ?tail\<rparr>)"
    by (simp add: MyDecode_def Let_def)
  moreover have "ParseUint_hex 32 (hex_encode (abi_word seq)) = (if seq < 2 ^ 32 then Inr seq else Inl (ErrNew ''value out of range''))"
  proof -
    have "abi_word seq \<noteq> []" using abi_word_length [OF assms(2)] by auto
    then show ?thesis using parse_hex_encode [of 0 32 "abi_word seq"] by (simp add: ParseUint_hex_def abi_word_val hex_encode_ne)
  qed
  moreover have "sender = take 42 ?tail \<longleftrightarrow> length sender = 42"
  proof
    have "length (slice 224 266 data) = 42" using n by (simp add: slice_def)
    then have "length (take 42 ?tail) = 42" unfolding s .
    then show "sender = take 42 ?tail \<Longrightarrow> length sender = 42" by metis
  qed simp
  ultimately show ?thesis using assms(7,8) by simp
qed

theorem earlier_call_recognised_witness:
  "\<exists>c. MyDecode (new_prophecy_claim_call 1 (replicate 41 (CHR ''a'')) 9 5 ''eth'' 30) = Inr c \<and>
     MessageProcessed (NewCosmosMsg Ev_MsgBurn (replicate 41 (CHR ''a'')) (Some 9) ''0x5'' ''eth'' (Some 30)) [c] = Inr False"
  using earlier_call_recognised [of 1 9 5 30 "replicate 41 (CHR ''a'')" "NewCosmosMsg Ev_MsgBurn (replicate 41 (CHR ''a'')) (Some 9) ''0x5'' ''eth'' (Some 30)" _ "''eth''", OF _ _ _ _ _ _ _ _ refl]
  by (simp add: NewCosmosMsg_def)

end
