(* ===== verification/Spec2Isabelle.thy ===== *)
theory Spec2Isabelle
  imports CLP_Query AppGenesis Relayer_Props
begin

text \<open>
  A verification development of the AkhiraChain node (\<^verbatim>\<open>akhiranode\<close>), a chain built on the Cosmos SDK 0.45 that trades
  tokens in liquidity pools, pays out distributions, and is connected to Ethereum by a bridge with its own relayer and
  to other chains by IBC. The definitions are translated from the Go sources under \<^verbatim>\<open>src/\<close>, function by function and
  with their names; a prefix (\<open>clp_\<close>, \<open>disp_\<close>, \<open>tr_\<close>, \<open>oracle_\<close>, \<open>eth_\<close>, \<open>ibc_\<close>) tells apart what several packages
  call alike.

  \<^bold>\<open>The program.\<close> The chain starts from a genesis file, which commands of the node prepare, and runs transactions. The ante handler (\<^verbatim>\<open>app/ante\<close>) checks their fees; the application
  (\<^verbatim>\<open>app/app.go\<close>) gives each message to its module. The token registry (\<^verbatim>\<open>x/tokenregistry\<close>) says which tokens exist,
  their decimals and what they may be used for; the pools (\<^verbatim>\<open>x/clp\<close>) and the IBC wrapper (\<^verbatim>\<open>x/ibctransfer\<close>) ask it. The
  dispensation module (\<^verbatim>\<open>x/dispensation\<close>) takes coins in and pays them out to lists of recipients. The bridge
  (\<^verbatim>\<open>x/ethbridge\<close>) receives claims of validators on what happened on Ethereum, has the oracle (\<^verbatim>\<open>x/oracle\<close>) count the
  votes, and pays when a claim is decided; it also takes tokens that go out. The relayer (\<^verbatim>\<open>cmd/ebrelayer\<close>) is a program
  of its own: it reads the events of both chains and sends each to the other.

  \<^bold>\<open>How code is modelled.\<close> A struct is a record, an open protobuf enumeration a number, a nil pointer \<open>None\<close>. A function
  that fails returns \<open>err + 'a\<close> (theory \<open>Prelude\<close>); a panic is an error too, marked \<open>Panic\<close>, and where Go recovers,
  ignores or logs an error, so does the model. A message server takes the context \<open>'b ctx\<close> (theory \<open>Ctx\<close>: one key-value store
  per module, the state \<open>'b\<close> of the SDK's own modules, height, time, events) and returns the next one; \<open>deliver\<close> and \<open>run\<close> keep
  the old context when a message fails, as the SDK does. Loops are recursion on the data they range over. The loop of
  the relayer that asks for a block until it gets it is \<open>catch_up\<close>, a \<^theory_text>\<open>partial_function\<close> whose value \<open>None\<close> is not
  returning. The retry loops of the relayer count down from the number of rounds that the code has (5 and 60). Integers
  of the SDK are integers with their overflow checks, \<^verbatim>\<open>int64\<close> powers of validators are 64-bit words, and \<^verbatim>\<open>float64\<close> is
  modelled bit-exactly as far as the oracle uses it (theory \<open>Float64\<close>). The order in which Go ranges over a map is a
  parameter.

  \<^bold>\<open>Parameters.\<close> The Cosmos SDK, go-ethereum, ibc-go, Tendermint and the smart contracts are not part of the repository. What
  the code calls of them is a field of a record: \<open>sdk\<close> (theory \<open>SDK\<close>), \<open>geth\<close>, \<open>oracle_env\<close>, \<open>ibc\<close>, \<open>ante_env\<close>, \<open>genesis_env\<close>,
  \<open>bimap\<close> and \<open>services\<close>. What is relied on is stated as named laws, such as \<open>int_laws\<close>, \<open>dec_laws\<close>, \<open>coin_laws\<close>, \<open>bank_laws\<close>,
  \<open>addr_laws\<close>, \<open>content_laws\<close>, \<open>transfer_laws\<close>, \<open>genesis_laws\<close>, \<open>manager_laws\<close>, \<open>file_laws\<close>, \<open>chain_laws\<close>. Theory \<open>SDK_Reference\<close> defines a concrete SDK that
  satisfies the laws of the SDK all at once, and the examples run on it. The services of the relayer take and return
  the state of the outside world, so that a node may answer differently each time.

  \<^bold>\<open>Theories.\<close>
  \<^item> \<open>Prelude\<close>: errors, Go's strings and maps, key-value stores; the interfaces \<open>repo\<close> (a store of records, with export and
    import) and \<open>machine\<close> (an operation that keeps an invariant, and what follows for any sequence of messages).
  \<^item> \<open>SDK\<close>, \<open>SDK_Reference\<close>, \<open>Ctx\<close>: the SDK as a parameter, its laws, an instance of it, and the context.
  \<^item> \<open>TokenRegistry_Types\<close>, \<open>TokenRegistry\<close>: the registry, its messages, genesis and migration, with the interface
    \<open>registry_api\<close>. Only the admin changes it, names stay unique, lookups follow the last registration.
  \<^item> \<open>CLP_Types\<close>, \<open>CLP_Math\<close>, \<open>CLP_Keeper\<close>, \<open>CLP_Msgs\<close>: the pools, their arithmetic, keeper and messages;
    \<open>CLP_Solvency\<close>: the module account covers what the pools record; \<open>CLP_Props\<close>: what swaps, withdrawals, additions,
    creation and decommissioning do, and where solvency and a provider's units are lost; \<open>CLP_Genesis\<close>, \<open>CLP_Query\<close>: export
    and import, migration, queries; \<open>CLP_Example\<close>: the chain for the examples.
  \<^item> \<open>Dispensation_Types\<close>, \<open>Dispensation\<close>, \<open>Dispensation_Solvency\<close>, \<open>Dispensation_Props\<close>, \<open>Dispensation_Genesis\<close>: the
    module account covers the pending records, a run settles exactly the first ten records of its runner, enough
    runs complete a distribution, creating one takes exactly its total from the distributor, and a second one of the same name
    and type takes over the records of the first.
  \<^item> \<open>Oracle_Types\<close>, \<open>Oracle\<close>, \<open>Float64\<close>, \<open>Oracle_Votes\<close>, \<open>Oracle_Props\<close>: counting in floating point decides exactly as
    integers would, and independently of the order of a map as long as all voters are whitelisted; not otherwise.
  \<^item> \<open>EthBridge_Types\<close>, \<open>EthBridge\<close>, \<open>EthBridge_Props\<close>, \<open>EthBridge_Example\<close>: a decided event is final and paid once, with
    exactly its amount; locks and burns take exactly theirs; two events can share an identifier.
  \<^item> \<open>IBCTransfer\<close>, \<open>IBC_Props\<close>: what a received packet pays, with the conversion of decimals.
  \<^item> \<open>Ante\<close>: the fee an accepted transaction has paid.
  \<^item> \<open>Frames\<close>: each module writes its own store only and takes coins only from its account and the signer's.
  \<^item> \<open>App\<close>: the modules together. By the frames, the invariants of all modules hold after any sequence of messages and packets
    of any of them.
  \<^item> \<open>AppGenesis\<close>: how a chain starts (\<^verbatim>\<open>InitChainer\<close>, the genesis of each module, the commands of \<^verbatim>\<open>cmd/akhiranoded\<close> that write the
    genesis file). A genesis that is sound (covered by the module accounts, with readable prophecies and unique names) gives a state with the invariants of all modules, which then hold in every
    state the chain reaches; the accounts that the commands set are the admins of the chain that starts.
  \<^item> \<open>Relayer_Parser\<close>, \<open>Relayer\<close>, \<open>Relayer_Props\<close>: the relayer reads an accepted lock or burn as the message it was,
    returns from catching up if the node answers in the end, leaves out no block of Ethereum and reads none twice unless the
    head goes back, and which earlier messages the replay commands recognise (none of its claims, for lack of an address).

  \<^bold>\<open>Bounds.\<close> The exactness of the vote count needs that the bonded power is below $2^{49}$; then the powers and their sums
  are exact as \<^verbatim>\<open>float64\<close> and no quotient other than seven tenths rounds to it. The withdrawal of liquidity is total for
  balances and units below $2^{160}$, where no intermediate value reaches the 255 bits of the SDK's decimals. The solvency
  theorems have no bound: a message that overflows fails and changes nothing.

  \<^bold>\<open>What the invariants assume of messages.\<close> They are not signed by the account of the pools or of the distributions, which have no
  key, and a packet does not name one of them as its receiver. This is enough for the distributions and the bridge. That the pools
  stay covered also needs that the messages to them pass their stateless checks (\<^verbatim>\<open>ValidateBasic\<close>), as the SDK ensures, and that withdrawals
  are symmetric: an asymmetric one whose inner swap yields nothing breaks solvency, as is shown. That no name is twice in the
  registry also needs that no list by which the admin replaces it as a whole has a name twice, which the code does not check.

  \<^bold>\<open>Not modelled.\<close> Codecs, routes and the registration of services (the rest of \<^verbatim>\<open>module.go\<close> of each module and of \<^verbatim>\<open>app/\<close>), which
  is wiring of the SDK; gas, signatures and storage of the SDK; generated protobuf code and contract bindings, whose encodings
  are parameters; the command-line and REST clients and the tools around the node (the rest of \<^verbatim>\<open>cmd/akhiranoded\<close>, \<^verbatim>\<open>cmd/akhgen\<close>,
  \<^verbatim>\<open>tools\<close>, \<^verbatim>\<open>scripts\<close>), which are input and output; in the relayer, log lines, pauses, the key base and the signing of
  messages for an oracle contract that the code no longer calls. The upgrade code of the dispensation module is commented out
  in the source.
\<close>

end
